(* ===== verification/Prelude.thy ===== *)
theory Prelude
  imports Main "HOL-Library.Sublist" "HOL-Library.Char_ord" "HOL-Library.List_Lexorder"
    "HOL-Library.Product_Lexorder"
begin

text \<open>
  Shared vocabulary of the Crane development.  Fallible Go functions return a sum
  (\<open>Inl\<close> the error, \<open>Inr\<close> the value); a Go statement list with early returns is a chain of
  \<open>rbind\<close>s and \<open>guard\<close>s.  A PostgreSQL table is a list of rows: a \<open>WHERE\<close> clause is a filter,
  an \<open>UPDATE\<close> maps the matching rows, \<open>ORDER BY .. LIMIT\<close> sorts by a key and takes a prefix.
  Go's \<open>int64\<close> is an integer reduced by \<open>i64\<close> after every arithmetic operation.
\<close>

named_theorems result_simps "inversion of successful fallible computations"
named_theorems table_simps "rows, keys and sums of updated tables"
named_theorems frame_simps "tables an operation does not write"

section \<open>Fallible computations\<close>

definition rbind :: "'e + 'a \<Rightarrow> ('a \<Rightarrow> 'e + 'b) \<Rightarrow> 'e + 'b" where
  "rbind m f = (case m of Inl e \<Rightarrow> Inl e | Inr x \<Rightarrow> f x)"

definition guard :: "bool \<Rightarrow> 'e \<Rightarrow> 'e + unit" where
  "guard c e = (if c then Inr () else Inl e)"

definition require :: "'a option \<Rightarrow> 'e \<Rightarrow> 'e + 'a" where
  "require x e = (case x of None \<Rightarrow> Inl e | Some y \<Rightarrow> Inr y)"

text \<open>A Go \<open>for\<close> loop over a slice whose body may return early with an error.\<close>

fun rfold :: "('a \<Rightarrow> 's \<Rightarrow> 'e + 's) \<Rightarrow> 'a list \<Rightarrow> 's \<Rightarrow> 'e + 's" where
  "rfold f [] s = Inr s"
| "rfold f (x # xs) s = rbind (f x s) (rfold f xs)"

section \<open>Tables\<close>

definition cnt :: "('r \<Rightarrow> bool) \<Rightarrow> 'r list \<Rightarrow> nat" where
  "cnt p t = length (filter p t)"

definition upd_where :: "('r \<Rightarrow> bool) \<Rightarrow> ('r \<Rightarrow> 'r) \<Rightarrow> 'r list \<Rightarrow> 'r list" where
  "upd_where p f t = map (\<lambda>r. if p r then f r else r) t"

definition order_limit :: "('r \<Rightarrow> 'k::linorder) \<Rightarrow> nat \<Rightarrow> 'r list \<Rightarrow> 'r list" where
  "order_limit key n t = take n (sort_key key t)"

text \<open>A table after some writes: every old row is still in its place, related to what it was.\<close>

definition evolves :: "('r \<Rightarrow> 'r \<Rightarrow> bool) \<Rightarrow> 'r list \<Rightarrow> 'r list \<Rightarrow> bool" where
  "evolves R t t' \<longleftrightarrow> length t \<le> length t' \<and> (\<forall>i < length t. R (t ! i) (t' ! i))"

section \<open>Machine integers\<close>

definition max_int64 :: int where
  "max_int64 = 9223372036854775807"

definition max_int32 :: int where
  "max_int32 = 2147483647"

definition in_i64 :: "int \<Rightarrow> bool" where
  "in_i64 x \<longleftrightarrow> - max_int64 - 1 \<le> x \<and> x \<le> max_int64"

definition i64 :: "int \<Rightarrow> int" where
  "i64 x = (x + (max_int64 + 1)) mod (2 * (max_int64 + 1)) - (max_int64 + 1)"

section \<open>Lemmas\<close>

lemma rbind_simps [simp]: "rbind (Inl e) f = Inl e" "rbind (Inr x) f = f x"
  by (simp_all add: rbind_def)

lemma rbind_Inr_iff [result_simps]: "rbind m f = Inr y \<longleftrightarrow> (\<exists>x. m = Inr x \<and> f x = Inr y)"
  by (cases m) simp_all

lemma rbind_cong [fundef_cong]:
  "m = m' \<Longrightarrow> (\<And>x. m' = Inr x \<Longrightarrow> f x = g x) \<Longrightarrow> rbind m f = rbind m' g"
  by (cases m') simp_all

lemma guard_Inr_iff [result_simps]: "guard c e = Inr u \<longleftrightarrow> c"
  by (simp add: guard_def)

lemma guard_simps [simp]: "guard True e = Inr ()" "guard False e = Inl e"
  by (simp_all add: guard_def)

lemma require_Inr_iff [result_simps]: "require x e = Inr y \<longleftrightarrow> x = Some y"
  by (simp add: require_def split: option.splits)

lemma require_simps [simp]: "require None e = Inl e" "require (Some y) e = Inr y"
  by (simp_all add: require_def)

lemma if_Inr_iff [result_simps]:
  "(if c then Inl e else m) = Inr y \<longleftrightarrow> \<not> c \<and> m = Inr y"
  "(if c then m else Inl e) = Inr y \<longleftrightarrow> c \<and> m = Inr y"
  by simp_all

lemma rfold_inv:
  assumes "rfold f xs s = Inr t" and "P s"
    and "\<And>x s s'. x \<in> set xs \<Longrightarrow> P s \<Longrightarrow> f x s = Inr s' \<Longrightarrow> P s'"
  shows "P t"
  using assms
proof (induction xs arbitrary: s)
  case Nil
  then show ?case by simp
next
  case (Cons x xs)
  from Cons.prems(1) obtain s1 where s1: "f x s = Inr s1" "rfold f xs s1 = Inr t"
    by (auto simp: result_simps)
  have "P s1" by (rule Cons.prems(3) [OF _ Cons.prems(2) s1(1)]) simp
  then show ?case using s1(2) Cons.prems(3) by (intro Cons.IH) auto
qed

lemma length_upd_where [simp]: "length (upd_where p f t) = length t"
  by (simp add: upd_where_def)

lemma upd_where_Nil [simp]: "upd_where p f [] = []"
  by (simp add: upd_where_def)

lemma upd_where_Cons [simp]:
  "upd_where p f (r # t) = (if p r then f r else r) # upd_where p f t"
  by (simp add: upd_where_def)

lemma set_upd_where [table_simps]: "set (upd_where p f t) = (\<lambda>r. if p r then f r else r) ` set t"
  by (simp add: upd_where_def)

lemma upd_where_hit: "x \<in> set xs \<Longrightarrow> w x \<Longrightarrow> f x \<in> set (upd_where w f xs)"
  by (auto simp: set_upd_where)

lemma map_upd_where [table_simps]:
  assumes "\<And>r. r \<in> set t \<Longrightarrow> p r \<Longrightarrow> k (f r) = k r"
  shows "map k (upd_where p f t) = map k t"
  using assms by (auto simp: upd_where_def)

lemma upd_where_none: "\<forall>r\<in>set t. \<not> p r \<Longrightarrow> upd_where p f t = t"
  by (simp add: upd_where_def map_idI)

lemma upd_where_id: "(\<And>r. r \<in> set t \<Longrightarrow> p r \<Longrightarrow> f r = r) \<Longrightarrow> upd_where p f t = t"
  by (auto simp: upd_where_def intro!: map_idI)

lemma upd_where_upd_where:
  assumes "\<And>r. r \<in> set t \<Longrightarrow> p r \<Longrightarrow> q (f r) = q r"
    and "\<And>r. r \<in> set t \<Longrightarrow> p r \<Longrightarrow> q r \<Longrightarrow> f (f r) = f r"
  shows "upd_where q f (upd_where p f t) = upd_where (\<lambda>r. p r \<or> q r) f t"
  using assms by (auto simp: upd_where_def)

lemma upd_where_cong:
  "(\<And>r. r \<in> set t \<Longrightarrow> p r = q r) \<Longrightarrow> upd_where p f t = upd_where q f t"
  by (simp add: upd_where_def)

lemma unique_key:
  "distinct (map k t) \<Longrightarrow> a \<in> set t \<Longrightarrow> b \<in> set t \<Longrightarrow> k a = k b \<Longrightarrow> a = b"
  by (auto simp: distinct_map inj_on_def)

lemma key_notin [table_simps]: "a \<notin> k ` S \<longleftrightarrow> (\<forall>x\<in>S. k x \<noteq> a)"
  by auto

lemma cnt_pos_iff: "0 < cnt p t \<longleftrightarrow> (\<exists>r\<in>set t. p r)"
  by (auto simp: cnt_def filter_empty_conv)

lemma cnt_one_ex: "cnt p t = 1 \<Longrightarrow> \<exists>r\<in>set t. p r"
  using cnt_pos_iff [of p t] by simp

lemma cnt_key_le_1:
  assumes "distinct (map k t)" and "\<And>r. p r \<Longrightarrow> k r = a"
  shows "cnt p t \<le> 1"
  using assms(1)
proof (induction t)
  case Nil
  then show ?case by (simp add: cnt_def)
next
  case (Cons r t)
  show ?case
  proof (cases "p r")
    case True
    then have "\<not> p s" if "s \<in> set t" for s
      using Cons.prems assms(2) that by (force simp: image_iff)
    then have "filter p t = []" by (auto simp: filter_empty_conv)
    with True show ?thesis by (simp add: cnt_def)
  next
    case False
    with Cons show ?thesis by (simp add: cnt_def)
  qed
qed

lemma cnt_key_eq_1:
  assumes "distinct (map k t)" and "\<And>r. p r \<Longrightarrow> k r = a" and "r \<in> set t" and "p r"
  shows "cnt p t = 1"
proof -
  have "0 < cnt p t" using assms(3,4) by (auto simp: cnt_pos_iff)
  with cnt_key_le_1 [of k t p a] assms(1,2) show ?thesis by fastforce
qed

lemma find_Some_key:
  assumes "distinct (map k t)" and "r \<in> set t"
  shows "find (\<lambda>x. k x = k r) t = Some r"
  using assms by (induction t) (auto simp: image_iff)

lemma find_SomeD: "find p t = Some r \<Longrightarrow> r \<in> set t \<and> p r"
  by (auto simp: find_Some_iff)

lemma set_order_limit: "set (order_limit key n t) \<subseteq> set t"
  using set_take_subset [of n "sort_key key t"] by (simp add: order_limit_def)

lemma distinct_order_limit:
  "distinct (map k t) \<Longrightarrow> distinct (map k (order_limit key n t))"
proof -
  assume "distinct (map k t)"
  then have "distinct (map k (sort_key key t))"
    by (simp add: distinct_map)
  then show ?thesis by (simp add: order_limit_def take_map [symmetric])
qed

lemma length_order_limit: "length (order_limit key n t) = min n (length t)"
  by (simp add: order_limit_def)

lemma order_limit_first:
  assumes "order_limit key 1 t = r # rs" "x \<in> set t"
  shows "key r \<le> key x"
proof -
  have "sort_key key t \<noteq> []" using assms(1) by (auto simp: order_limit_def)
  then obtain ys where s: "sort_key key t = r # ys"
    using assms(1) by (cases "sort_key key t") (auto simp: order_limit_def)
  have "sorted (map key (r # ys))" using sorted_sort_key [of key t] s by simp
  moreover have "x \<in> set (r # ys)" using assms(2) s by (metis set_sort)
  ultimately show ?thesis by auto
qed

lemma in_upd_where: "x \<in> set (upd_where w f t) \<Longrightarrow> \<exists>r\<in>set t. x = (if w r then f r else r)"
  by (auto simp: set_upd_where)

lemma evolves_find:
  assumes "evolves R t t'" "find P t = Some x" "\<And>a b. R a b \<Longrightarrow> P b = P a"
  shows "\<exists>y. find P t' = Some y \<and> R x y"
  using assms(1,2)
proof (induction t arbitrary: t')
  case (Cons a t)
  then obtain b u where t': "t' = b # u" by (cases t') (auto simp: evolves_def)
  have "R a b" "evolves R t u" using Cons.prems(1) unfolding t' evolves_def by (force, force)
  then show ?case using Cons.IH [of u] Cons.prems(2) assms(3) t' by (auto split: if_splits)
qed simp

lemma find_append_None: "find P xs = None \<Longrightarrow> find P (xs @ ys) = find P ys"
  by (induction xs) (auto split: if_splits)

lemma find_append_new: "find P xs = None \<Longrightarrow> P x \<Longrightarrow> find P (xs @ [x]) = Some x"
  by (induction xs) (auto split: if_splits)

lemma i64_id: "in_i64 x \<Longrightarrow> i64 x = x"
  by (simp add: in_i64_def i64_def max_int64_def)

lemma in_i64_i64: "in_i64 (i64 x)"
proof -
  have "0 \<le> (x + 9223372036854775808) mod 18446744073709551616"
    "(x + 9223372036854775808) mod 18446744073709551616 < (18446744073709551616 :: int)"
    by simp_all
  then show ?thesis unfolding in_i64_def i64_def max_int64_def by simp
qed

section \<open>Evolution of tables\<close>

text \<open>
  The contract of a row relation: what a write may do to a row is reflexive and transitive.
  Then every update that respects it, and every insert, is an evolution of the table.
\<close>

locale row_evolution =
  fixes R :: "'r \<Rightarrow> 'r \<Rightarrow> bool"
  assumes row_refl: "R r r"
    and row_trans: "R a b \<Longrightarrow> R b c \<Longrightarrow> R a c"
begin

lemma same: "evolves R t t"
  by (simp add: evolves_def row_refl)

lemma comp: "evolves R t u \<Longrightarrow> evolves R u v \<Longrightarrow> evolves R t v"
  unfolding evolves_def by (meson order_less_le_trans order_trans row_trans)

lemma insert: "evolves R t (t @ news)"
  by (simp add: evolves_def nth_append row_refl)

lemma update:
  assumes "\<And>r. r \<in> set t \<Longrightarrow> w r \<Longrightarrow> R r (f r)"
  shows "evolves R t (upd_where w f t)"
  using assms by (simp add: evolves_def upd_where_def row_refl)

lemma row_later:
  assumes "evolves R t t'" and "r \<in> set t"
  shows "\<exists>r'\<in>set t'. R r r'"
  using assms by (metis evolves_def in_set_conv_nth order_less_le_trans)

end

lemma evolves_mono: "evolves R t u \<Longrightarrow> (\<And>a b. R a b \<Longrightarrow> S a b) \<Longrightarrow> evolves S t u"
  by (simp add: evolves_def)

lemma evolves_eq_prefix: "evolves (=) t u \<longleftrightarrow> (\<exists>news. u = t @ news)"
proof
  assume e: "evolves (=) t u"
  then have "take (length t) u = t"
    by (intro nth_equalityI) (auto simp: evolves_def)
  then show "\<exists>news. u = t @ news" by (metis append_take_drop_id)
qed (auto simp: evolves_def nth_append)

interpretation same_row: row_evolution "(=)"
  by unfold_locales simp_all

section \<open>Counting and summing over tables\<close>

lemma join_unique:
  assumes "distinct (map k gs)"
  shows "concat (map (\<lambda>g. if k g = a \<and> P g then [x] else []) gs)
       = (if \<exists>g\<in>set gs. k g = a \<and> P g then [x] else [])"
  using assms
proof (induction gs)
  case (Cons g gs)
  then have "\<not> (\<exists>g'\<in>set gs. k g' = k g)" by (auto simp: image_iff)
  with Cons show ?case by auto
qed simp

lemma concat_if_filter: "concat (map (\<lambda>r. if P r then [r] else []) rs) = filter P rs"
  by (induction rs) auto

lemma sum_positive_mono:
  fixes v :: "'r \<Rightarrow> int"
  assumes "evolves (\<lambda>a b. v b = v a \<and> (P b \<longrightarrow> Q a)) t t'" "length t' = length t"
    and "\<forall>r\<in>set t. 0 \<le> v r"
  shows "sum_list (map v (filter P t')) \<le> sum_list (map v (filter Q t))"
  using assms
proof (induction t arbitrary: t')
  case Nil
  then show ?case by simp
next
  case (Cons r t)
  then obtain r' t'' where t': "t' = r' # t''" by (cases t') auto
  have "v r' = v r \<and> (P r' \<longrightarrow> Q r)" and "evolves (\<lambda>a b. v b = v a \<and> (P b \<longrightarrow> Q a)) t t''"
    using Cons.prems(1) unfolding t' evolves_def by (force, force)
  moreover have "0 \<le> sum_list (map v (filter Q t))"
    using Cons.prems(3) by (intro sum_list_nonneg) auto
  ultimately show ?case using Cons.IH [of t''] Cons.prems(2,3) unfolding t' by auto
qed

lemma evolves_lengthD: "evolves R t t' \<Longrightarrow> length t' = length t \<Longrightarrow> r' \<in> set t' \<Longrightarrow> \<exists>r\<in>set t. R r r'"
  by (metis evolves_def in_set_conv_nth nth_mem)

lemma evolves_keys:
  assumes "evolves R t t'" and "\<And>a b. R a b \<Longrightarrow> k b = k a"
  shows "k ` set t \<subseteq> k ` set t'"
proof
  fix x assume "x \<in> k ` set t"
  then obtain i where "i < length t" "x = k (t ! i)" by (auto simp: in_set_conv_nth)
  with assms have "i < length t'" "x = k (t' ! i)" by (auto simp: evolves_def)
  then show "x \<in> k ` set t'" by auto
qed

lemma cnt_evolve:
  assumes "evolves (\<lambda>a b. P a \<longrightarrow> Q b) t t'"
  shows "cnt P t \<le> cnt Q t'"
  using assms
proof (induction t arbitrary: t')
  case Nil
  then show ?case by (simp add: cnt_def)
next
  case (Cons r t)
  then obtain r' t'' where t': "t' = r' # t''" by (cases t') (auto simp: evolves_def)
  have "P r \<longrightarrow> Q r'" and "evolves (\<lambda>a b. P a \<longrightarrow> Q b) t t''"
    using Cons.prems unfolding t' evolves_def by (force, force)
  then show ?case using Cons.IH [of t''] unfolding t' by (auto simp: cnt_def)
qed

lemma mul_fits: "0 < (v :: int) \<Longrightarrow> n \<le> max_int64 div v \<Longrightarrow> n * v \<le> max_int64"
  by (metis (no_types, lifting) div_mult_mod_eq le_add_same_cancel1 mult_right_mono order_trans
      order_less_imp_le pos_mod_sign)

lemma div_fits: "0 < (v :: int) \<Longrightarrow> n * v \<le> max_int64 \<Longrightarrow> n \<le> max_int64 div v"
  using zdiv_mono1 [of "n * v" max_int64 v] by simp

lemma sum_list_const_on:
  "\<forall>r\<in>set rs. v r = (c :: int) \<Longrightarrow> sum_list (map v rs) = int (length rs) * c"
  by (induction rs) (auto simp: algebra_simps)

lemma ex_pair_image: "(\<exists>g\<in>A. f g = i \<and> h g = j) \<longleftrightarrow> (i, j) \<in> (\<lambda>g. (f g, h g)) ` A"
  by auto

lemma cnt_release:
  assumes "distinct (map k t)"
  shows "cnt P t \<le> cnt (\<lambda>r. P r \<and> Some (k r) \<notin> set hs) t + length hs"
proof -
  have "cnt P t = cnt (\<lambda>r. P r \<and> Some (k r) \<notin> set hs) t + cnt (\<lambda>r. P r \<and> Some (k r) \<in> set hs) t"
    unfolding cnt_def by (induction t) auto
  also have "cnt (\<lambda>r. P r \<and> Some (k r) \<in> set hs) t \<le> length hs"
  proof -
    let ?f = "filter (\<lambda>r. P r \<and> Some (k r) \<in> set hs) t"
    have "distinct (map (Some \<circ> k) ?f)"
      using assms by (auto simp: distinct_map inj_on_def)
    from distinct_card [OF this] have "length ?f = card ((Some \<circ> k) ` set ?f)" by simp
    also have "\<dots> \<le> card (set hs)" by (intro card_mono) auto
    also have "\<dots> \<le> length hs" by (rule card_length)
    finally show ?thesis by (simp add: cnt_def)
  qed
  finally show ?thesis by simp
qed

section \<open>Runs of a step relation\<close>

text \<open>
  A step relation whose steps keep an invariant and move the state along a preorder: every run does.
\<close>

locale step_system =
  fixes step :: "'s \<Rightarrow> 's \<Rightarrow> bool"
    and inv :: "'s \<Rightarrow> bool"
    and ev :: "'s \<Rightarrow> 's \<Rightarrow> bool"
  assumes step_keeps: "step s t \<Longrightarrow> inv s \<Longrightarrow> ev s t \<and> inv t"
    and ev_self: "ev s s"
    and ev_comp: "ev s t \<Longrightarrow> ev t u \<Longrightarrow> ev s u"
begin

lemma run_keeps: "step\<^sup>*\<^sup>* s t \<Longrightarrow> inv s \<Longrightarrow> ev s t \<and> inv t"
  by (induction rule: rtranclp_induct) (use step_keeps ev_self ev_comp in blast)+

lemma run_inv: "step\<^sup>*\<^sup>* s t \<Longrightarrow> inv s \<Longrightarrow> inv t"
  using run_keeps by blast

lemma run_ev: "step\<^sup>*\<^sup>* s t \<Longrightarrow> inv s \<Longrightarrow> ev s t"
  using run_keeps by blast

end

end
