(* ===== verification/Api.thy ===== *)
theory Api
  imports Prelude "HOL-Library.AList"
begin

text \<open>
  The public types and pure functions of \<open>src/pkg/api\<close>: quantities, topology inputs, capacity
  requests, operations, host states, node-group naming, scheduling metadata, worker
  registration and the Secret update.  Go strings and byte slices are byte lists
  (\<^typ>\<open>string\<close>); a Go map with string keys is an association list, read by \<open>map_of\<close>.
  A \<open>json.RawMessage\<close> is represented by what decoding it gives: no bytes, bytes that are not
  JSON, or a JSON value whose objects are in the canonical (sorted, duplicate free) order that
  \<open>jsonb\<close> keeps.  The Kubernetes validators and SHA-256 are parameters.
\<close>

section \<open>JSON values\<close>

datatype json =
    JNull
  | JBool bool
  | JNum string
  | JStr string
  | JArr "json list"
  | JObj "(string \<times> json) list"

datatype raw_json = RawNone | RawBad | Raw json

section \<open>Quantities and topology (capacity.go)\<close>

record Resources =
  res_VCPU :: int
  res_MemoryMiB :: int
  res_Nodes :: int

record ZoneInput =
  zi_ID :: string
  zi_Provider :: string
  zi_AccountID :: string
  zi_Region :: string
  zi_ProviderZoneID :: string
  zi_KubernetesRegion :: string
  zi_KubernetesZone :: string

record ClusterInput =
  ci_ID :: string
  ci_APIServerEndpoint :: string
  ci_CACertHash :: string
  ci_KubeadmVersion :: string
  ci_KubeletVersion :: string
  ci_ContainerRuntime :: string
  ci_CNI :: string

record NodePoolInput =
  pi_ID :: string
  pi_Limits :: Resources

record ClusterZoneInput =
  cz_ClusterID :: string
  cz_ZoneID :: string
  cz_LifecycleState :: string
  cz_AccessState :: string

record NodeGroupNaming =
  nm_Provider :: string
  nm_DevelopmentStage :: string
  nm_Region :: string
  nm_AZ :: string
  nm_Group :: string

record SchedulingTaint =
  tt_Key :: string
  tt_Value :: string
  tt_Effect :: string

record SchedulingTemplate =
  st_InstanceType :: string
  st_Architecture :: string
  st_Region :: string
  st_Zone :: string
  st_Labels :: "(string \<times> string) list"
  st_Taints :: "SchedulingTaint list"

definition zero_scheduling :: SchedulingTemplate where
  "zero_scheduling = \<lparr>st_InstanceType = [], st_Architecture = [], st_Region = [], st_Zone = [],
     st_Labels = [], st_Taints = []\<rparr>"

record NodeGroupInput =
  gi_Naming :: NodeGroupNaming
  gi_ID :: string
  gi_ClusterID :: string
  gi_NodePoolID :: string
  gi_ZoneID :: string
  gi_CapacityClass :: string
  gi_ProviderZoneID :: string
  gi_MinNodes :: int
  gi_MaxNodes :: int
  gi_TemplateRevision :: string
  gi_PerNode :: Resources
  gi_LaunchParameters :: raw_json
  gi_Scheduling :: SchedulingTemplate

record FirstZoneInput =
  fz_Zone :: ZoneInput
  fz_Cluster :: ClusterInput
  fz_Membership :: ClusterZoneInput
  fz_Pool :: NodePoolInput
  fz_Group :: NodeGroupInput

section \<open>Requests and operations (capacity.go, removal.go)\<close>

record CapacityRequest =
  cr_NodeGroupID :: string
  cr_RequestID :: string
  cr_ClusterID :: string
  cr_ExpectedTargetRevision :: int
  cr_DesiredTarget :: int
  cr_TemplateRevision :: string

record CapacityResult =
  cs_RequestID :: string
  cs_NodeGroupID :: string
  cs_TargetNodes :: int
  cs_TargetRevision :: int

record RemovalNode =
  rn_HostID :: string
  rn_NodeName :: string
  rn_ProviderID :: string

record NodeRemovalRequest =
  rr_NodeGroupID :: string
  rr_RequestID :: string
  rr_ExpectedTargetRevision :: int
  rr_Nodes :: "RemovalNode list"

record ProvisioningTemplate =
  pt_LaunchParameters :: raw_json
  pt_Scheduling :: SchedulingTemplate
  pt_TemplateRevision :: string
  pt_CapacityClass :: string

datatype ZoneBootstrapPhase =
    ZoneRequested
  | ZoneInfrastructureProvisioning
  | ZoneControlPlaneInitializing
  | ZoneNetworkInstalling
  | ZoneDominatorInstalling
  | ZoneValidating
  | ZoneReady
  | ZoneFailed

record BootstrapRequest =
  br_Kind :: string
  br_RequestID :: string
  br_ClusterID :: string
  br_ZoneID :: string
  br_Parameters :: raw_json

record BootstrapStepResult =
  bs_APIServerEndpoint :: string
  bs_CACertHash :: string
  bs_ProviderHostID :: string
  bs_HostPrivateIP :: string
  bs_ImageID :: string
  bs_DominatorEndpoint :: string
  bs_DominatorIdentity :: string

datatype HostState =
    HostRequested
  | HostProvisioning
  | HostBooting
  | HostRegistering
  | HostConverging
  | HostReady
  | HostDraining
  | HostTerminating
  | HostTerminated
  | HostFailed
  | HostUnhealthy

section \<open>Hosts (types.go)\<close>

text \<open>The zero \<open>time.Time\<close> is 0.  The unused \<open>Fleet\<close> and \<open>Capacity\<close> fields are left out.\<close>

record Host =
  ho_Protected :: bool
  ho_SubdEndpoint :: string
  ho_NodeGroupID :: string
  ho_NodePoolID :: string
  ho_OperationID :: string
  ho_DesiredStateVersion :: string
  ho_ObservedStateVersion :: string
  ho_Allocatable :: Resources
  ho_Reserved :: Resources
  ho_ExcessCapacity :: bool
  ho_ID :: string
  ho_ProviderID :: string
  ho_Provider :: string
  ho_RoleName :: string
  ho_Zone :: string
  ho_ImageID :: string
  ho_State :: HostState
  ho_Health :: string
  ho_CreatedAt :: int
  ho_LastSeenHeartbeat :: int
  ho_Endpoint :: string
  ho_Port :: int
  ho_DBName :: string
  ho_Username :: string
  ho_SecretARN :: string
  ho_RDSSGID :: string

section \<open>Operations (capacity.go)\<close>

text \<open>
  The kinds of an operation; \<open>OtherKind\<close> stands for every string that is none of the four the
  schema admits.  The \<open>jsonb\<close> parameters of an operation are one of the shapes the code writes.
\<close>

datatype op_kind = Provision | CreateCluster | AttachZone | RemoveNode | OtherKind string

datatype op_state =
    OpPending
  | OpLeased
  | OpLaunching
  | OpSucceeded
  | OpCancelled
  | OpFailed
  | OpBlocked

datatype op_parameters =
    ParamsTemplate ProvisioningTemplate
  | ParamsRemoval "NodeRemovalRequest option"
  | ParamsBootstrap json

record Operation =
  op_ID :: string
  op_Kind :: op_kind
  op_ZoneID :: string
  op_NodeGroupID :: string
  op_NodePoolID :: string
  op_HostID :: string
  op_CapacityRequestID :: string
  op_ClusterID :: string
  op_APIServerEndpoint :: string
  op_CACertHash :: string
  op_Provider :: string
  op_AccountID :: string
  op_Region :: string
  op_ProviderZoneID :: string
  op_KubernetesRegion :: string
  op_KubernetesZone :: string
  op_CapacityClass :: string
  op_TemplateRevision :: string
  op_LaunchParameters :: raw_json
  op_Scheduling :: SchedulingTemplate
  op_SpireInstanceID :: string
  op_TargetRevision :: int
  op_State :: op_state
  op_ProviderToken :: string
  op_Parameters :: op_parameters
  op_LeaseOwner :: string
  op_LeaseUntil :: int
  op_Fence :: int
  op_LastError :: string
  op_CreatedAt :: int
  op_UpdatedAt :: int

section \<open>Node-group naming (naming.go)\<close>

definition naming_alnum :: "char \<Rightarrow> bool" where
  "naming_alnum c \<longleftrightarrow> (CHR ''a'' \<le> c \<and> c \<le> CHR ''z'') \<or> (CHR ''0'' \<le> c \<and> c \<le> CHR ''9'')"

text \<open>\<open>^[a-z0-9](?:[a-z0-9-]*[a-z0-9])?$\<close>\<close>

definition namingComponent :: "string \<Rightarrow> bool" where
  "namingComponent s \<longleftrightarrow> s \<noteq> [] \<and> naming_alnum (hd s) \<and> naming_alnum (last s)
     \<and> list_all (\<lambda>c. naming_alnum c \<or> c = CHR ''-'') s"

fun join_with :: "string \<Rightarrow> string list \<Rightarrow> string" where
  "join_with sep [] = []"
| "join_with sep [s] = s"
| "join_with sep (s # t # ss) = s @ sep @ join_with sep (t # ss)"

definition FormatNodeGroupID :: "NodeGroupNaming \<Rightarrow> string option" where
  "FormatNodeGroupID n =
     (let parts = [nm_Provider n, nm_DevelopmentStage n, nm_Region n, nm_AZ n, nm_Group n]
      in if list_all namingComponent parts then Some (join_with ''-'' parts) else None)"

definition NormalizeID :: "NodeGroupInput \<Rightarrow> NodeGroupInput option" where
  "NormalizeID g =
     (case FormatNodeGroupID (gi_Naming g) of
        None \<Rightarrow> None
      | Some i \<Rightarrow> if gi_ID g \<noteq> [] \<and> gi_ID g \<noteq> i then None else Some (g\<lparr>gi_ID := i\<rparr>))"

section \<open>Scheduling metadata (scheduling.go)\<close>

definition ProvisioningTaint :: string where
  "ProvisioningTaint = ''platform.crane.io/provisioning''"

text \<open>The labels every node of a pool carries; operator labels are written over them.\<close>

definition canonical_labels :: "SchedulingTemplate \<Rightarrow> string \<Rightarrow> (string \<times> string) list" where
  "canonical_labels t pool =
     [(''kubernetes.io/os'', ''linux''), (''kubernetes.io/arch'', st_Architecture t),
      (''topology.kubernetes.io/region'', st_Region t),
      (''topology.kubernetes.io/zone'', st_Zone t),
      (''node.kubernetes.io/instance-type'', st_InstanceType t),
      (''platform.crane.io/node-pool'', pool)]"

definition SchedulingLabels :: "SchedulingTemplate \<Rightarrow> string \<Rightarrow> (string \<times> string) list" where
  "SchedulingLabels t pool =
     fold (\<lambda>(k, v) labels. AList.update k v labels) (st_Labels t) (canonical_labels t pool)"

text \<open>\<open>strings.Cut\<close> at the first slash: the part before it, when there is one.\<close>

fun cut_slash :: "string \<Rightarrow> string option" where
  "cut_slash [] = None"
| "cut_slash (c # cs) =
     (if c = CHR ''/'' then Some [] else map_option (\<lambda>p. c # p) (cut_slash cs))"

definition reserved_label :: "string \<Rightarrow> bool" where
  "reserved_label k \<longleftrightarrow>
     (case cut_slash k of
        None \<Rightarrow> False
      | Some ns \<Rightarrow> ns = ''kubernetes.io'' \<or> suffix ''.kubernetes.io'' ns
                   \<or> ns = ''k8s.io'' \<or> suffix ''.k8s.io'' ns)"

text \<open>
  The Kubernetes name validators (\<open>k8s.io/apimachinery/pkg/util/validation\<close>): each field
  says that the validator of that name returns no error message.
\<close>

record k8s_validation =
  IsQualifiedName :: "string \<Rightarrow> bool"
  IsValidLabelValue :: "string \<Rightarrow> bool"
  IsDNS1123Label :: "string \<Rightarrow> bool"
  IsDNS1123Subdomain :: "string \<Rightarrow> bool"
  IsConfigMapKey :: "string \<Rightarrow> bool"

definition label_ok ::
    "k8s_validation \<Rightarrow> (string \<times> string) list \<Rightarrow> string \<times> string \<Rightarrow> bool" where
  "label_ok K canonical kv =
     (let k = fst kv; v = snd kv in
      if \<not> IsQualifiedName K k \<or> \<not> IsValidLabelValue K v \<or> v = [] then False
      else case map_of canonical k of
          Some expected \<Rightarrow> v = expected
        | None \<Rightarrow> \<not> (reserved_label k \<or> prefix ''platform.crane.io/'' k))"

fun taints_ok :: "k8s_validation \<Rightarrow> string list \<Rightarrow> SchedulingTaint list \<Rightarrow> bool" where
  "taints_ok K seen [] = True"
| "taints_ok K seen (t # ts) =
     (let key = tt_Key t @ ''/'' @ tt_Effect t in
      if tt_Key t = ProvisioningTaint \<or> key \<in> set seen \<or> \<not> IsQualifiedName K (tt_Key t)
         \<or> \<not> IsValidLabelValue K (tt_Value t)
         \<or> (tt_Effect t \<noteq> ''NoSchedule'' \<and> tt_Effect t \<noteq> ''NoExecute''
             \<and> tt_Effect t \<noteq> ''PreferNoSchedule'')
      then False else taints_ok K (key # seen) ts)"

definition ValidateScheduling :: "k8s_validation \<Rightarrow> SchedulingTemplate \<Rightarrow> string \<Rightarrow> bool" where
  "ValidateScheduling K t pool \<longleftrightarrow>
     \<not> (st_InstanceType t = [] \<or> st_Region t = [] \<or> st_Zone t = [] \<or> pool = []
        \<or> (st_Architecture t \<noteq> ''amd64'' \<and> st_Architecture t \<noteq> ''arm64''))
     \<and> list_all (label_ok K (SchedulingLabels (t\<lparr>st_Labels := [], st_Taints := []\<rparr>) pool))
                (SchedulingLabels t pool)
     \<and> taints_ok K [] (st_Taints t)"

section \<open>Worker registration (worker.go)\<close>

record WorkerRegistration =
  wr_ClusterID :: string
  wr_HostID :: string
  wr_NodeGroupID :: string
  wr_NodePoolID :: string
  wr_TemplateRevision :: string
  wr_NodeName :: string
  wr_ProviderID :: string
  wr_Scheduling :: SchedulingTemplate

definition hex_digit :: "nat \<Rightarrow> char" where
  "hex_digit n = ''0123456789abcdef'' ! (n mod 16)"

definition hex_encode :: "string \<Rightarrow> string" where
  "hex_encode bs = concat (map (\<lambda>c. [hex_digit (of_char c div 16), hex_digit (of_char c)]) bs)"

definition WorkerNodeName :: "(string \<Rightarrow> string) \<Rightarrow> string \<Rightarrow> string" where
  "WorkerNodeName sha256 hostID = ''crane-'' @ hex_encode (take 16 (sha256 hostID))"

definition WorkerRegistration_Validate ::
    "(string \<Rightarrow> string) \<Rightarrow> k8s_validation \<Rightarrow> WorkerRegistration \<Rightarrow> bool" where
  "WorkerRegistration_Validate sha256 K r \<longleftrightarrow>
     \<not> (wr_ClusterID r = [] \<or> wr_HostID r = [] \<or> wr_NodeGroupID r = [] \<or> wr_NodePoolID r = []
        \<or> wr_TemplateRevision r = [] \<or> wr_ProviderID r = []
        \<or> wr_NodeName r \<noteq> WorkerNodeName sha256 (wr_HostID r)
        \<or> \<not> ValidateScheduling K (wr_Scheduling r) (wr_NodePoolID r))"

section \<open>Secret updates (kubernetes.go)\<close>

record KubernetesSecret =
  ks_Namespace :: string
  ks_Name :: string
  ks_Type :: string
  ks_Data :: "(string \<times> string) list"
  ks_StringData :: "(string \<times> string) list"
  ks_RolloutDeployment :: string

record SecretRequest =
  sr_RequestID :: string
  sr_Secret :: KubernetesSecret

text \<open>The loop over \<open>StringData\<close>: a key that is already present is an error.\<close>

fun merge_string_data ::
    "(string \<times> string) list \<Rightarrow> (string \<times> string) list \<Rightarrow> (string \<times> string) list option" where
  "merge_string_data d [] = Some d"
| "merge_string_data d ((k, v) # sd) =
     (if map_of d k \<noteq> None then None else merge_string_data (AList.update k v d) sd)"

definition KubernetesSecret_Normalize ::
    "k8s_validation \<Rightarrow> KubernetesSecret \<Rightarrow> string + KubernetesSecret" where
  "KubernetesSecret_Normalize K s =
     (if \<not> IsDNS1123Label K (ks_Namespace s) \<or> \<not> IsDNS1123Subdomain K (ks_Name s)
         \<or> (ks_RolloutDeployment s \<noteq> [] \<and> \<not> IsDNS1123Subdomain K (ks_RolloutDeployment s))
      then Inl ''invalid Kubernetes resource name''
      else
        (let s1 = (if ks_Type s = [] then s\<lparr>ks_Type := ''Opaque''\<rparr> else s) in
         if length (ks_Type s1) > 253 \<or> \<not> IsQualifiedName K (ks_Type s1)
         then Inl ''invalid Secret type''
         else case merge_string_data (fold (\<lambda>(k, v) d. AList.update k v d) (ks_Data s1) [])
                     (ks_StringData s1) of
             None \<Rightarrow> Inl ''duplicate Secret key''
           | Some d \<Rightarrow>
               if list_ex (\<lambda>(k, v). \<not> IsConfigMapKey K k) d then Inl ''invalid Secret key''
               else if sum_list (map (\<lambda>(k, v). length v) d) > 2 ^ 20
               then Inl ''Secret data exceeds size limit''
               else Inr (s1\<lparr>ks_Data := d, ks_StringData := []\<rparr>)))"

definition SecretRequest_Normalize ::
    "k8s_validation \<Rightarrow> SecretRequest \<Rightarrow> string + SecretRequest" where
  "SecretRequest_Normalize K r =
     (if sr_RequestID r = [] \<or> length (sr_RequestID r) > 128 then Inl ''invalid request ID''
      else rbind (KubernetesSecret_Normalize K (sr_Secret r))
             (\<lambda>s. Inr (r\<lparr>sr_Secret := s\<rparr>)))"

section \<open>Expected host state (subd.go)\<close>

record HostPackageChange =
  hp_Name :: string
  hp_Action :: string

record ExpectedHostState =
  eh_Revision :: int
  eh_ImageID :: string
  eh_Track :: string
  eh_Version :: string
  eh_Services :: "(string \<times> bool) list"
  eh_Packages :: "HostPackageChange list"
  eh_Secret :: "KubernetesSecret option"

section \<open>Ranges\<close>

text \<open>The \<open>int64\<close> fields of an input hold \<open>int64\<close> values.\<close>

definition resources_i64 :: "Resources \<Rightarrow> bool" where
  "resources_i64 r \<longleftrightarrow> in_i64 (res_VCPU r) \<and> in_i64 (res_MemoryMiB r) \<and> in_i64 (res_Nodes r)"

definition group_input_i64 :: "NodeGroupInput \<Rightarrow> bool" where
  "group_input_i64 g \<longleftrightarrow> resources_i64 (gi_PerNode g) \<and> in_i64 (gi_MinNodes g) \<and> in_i64 (gi_MaxNodes g)"

definition first_zone_i64 :: "FirstZoneInput \<Rightarrow> bool" where
  "first_zone_i64 f \<longleftrightarrow> resources_i64 (pi_Limits (fz_Pool f)) \<and> group_input_i64 (fz_Group f)"

section \<open>Lemmas\<close>

lemma update_new: "k \<notin> fst ` set d \<Longrightarrow> AList.update k v d = d @ [(k, v)]"
  by (induction d) auto

lemma fold_update_distinct:
  "distinct (map fst (d @ xs)) \<Longrightarrow> fold (\<lambda>(k, v) d. AList.update k v d) xs d = d @ xs"
proof (induction xs arbitrary: d)
  case (Cons x xs)
  then show ?case by (cases x) (simp add: update_new)
qed simp

lemma merge_string_data_Some:
  "merge_string_data d sd = Some e \<Longrightarrow> distinct (map fst d) \<Longrightarrow>
   e = d @ sd \<and> distinct (map fst e)"
proof (induction d sd arbitrary: e rule: merge_string_data.induct)
  case (2 d k v sd)
  have k: "map_of d k = None" using 2(2) by (metis merge_string_data.simps(2) option.distinct(1))
  then have n: "k \<notin> fst ` set d" by (simp add: map_of_eq_None_iff)
  then have "distinct (map fst (AList.update k v d))" using 2(3) by (simp add: update_new)
  moreover have "merge_string_data (AList.update k v d) sd = Some e" using 2(2) k by simp
  ultimately have "e = AList.update k v d @ sd \<and> distinct (map fst e)" using 2(1) k by blast
  then show ?case unfolding update_new [OF n] append.assoc append.simps .
qed simp

lemma Normalize_Inr:
  assumes "KubernetesSecret_Normalize K s = Inr n" "distinct (map fst (ks_Data s))"
  shows "ks_Data n = ks_Data s @ ks_StringData s" "distinct (map fst (ks_Data n))" "ks_StringData n = []"
    "KubernetesSecret_Normalize K n = Inr n"
proof -
  let ?s = "if ks_Type s = [] then s\<lparr>ks_Type := ''Opaque''\<rparr> else s"
  have sd: "ks_Data ?s = ks_Data s" "ks_StringData ?s = ks_StringData s" by simp_all
  obtain d where d: "merge_string_data (ks_Data s) (ks_StringData s) = Some d" "n = ?s\<lparr>ks_Data := d, ks_StringData := []\<rparr>"
    "\<not> list_ex (\<lambda>(k, v). \<not> IsConfigMapKey K k) d" "sum_list (map (\<lambda>(k, v). length v) d) \<le> 2 ^ 20"
    "length (ks_Type ?s) \<le> 253" "IsQualifiedName K (ks_Type ?s)"
    using assms fold_update_distinct [of "[]" "ks_Data s"]
    unfolding KubernetesSecret_Normalize_def Let_def sd
    by (auto split: if_splits option.splits)
  have e: "d = ks_Data s @ ks_StringData s" "distinct (map fst d)" using merge_string_data_Some [OF d(1) assms(2)] by (rule conjunct1, rule conjunct2)
  show data: "ks_Data n = ks_Data s @ ks_StringData s" "distinct (map fst (ks_Data n))" "ks_StringData n = []"
  proof -
    have nd: "ks_Data n = d" "ks_StringData n = []" by (simp_all add: d(2))
    show "ks_Data n = ks_Data s @ ks_StringData s" unfolding nd by (rule e(1))
    show "distinct (map fst (ks_Data n))" unfolding nd by (rule e(2))
    show "ks_StringData n = []" by (rule nd(2))
  qed
  have names: "IsDNS1123Label K (ks_Namespace s)" "IsDNS1123Subdomain K (ks_Name s)"
    "ks_RolloutDeployment s = [] \<or> IsDNS1123Subdomain K (ks_RolloutDeployment s)"
    using assms(1) unfolding KubernetesSecret_Normalize_def by (auto split: if_splits)
  have "ks_Type n \<noteq> []" "ks_Type n = ks_Type ?s" "ks_Namespace n = ks_Namespace s" "ks_Name n = ks_Name s"
    "ks_RolloutDeployment n = ks_RolloutDeployment s" "ks_Data n = d" by (simp_all add: d(2))
  then show "KubernetesSecret_Normalize K n = Inr n"
    using d(3-6) names data(3) fold_update_distinct [of "[]" d] e(2)
    unfolding KubernetesSecret_Normalize_def Let_def by (simp add: d(2) not_less)
qed

end
