(* ===== verification/CapacityDB.thy ===== *)
theory CapacityDB
  imports Api
begin

text \<open>
  The durable state of the capacity control plane: one record per table of
  \<open>src/internal/capacity/schema.sql\<close>, the database as a record of tables, the errors a store
  method returns, and the inserts with the primary-key, unique, foreign-key and check
  constraints of the schema.  Nullable columns are options; the \<open>expected_state\<close> column is \<open>None\<close> while it holds \<open>{}\<close>.  Timestamps are microseconds; the
  value of \<open>clock_timestamp()\<close> is an argument of the operation that reads it.  A store method
  runs in one transaction: it returns the new database, or an error and the database is rolled
  back to the old one.
\<close>

section \<open>Errors (store.go)\<close>

datatype error =
    ErrInvalid
  | ErrAttachmentUnavailable
  | ErrConflict
  | ErrReplayMismatch
  | ErrForbidden
  | ErrInactive
  | ErrLimit
  | ErrTemplate
  | ErrFulfilled
  | ErrFenced
  | ErrNoRows
  | SqlState string
  | ErrMsg string
  | ErrWrap string error

section \<open>Tables (schema.sql)\<close>

record region_row =
  tr_provider :: string
  tr_account_id :: string
  tr_region :: string
  tr_kubernetes_region :: string

record zone_row =
  z_id :: string
  z_provider :: string
  z_account_id :: string
  z_region :: string
  z_provider_zone_id :: string
  z_kubernetes_region :: string
  z_kubernetes_zone :: string
  z_enabled :: bool
  z_lifecycle_state :: string

record cluster_row =
  c_id :: string
  c_api_server_endpoint :: string
  c_ca_cert_hash :: string
  c_kubeadm_version :: string
  c_kubelet_version :: string
  c_container_runtime :: string
  c_cni :: string
  c_lifecycle_state :: string

record membership_row =
  m_cluster_id :: string
  m_zone_id :: string
  m_lifecycle_state :: string
  m_access_state :: string

record pool_row =
  p_id :: string
  p_enabled :: bool
  p_max_vcpu :: int
  p_max_memory_mib :: int
  p_max_nodes :: int

record group_row =
  g_naming :: NodeGroupNaming
  g_id :: string
  g_cluster_id :: string
  g_zone_id :: string
  g_node_pool_id :: string
  g_capacity_class :: string
  g_provider_zone_id :: string
  g_target_nodes :: int
  g_target_revision :: int
  g_min_nodes :: int
  g_max_nodes :: int
  g_template_revision :: string
  g_lifecycle_state :: string
  g_vcpu :: int
  g_memory_mib :: int
  g_launch_parameters :: raw_json
  g_scheduling :: SchedulingTemplate

record request_row =
  q_id :: string
  q_group_id :: string
  q_request_id :: string
  q_cluster_id :: string
  q_expected_revision :: int
  q_desired_target :: int
  q_template_revision :: string
  q_result_revision :: int
  q_created_at :: int

record host_row =
  h_id :: string
  h_role :: "string option"
  h_zone :: "string option"
  h_imageid :: "string option"
  h_state :: HostState
  h_health :: "string option"
  h_createdat :: "int option"
  h_updatedat :: "int option"
  h_provider :: "string option"
  h_providerid :: "string option"
  h_lastseenheartbeat :: "int option"
  h_endpoint :: "string option"
  h_port :: "int option"
  h_dbname :: "string option"
  h_username :: "string option"
  h_secretarn :: "string option"
  h_rdssgid :: "string option"
  h_protected :: bool
  h_subd_endpoint :: string
  h_kubernetes_provider_id :: string
  h_node_group_id :: "string option"
  h_node_pool_id :: "string option"
  h_crane_zone :: "string option"
  h_operation_id :: "string option"
  h_desired_state_version :: string
  h_observed_state_version :: string
  h_allocatable_vcpu :: int
  h_allocatable_memory_mib :: int
  h_reserved_vcpu :: int
  h_reserved_memory_mib :: int
  h_excess_capacity :: bool

record dominator_row =
  d_zone_id :: string
  d_endpoint :: string
  d_identity :: string
  d_observability_status :: string

record op_row =
  o_id :: string
  o_kind :: op_kind
  o_zone_id :: string
  o_group_id :: "string option"
  o_host_id :: "string option"
  o_capacity_request_id :: "string option"
  o_target_revision :: int
  o_state :: op_state
  o_provider_token :: string
  o_parameters :: op_parameters
  o_lease_owner :: "string option"
  o_lease_until :: "int option"
  o_fence :: int
  o_last_error :: string
  o_created_at :: int
  o_updated_at :: int

record binding_row =
  b_host_id :: string
  b_operation_id :: string
  b_node_name :: string
  b_node_uid :: string
  b_provider_id :: string
  b_contract_hash :: string
  b_expected_state :: "ExpectedHostState option"
  b_release_started :: bool

datatype res_state = Reserved | Committed | Released

record reservation_row =
  r_id :: string
  r_group_id :: string
  r_capacity_request_id :: string
  r_host_id :: string
  r_vcpu :: int
  r_memory_mib :: int
  r_nodes :: int
  r_state :: res_state
  r_created_at :: int

record bootstrap_row =
  zb_operation_id :: string
  zb_zone_id :: string
  zb_cluster_id :: "string option"
  zb_request_id :: "string option"
  zb_phase :: ZoneBootstrapPhase

record removal_row =
  nr_operation_id :: string
  nr_group_id :: string
  nr_host_id :: string
  nr_node_name :: string
  nr_provider_id :: string
  nr_reason :: string
  nr_preserve_desired_capacity :: bool
  nr_drain_deadline :: int
  nr_drain_status :: string
  nr_provider_termination_status :: string
  nr_completed_at :: "int option"

record db =
  topology_regions :: "region_row list"
  zones :: "zone_row list"
  clusters :: "cluster_row list"
  cluster_zones :: "membership_row list"
  node_pools :: "pool_row list"
  node_groups :: "group_row list"
  capacity_requests :: "request_row list"
  hosts :: "host_row list"
  zone_dominators :: "dominator_row list"
  operations :: "op_row list"
  worker_provisioning_state :: "binding_row list"
  infrastructure_reservations :: "reservation_row list"
  zone_bootstrap_operations :: "bootstrap_row list"
  node_removal_operations :: "removal_row list"

definition empty_db :: db where
  "empty_db = \<lparr>topology_regions = [], zones = [], clusters = [], cluster_zones = [],
     node_pools = [], node_groups = [], capacity_requests = [], hosts = [],
     zone_dominators = [], operations = [], worker_provisioning_state = [],
     infrastructure_reservations = [], zone_bootstrap_operations = [],
     node_removal_operations = []\<rparr>"

section \<open>Constraints and inserts (schema.sql)\<close>

abbreviation unique_violation :: error where
  "unique_violation \<equiv> SqlState ''23505''"

abbreviation foreign_key_violation :: error where
  "foreign_key_violation \<equiv> SqlState ''23503''"

abbreviation check_violation :: error where
  "check_violation \<equiv> SqlState ''23514''"

text \<open>A \<open>bigint\<close> result outside the 64-bit range.\<close>

abbreviation numeric_out_of_range :: error where
  "numeric_out_of_range \<equiv> SqlState ''22003''"

definition fk :: "string option \<Rightarrow> string list \<Rightarrow> bool" where
  "fk ref keys \<longleftrightarrow> (case ref of None \<Rightarrow> True | Some x \<Rightarrow> x \<in> set keys)"

definition group_check :: "group_row \<Rightarrow> bool" where
  "group_check g \<longleftrightarrow> g_target_revision g \<ge> 0 \<and> g_min_nodes g \<ge> 0
     \<and> g_max_nodes g \<ge> g_min_nodes g
     \<and> g_min_nodes g \<le> g_target_nodes g \<and> g_target_nodes g \<le> g_max_nodes g
     \<and> g_vcpu g > 0 \<and> g_memory_mib g > 0
     \<and> FormatNodeGroupID (g_naming g) = Some (g_id g)"

definition pool_check :: "pool_row \<Rightarrow> bool" where
  "pool_check p \<longleftrightarrow> p_max_vcpu p \<ge> 0 \<and> p_max_memory_mib p \<ge> 0 \<and> p_max_nodes p \<ge> 0"

definition op_check :: "op_row \<Rightarrow> bool" where
  "op_check r \<longleftrightarrow> o_kind r \<in> {Provision, CreateCluster, AttachZone, RemoveNode} \<and> o_fence r \<ge> 0
     \<and> (o_lease_owner r = None \<longleftrightarrow> o_lease_until r = None)
     \<and> (o_kind r = Provision \<longrightarrow>
          o_group_id r \<noteq> None \<and> o_host_id r \<noteq> None \<and> o_capacity_request_id r \<noteq> None)"

definition reservation_check :: "reservation_row \<Rightarrow> bool" where
  "reservation_check r \<longleftrightarrow> r_vcpu r > 0 \<and> r_memory_mib r > 0 \<and> r_nodes r = 1"

definition insert_request :: "request_row \<Rightarrow> db \<Rightarrow> error + db" where
  "insert_request q db =
     (if list_ex (\<lambda>x. q_id x = q_id q
           \<or> (q_group_id x = q_group_id q \<and> q_request_id x = q_request_id q)) (capacity_requests db)
      then Inl unique_violation
      else if q_group_id q \<notin> set (map g_id (node_groups db))
           \<or> q_cluster_id q \<notin> set (map c_id (clusters db))
      then Inl foreign_key_violation
      else Inr (db\<lparr>capacity_requests := capacity_requests db @ [q]\<rparr>))"

text \<open>The reference from \<open>operations.host_id\<close> to \<open>host\<close> is deferred to the commit.\<close>

definition insert_operation :: "op_row \<Rightarrow> db \<Rightarrow> error + db" where
  "insert_operation r db =
     (if \<not> op_check r then Inl check_violation
      else if list_ex (\<lambda>x. o_id x = o_id r \<or> o_provider_token x = o_provider_token r)
                (operations db)
      then Inl unique_violation
      else if o_zone_id r \<notin> set (map z_id (zones db))
           \<or> \<not> fk (o_group_id r) (map g_id (node_groups db))
           \<or> \<not> fk (o_capacity_request_id r) (map q_id (capacity_requests db))
      then Inl foreign_key_violation
      else Inr (db\<lparr>operations := operations db @ [r]\<rparr>))"

definition host_group_fk :: "host_row \<Rightarrow> db \<Rightarrow> bool" where
  "host_group_fk h db \<longleftrightarrow>
     (case (h_node_group_id h, h_node_pool_id h, h_crane_zone h) of
        (None, None, None) \<Rightarrow> True
      | (Some g, Some p, Some z) \<Rightarrow>
          list_ex (\<lambda>r. g_id r = g \<and> g_node_pool_id r = p \<and> g_zone_id r = z) (node_groups db)
      | _ \<Rightarrow> False)"

definition insert_host :: "host_row \<Rightarrow> db \<Rightarrow> error + db" where
  "insert_host h db =
     (if list_ex (\<lambda>x. h_id x = h_id h) (hosts db) then Inl unique_violation
      else if \<not> host_group_fk h db \<or> \<not> fk (h_crane_zone h) (map z_id (zones db))
           \<or> \<not> fk (h_operation_id h) (map o_id (operations db))
      then Inl foreign_key_violation
      else Inr (db\<lparr>hosts := hosts db @ [h]\<rparr>))"

definition insert_reservation :: "reservation_row \<Rightarrow> db \<Rightarrow> error + db" where
  "insert_reservation r db =
     (if \<not> reservation_check r then Inl check_violation
      else if list_ex (\<lambda>x. r_id x = r_id r \<or> r_host_id x = r_host_id r)
                (infrastructure_reservations db)
      then Inl unique_violation
      else if r_group_id r \<notin> set (map g_id (node_groups db))
           \<or> r_capacity_request_id r \<notin> set (map q_id (capacity_requests db))
           \<or> r_host_id r \<notin> set (map h_id (hosts db))
      then Inl foreign_key_violation
      else Inr (db\<lparr>infrastructure_reservations := infrastructure_reservations db @ [r]\<rparr>))"

text \<open>An \<open>UPDATE\<close> of node groups re-checks the constraints of the rows it changed.\<close>

definition update_groups ::
    "(group_row \<Rightarrow> bool) \<Rightarrow> (group_row \<Rightarrow> group_row) \<Rightarrow> db \<Rightarrow> error + db" where
  "update_groups w f db =
     (if list_all (\<lambda>g. w g \<longrightarrow> group_check (f g)) (node_groups db)
      then Inr (db\<lparr>node_groups := upd_where w f (node_groups db)\<rparr>)
      else Inl check_violation)"

section \<open>Shared conditions\<close>

text \<open>The membership of a group's cluster in its zone admits work.\<close>

definition membership_ready :: "db \<Rightarrow> string \<Rightarrow> string \<Rightarrow> bool" where
  "membership_ready db cluster zone \<longleftrightarrow>
     list_ex (\<lambda>m. m_cluster_id m = cluster \<and> m_zone_id m = zone
                \<and> m_lifecycle_state m = ''ready'' \<and> m_access_state m = ''approved'')
       (cluster_zones db)"

text \<open>
  The join that authorises a Dominator on an operation: it is registered for the operation's
  zone under that identity, the operation's group is in the zone, and the membership is ready.
\<close>

definition dominator_authorized :: "db \<Rightarrow> op_row \<Rightarrow> string \<Rightarrow> bool" where
  "dominator_authorized db r identity \<longleftrightarrow>
     list_ex (\<lambda>g. o_group_id r = Some (g_id g) \<and> g_zone_id g = o_zone_id r
                \<and> membership_ready db (g_cluster_id g) (g_zone_id g)
                \<and> list_ex (\<lambda>d. d_zone_id d = g_zone_id g \<and> d_identity d = identity)
                    (zone_dominators db))
       (node_groups db)"

text \<open>The guard every fenced statement carries: exact owner, exact fence, unexpired lease.\<close>

definition lease_live :: "int \<Rightarrow> Operation \<Rightarrow> op_row \<Rightarrow> bool" where
  "lease_live now op r \<longleftrightarrow> o_id r = op_ID op \<and> o_lease_owner r = Some (op_LeaseOwner op)
     \<and> o_fence r = op_Fence op
     \<and> (case o_lease_until r of None \<Rightarrow> False | Some t \<Rightarrow> t > now)"

definition host_in :: "db \<Rightarrow> string option \<Rightarrow> HostState set \<Rightarrow> bool" where
  "host_in db i S \<longleftrightarrow> list_ex (\<lambda>h. i = Some (h_id h) \<and> h_state h \<in> S) (hosts db)"

section \<open>What a transaction may do to a row\<close>

text \<open>
  One relation per table.  They say which columns are immutable and in which direction the
  others move; the lemmas of the component theories show that every transaction keeps to them.
\<close>

definition zone_ev :: "zone_row \<Rightarrow> zone_row \<Rightarrow> bool" where
  "zone_ev a b \<longleftrightarrow> b = a\<lparr>z_lifecycle_state := z_lifecycle_state b\<rparr>"

definition filled :: "string \<Rightarrow> string \<Rightarrow> bool" where
  "filled a b \<longleftrightarrow> a = [] \<or> b = a"

definition cluster_ev :: "cluster_row \<Rightarrow> cluster_row \<Rightarrow> bool" where
  "cluster_ev a b \<longleftrightarrow> c_id b = c_id a \<and> c_kubeadm_version b = c_kubeadm_version a
     \<and> c_kubelet_version b = c_kubelet_version a \<and> c_container_runtime b = c_container_runtime a
     \<and> c_cni b = c_cni a \<and> filled (c_api_server_endpoint a) (c_api_server_endpoint b)
     \<and> filled (c_ca_cert_hash a) (c_ca_cert_hash b)"

definition membership_ev :: "membership_row \<Rightarrow> membership_row \<Rightarrow> bool" where
  "membership_ev a b \<longleftrightarrow> m_cluster_id b = m_cluster_id a \<and> m_zone_id b = m_zone_id a"

definition group_ev :: "group_row \<Rightarrow> group_row \<Rightarrow> bool" where
  "group_ev a b \<longleftrightarrow> g_naming b = g_naming a \<and> g_id b = g_id a \<and> g_cluster_id b = g_cluster_id a
     \<and> g_zone_id b = g_zone_id a \<and> g_node_pool_id b = g_node_pool_id a
     \<and> g_capacity_class b = g_capacity_class a \<and> g_provider_zone_id b = g_provider_zone_id a
     \<and> g_min_nodes b = g_min_nodes a \<and> g_max_nodes b = g_max_nodes a
     \<and> g_lifecycle_state b = g_lifecycle_state a
     \<and> g_vcpu b = g_vcpu a \<and> g_memory_mib b = g_memory_mib a
     \<and> g_target_revision a \<le> g_target_revision b
     \<and> (g_target_revision a = g_target_revision b \<longrightarrow> g_target_nodes a = g_target_nodes b)"

text \<open>The life of a worker host, up to \<open>READY\<close>; only an unlaunched one may be cancelled.\<close>

fun stage :: "HostState \<Rightarrow> nat option" where
  "stage HostRequested = Some 0"
| "stage HostProvisioning = Some 1"
| "stage HostBooting = Some 2"
| "stage HostRegistering = Some 3"
| "stage HostConverging = Some 4"
| "stage HostReady = Some 5"
| "stage _ = None"

definition lifecycle_le :: "HostState \<Rightarrow> HostState \<Rightarrow> bool" where
  "lifecycle_le s t \<longleftrightarrow> s = t
     \<or> (s \<in> {HostRequested, HostProvisioning} \<and> t = HostTerminated)
     \<or> (case (stage s, stage t) of (Some m, Some n) \<Rightarrow> m \<le> n | _ \<Rightarrow> False)"

definition host_ev :: "host_row \<Rightarrow> host_row \<Rightarrow> bool" where
  "host_ev a b \<longleftrightarrow> h_id b = h_id a \<and> h_node_group_id b = h_node_group_id a
     \<and> h_node_pool_id b = h_node_pool_id a \<and> h_crane_zone b = h_crane_zone a
     \<and> h_operation_id b = h_operation_id a \<and> (h_protected a \<longrightarrow> h_protected b)
     \<and> (h_excess_capacity a \<longrightarrow> h_excess_capacity b)
     \<and> (h_node_group_id a \<noteq> None \<longrightarrow> lifecycle_le (h_state a) (h_state b))"

definition op_terminal :: "op_state \<Rightarrow> bool" where
  "op_terminal s \<longleftrightarrow> s \<in> {OpSucceeded, OpCancelled, OpFailed}"

text \<open>The columns of the trigger \<open>crane_immutable_operation\<close>.\<close>

definition op_intent ::
    "op_row \<Rightarrow> op_kind \<times> string \<times> string option \<times> string option \<times> string option \<times> int \<times> string \<times> op_parameters"
  where
  "op_intent r = (o_kind r, o_zone_id r, o_group_id r, o_host_id r, o_capacity_request_id r,
     o_target_revision r, o_provider_token r, o_parameters r)"

definition op_ev :: "op_row \<Rightarrow> op_row \<Rightarrow> bool" where
  "op_ev a b \<longleftrightarrow> o_id b = o_id a \<and> op_intent b = op_intent a \<and> o_created_at b = o_created_at a
     \<and> o_fence a \<le> o_fence b \<and> (op_terminal (o_state a) \<longrightarrow> o_state b = o_state a)
     \<and> (o_fence a = o_fence b \<longrightarrow> o_lease_owner b = o_lease_owner a \<or> o_lease_owner b = None)"

fun res_rank :: "res_state \<Rightarrow> nat" where
  "res_rank Reserved = 0"
| "res_rank Committed = 1"
| "res_rank Released = 2"

definition reservation_ev :: "reservation_row \<Rightarrow> reservation_row \<Rightarrow> bool" where
  "reservation_ev a b \<longleftrightarrow> b = a\<lparr>r_state := r_state b\<rparr> \<and> res_rank (r_state a) \<le> res_rank (r_state b)"

definition binding_ev :: "binding_row \<Rightarrow> binding_row \<Rightarrow> bool" where
  "binding_ev a b \<longleftrightarrow> b_host_id b = b_host_id a \<and> b_operation_id b = b_operation_id a
     \<and> b_node_name b = b_node_name a \<and> b_node_uid b = b_node_uid a
     \<and> b_provider_id b = b_provider_id a \<and> b_contract_hash b = b_contract_hash a
     \<and> (b_expected_state a \<noteq> None \<longrightarrow> b_expected_state b = b_expected_state a)
     \<and> (b_release_started a \<longrightarrow> b_release_started b)"

fun phase_rank :: "ZoneBootstrapPhase \<Rightarrow> nat" where
  "phase_rank ZoneRequested = 0"
| "phase_rank ZoneInfrastructureProvisioning = 1"
| "phase_rank ZoneControlPlaneInitializing = 2"
| "phase_rank ZoneNetworkInstalling = 3"
| "phase_rank ZoneDominatorInstalling = 4"
| "phase_rank ZoneValidating = 5"
| "phase_rank ZoneReady = 6"
| "phase_rank ZoneFailed = 7"

definition phase_le :: "ZoneBootstrapPhase \<Rightarrow> ZoneBootstrapPhase \<Rightarrow> bool" where
  "phase_le p q \<longleftrightarrow> p = q \<or> (p \<noteq> ZoneReady \<and> phase_rank p \<le> phase_rank q)"

definition bootstrap_ev :: "bootstrap_row \<Rightarrow> bootstrap_row \<Rightarrow> bool" where
  "bootstrap_ev a b \<longleftrightarrow> b = a\<lparr>zb_phase := zb_phase b\<rparr> \<and> phase_le (zb_phase a) (zb_phase b)"

definition store_ev :: "db \<Rightarrow> db \<Rightarrow> bool" where
  "store_ev db db' \<longleftrightarrow> evolves (=) (topology_regions db) (topology_regions db')
     \<and> evolves zone_ev (zones db) (zones db')
     \<and> evolves cluster_ev (clusters db) (clusters db')
     \<and> evolves membership_ev (cluster_zones db) (cluster_zones db')
     \<and> evolves (=) (node_pools db) (node_pools db')
     \<and> evolves group_ev (node_groups db) (node_groups db')
     \<and> evolves (=) (capacity_requests db) (capacity_requests db')
     \<and> evolves host_ev (hosts db) (hosts db')
     \<and> evolves (=) (zone_dominators db) (zone_dominators db')
     \<and> evolves op_ev (operations db) (operations db')
     \<and> evolves binding_ev (worker_provisioning_state db) (worker_provisioning_state db')
     \<and> evolves reservation_ev (infrastructure_reservations db) (infrastructure_reservations db')
     \<and> evolves bootstrap_ev (zone_bootstrap_operations db) (zone_bootstrap_operations db')
     \<and> evolves (=) (node_removal_operations db) (node_removal_operations db')"

text \<open>Primary keys and unique columns of the schema.\<close>

definition keys_ok :: "db \<Rightarrow> bool" where
  "keys_ok db \<longleftrightarrow> distinct (map z_id (zones db)) \<and> distinct (map c_id (clusters db))
     \<and> distinct (map (\<lambda>m. (m_cluster_id m, m_zone_id m)) (cluster_zones db))
     \<and> distinct (map p_id (node_pools db)) \<and> distinct (map g_id (node_groups db))
     \<and> distinct (map q_id (capacity_requests db))
     \<and> distinct (map (\<lambda>q. (q_group_id q, q_request_id q)) (capacity_requests db))
     \<and> distinct (map h_id (hosts db)) \<and> distinct (map o_id (operations db))
     \<and> distinct (map o_provider_token (operations db))
     \<and> distinct (map d_zone_id (zone_dominators db))
     \<and> distinct (map b_host_id (worker_provisioning_state db))
     \<and> distinct (map r_id (infrastructure_reservations db))
     \<and> distinct (map r_host_id (infrastructure_reservations db))
     \<and> distinct (map zb_operation_id (zone_bootstrap_operations db))
     \<and> distinct (map nr_operation_id (node_removal_operations db))"

section \<open>Lemmas\<close>

lemma lifecycle_le_refl [simp]: "lifecycle_le s s"
  by (simp add: lifecycle_le_def)

lemma lifecycle_le_trans: "lifecycle_le a b \<Longrightarrow> lifecycle_le b c \<Longrightarrow> lifecycle_le a c"
  by (cases a; cases b; cases c) (simp_all add: lifecycle_le_def)

lemma phase_le_trans: "phase_le a b \<Longrightarrow> phase_le b c \<Longrightarrow> phase_le a c"
  by (cases a; cases b; cases c) (simp_all add: phase_le_def)

lemma zone_ev_trans: "zone_ev a b \<Longrightarrow> zone_ev b c \<Longrightarrow> zone_ev a c"
  by (cases a; cases b; cases c) (simp add: zone_ev_def)

lemma reservation_ev_trans: "reservation_ev a b \<Longrightarrow> reservation_ev b c \<Longrightarrow> reservation_ev a c"
  by (cases a; cases b; cases c) (simp add: reservation_ev_def)

lemma bootstrap_ev_trans: "bootstrap_ev a b \<Longrightarrow> bootstrap_ev b c \<Longrightarrow> bootstrap_ev a c"
  by (cases a; cases b; cases c) (auto simp: bootstrap_ev_def elim: phase_le_trans)

interpretation zone_evo: row_evolution zone_ev
  by unfold_locales (simp add: zone_ev_def, erule zone_ev_trans)

interpretation cluster_evo: row_evolution cluster_ev
  by unfold_locales (auto simp: cluster_ev_def filled_def)

interpretation membership_evo: row_evolution membership_ev
  by unfold_locales (auto simp: membership_ev_def)

interpretation group_evo: row_evolution group_ev
  by unfold_locales (auto simp: group_ev_def)

interpretation host_evo: row_evolution host_ev
  by unfold_locales (auto simp: host_ev_def elim: lifecycle_le_trans)

interpretation op_evo: row_evolution op_ev
  by unfold_locales (auto simp: op_ev_def)

interpretation binding_evo: row_evolution binding_ev
  by unfold_locales (auto simp: binding_ev_def)

interpretation reservation_evo: row_evolution reservation_ev
  by unfold_locales (simp add: reservation_ev_def, erule reservation_ev_trans)

interpretation bootstrap_evo: row_evolution bootstrap_ev
  by unfold_locales (simp add: bootstrap_ev_def phase_le_def, erule bootstrap_ev_trans)

lemmas table_same =
  same_row.same zone_evo.same cluster_evo.same membership_evo.same group_evo.same host_evo.same
  op_evo.same binding_evo.same reservation_evo.same bootstrap_evo.same

lemmas table_comp =
  same_row.comp zone_evo.comp cluster_evo.comp membership_evo.comp group_evo.comp host_evo.comp
  op_evo.comp binding_evo.comp reservation_evo.comp bootstrap_evo.comp

lemma store_ev_refl [simp]: "store_ev db db"
  by (simp add: store_ev_def table_same)

lemma store_ev_trans: "store_ev a b \<Longrightarrow> store_ev b c \<Longrightarrow> store_ev a c"
  unfolding store_ev_def by (blast intro: table_comp)

lemma store_evD:
  assumes "store_ev db db'"
  shows "evolves (=) (topology_regions db) (topology_regions db')"
    "evolves zone_ev (zones db) (zones db')"
    "evolves cluster_ev (clusters db) (clusters db')"
    "evolves membership_ev (cluster_zones db) (cluster_zones db')"
    "evolves (=) (node_pools db) (node_pools db')"
    "evolves group_ev (node_groups db) (node_groups db')"
    "evolves (=) (capacity_requests db) (capacity_requests db')"
    "evolves host_ev (hosts db) (hosts db')"
    "evolves (=) (zone_dominators db) (zone_dominators db')"
    "evolves op_ev (operations db) (operations db')"
    "evolves binding_ev (worker_provisioning_state db) (worker_provisioning_state db')"
    "evolves reservation_ev (infrastructure_reservations db) (infrastructure_reservations db')"
    "evolves bootstrap_ev (zone_bootstrap_operations db) (zone_bootstrap_operations db')"
    "evolves (=) (node_removal_operations db) (node_removal_operations db')"
  using assms by (simp_all add: store_ev_def)

lemma reservation_evD:
  assumes "reservation_ev a b"
  shows "r_id b = r_id a" "r_group_id b = r_group_id a" "r_host_id b = r_host_id a"
    "r_vcpu b = r_vcpu a" "r_memory_mib b = r_memory_mib a" "r_nodes b = r_nodes a"
    "r_state a = Released \<Longrightarrow> r_state b = Released"
proof -
  have b: "b = a\<lparr>r_state := r_state b\<rparr>" and rank: "res_rank (r_state a) \<le> res_rank (r_state b)"
    using assms by (simp_all add: reservation_ev_def)
  show "r_id b = r_id a" "r_group_id b = r_group_id a" "r_host_id b = r_host_id a"
    "r_vcpu b = r_vcpu a" "r_memory_mib b = r_memory_mib a" "r_nodes b = r_nodes a"
    by (subst b, simp)+
  show "r_state b = Released" if "r_state a = Released"
    using rank that by (cases "r_state b") auto
qed

lemmas table_insert =
  same_row.insert zone_evo.insert cluster_evo.insert membership_evo.insert group_evo.insert
  host_evo.insert op_evo.insert binding_evo.insert reservation_evo.insert bootstrap_evo.insert

text \<open>Single-table writes.\<close>

lemma store_ev_ops:
  "evolves op_ev (operations db) t \<Longrightarrow> store_ev db (db\<lparr>operations := t\<rparr>)"
  by (simp add: store_ev_def table_same)

lemma store_ev_hosts:
  "evolves host_ev (hosts db) t \<Longrightarrow> store_ev db (db\<lparr>hosts := t\<rparr>)"
  by (simp add: store_ev_def table_same)

lemma store_ev_groups:
  "evolves group_ev (node_groups db) t \<Longrightarrow> store_ev db (db\<lparr>node_groups := t\<rparr>)"
  by (simp add: store_ev_def table_same)

lemma store_ev_reservations:
  "evolves reservation_ev (infrastructure_reservations db) t
   \<Longrightarrow> store_ev db (db\<lparr>infrastructure_reservations := t\<rparr>)"
  by (simp add: store_ev_def table_same)

lemma store_ev_bindings:
  "evolves binding_ev (worker_provisioning_state db) t
   \<Longrightarrow> store_ev db (db\<lparr>worker_provisioning_state := t\<rparr>)"
  by (simp add: store_ev_def table_same)

lemma store_ev_clusters:
  "evolves cluster_ev (clusters db) t \<Longrightarrow> store_ev db (db\<lparr>clusters := t\<rparr>)"
  by (simp add: store_ev_def table_same)

lemma store_ev_zones:
  "evolves zone_ev (zones db) t \<Longrightarrow> store_ev db (db\<lparr>zones := t\<rparr>)"
  by (simp add: store_ev_def table_same)

lemma store_ev_memberships:
  "evolves membership_ev (cluster_zones db) t \<Longrightarrow> store_ev db (db\<lparr>cluster_zones := t\<rparr>)"
  by (simp add: store_ev_def table_same)

lemma store_ev_bootstraps:
  "evolves bootstrap_ev (zone_bootstrap_operations db) t
   \<Longrightarrow> store_ev db (db\<lparr>zone_bootstrap_operations := t\<rparr>)"
  by (simp add: store_ev_def table_same)

lemma store_ev_appends:
  "store_ev db (db\<lparr>topology_regions := topology_regions db @ a\<rparr>)"
  "store_ev db (db\<lparr>node_pools := node_pools db @ p\<rparr>)"
  "store_ev db (db\<lparr>capacity_requests := capacity_requests db @ q\<rparr>)"
  "store_ev db (db\<lparr>zone_dominators := zone_dominators db @ d\<rparr>)"
  "store_ev db (db\<lparr>node_removal_operations := node_removal_operations db @ n\<rparr>)"
  by (simp_all add: store_ev_def table_same table_insert)

lemma insert_request_Inr:
  "insert_request q db = Inr db' \<longleftrightarrow>
     db' = db\<lparr>capacity_requests := capacity_requests db @ [q]\<rparr>
     \<and> (\<forall>x\<in>set (capacity_requests db). q_id x \<noteq> q_id q
          \<and> (q_group_id x = q_group_id q \<longrightarrow> q_request_id x \<noteq> q_request_id q))
     \<and> q_group_id q \<in> g_id ` set (node_groups db) \<and> q_cluster_id q \<in> c_id ` set (clusters db)"
  by (auto simp: insert_request_def list_ex_iff)

lemma insert_operation_Inr:
  "insert_operation r db = Inr db' \<longleftrightarrow>
     db' = db\<lparr>operations := operations db @ [r]\<rparr> \<and> op_check r
     \<and> (\<forall>x\<in>set (operations db). o_id x \<noteq> o_id r \<and> o_provider_token x \<noteq> o_provider_token r)
     \<and> o_zone_id r \<in> z_id ` set (zones db) \<and> fk (o_group_id r) (map g_id (node_groups db))
     \<and> fk (o_capacity_request_id r) (map q_id (capacity_requests db))"
  by (auto simp: insert_operation_def list_ex_iff)

lemma insert_host_Inr:
  "insert_host h db = Inr db' \<longleftrightarrow>
     db' = db\<lparr>hosts := hosts db @ [h]\<rparr> \<and> (\<forall>x\<in>set (hosts db). h_id x \<noteq> h_id h)
     \<and> host_group_fk h db \<and> fk (h_crane_zone h) (map z_id (zones db))
     \<and> fk (h_operation_id h) (map o_id (operations db))"
  by (auto simp: insert_host_def list_ex_iff)

lemma insert_reservation_Inr:
  "insert_reservation r db = Inr db' \<longleftrightarrow>
     db' = db\<lparr>infrastructure_reservations := infrastructure_reservations db @ [r]\<rparr>
     \<and> reservation_check r
     \<and> (\<forall>x\<in>set (infrastructure_reservations db). r_id x \<noteq> r_id r \<and> r_host_id x \<noteq> r_host_id r)
     \<and> r_group_id r \<in> g_id ` set (node_groups db)
     \<and> r_capacity_request_id r \<in> q_id ` set (capacity_requests db)
     \<and> r_host_id r \<in> h_id ` set (hosts db)"
  by (auto simp: insert_reservation_def list_ex_iff)

lemma insert_request_ev: "insert_request q db = Inr db' \<Longrightarrow> store_ev db db'"
  by (auto simp: insert_request_def store_ev_appends split: if_splits)

lemma insert_operation_ev: "insert_operation r db = Inr db' \<Longrightarrow> store_ev db db'"
  by (auto simp: insert_operation_def store_ev_ops table_insert split: if_splits)

lemma insert_host_ev: "insert_host h db = Inr db' \<Longrightarrow> store_ev db db'"
  by (auto simp: insert_host_def store_ev_hosts table_insert split: if_splits)

lemma insert_reservation_ev: "insert_reservation r db = Inr db' \<Longrightarrow> store_ev db db'"
  by (auto simp: insert_reservation_def store_ev_reservations table_insert split: if_splits)

lemma insert_request_keys: "insert_request q db = Inr db' \<Longrightarrow> keys_ok db \<Longrightarrow> keys_ok db'"
  by (simp add: insert_request_def keys_ok_def list_ex_iff key_notin split: if_splits, fastforce?)

lemma insert_operation_keys: "insert_operation r db = Inr db' \<Longrightarrow> keys_ok db \<Longrightarrow> keys_ok db'"
  by (simp add: insert_operation_def keys_ok_def list_ex_iff key_notin split: if_splits, fastforce?)

lemma insert_host_keys: "insert_host h db = Inr db' \<Longrightarrow> keys_ok db \<Longrightarrow> keys_ok db'"
  by (simp add: insert_host_def keys_ok_def list_ex_iff key_notin split: if_splits, fastforce?)

lemma insert_reservation_keys: "insert_reservation r db = Inr db' \<Longrightarrow> keys_ok db \<Longrightarrow> keys_ok db'"
  by (simp add: insert_reservation_def keys_ok_def list_ex_iff key_notin split: if_splits, fastforce?)

end
