(* ===== verification/CapacityTarget.thy ===== *)
theory CapacityTarget
  imports CapacityDB
begin

text \<open>
  Capacity admission, \<open>src/internal/capacity/store.go\<close>: \<open>SetTarget\<close> with the policy lookup,
  the shared-pool reservation check, the creation of provisioning intents and the cancellation
  of pending ones, and \<open>Target\<close>.  \<open>uuid k\<close> is the result of the \<open>k\<close>-th call of
  \<open>uuid.NewString\<close> within the transaction.
\<close>

record policy =
  pol_group :: group_row
  pol_limit :: Resources
  pol_enabled :: bool

definition pool_limits :: "pool_row \<Rightarrow> Resources" where
  "pool_limits p = \<lparr>res_VCPU = p_max_vcpu p, res_MemoryMiB = p_max_memory_mib p,
                    res_Nodes = p_max_nodes p\<rparr>"

definition loadPolicy :: "db \<Rightarrow> string \<Rightarrow> error + policy" where
  "loadPolicy db gid =
     (case [\<lparr>pol_group = g, pol_limit = pool_limits p,
             pol_enabled = (g_lifecycle_state g = ''active'' \<and> p_enabled p \<and> z_enabled z
                \<and> z_lifecycle_state z = ''ready'' \<and> c_lifecycle_state c = ''ready''
                \<and> m_lifecycle_state m = ''ready'' \<and> m_access_state m = ''approved'')\<rparr>.
            g \<leftarrow> node_groups db, g_id g = gid,
            p \<leftarrow> node_pools db, p_id p = g_node_pool_id g,
            z \<leftarrow> zones db, z_id z = g_zone_id g,
            c \<leftarrow> clusters db, c_id c = g_cluster_id g,
            m \<leftarrow> cluster_zones db, m_cluster_id m = g_cluster_id g \<and> m_zone_id m = g_zone_id g] of
        [] \<Rightarrow> Inl ErrNoRows
      | pol # _ \<Rightarrow> Inr pol)"

section \<open>Shared-pool accounting\<close>

text \<open>The unreleased reservations of every group of a pool.\<close>

definition pool_reservations :: "db \<Rightarrow> string \<Rightarrow> reservation_row list" where
  "pool_reservations db pool =
     [r. r \<leftarrow> infrastructure_reservations db, g \<leftarrow> node_groups db,
         g_id g = r_group_id r \<and> g_node_pool_id g = pool \<and> r_state r \<noteq> Released]"

definition pool_used :: "db \<Rightarrow> string \<Rightarrow> Resources" where
  "pool_used db pool =
     \<lparr>res_VCPU = sum_list (map r_vcpu (pool_reservations db pool)),
      res_MemoryMiB = sum_list (map r_memory_mib (pool_reservations db pool)),
      res_Nodes = sum_list (map r_nodes (pool_reservations db pool))\<rparr>"

definition checkReservations :: "db \<Rightarrow> policy \<Rightarrow> int \<Rightarrow> error + unit" where
  "checkReservations db p nodes =
     (let g = pol_group p; limit = pol_limit p in
      if nodes > max_int64 div g_vcpu g \<or> nodes > max_int64 div g_memory_mib g then Inl ErrLimit
      else
        (let add_vcpu = i64 (nodes * g_vcpu g);
             add_mem = i64 (nodes * g_memory_mib g);
             used = pool_used db (g_node_pool_id g) in
         if \<not> in_i64 (res_VCPU used) \<or> \<not> in_i64 (res_MemoryMiB used) \<or> \<not> in_i64 (res_Nodes used)
         then Inl (ErrMsg ''converting driver.Value type to a int64'')
         else if add_vcpu > i64 (res_VCPU limit - res_VCPU used)
              \<or> add_mem > i64 (res_MemoryMiB limit - res_MemoryMiB used)
              \<or> nodes > i64 (res_Nodes limit - res_Nodes used)
         then Inl ErrLimit else Inr ()))"

section \<open>Provisioning intents\<close>

text \<open>The text of a \<open>jsonb\<close> value, as the operator \<open>->>\<close> returns it.\<close>

definition json_escape :: "char \<Rightarrow> string" where
  "json_escape c =
     (if c = CHR 0x22 then [CHR 0x5C, CHR 0x22]
      else if c = CHR 0x5C then [CHR 0x5C, CHR 0x5C]
      else if c = CHR 0x08 then [CHR 0x5C, CHR ''b'']
      else if c = CHR 0x0C then [CHR 0x5C, CHR ''f'']
      else if c = CHR 0x0A then [CHR 0x5C, CHR ''n'']
      else if c = CHR 0x0D then [CHR 0x5C, CHR ''r'']
      else if c = CHR 0x09 then [CHR 0x5C, CHR ''t'']
      else if c < CHR 0x20
      then [CHR 0x5C] @ ''u00'' @ [hex_digit (of_char c div 16), hex_digit (of_char c)]
      else [c])"

definition json_quote :: "string \<Rightarrow> string" where
  "json_quote s = [CHR 0x22] @ concat (map json_escape s) @ [CHR 0x22]"

fun json_show :: "json \<Rightarrow> string" where
  "json_show JNull = ''null''"
| "json_show (JBool b) = (if b then ''true'' else ''false'')"
| "json_show (JNum n) = n"
| "json_show (JStr s) = json_quote s"
| "json_show (JArr xs) = ''['' @ join_with '', '' (map json_show xs) @ '']''"
| "json_show (JObj kvs) =
     ''{'' @ join_with '', '' (map (\<lambda>kv. json_quote (fst kv) @ '': '' @ json_show (snd kv)) kvs)
     @ ''}''"

definition json_text :: "json \<Rightarrow> string option" where
  "json_text v = (case v of JNull \<Rightarrow> None | JStr s \<Rightarrow> Some s | _ \<Rightarrow> Some (json_show v))"

definition json_field :: "raw_json \<Rightarrow> string \<Rightarrow> string option" where
  "json_field raw k =
     (case raw of
        Raw (JObj kvs) \<Rightarrow> (case map_of kvs k of None \<Rightarrow> None | Some v \<Rightarrow> json_text v)
      | _ \<Rightarrow> None)"

definition coalesce :: "string option \<Rightarrow> string" where
  "coalesce x = (case x of None \<Rightarrow> [] | Some s \<Rightarrow> s)"

definition provision_op :: "policy \<Rightarrow> string \<Rightarrow> int \<Rightarrow> int \<Rightarrow> string \<Rightarrow> string \<Rightarrow> string \<Rightarrow> op_row" where
  "provision_op p requestID revision now hostID opID token =
     \<lparr>o_id = opID, o_kind = Provision, o_zone_id = g_zone_id (pol_group p),
      o_group_id = Some (g_id (pol_group p)), o_host_id = Some hostID,
      o_capacity_request_id = Some requestID, o_target_revision = revision,
      o_state = OpPending, o_provider_token = token,
      o_parameters = ParamsTemplate
        \<lparr>pt_LaunchParameters = g_launch_parameters (pol_group p),
         pt_Scheduling = g_scheduling (pol_group p),
         pt_TemplateRevision = g_template_revision (pol_group p),
         pt_CapacityClass = g_capacity_class (pol_group p)\<rparr>,
      o_lease_owner = None, o_lease_until = None, o_fence = 0, o_last_error = [],
      o_created_at = now, o_updated_at = now\<rparr>"

definition provision_host :: "policy \<Rightarrow> int \<Rightarrow> string \<Rightarrow> string \<Rightarrow> host_row" where
  "provision_host p now hostID opID =
     \<lparr>h_id = hostID, h_role = Some (g_capacity_class (pol_group p)),
      h_zone = Some (g_zone_id (pol_group p)),
      h_imageid = Some (coalesce (json_field (g_launch_parameters (pol_group p)) ''image_id'')),
      h_state = HostRequested, h_health = Some ''unknown'', h_createdat = Some now,
      h_updatedat = None, h_provider = None, h_providerid = None, h_lastseenheartbeat = None,
      h_endpoint = None, h_port = None, h_dbname = None, h_username = None, h_secretarn = None,
      h_rdssgid = None, h_protected = False, h_subd_endpoint = [], h_kubernetes_provider_id = [],
      h_node_group_id = Some (g_id (pol_group p)),
      h_node_pool_id = Some (g_node_pool_id (pol_group p)),
      h_crane_zone = Some (g_zone_id (pol_group p)), h_operation_id = Some opID,
      h_desired_state_version = g_template_revision (pol_group p), h_observed_state_version = [],
      h_allocatable_vcpu = 0, h_allocatable_memory_mib = 0,
      h_reserved_vcpu = g_vcpu (pol_group p), h_reserved_memory_mib = g_memory_mib (pol_group p),
      h_excess_capacity = False\<rparr>"

definition provision_reservation ::
    "policy \<Rightarrow> string \<Rightarrow> int \<Rightarrow> string \<Rightarrow> string \<Rightarrow> reservation_row" where
  "provision_reservation p requestID now hostID rid =
     \<lparr>r_id = rid, r_group_id = g_id (pol_group p), r_capacity_request_id = requestID,
      r_host_id = hostID, r_vcpu = g_vcpu (pol_group p), r_memory_mib = g_memory_mib (pol_group p),
      r_nodes = 1, r_state = Reserved, r_created_at = now\<rparr>"

definition provisionIntent ::
    "(nat \<Rightarrow> string) \<Rightarrow> int \<Rightarrow> policy \<Rightarrow> string \<Rightarrow> int \<Rightarrow> nat \<Rightarrow> db \<Rightarrow> error + db" where
  "provisionIntent uuid now p requestID revision k db =
     (let hostID = uuid k; opID = uuid (k + 1) in
      rbind (insert_operation (provision_op p requestID revision now hostID opID (uuid (k + 2))) db)
        (\<lambda>db1. rbind (insert_host (provision_host p now hostID opID) db1)
          (\<lambda>db2. insert_reservation (provision_reservation p requestID now hostID (uuid (k + 3))) db2)))"

text \<open>The loop \<open>for i := 0; i < delta; i++\<close>; each round draws four identifiers.\<close>

fun provisionIntents ::
    "(nat \<Rightarrow> string) \<Rightarrow> int \<Rightarrow> policy \<Rightarrow> string \<Rightarrow> int \<Rightarrow> nat \<Rightarrow> nat \<Rightarrow> db \<Rightarrow> error + db" where
  "provisionIntents uuid now p requestID revision k 0 db = Inr db"
| "provisionIntents uuid now p requestID revision k (Suc n) db =
     rbind (provisionIntent uuid now p requestID revision k db)
       (provisionIntents uuid now p requestID revision (k + 4) n)"

section \<open>Cancellation\<close>

definition cancellable :: "db \<Rightarrow> string \<Rightarrow> op_row \<Rightarrow> bool" where
  "cancellable db gid r \<longleftrightarrow> o_group_id r = Some gid \<and> o_kind r = Provision
     \<and> o_state r = OpPending \<and> o_lease_owner r = None
     \<and> host_in db (o_host_id r) {HostRequested, HostProvisioning}"

definition cancel_intents :: "db \<Rightarrow> string \<Rightarrow> nat \<Rightarrow> op_row list" where
  "cancel_intents db gid n =
     order_limit (\<lambda>r. (- o_created_at r, o_id r)) n (filter (cancellable db gid) (operations db))"

definition cancelled_op :: "int \<Rightarrow> op_row \<Rightarrow> op_row" where
  "cancelled_op now r =
     r\<lparr>o_state := OpCancelled, o_fence := o_fence r + 1, o_updated_at := now\<rparr>"

definition terminated_host :: "int \<Rightarrow> host_row \<Rightarrow> host_row" where
  "terminated_host now h =
     h\<lparr>h_state := HostTerminated, h_reserved_vcpu := 0, h_reserved_memory_mib := 0,
       h_updatedat := Some now\<rparr>"

definition cancelIntent :: "int \<Rightarrow> op_row \<Rightarrow> db \<Rightarrow> error + db" where
  "cancelIntent now i db =
     (if list_ex (\<lambda>r. o_id r = o_id i \<and> o_fence r \<ge> max_int64) (operations db)
      then Inl numeric_out_of_range
      else Inr (db\<lparr>
        operations := upd_where (\<lambda>r. o_id r = o_id i) (cancelled_op now) (operations db),
        hosts := upd_where (\<lambda>h. o_host_id i = Some (h_id h)) (terminated_host now) (hosts db),
        infrastructure_reservations := upd_where (\<lambda>r. o_host_id i = Some (r_host_id r))
          (\<lambda>r. r\<lparr>r_state := Released\<rparr>) (infrastructure_reservations db)\<rparr>))"

definition excess_candidate :: "db \<Rightarrow> string \<Rightarrow> host_row \<Rightarrow> bool" where
  "excess_candidate db gid h \<longleftrightarrow> h_node_group_id h = Some gid
     \<and> h_state h \<in> {HostRequested, HostProvisioning, HostBooting} \<and> \<not> h_excess_capacity h
     \<and> list_ex (\<lambda>r. h_operation_id h = Some (o_id r) \<and> o_state r \<noteq> OpCancelled) (operations db)"

text \<open>\<open>ORDER BY createdat DESC\<close> puts null values first.\<close>

definition newest_first :: "host_row \<Rightarrow> int \<times> int \<times> string" where
  "newest_first h = (case h_createdat h of None \<Rightarrow> (0, 0, h_id h) | Some t \<Rightarrow> (1, - t, h_id h))"

definition mark_excess :: "string \<Rightarrow> nat \<Rightarrow> db \<Rightarrow> db" where
  "mark_excess gid n db =
     (let chosen = map h_id (order_limit newest_first n (filter (excess_candidate db gid) (hosts db)))
      in db\<lparr>hosts := upd_where (\<lambda>h. h_id h \<in> set chosen) (\<lambda>h. h\<lparr>h_excess_capacity := True\<rparr>)
                       (hosts db)\<rparr>)"

definition cancelPending :: "int \<Rightarrow> string \<Rightarrow> nat \<Rightarrow> db \<Rightarrow> error + db" where
  "cancelPending now gid n db =
     (let intents = cancel_intents db gid n in
      rbind (rfold (cancelIntent now) intents db)
        (\<lambda>db1. Inr (if n - length intents > 0 then mark_excess gid (n - length intents) db1 else db1)))"

section \<open>Admission\<close>

definition registered_states :: "HostState set" where
  "registered_states = {HostRegistering, HostConverging, HostReady, HostDraining, HostUnhealthy,
     HostTerminating}"

definition registered_count :: "db \<Rightarrow> string \<Rightarrow> int" where
  "registered_count db gid =
     int (cnt (\<lambda>h. h_node_group_id h = Some gid \<and> h_state h \<in> registered_states) (hosts db))"

definition previous_request :: "request_row \<Rightarrow> CapacityRequest" where
  "previous_request q =
     \<lparr>cr_NodeGroupID = q_group_id q, cr_RequestID = q_request_id q, cr_ClusterID = q_cluster_id q,
      cr_ExpectedTargetRevision = q_expected_revision q, cr_DesiredTarget = q_desired_target q,
      cr_TemplateRevision = q_template_revision q\<rparr>"

definition find_request :: "db \<Rightarrow> string \<Rightarrow> string \<Rightarrow> request_row option" where
  "find_request db gid rid =
     find (\<lambda>q. q_group_id q = gid \<and> q_request_id q = rid) (capacity_requests db)"

definition request_row_of :: "CapacityRequest \<Rightarrow> string \<Rightarrow> int \<Rightarrow> int \<Rightarrow> request_row" where
  "request_row_of req rid revision now =
     \<lparr>q_id = rid, q_group_id = cr_NodeGroupID req, q_request_id = cr_RequestID req,
      q_cluster_id = cr_ClusterID req, q_expected_revision = cr_ExpectedTargetRevision req,
      q_desired_target = cr_DesiredTarget req, q_template_revision = cr_TemplateRevision req,
      q_result_revision = revision, q_created_at = now\<rparr>"

definition target_result :: "CapacityRequest \<Rightarrow> int \<Rightarrow> CapacityResult" where
  "target_result req revision =
     \<lparr>cs_RequestID = cr_RequestID req, cs_NodeGroupID = cr_NodeGroupID req,
      cs_TargetNodes = cr_DesiredTarget req, cs_TargetRevision = revision\<rparr>"

text \<open>The checks of a request that is not a replay, up to the first write.\<close>

definition admit_target :: "CapacityRequest \<Rightarrow> policy \<Rightarrow> db \<Rightarrow> error + unit" where
  "admit_target req p db =
     (let g = pol_group p in
      if \<not> pol_enabled p then Inl ErrInactive
      else if g_template_revision g \<noteq> cr_TemplateRevision req then Inl ErrTemplate
      else if g_target_revision g \<noteq> cr_ExpectedTargetRevision req then Inl ErrConflict
      else if cr_DesiredTarget req < g_min_nodes g \<or> cr_DesiredTarget req > g_max_nodes g
           \<or> g_target_revision g = max_int64 then Inl ErrLimit
      else case find (\<lambda>r. p_id r = g_node_pool_id g) (node_pools db) of
          None \<Rightarrow> Inl ErrNoRows
        | Some pool \<Rightarrow>
            (let delta = i64 (cr_DesiredTarget req - g_target_nodes g) in
             if delta > 0 then checkReservations db (p\<lparr>pol_limit := pool_limits pool\<rparr>) delta
             else if delta < 0 \<and> cr_DesiredTarget req < registered_count db (cr_NodeGroupID req)
             then Inl ErrFulfilled
             else Inr ()))"

text \<open>The writes: the request, the new target, then intents or cancellations.\<close>

definition apply_target ::
    "(nat \<Rightarrow> string) \<Rightarrow> int \<Rightarrow> CapacityRequest \<Rightarrow> policy \<Rightarrow> db \<Rightarrow> error + db" where
  "apply_target uuid now req p db =
     (let g = pol_group p;
          requestID = uuid 0;
          revision = i64 (g_target_revision g + 1);
          delta = i64 (cr_DesiredTarget req - g_target_nodes g) in
      rbind (insert_request (request_row_of req requestID revision now) db)
        (\<lambda>db1. rbind (update_groups (\<lambda>r. g_id r = cr_NodeGroupID req)
             (\<lambda>r. r\<lparr>g_target_nodes := cr_DesiredTarget req, g_target_revision := revision\<rparr>) db1)
          (\<lambda>db2. rbind (provisionIntents uuid now p requestID revision 1 (nat delta) db2)
            (\<lambda>db3. if delta < 0 then cancelPending now (cr_NodeGroupID req) (nat (- delta)) db3
                   else Inr db3))))"

definition SetTarget ::
    "(nat \<Rightarrow> string) \<Rightarrow> int \<Rightarrow> CapacityRequest \<Rightarrow> db \<Rightarrow> error + CapacityResult \<times> db" where
  "SetTarget uuid now req db =
     (if cr_NodeGroupID req = [] \<or> cr_RequestID req = [] \<or> cr_ClusterID req = []
         \<or> cr_TemplateRevision req = [] \<or> cr_DesiredTarget req < 0
         \<or> cr_ExpectedTargetRevision req < 0
      then Inl ErrInvalid
      else rbind (loadPolicy db (cr_NodeGroupID req)) (\<lambda>p.
        if g_cluster_id (pol_group p) \<noteq> cr_ClusterID req then Inl ErrForbidden
        else case find_request db (cr_NodeGroupID req) (cr_RequestID req) of
            Some q \<Rightarrow>
              if previous_request q \<noteq> req then Inl ErrReplayMismatch
              else Inr (target_result req (q_result_revision q), db)
          | None \<Rightarrow>
              rbind (admit_target req p db) (\<lambda>_.
                rbind (apply_target uuid now req p db) (\<lambda>db'.
                  Inr (target_result req (i64 (g_target_revision (pol_group p) + 1)), db')))))"

definition Target :: "db \<Rightarrow> string \<Rightarrow> string \<Rightarrow> error + CapacityResult" where
  "Target db clusterID groupID =
     (case find (\<lambda>g. g_id g = groupID \<and> g_cluster_id g = clusterID) (node_groups db) of
        None \<Rightarrow> Inl ErrNoRows
      | Some g \<Rightarrow> Inr \<lparr>cs_RequestID = [], cs_NodeGroupID = groupID,
                       cs_TargetNodes = g_target_nodes g, cs_TargetRevision = g_target_revision g\<rparr>)"

text \<open>Bounds of the 64-bit columns of a group.\<close>

definition group_ok :: "group_row \<Rightarrow> bool" where
  "group_ok g \<longleftrightarrow> group_check g \<and> g_max_nodes g \<le> max_int64 \<and> g_target_revision g \<le> max_int64
     \<and> g_vcpu g \<le> max_int64 \<and> g_memory_mib g \<le> max_int64"

section \<open>Rows an admission creates\<close>

text \<open>The rows of \<open>n\<close> rounds of the intent loop, the first one drawing identifier \<open>k\<close>.\<close>

definition intent_ops :: "(nat \<Rightarrow> string) \<Rightarrow> int \<Rightarrow> policy \<Rightarrow> string \<Rightarrow> int \<Rightarrow> nat \<Rightarrow> nat \<Rightarrow> op_row list"
  where
  "intent_ops uuid now p requestID revision k n =
     map (\<lambda>i. provision_op p requestID revision now (uuid (k + 4 * i)) (uuid (k + 4 * i + 1))
                (uuid (k + 4 * i + 2))) [0..<n]"

definition intent_hosts :: "(nat \<Rightarrow> string) \<Rightarrow> int \<Rightarrow> policy \<Rightarrow> nat \<Rightarrow> nat \<Rightarrow> host_row list" where
  "intent_hosts uuid now p k n =
     map (\<lambda>i. provision_host p now (uuid (k + 4 * i)) (uuid (k + 4 * i + 1))) [0..<n]"

definition intent_reservations ::
    "(nat \<Rightarrow> string) \<Rightarrow> int \<Rightarrow> policy \<Rightarrow> string \<Rightarrow> nat \<Rightarrow> nat \<Rightarrow> reservation_row list" where
  "intent_reservations uuid now p requestID k n =
     map (\<lambda>i. provision_reservation p requestID now (uuid (k + 4 * i)) (uuid (k + 4 * i + 3))) [0..<n]"

section \<open>Lemmas\<close>

lemma loadPolicy_Inr:
  assumes "loadPolicy db gid = Inr p"
  obtains pool z c m where "pol_group p \<in> set (node_groups db)" "g_id (pol_group p) = gid"
    "pool \<in> set (node_pools db)" "p_id pool = g_node_pool_id (pol_group p)"
    "pol_limit p = pool_limits pool"
    "z \<in> set (zones db)" "z_id z = g_zone_id (pol_group p)"
    "c \<in> set (clusters db)" "c_id c = g_cluster_id (pol_group p)"
    "m \<in> set (cluster_zones db)" "m_cluster_id m = g_cluster_id (pol_group p)"
    "m_zone_id m = g_zone_id (pol_group p)"
    "pol_enabled p \<longleftrightarrow> g_lifecycle_state (pol_group p) = ''active'' \<and> p_enabled pool \<and> z_enabled z
       \<and> z_lifecycle_state z = ''ready'' \<and> c_lifecycle_state c = ''ready''
       \<and> m_lifecycle_state m = ''ready'' \<and> m_access_state m = ''approved''"
proof -
  let ?L = "[\<lparr>pol_group = g, pol_limit = pool_limits p,
             pol_enabled = (g_lifecycle_state g = ''active'' \<and> p_enabled p \<and> z_enabled z
                \<and> z_lifecycle_state z = ''ready'' \<and> c_lifecycle_state c = ''ready''
                \<and> m_lifecycle_state m = ''ready'' \<and> m_access_state m = ''approved'')\<rparr>.
            g \<leftarrow> node_groups db, g_id g = gid,
            p \<leftarrow> node_pools db, p_id p = g_node_pool_id g,
            z \<leftarrow> zones db, z_id z = g_zone_id g,
            c \<leftarrow> clusters db, c_id c = g_cluster_id g,
            m \<leftarrow> cluster_zones db, m_cluster_id m = g_cluster_id g \<and> m_zone_id m = g_zone_id g]"
  have "p \<in> set ?L"
    using assms unfolding loadPolicy_def by (cases ?L) auto
  then show thesis by (auto intro: that)
qed

lemma provisionIntent_Inr:
  assumes "provisionIntent uuid now p requestID revision k db = Inr db'"
  shows "db' = db\<lparr>
     operations := operations db @
       [provision_op p requestID revision now (uuid k) (uuid (k + 1)) (uuid (k + 2))],
     hosts := hosts db @ [provision_host p now (uuid k) (uuid (k + 1))],
     infrastructure_reservations := infrastructure_reservations db @
       [provision_reservation p requestID now (uuid k) (uuid (k + 3))]\<rparr>"
  using assms
  by (auto simp: provisionIntent_def Let_def result_simps insert_operation_Inr insert_host_Inr
      insert_reservation_Inr)

lemma intent_Suc:
  "intent_ops uuid now p r v k (Suc n) =
     provision_op p r v now (uuid k) (uuid (k + 1)) (uuid (k + 2))
     # intent_ops uuid now p r v (k + 4) n"
  "intent_hosts uuid now p k (Suc n) =
     provision_host p now (uuid k) (uuid (k + 1)) # intent_hosts uuid now p (k + 4) n"
  "intent_reservations uuid now p r k (Suc n) =
     provision_reservation p r now (uuid k) (uuid (k + 3)) # intent_reservations uuid now p r (k + 4) n"
  by (simp_all add: intent_ops_def intent_hosts_def intent_reservations_def upt_conv_Cons
      map_Suc_upt [symmetric] comp_def algebra_simps del: upt_Suc)

lemma provisionIntents_Inr:
  "provisionIntents uuid now p requestID revision k n db = Inr db' \<Longrightarrow>
   db' = db\<lparr>
     operations := operations db @ intent_ops uuid now p requestID revision k n,
     hosts := hosts db @ intent_hosts uuid now p k n,
     infrastructure_reservations :=
       infrastructure_reservations db @ intent_reservations uuid now p requestID k n\<rparr>"
proof (induction n arbitrary: k db)
  case 0
  then show ?case by (simp add: intent_ops_def intent_hosts_def intent_reservations_def)
next
  case (Suc n)
  then obtain db1 where
    1: "provisionIntent uuid now p requestID revision k db = Inr db1" and
    2: "provisionIntents uuid now p requestID revision (k + 4) n db1 = Inr db'"
    by (auto simp: result_simps)
  show ?case using Suc.IH [OF 2] provisionIntent_Inr [OF 1] by (simp add: intent_Suc)
qed

lemma cancelIntents_Inr:
  assumes "rfold (cancelIntent now) is db = Inr db'" and "distinct (map o_id is)"
  shows "db' = db\<lparr>
     operations := upd_where (\<lambda>r. o_id r \<in> o_id ` set is) (cancelled_op now) (operations db),
     hosts := upd_where (\<lambda>h. Some (h_id h) \<in> o_host_id ` set is) (terminated_host now) (hosts db),
     infrastructure_reservations := upd_where (\<lambda>r. Some (r_host_id r) \<in> o_host_id ` set is)
       (\<lambda>r. r\<lparr>r_state := Released\<rparr>) (infrastructure_reservations db)\<rparr>"
  using assms
proof (induction "is" arbitrary: db)
  case Nil
  then show ?case by (simp add: upd_where_none)
next
  case (Cons i js)
  then obtain db1 where 1: "cancelIntent now i db = Inr db1"
    and 2: "rfold (cancelIntent now) js db1 = Inr db'" and d: "distinct (map o_id js)"
    and fresh: "o_id i \<notin> o_id ` set js"
    by (auto simp: result_simps)
  have db1: "db1 = db\<lparr>
        operations := upd_where (\<lambda>r. o_id r = o_id i) (cancelled_op now) (operations db),
        hosts := upd_where (\<lambda>h. o_host_id i = Some (h_id h)) (terminated_host now) (hosts db),
        infrastructure_reservations := upd_where (\<lambda>r. o_host_id i = Some (r_host_id r))
          (\<lambda>r. r\<lparr>r_state := Released\<rparr>) (infrastructure_reservations db)\<rparr>"
    using 1 by (auto simp: cancelIntent_def split: if_splits)
  have "upd_where (\<lambda>r. o_id r \<in> o_id ` set js) (cancelled_op now) (operations db1)
      = upd_where (\<lambda>r. o_id r \<in> o_id ` set (i # js)) (cancelled_op now) (operations db)"
    using fresh unfolding db1
    by (simp, subst upd_where_upd_where) (auto simp: cancelled_op_def intro!: upd_where_cong)
  moreover have "upd_where (\<lambda>h. Some (h_id h) \<in> o_host_id ` set js) (terminated_host now) (hosts db1)
      = upd_where (\<lambda>h. Some (h_id h) \<in> o_host_id ` set (i # js)) (terminated_host now) (hosts db)"
    unfolding db1
    by (simp, subst upd_where_upd_where) (auto simp: terminated_host_def intro!: upd_where_cong)
  moreover have "upd_where (\<lambda>r. Some (r_host_id r) \<in> o_host_id ` set js)
       (\<lambda>r. r\<lparr>r_state := Released\<rparr>) (infrastructure_reservations db1)
      = upd_where (\<lambda>r. Some (r_host_id r) \<in> o_host_id ` set (i # js))
       (\<lambda>r. r\<lparr>r_state := Released\<rparr>) (infrastructure_reservations db)"
    unfolding db1 by (simp, subst upd_where_upd_where) (auto intro!: upd_where_cong)
  ultimately show ?case using Cons.IH [OF 2 d] db1 by simp
qed

lemma mark_excess_ev: "store_ev db (mark_excess gid n db)"
  by (auto simp: mark_excess_def Let_def host_ev_def intro!: store_ev_hosts host_evo.update)

lemma mark_excess_keys: "keys_ok db \<Longrightarrow> keys_ok (mark_excess gid n db)"
  by (simp add: mark_excess_def Let_def keys_ok_def map_upd_where)

lemma distinct_cancel_intents:
  "keys_ok db \<Longrightarrow> distinct (map o_id (cancel_intents db gid n))"
  unfolding cancel_intents_def keys_ok_def by (intro distinct_order_limit) (simp add: distinct_map_filter)

lemma cancel_intents_sub:
  "i \<in> set (cancel_intents db gid n) \<Longrightarrow> i \<in> set (operations db) \<and> cancellable db gid i"
  using set_order_limit unfolding cancel_intents_def by fastforce

lemma cancelPending_Inr:
  assumes "cancelPending now gid n db = Inr db'" and "keys_ok db"
  obtains db1 where "rfold (cancelIntent now) (cancel_intents db gid n) db = Inr db1"
    "db' = (if n - length (cancel_intents db gid n) > 0
            then mark_excess gid (n - length (cancel_intents db gid n)) db1 else db1)"
  using assms by (auto simp: cancelPending_def Let_def result_simps)

lemma cancelIntents_ev:
  assumes "rfold (cancelIntent now) (cancel_intents db gid n) db = Inr db1" and keys: "keys_ok db"
  shows "store_ev db db1 \<and> keys_ok db1"
proof -
  let ?is = "cancel_intents db gid n"
  note db1 = cancelIntents_Inr [OF assms(1) distinct_cancel_intents [OF keys]]
  have op: "op_ev r (cancelled_op now r)"
    if "r \<in> set (operations db)" "o_id r \<in> o_id ` set ?is" for r
  proof -
    from that obtain i where i: "i \<in> set ?is" "o_id r = o_id i" by auto
    then have "r = i" using that(1) cancel_intents_sub keys unique_key [of o_id "operations db" r i]
      by (auto simp: keys_ok_def)
    then show ?thesis using i cancel_intents_sub
      by (fastforce simp: op_ev_def cancelled_op_def op_intent_def op_terminal_def cancellable_def)
  qed
  have host: "host_ev h (terminated_host now h)"
    if "h \<in> set (hosts db)" "Some (h_id h) \<in> o_host_id ` set ?is" for h
  proof -
    from that obtain i where i: "i \<in> set ?is" "o_host_id i = Some (h_id h)" by auto
    then have "host_in db (Some (h_id h)) {HostRequested, HostProvisioning}"
      using cancel_intents_sub by (fastforce simp: cancellable_def)
    then obtain h' where h': "h' \<in> set (hosts db)" "h_id h' = h_id h"
      "h_state h' \<in> {HostRequested, HostProvisioning}"
      by (auto simp: host_in_def list_ex_iff)
    then have "h' = h" using that(1) keys unique_key [of h_id "hosts db" h' h]
      by (auto simp: keys_ok_def)
    then show ?thesis using h' by (auto simp: host_ev_def terminated_host_def lifecycle_le_def)
  qed
  have "store_ev db db1"
    unfolding db1 store_ev_def using op host
    by (auto simp: table_same reservation_ev_def intro!: op_evo.update host_evo.update
        reservation_evo.update) (case_tac "r_state r"; simp)
  moreover have "keys_ok db1"
    using keys unfolding db1
    by (simp add: keys_ok_def map_upd_where cancelled_op_def terminated_host_def)
  ultimately show ?thesis by simp
qed

lemma cancelPending_ev:
  assumes "cancelPending now gid n db = Inr db'" and "keys_ok db"
  shows "store_ev db db' \<and> keys_ok db'"
proof -
  obtain db1 where "rfold (cancelIntent now) (cancel_intents db gid n) db = Inr db1"
    and db': "db' = (if n - length (cancel_intents db gid n) > 0
            then mark_excess gid (n - length (cancel_intents db gid n)) db1 else db1)"
    using cancelPending_Inr [OF assms] by blast
  from cancelIntents_ev [OF this(1) assms(2)] have "store_ev db db1" "keys_ok db1" by auto
  then show ?thesis unfolding db' using mark_excess_ev mark_excess_keys store_ev_trans by auto
qed

lemma provisionIntent_ev:
  assumes "provisionIntent uuid now p requestID revision k db = Inr db'" and "keys_ok db"
  shows "store_ev db db' \<and> keys_ok db'"
proof -
  from assms(1) obtain a b where
    "insert_operation (provision_op p requestID revision now (uuid k) (uuid (k + 1)) (uuid (k + 2))) db
       = Inr a"
    "insert_host (provision_host p now (uuid k) (uuid (k + 1))) a = Inr b"
    "insert_reservation (provision_reservation p requestID now (uuid k) (uuid (k + 3))) b = Inr db'"
    by (auto simp: provisionIntent_def Let_def result_simps)
  with assms(2) show ?thesis
    by (meson insert_operation_ev insert_host_ev insert_reservation_ev insert_operation_keys
        insert_host_keys insert_reservation_keys store_ev_trans)
qed

lemma provisionIntents_ev:
  "provisionIntents uuid now p requestID revision k n db = Inr db' \<Longrightarrow> keys_ok db \<Longrightarrow>
   store_ev db db' \<and> keys_ok db'"
proof (induction n arbitrary: k db)
  case (Suc n)
  then obtain db1 where "provisionIntent uuid now p requestID revision k db = Inr db1"
    and 2: "provisionIntents uuid now p requestID revision (k + 4) n db1 = Inr db'"
    by (auto simp: result_simps)
  then have "store_ev db db1" "keys_ok db1" using provisionIntent_ev Suc.prems(2) by blast+
  then show ?case using Suc.IH [OF 2] store_ev_trans by blast
qed simp

lemma update_groups_Inr:
  "update_groups w f db = Inr db' \<longleftrightarrow>
     db' = db\<lparr>node_groups := upd_where w f (node_groups db)\<rparr>
     \<and> (\<forall>g\<in>set (node_groups db). w g \<longrightarrow> group_check (f g))"
  by (auto simp: update_groups_def list_all_iff)

lemma update_groups_ev:
  assumes "update_groups w f db = Inr db'"
    and "\<And>g. g \<in> set (node_groups db) \<Longrightarrow> w g \<Longrightarrow> group_ev g (f g)"
    and "keys_ok db"
  shows "store_ev db db' \<and> keys_ok db'"
proof -
  have "map g_id (upd_where w f (node_groups db)) = map g_id (node_groups db)"
    using assms(2) by (intro map_upd_where) (auto simp: group_ev_def)
  with assms show ?thesis
    by (auto simp: update_groups_Inr keys_ok_def intro!: store_ev_groups group_evo.update)
qed

lemma SetTarget_cases:
  assumes "SetTarget uuid now req db = Inr (res, db')"
  obtains
    (replay) q where "find_request db (cr_NodeGroupID req) (cr_RequestID req) = Some q"
      "previous_request q = req" "res = target_result req (q_result_revision q)" "db' = db"
  | (fresh) p where "loadPolicy db (cr_NodeGroupID req) = Inr p"
      "g_cluster_id (pol_group p) = cr_ClusterID req"
      "find_request db (cr_NodeGroupID req) (cr_RequestID req) = None"
      "admit_target req p db = Inr ()" "apply_target uuid now req p db = Inr db'"
      "res = target_result req (i64 (g_target_revision (pol_group p) + 1))"
  using assms unfolding SetTarget_def
  by (auto simp: result_simps split: option.splits if_splits)

lemma admit_target_Inr:
  assumes "admit_target req p db = Inr ()"
  obtains pool where "pol_enabled p"
    "g_template_revision (pol_group p) = cr_TemplateRevision req"
    "g_target_revision (pol_group p) = cr_ExpectedTargetRevision req"
    "g_min_nodes (pol_group p) \<le> cr_DesiredTarget req"
    "cr_DesiredTarget req \<le> g_max_nodes (pol_group p)"
    "g_target_revision (pol_group p) \<noteq> max_int64"
    "find (\<lambda>r. p_id r = g_node_pool_id (pol_group p)) (node_pools db) = Some pool"
    "i64 (cr_DesiredTarget req - g_target_nodes (pol_group p)) > 0 \<Longrightarrow>
       checkReservations db (p\<lparr>pol_limit := pool_limits pool\<rparr>)
         (i64 (cr_DesiredTarget req - g_target_nodes (pol_group p))) = Inr ()"
    "i64 (cr_DesiredTarget req - g_target_nodes (pol_group p)) < 0 \<Longrightarrow>
       registered_count db (cr_NodeGroupID req) \<le> cr_DesiredTarget req"
  using assms unfolding admit_target_def Let_def
  by (auto simp: result_simps split: option.splits if_splits)

lemma apply_target_Inr:
  assumes "apply_target uuid now req p db = Inr db'"
  obtains db1 db2 db3 where
    "insert_request (request_row_of req (uuid 0) (i64 (g_target_revision (pol_group p) + 1)) now) db
       = Inr db1"
    "update_groups (\<lambda>r. g_id r = cr_NodeGroupID req)
       (\<lambda>r. r\<lparr>g_target_nodes := cr_DesiredTarget req,
              g_target_revision := i64 (g_target_revision (pol_group p) + 1)\<rparr>) db1 = Inr db2"
    "provisionIntents uuid now p (uuid 0) (i64 (g_target_revision (pol_group p) + 1)) 1
       (nat (i64 (cr_DesiredTarget req - g_target_nodes (pol_group p)))) db2 = Inr db3"
    "(if i64 (cr_DesiredTarget req - g_target_nodes (pol_group p)) < 0
      then cancelPending now (cr_NodeGroupID req)
             (nat (- i64 (cr_DesiredTarget req - g_target_nodes (pol_group p)))) db3
      else Inr db3) = Inr db'"
  using assms unfolding apply_target_def Let_def by (auto simp: result_simps simp del: if_Inr_iff)

lemma revision_step: "group_ok g \<Longrightarrow> g_target_revision g \<noteq> max_int64
  \<Longrightarrow> i64 (g_target_revision g + 1) = g_target_revision g + 1"
  by (rule i64_id) (auto simp: group_ok_def group_check_def in_i64_def max_int64_def)

lemma target_delta: "group_ok g \<Longrightarrow> g_min_nodes g \<le> t \<Longrightarrow> t \<le> g_max_nodes g
  \<Longrightarrow> i64 (t - g_target_nodes g) = t - g_target_nodes g"
  by (rule i64_id) (auto simp: group_ok_def group_check_def in_i64_def max_int64_def)

lemma apply_target_ev:
  assumes "apply_target uuid now req p db = Inr db'" and "loadPolicy db (cr_NodeGroupID req) = Inr p"
    and "admit_target req p db = Inr ()" and keys: "keys_ok db" and ok: "\<forall>g\<in>set (node_groups db). group_ok g"
  shows "store_ev db db' \<and> keys_ok db'"
proof -
  from assms(2) have g: "pol_group p \<in> set (node_groups db)" "g_id (pol_group p) = cr_NodeGroupID req"
    by (auto elim: loadPolicy_Inr)
  then have rev: "i64 (g_target_revision (pol_group p) + 1) = g_target_revision (pol_group p) + 1"
    using assms(3) ok revision_step by (auto elim: admit_target_Inr)
  have row: "g = pol_group p" if "g \<in> set (node_groups db)" "g_id g = cr_NodeGroupID req" for g
    using that g keys unique_key [of g_id "node_groups db"] by (auto simp: keys_ok_def)
  from assms(1) show ?thesis
  proof (cases rule: apply_target_Inr)
    case (1 db1 db2 db3)
    from 1(1) keys have k1: "store_ev db db1" "keys_ok db1"
      by (auto intro: insert_request_ev insert_request_keys)
    have g1: "node_groups db1 = node_groups db" using 1(1) by (auto simp: insert_request_Inr)
    have "store_ev db1 db2 \<and> keys_ok db2"
      by (rule update_groups_ev [OF 1(2) _ k1(2)]) (auto simp: g1 group_ev_def rev dest!: row)
    then have k2: "store_ev db1 db2" "keys_ok db2" by auto
    then have k3: "store_ev db2 db3" "keys_ok db3" using provisionIntents_ev [OF 1(3)] by auto
    then have "store_ev db3 db' \<and> keys_ok db'"
      using 1(4) cancelPending_ev by (auto split: if_splits)
    then show ?thesis using k1 k2 k3 store_ev_trans by blast
  qed
qed

lemma SetTarget_ev:
  assumes "SetTarget uuid now req db = Inr (res, db')" and "keys_ok db"
    and "\<forall>g\<in>set (node_groups db). group_ok g"
  shows "store_ev db db' \<and> keys_ok db'"
  using assms(1)
proof (cases rule: SetTarget_cases)
  case replay
  then show ?thesis using assms by simp
next
  case fresh
  then show ?thesis using assms apply_target_ev by blast
qed

lemma cancelPending_same:
  assumes "cancelPending now gid n db = Inr db'"
  shows "zone_bootstrap_operations db' = zone_bootstrap_operations db
    \<and> capacity_requests db' = capacity_requests db \<and> node_groups db' = node_groups db"
    (is "?same db'")
proof -
  obtain db1 xs where 1: "rfold (cancelIntent now) xs db = Inr db1"
    "zone_bootstrap_operations db' = zone_bootstrap_operations db1"
    "capacity_requests db' = capacity_requests db1" "node_groups db' = node_groups db1"
    using assms by (auto simp: cancelPending_def Let_def result_simps mark_excess_def split: if_splits)
  have "?same db1"
    by (rule rfold_inv [OF 1(1)]) (auto simp: cancelIntent_def split: if_splits)
  then show ?thesis using 1 by simp
qed

lemma apply_target_rows:
  assumes "apply_target uuid now req p db = Inr db'"
  shows "zone_bootstrap_operations db' = zone_bootstrap_operations db
    \<and> capacity_requests db' = capacity_requests db @
       [request_row_of req (uuid 0) (i64 (g_target_revision (pol_group p) + 1)) now]
    \<and> node_groups db' = upd_where (\<lambda>r. g_id r = cr_NodeGroupID req)
       (\<lambda>r. r\<lparr>g_target_nodes := cr_DesiredTarget req,
              g_target_revision := i64 (g_target_revision (pol_group p) + 1)\<rparr>) (node_groups db)"
  using assms
proof (cases rule: apply_target_Inr)
  case (1 db1 db2 db3)
  have "zone_bootstrap_operations db' = zone_bootstrap_operations db3
      \<and> capacity_requests db' = capacity_requests db3 \<and> node_groups db' = node_groups db3"
    using 1(4) cancelPending_same by (auto split: if_splits)
  then show ?thesis
    using 1(1-3) by (auto simp: insert_request_Inr update_groups_Inr dest!: provisionIntents_Inr)
qed

lemma cancelPending_spares:
  assumes "cancelPending now gid n db = Inr db'" "distinct (map o_id (operations db))" "r \<in> set (operations db)"
    "o_lease_owner r \<noteq> None \<or> o_state r \<noteq> OpPending"
  shows "r \<in> set (operations db')"
proof -
  let ?L = "cancel_intents db gid n"
  obtain db1 where db1: "rfold (cancelIntent now) ?L db = Inr db1" "operations db' = operations db1"
    using assms(1) by (auto simp: cancelPending_def Let_def result_simps mark_excess_def split: if_splits)
  have "distinct (map o_id ?L)" using assms(2) unfolding cancel_intents_def
    by (intro distinct_order_limit) (simp add: distinct_map_filter)
  from cancelIntents_Inr [OF db1(1) this]
  have ops: "operations db1 = upd_where (\<lambda>r. o_id r \<in> o_id ` set ?L) (cancelled_op now) (operations db)" by simp
  have "o_id r \<notin> o_id ` set ?L"
  proof
    assume "o_id r \<in> o_id ` set ?L"
    then obtain i where i: "i \<in> set ?L" "o_id r = o_id i" by auto
    then have "i = r" using cancel_intents_sub [OF i(1)] assms(2,3) unique_key [of o_id "operations db" i r] by auto
    then show False using cancel_intents_sub [OF i(1)] assms(4) by (auto simp: cancellable_def)
  qed
  then show ?thesis unfolding db1(2) ops set_upd_where by (intro image_eqI [of _ _ r] assms(3)) simp
qed

end
