(* ===== verification/CapacityLease.thy ===== *)
theory CapacityLease
  imports CapacityTarget
begin

text \<open>
  Durable leases, \<open>src/internal/capacity/store.go\<close> and \<open>provision_lease.go\<close>: claiming an
  operation under a fresh fence, renewing, marking the provider launch boundary, and the fenced
  lifecycle writes of a provisioning operation.  The operation a controller holds is an
  \<^typ>\<open>Operation\<close> value; every write compares its owner and fence with the stored row.
\<close>

text \<open>The columns a claim returns; the catalogue fields of the Go struct stay zero.\<close>

definition op_of_row :: "op_row \<Rightarrow> Operation" where
  "op_of_row r =
     \<lparr>op_ID = o_id r, op_Kind = o_kind r, op_ZoneID = o_zone_id r,
      op_NodeGroupID = coalesce (o_group_id r), op_NodePoolID = [],
      op_HostID = coalesce (o_host_id r),
      op_CapacityRequestID = coalesce (o_capacity_request_id r),
      op_ClusterID = [], op_APIServerEndpoint = [], op_CACertHash = [], op_Provider = [],
      op_AccountID = [], op_Region = [], op_ProviderZoneID = [], op_KubernetesRegion = [],
      op_KubernetesZone = [], op_CapacityClass = [], op_TemplateRevision = [],
      op_LaunchParameters = RawNone, op_Scheduling = zero_scheduling, op_SpireInstanceID = [],
      op_TargetRevision = o_target_revision r, op_State = o_state r,
      op_ProviderToken = o_provider_token r, op_Parameters = o_parameters r,
      op_LeaseOwner = coalesce (o_lease_owner r),
      op_LeaseUntil = (case o_lease_until r of None \<Rightarrow> 0 | Some t \<Rightarrow> t),
      op_Fence = o_fence r, op_LastError = o_last_error r, op_CreatedAt = o_created_at r,
      op_UpdatedAt = o_updated_at r\<rparr>"

section \<open>Claims\<close>

text \<open>\<open>time.Duration\<close> counts nanoseconds.\<close>

definition valid_lease_duration :: "int \<Rightarrow> bool" where
  "valid_lease_duration d \<longleftrightarrow> 1000000 \<le> d \<and> d \<le> 24 * 3600 * 1000000000"

definition lease_end :: "int \<Rightarrow> int \<Rightarrow> int" where
  "lease_end now d = now + (d div 1000000) * 1000"

definition launched_states :: "HostState set" where
  "launched_states = {HostBooting, HostRegistering, HostConverging}"

definition claimable :: "db \<Rightarrow> int \<Rightarrow> string \<Rightarrow> op_kind \<Rightarrow> string \<Rightarrow> bool \<Rightarrow> op_row \<Rightarrow> bool" where
  "claimable db now zone kind owner authorize r \<longleftrightarrow> o_zone_id r = zone \<and> o_kind r = kind
     \<and> (o_state r = OpPending
        \<or> (o_state r \<in> {OpLeased, OpLaunching}
           \<and> (case o_lease_until r of None \<Rightarrow> True | Some t \<Rightarrow> t \<le> now)))
     \<and> (\<not> authorize \<or> dominator_authorized db r owner)"

definition claimed_row :: "db \<Rightarrow> int \<Rightarrow> string \<Rightarrow> int \<Rightarrow> op_row \<Rightarrow> op_row" where
  "claimed_row db now owner d r =
     r\<lparr>o_state := (if o_kind r = Provision \<and> host_in db (o_host_id r) launched_states
                   then OpLaunching else OpLeased),
       o_lease_owner := Some owner, o_lease_until := Some (lease_end now d),
       o_fence := o_fence r + 1, o_updated_at := now\<rparr>"

definition claim ::
    "int \<Rightarrow> string \<Rightarrow> op_kind \<Rightarrow> string \<Rightarrow> int \<Rightarrow> bool \<Rightarrow> db \<Rightarrow> error + Operation \<times> db" where
  "claim now zone kind owner d authorize db =
     (if zone = [] \<or> owner = [] \<or> \<not> valid_lease_duration d
      then Inl (ErrMsg ''invalid operation lease'')
      else case order_limit (\<lambda>r. (o_created_at r, o_id r)) 1
                  (filter (claimable db now zone kind owner authorize) (operations db)) of
          [] \<Rightarrow> Inl ErrNoRows
        | r # _ \<Rightarrow>
            if o_fence r \<ge> max_int64 then Inl numeric_out_of_range
            else Inr (op_of_row (claimed_row db now owner d r),
                   db\<lparr>operations := upd_where (\<lambda>x. o_id x = o_id r) (claimed_row db now owner d)
                        (operations db)\<rparr>))"

definition Claim :: "int \<Rightarrow> string \<Rightarrow> op_kind \<Rightarrow> string \<Rightarrow> int \<Rightarrow> db \<Rightarrow> error + Operation \<times> db" where
  "Claim now zone kind owner d db =
     (if kind \<noteq> CreateCluster then Inl ErrForbidden else claim now zone kind owner d False db)"

definition ClaimDominator ::
    "int \<Rightarrow> string \<Rightarrow> op_kind \<Rightarrow> string \<Rightarrow> int \<Rightarrow> db \<Rightarrow> error + Operation \<times> db" where
  "ClaimDominator now zone kind identity d db =
     (if kind \<noteq> Provision \<and> kind \<noteq> RemoveNode then Inl ErrForbidden
      else claim now zone kind identity d True db)"

section \<open>Fenced updates\<close>

text \<open>\<open>fencedResult\<close>: the statement must have changed exactly one row.\<close>

definition fencedResult :: "nat \<Rightarrow> error + unit" where
  "fencedResult n = (if n \<noteq> 1 then Inl ErrFenced else Inr ())"

definition affectedExactlyOne :: "nat \<Rightarrow> error + unit" where
  "affectedExactlyOne n = (if n \<noteq> 1 then Inl ErrConflict else Inr ())"

definition fenced_ops :: "(op_row \<Rightarrow> bool) \<Rightarrow> (op_row \<Rightarrow> op_row) \<Rightarrow> db \<Rightarrow> error + db" where
  "fenced_ops w f db =
     rbind (fencedResult (cnt w (operations db)))
       (\<lambda>_. Inr (db\<lparr>operations := upd_where w f (operations db)\<rparr>))"

text \<open>\<open>UPDATE host .. FROM operations\<close>: the hosts with a matching operation row.\<close>

definition fenced_hosts ::
    "(op_row \<Rightarrow> host_row \<Rightarrow> bool) \<Rightarrow> (host_row \<Rightarrow> host_row) \<Rightarrow> db \<Rightarrow> error + db" where
  "fenced_hosts w f db =
     (let hit = (\<lambda>h. list_ex (\<lambda>r. w r h) (operations db)) in
      rbind (fencedResult (cnt hit (hosts db)))
        (\<lambda>_. Inr (db\<lparr>hosts := upd_where hit f (hosts db)\<rparr>)))"

definition held :: "int \<Rightarrow> Operation \<Rightarrow> op_row \<Rightarrow> bool" where
  "held now op r \<longleftrightarrow> lease_live now op r \<and> o_state r \<in> {OpLeased, OpLaunching}"

definition launching :: "int \<Rightarrow> Operation \<Rightarrow> op_row \<Rightarrow> bool" where
  "launching now op r \<longleftrightarrow> lease_live now op r \<and> o_state r = OpLaunching \<and> o_kind r = Provision"

definition lease_authorized :: "db \<Rightarrow> op_row \<Rightarrow> bool" where
  "lease_authorized db r \<longleftrightarrow>
     (case o_lease_owner r of None \<Rightarrow> False | Some w \<Rightarrow> dominator_authorized db r w)"

definition Renew :: "int \<Rightarrow> Operation \<Rightarrow> int \<Rightarrow> db \<Rightarrow> error + db" where
  "Renew now op d db =
     (if \<not> valid_lease_duration d then Inl (ErrMsg ''invalid operation lease'')
      else fenced_ops
        (\<lambda>r. held now op r \<and> (o_kind r \<in> {CreateCluster, AttachZone} \<or> lease_authorized db r))
        (\<lambda>r. r\<lparr>o_lease_until := Some (lease_end now d), o_updated_at := now\<rparr>) db)"

definition BeginLaunch :: "int \<Rightarrow> Operation \<Rightarrow> db \<Rightarrow> error + db" where
  "BeginLaunch now op db =
     fenced_ops (\<lambda>r. held now op r \<and> lease_authorized db r)
       (\<lambda>r. r\<lparr>o_state := OpLaunching, o_updated_at := now\<rparr>) db"

definition SetProvisionDesiredVersion :: "int \<Rightarrow> Operation \<Rightarrow> string \<Rightarrow> db \<Rightarrow> error + db" where
  "SetProvisionDesiredVersion now op version db =
     (if op_Kind op \<noteq> Provision \<or> version = [] \<or> length version > 128 then Inl ErrInvalid
      else fenced_hosts
        (\<lambda>r h. launching now op r \<and> o_host_id r = Some (h_id h) \<and> h_state h = HostRegistering)
        (\<lambda>h. h\<lparr>h_desired_state_version := version, h_updatedat := Some now\<rparr>) db)"

fun allowed_handoff :: "HostState \<Rightarrow> HostState option" where
  "allowed_handoff HostRequested = Some HostProvisioning"
| "allowed_handoff HostBooting = Some HostRegistering"
| "allowed_handoff HostRegistering = Some HostConverging"
| "allowed_handoff _ = None"

definition SetProvisionState :: "int \<Rightarrow> Operation \<Rightarrow> HostState \<Rightarrow> HostState \<Rightarrow> db \<Rightarrow> error + db" where
  "SetProvisionState now op expected nxt db =
     (if op_Kind op \<noteq> Provision \<or> allowed_handoff expected \<noteq> Some nxt then Inl ErrInvalid
      else fenced_hosts
        (\<lambda>r h. launching now op r \<and> o_host_id r = Some (h_id h) \<and> h_state h = expected)
        (\<lambda>h. h\<lparr>h_state := nxt, h_updatedat := Some now\<rparr>) db)"

definition ready_bound :: "db \<Rightarrow> op_row \<Rightarrow> bool" where
  "ready_bound db r \<longleftrightarrow>
     list_ex (\<lambda>h. o_host_id r = Some (h_id h) \<and> h_state h = HostReady
                \<and> h_providerid h \<noteq> None \<and> h_providerid h \<noteq> Some []
                \<and> list_ex (\<lambda>b. b_host_id b = h_id h \<and> b_operation_id b = o_id r
                             \<and> b_release_started b) (worker_provisioning_state db))
       (hosts db)"

definition CompleteProvision :: "int \<Rightarrow> Operation \<Rightarrow> db \<Rightarrow> error + db" where
  "CompleteProvision now op db =
     fenced_ops (\<lambda>r. launching now op r \<and> o_host_id r = Some (op_HostID op) \<and> ready_bound db r)
       (\<lambda>r. r\<lparr>o_state := OpSucceeded, o_lease_owner := None, o_lease_until := None,
              o_updated_at := now\<rparr>) db"

definition RecordProvisionFailure :: "int \<Rightarrow> Operation \<Rightarrow> string \<Rightarrow> db \<Rightarrow> error + db" where
  "RecordProvisionFailure now op category db =
     (if category = [] \<or> length category > 80 then Inl ErrInvalid
      else fenced_ops (\<lambda>r. held now op r \<and> o_kind r = Provision)
        (\<lambda>r. r\<lparr>o_last_error := category, o_updated_at := now\<rparr>) db)"

definition ReleaseProvisionLease :: "int \<Rightarrow> Operation \<Rightarrow> db \<Rightarrow> error + db" where
  "ReleaseProvisionLease now op db =
     fenced_ops (\<lambda>r. held now op r \<and> o_kind r = Provision)
       (\<lambda>r. r\<lparr>o_state := (if host_in db (o_host_id r) launched_states then OpLaunching else OpPending),
              o_lease_owner := None, o_lease_until := None, o_updated_at := now\<rparr>) db"

section \<open>Lemmas\<close>

lemma fenced_ops_Inr:
  "fenced_ops w f db = Inr db' \<longleftrightarrow>
     cnt w (operations db) = 1 \<and> db' = db\<lparr>operations := upd_where w f (operations db)\<rparr>"
  by (auto simp: fenced_ops_def fencedResult_def)

lemma fenced_hosts_Inr:
  "fenced_hosts w f db = Inr db' \<longleftrightarrow>
     cnt (\<lambda>h. \<exists>r\<in>set (operations db). w r h) (hosts db) = 1
     \<and> db' = db\<lparr>hosts := upd_where (\<lambda>h. \<exists>r\<in>set (operations db). w r h) f (hosts db)\<rparr>"
  by (auto simp: fenced_hosts_def fencedResult_def Let_def list_ex_iff)

lemma fenced_ops_ev:
  assumes "fenced_ops w f db = Inr db'" and "keys_ok db"
    and "\<And>r. r \<in> set (operations db) \<Longrightarrow> w r \<Longrightarrow> op_ev r (f r)"
  shows "store_ev db db' \<and> keys_ok db'"
proof -
  have "map o_id (upd_where w f (operations db)) = map o_id (operations db)"
    "map o_provider_token (upd_where w f (operations db)) = map o_provider_token (operations db)"
    using assms(3) by (auto intro!: map_upd_where simp: op_ev_def op_intent_def)
  with assms show ?thesis
    by (auto simp: fenced_ops_Inr keys_ok_def intro!: store_ev_ops op_evo.update)
qed

lemma fenced_hosts_ev:
  assumes "fenced_hosts w f db = Inr db'" and "keys_ok db"
    and "\<And>r h. r \<in> set (operations db) \<Longrightarrow> h \<in> set (hosts db) \<Longrightarrow> w r h \<Longrightarrow> host_ev h (f h)"
  shows "store_ev db db' \<and> keys_ok db'"
proof -
  let ?w = "\<lambda>h. \<exists>r\<in>set (operations db). w r h"
  have "map h_id (upd_where ?w f (hosts db)) = map h_id (hosts db)"
    using assms(3) by (intro map_upd_where) (auto simp: host_ev_def)
  with assms show ?thesis
    by (auto simp: fenced_hosts_Inr keys_ok_def intro!: store_ev_hosts host_evo.update)
qed

lemma claim_Inr:
  assumes "claim now zone kind owner d authorize db = Inr (op, db')"
  obtains r where "r \<in> set (operations db)" "claimable db now zone kind owner authorize r"
    "o_fence r < max_int64" "owner \<noteq> []" "valid_lease_duration d"
    "op = op_of_row (claimed_row db now owner d r)"
    "db' = db\<lparr>operations := upd_where (\<lambda>x. o_id x = o_id r) (claimed_row db now owner d)
             (operations db)\<rparr>"
proof -
  let ?L = "order_limit (\<lambda>r. (o_created_at r, o_id r)) 1
              (filter (claimable db now zone kind owner authorize) (operations db))"
  from assms obtain r rs where L: "?L = r # rs"
    by (auto simp: claim_def split: if_splits list.splits)
  then have "r \<in> set (filter (claimable db now zone kind owner authorize) (operations db))"
    using set_order_limit by (metis list.set_intros(1) subsetD)
  then show thesis using assms L that by (auto simp: claim_def split: if_splits)
qed

lemma claim_oldest:
  assumes "claim now zone kind owner d authorize db = Inr (op, db')"
  obtains r where "r \<in> set (operations db)" "claimable db now zone kind owner authorize r"
    "op = op_of_row (claimed_row db now owner d r)"
    "db' = db\<lparr>operations := upd_where (\<lambda>x. o_id x = o_id r) (claimed_row db now owner d) (operations db)\<rparr>"
    "\<And>x. x \<in> set (operations db) \<Longrightarrow> claimable db now zone kind owner authorize x \<Longrightarrow>
       (o_created_at r, o_id r) \<le> (o_created_at x, o_id x)"
proof -
  let ?L = "order_limit (\<lambda>r. (o_created_at r, o_id r)) 1
              (filter (claimable db now zone kind owner authorize) (operations db))"
  from assms obtain r rs where L: "?L = r # rs"
    by (auto simp: claim_def split: if_splits list.splits)
  then have "r \<in> set (filter (claimable db now zone kind owner authorize) (operations db))"
    using set_order_limit by (metis list.set_intros(1) subsetD)
  then show thesis using assms L that order_limit_first [OF L] by (auto simp: claim_def split: if_splits)
qed

lemma claim_row:
  assumes "claim now zone kind owner d authorize db = Inr (op, db1)"
  shows "\<exists>r\<in>set (operations db1). o_id r = op_ID op \<and> o_fence r = op_Fence op \<and> held now op r"
  using assms
proof (cases rule: claim_Inr)
  case (1 r)
  have "claimed_row db now owner d r \<in> set (operations db1)"
    unfolding 1(7) using upd_where_hit [OF 1(1)] by simp
  moreover have "now < lease_end now d"
    using 1(5) by (auto simp: lease_end_def valid_lease_duration_def)
  ultimately show ?thesis unfolding 1(6)
    by (intro bexI) (auto simp: op_of_row_def claimed_row_def held_def lease_live_def coalesce_def)
qed

lemma claim_ev:
  assumes "claim now zone kind owner d authorize db = Inr (op, db')" and keys: "keys_ok db"
  shows "store_ev db db' \<and> keys_ok db'"
  using assms(1)
proof (cases rule: claim_Inr)
  case (1 r)
  have "op_ev x (claimed_row db now owner d x)" if "x \<in> set (operations db)" "o_id x = o_id r" for x
  proof -
    have "x = r" using that 1(1) keys unique_key [of o_id "operations db"] by (simp add: keys_ok_def)
    then show ?thesis using 1(2)
      by (auto simp: op_ev_def op_intent_def claimed_row_def claimable_def op_terminal_def)
  qed
  moreover have "keys_ok db'"
    using keys unfolding 1(7) by (simp add: keys_ok_def map_upd_where claimed_row_def)
  ultimately show ?thesis unfolding 1(7) by (auto intro!: store_ev_ops op_evo.update)
qed

lemma Renew_ev:
  assumes "Renew now op d db = Inr db'" "keys_ok db"
  shows "store_ev db db' \<and> keys_ok db'"
  using assms by (auto simp: Renew_def op_ev_def op_intent_def elim!: fenced_ops_ev split: if_splits)

lemma BeginLaunch_ev:
  assumes "BeginLaunch now op db = Inr db'" "keys_ok db"
  shows "store_ev db db' \<and> keys_ok db'"
  using assms unfolding BeginLaunch_def
  by (rule fenced_ops_ev) (auto simp: op_ev_def op_intent_def held_def op_terminal_def)

lemma CompleteProvision_ev:
  assumes "CompleteProvision now op db = Inr db'" "keys_ok db"
  shows "store_ev db db' \<and> keys_ok db'"
  using assms unfolding CompleteProvision_def
  by (rule fenced_ops_ev) (auto simp: op_ev_def op_intent_def launching_def op_terminal_def)

lemma RecordProvisionFailure_ev:
  assumes "RecordProvisionFailure now op c db = Inr db'" "keys_ok db"
  shows "store_ev db db' \<and> keys_ok db'"
  using assms
  by (auto simp: RecordProvisionFailure_def op_ev_def op_intent_def elim!: fenced_ops_ev split: if_splits)

lemma ReleaseProvisionLease_ev:
  assumes "ReleaseProvisionLease now op db = Inr db'" "keys_ok db"
  shows "store_ev db db' \<and> keys_ok db'"
  using assms unfolding ReleaseProvisionLease_def
  by (rule fenced_ops_ev) (auto simp: op_ev_def op_intent_def held_def op_terminal_def)

lemma SetProvisionDesiredVersion_ev:
  assumes "SetProvisionDesiredVersion now op v db = Inr db'" "keys_ok db"
  shows "store_ev db db' \<and> keys_ok db'"
  using assms
  by (auto simp: SetProvisionDesiredVersion_def host_ev_def elim!: fenced_hosts_ev split: if_splits)

lemma allowed_handoff_le: "allowed_handoff s = Some t \<Longrightarrow> lifecycle_le s t"
  by (cases s) (auto simp: lifecycle_le_def)

lemma SetProvisionState_ev:
  assumes "SetProvisionState now op s t db = Inr db'" "keys_ok db"
  shows "store_ev db db' \<and> keys_ok db'"
  using assms
  by (auto simp: SetProvisionState_def host_ev_def allowed_handoff_le elim!: fenced_hosts_ev
      split: if_splits)

section \<open>The contract of a fenced call\<close>

text \<open>
  What a store method that takes a held operation promises: it succeeds only if the stored row
  still carries the caller's owner and fence under an unexpired lease.
\<close>

locale fenced_call =
  fixes f :: "int \<Rightarrow> Operation \<Rightarrow> 'x \<Rightarrow> db \<Rightarrow> error + 'y"
  assumes fenced: "f now op x db = Inr y \<Longrightarrow> \<exists>r\<in>set (operations db). lease_live now op r"
begin

lemma rejected:
  assumes "\<And>r. r \<in> set (operations db) \<Longrightarrow> \<not> lease_live now op r"
  shows "\<exists>e. f now op x db = Inl e"
proof (cases "f now op x db")
  case (Inr y)
  with fenced [OF Inr] assms show ?thesis by blast
qed blast

text \<open>Once a newer fence has been stored, the call is refused in every later database.\<close>

lemma superseded:
  assumes "store_ev db0 db" "keys_ok db" "r \<in> set (operations db0)" "o_id r = op_ID op"
    "op_Fence op < o_fence r"
  shows "\<exists>e. f now op x db = Inl e"
proof (rule rejected)
  fix s assume s: "s \<in> set (operations db)"
  obtain r' where r': "r' \<in> set (operations db)" "op_ev r r'"
    using op_evo.row_later [OF store_evD(10) [OF assms(1)] assms(3)] by blast
  show "\<not> lease_live now op s"
  proof
    assume live: "lease_live now op s"
    then have "s = r'" using s r' assms(2,4) unique_key [of o_id "operations db" s r']
      by (auto simp: lease_live_def op_ev_def keys_ok_def)
    with live r'(2) assms(5) show False by (auto simp: lease_live_def op_ev_def)
  qed
qed

end

lemma fenced_ops_live:
  assumes "fenced_ops w f db = Inr db'" and "\<And>r. w r \<Longrightarrow> lease_live now op r"
  shows "\<exists>r\<in>set (operations db). lease_live now op r"
  using assms cnt_one_ex [of w "operations db"] by (auto simp: fenced_ops_Inr)

lemma fenced_hosts_live:
  assumes "fenced_hosts w f db = Inr db'" and "\<And>r h. w r h \<Longrightarrow> lease_live now op r"
  shows "\<exists>r\<in>set (operations db). lease_live now op r"
  using assms cnt_one_ex [of "\<lambda>h. \<exists>r\<in>set (operations db). w r h" "hosts db"]
  by (auto simp: fenced_hosts_Inr)

lemmas fenced_defs = held_def launching_def

interpretation renew: fenced_call "\<lambda>now op d. Renew now op d"
  by unfold_locales (auto simp: Renew_def fenced_defs elim!: fenced_ops_live split: if_splits)

interpretation begin_launch: fenced_call "\<lambda>now op (_ :: unit). BeginLaunch now op"
  by unfold_locales (auto simp: BeginLaunch_def fenced_defs elim!: fenced_ops_live)

interpretation set_desired_version: fenced_call SetProvisionDesiredVersion
  by unfold_locales
    (auto simp: SetProvisionDesiredVersion_def fenced_defs elim!: fenced_hosts_live split: if_splits)

interpretation set_provision_state: fenced_call "\<lambda>now op (s, t). SetProvisionState now op s t"
  by unfold_locales
    (auto simp: SetProvisionState_def fenced_defs elim!: fenced_hosts_live split: if_splits)

interpretation complete_provision: fenced_call "\<lambda>now op (_ :: unit). CompleteProvision now op"
  by unfold_locales (auto simp: CompleteProvision_def fenced_defs elim!: fenced_ops_live)

interpretation record_failure: fenced_call RecordProvisionFailure
  by unfold_locales
    (auto simp: RecordProvisionFailure_def fenced_defs elim!: fenced_ops_live split: if_splits)

interpretation release_lease: fenced_call "\<lambda>now op (_ :: unit). ReleaseProvisionLease now op"
  by unfold_locales (auto simp: ReleaseProvisionLease_def fenced_defs elim!: fenced_ops_live)

end
