(* ===== verification/CapacityCatalog.thy ===== *)
theory CapacityCatalog
  imports CapacityTarget
begin

text \<open>
  Topology writes, \<open>src/internal/capacity/catalog.go\<close> and \<open>scheduling.go\<close>: zones, clusters,
  memberships, pools and node groups, the atomic first-zone seed, membership updates, the
  scheduling template of a group, host reads and heartbeats.  A single \<open>INSERT .. ON CONFLICT\<close>
  is a statement: an SQL error leaves the database alone, otherwise it reports the rows it
  affected together with the new database, also when that number is zero.
\<close>

type_synonym statement = "db \<Rightarrow> error + nat \<times> db"

definition topologyError :: "error \<Rightarrow> error" where
  "topologyError e =
     (case e of
        SqlState c \<Rightarrow>
          if c = ''23505'' then ErrConflict
          else if c = ''23503'' \<or> c = ''23514'' \<or> c = ''23502'' then ErrInvalid
          else e
      | _ \<Rightarrow> e)"

definition immutableInsert :: "statement \<Rightarrow> db \<Rightarrow> (error + unit) \<times> db" where
  "immutableInsert st db =
     (case st db of
        Inl e \<Rightarrow> (Inl (topologyError e), db)
      | Inr (n, db') \<Rightarrow> if n = 0 then (Inl ErrConflict, db') else (Inr (), db'))"

section \<open>Zones\<close>

text \<open>
  The trigger \<open>crane_zone_region\<close>: the canonical region of (provider, account, region) is
  created on first use and must agree afterwards.
\<close>

definition zone_region_trigger :: "zone_row \<Rightarrow> db \<Rightarrow> error + db" where
  "zone_region_trigger z db =
     (case find (\<lambda>t. tr_provider t = z_provider z \<and> tr_account_id t = z_account_id z
                   \<and> tr_region t = z_region z) (topology_regions db) of
        Some t \<Rightarrow>
          if tr_kubernetes_region t = z_kubernetes_region z then Inr db else Inl unique_violation
      | None \<Rightarrow>
          if list_ex (\<lambda>t. tr_kubernetes_region t = z_kubernetes_region z) (topology_regions db)
          then Inl unique_violation
          else Inr (db\<lparr>topology_regions := topology_regions db @
            [\<lparr>tr_provider = z_provider z, tr_account_id = z_account_id z, tr_region = z_region z,
              tr_kubernetes_region = z_kubernetes_region z\<rparr>]\<rparr>))"

definition same_zone :: "zone_row \<Rightarrow> zone_row \<Rightarrow> bool" where
  "same_zone a b \<longleftrightarrow> z_provider a = z_provider b \<and> z_account_id a = z_account_id b
     \<and> z_region a = z_region b \<and> z_provider_zone_id a = z_provider_zone_id b
     \<and> z_kubernetes_region a = z_kubernetes_region b \<and> z_kubernetes_zone a = z_kubernetes_zone b"

definition insert_zone :: "zone_row \<Rightarrow> statement" where
  "insert_zone z db =
     rbind (zone_region_trigger z db) (\<lambda>db1.
       if z_kubernetes_region z = [] \<or> z_kubernetes_zone z = [] then Inl check_violation
       else case find (\<lambda>x. z_id x = z_id z) (zones db1) of
           Some x \<Rightarrow> Inr (if same_zone x z then 1 else 0, db1)
         | None \<Rightarrow>
             if list_ex (\<lambda>x. z_kubernetes_zone x = z_kubernetes_zone z
                   \<or> (z_provider x = z_provider z \<and> z_account_id x = z_account_id z
                      \<and> z_region x = z_region z \<and> z_provider_zone_id x = z_provider_zone_id z))
                  (zones db1)
             then Inl unique_violation
             else Inr (1, db1\<lparr>zones := zones db1 @ [z]\<rparr>))"

definition zone_row_of :: "ZoneInput \<Rightarrow> string \<Rightarrow> zone_row" where
  "zone_row_of z lifecycle =
     \<lparr>z_id = zi_ID z, z_provider = zi_Provider z, z_account_id = zi_AccountID z,
      z_region = zi_Region z, z_provider_zone_id = zi_ProviderZoneID z,
      z_kubernetes_region = (if zi_KubernetesRegion z = [] then zi_Region z else zi_KubernetesRegion z),
      z_kubernetes_zone = (if zi_KubernetesZone z = [] then zi_ProviderZoneID z else zi_KubernetesZone z),
      z_enabled = True, z_lifecycle_state = lifecycle\<rparr>"

definition createZone :: "k8s_validation \<Rightarrow> ZoneInput \<Rightarrow> string \<Rightarrow> db \<Rightarrow> (error + unit) \<times> db" where
  "createZone K z lifecycle db =
     (if zi_ID z = [] \<or> zi_Provider z = [] \<or> zi_AccountID z = [] \<or> zi_Region z = []
         \<or> zi_ProviderZoneID z = [] then (Inl ErrInvalid, db)
      else
        (let row = zone_row_of z lifecycle in
         if \<not> IsValidLabelValue K (z_kubernetes_region row)
            \<or> \<not> IsValidLabelValue K (z_kubernetes_zone row) then (Inl ErrInvalid, db)
         else immutableInsert (insert_zone row) db))"

section \<open>Clusters\<close>

definition cluster_compatible :: "bool \<Rightarrow> cluster_row \<Rightarrow> cluster_row \<Rightarrow> bool" where
  "cluster_compatible seed old new \<longleftrightarrow> c_kubeadm_version old = c_kubeadm_version new
     \<and> c_kubelet_version old = c_kubelet_version new
     \<and> c_container_runtime old = c_container_runtime new \<and> c_cni old = c_cni new
     \<and> (c_api_server_endpoint old = c_api_server_endpoint new
        \<or> (seed \<and> c_api_server_endpoint new = []))
     \<and> (c_ca_cert_hash old = c_ca_cert_hash new \<or> (seed \<and> c_ca_cert_hash new = []))"

definition insert_cluster :: "bool \<Rightarrow> cluster_row \<Rightarrow> statement" where
  "insert_cluster seed c db =
     (if c_cni c \<noteq> ''cilium'' then Inl check_violation
      else case find (\<lambda>x. c_id x = c_id c) (clusters db) of
          Some x \<Rightarrow> Inr (if cluster_compatible seed x c then 1 else 0, db)
        | None \<Rightarrow> Inr (1, db\<lparr>clusters := clusters db @ [c]\<rparr>))"

definition cluster_row_of :: "ClusterInput \<Rightarrow> string \<Rightarrow> cluster_row" where
  "cluster_row_of c lifecycle =
     \<lparr>c_id = ci_ID c, c_api_server_endpoint = ci_APIServerEndpoint c,
      c_ca_cert_hash = ci_CACertHash c, c_kubeadm_version = ci_KubeadmVersion c,
      c_kubelet_version = ci_KubeletVersion c, c_container_runtime = ci_ContainerRuntime c,
      c_cni = ci_CNI c, c_lifecycle_state = lifecycle\<rparr>"

definition createCluster :: "ClusterInput \<Rightarrow> string \<Rightarrow> bool \<Rightarrow> db \<Rightarrow> (error + unit) \<times> db" where
  "createCluster c lifecycle seed db =
     (if ci_ID c = [] \<or> ci_KubeadmVersion c = [] \<or> ci_KubeletVersion c = []
         \<or> ci_ContainerRuntime c = [] \<or> ci_CNI c \<noteq> ''cilium'' then (Inl ErrInvalid, db)
      else immutableInsert (insert_cluster seed (cluster_row_of c lifecycle)) db)"

section \<open>Pools\<close>

definition insert_pool :: "pool_row \<Rightarrow> statement" where
  "insert_pool p db =
     (if \<not> pool_check p then Inl check_violation
      else case find (\<lambda>x. p_id x = p_id p) (node_pools db) of
          Some x \<Rightarrow> Inr (if pool_limits x = pool_limits p then 1 else 0, db)
        | None \<Rightarrow> Inr (1, db\<lparr>node_pools := node_pools db @ [p]\<rparr>))"

definition pool_row_of :: "NodePoolInput \<Rightarrow> pool_row" where
  "pool_row_of p =
     \<lparr>p_id = pi_ID p, p_enabled = True, p_max_vcpu = res_VCPU (pi_Limits p),
      p_max_memory_mib = res_MemoryMiB (pi_Limits p), p_max_nodes = res_Nodes (pi_Limits p)\<rparr>"

definition createPool :: "NodePoolInput \<Rightarrow> db \<Rightarrow> (error + unit) \<times> db" where
  "createPool p db =
     (if pi_ID p = [] \<or> res_VCPU (pi_Limits p) < 0 \<or> res_MemoryMiB (pi_Limits p) < 0
         \<or> res_Nodes (pi_Limits p) < 0 then (Inl ErrInvalid, db)
      else immutableInsert (insert_pool (pool_row_of p)) db)"

section \<open>Node groups\<close>

definition scheduling_blank :: "SchedulingTemplate \<Rightarrow> bool" where
  "scheduling_blank t \<longleftrightarrow> st_InstanceType t = [] \<and> st_Zone t = []"

definition same_group :: "group_row \<Rightarrow> group_row \<Rightarrow> bool" where
  "same_group a b \<longleftrightarrow> g_cluster_id a = g_cluster_id b \<and> g_zone_id a = g_zone_id b
     \<and> g_node_pool_id a = g_node_pool_id b \<and> g_capacity_class a = g_capacity_class b
     \<and> g_provider_zone_id a = g_provider_zone_id b \<and> g_min_nodes a = g_min_nodes b
     \<and> g_max_nodes a = g_max_nodes b \<and> g_template_revision a = g_template_revision b
     \<and> g_vcpu a = g_vcpu b \<and> g_memory_mib a = g_memory_mib b
     \<and> g_launch_parameters a = g_launch_parameters b \<and> g_naming a = g_naming b
     \<and> (g_scheduling a = g_scheduling b \<or> scheduling_blank (g_scheduling a))"

definition group_fk :: "group_row \<Rightarrow> db \<Rightarrow> bool" where
  "group_fk g db \<longleftrightarrow>
     list_ex (\<lambda>m. m_cluster_id m = g_cluster_id g \<and> m_zone_id m = g_zone_id g) (cluster_zones db)
     \<and> list_ex (\<lambda>z. z_id z = g_zone_id g \<and> z_provider_zone_id z = g_provider_zone_id g
                  \<and> z_provider z = nm_Provider (g_naming g) \<and> z_region z = nm_Region (g_naming g))
         (zones db)
     \<and> g_node_pool_id g \<in> set (map p_id (node_pools db))"

text \<open>Check constraints are evaluated on the proposed row before the conflict is looked for.\<close>

definition insert_group :: "group_row \<Rightarrow> statement" where
  "insert_group g db =
     (if \<not> group_check g then Inl check_violation
      else case find (\<lambda>x. g_id x = g_id g) (node_groups db) of
          Some x \<Rightarrow>
            if same_group x g
            then Inr (1, db\<lparr>node_groups := upd_where (\<lambda>y. g_id y = g_id g)
                   (\<lambda>y. if scheduling_blank (g_scheduling y)
                        then y\<lparr>g_scheduling := g_scheduling g\<rparr> else y) (node_groups db)\<rparr>)
            else Inr (0, db)
        | None \<Rightarrow>
            if group_fk g db then Inr (1, db\<lparr>node_groups := node_groups db @ [g]\<rparr>)
            else Inl foreign_key_violation)"

definition group_row_of :: "NodeGroupInput \<Rightarrow> group_row" where
  "group_row_of g =
     \<lparr>g_naming = gi_Naming g, g_id = gi_ID g, g_cluster_id = gi_ClusterID g,
      g_zone_id = gi_ZoneID g, g_node_pool_id = gi_NodePoolID g,
      g_capacity_class = gi_CapacityClass g, g_provider_zone_id = gi_ProviderZoneID g,
      g_target_nodes = 0, g_target_revision = 0, g_min_nodes = gi_MinNodes g,
      g_max_nodes = gi_MaxNodes g, g_template_revision = gi_TemplateRevision g,
      g_lifecycle_state = ''active'', g_vcpu = res_VCPU (gi_PerNode g),
      g_memory_mib = res_MemoryMiB (gi_PerNode g), g_launch_parameters = gi_LaunchParameters g,
      g_scheduling = gi_Scheduling g\<rparr>"

definition json_valid :: "raw_json \<Rightarrow> bool" where
  "json_valid r \<longleftrightarrow> (case r of Raw _ \<Rightarrow> True | _ \<Rightarrow> False)"

definition scheduling_given :: "SchedulingTemplate \<Rightarrow> bool" where
  "scheduling_given t \<longleftrightarrow> st_InstanceType t \<noteq> [] \<or> st_Region t \<noteq> [] \<or> st_Zone t \<noteq> []
     \<or> st_Architecture t \<noteq> [] \<or> st_Labels t \<noteq> [] \<or> st_Taints t \<noteq> []"

definition zone_matches :: "db \<Rightarrow> string \<Rightarrow> SchedulingTemplate \<Rightarrow> bool" where
  "zone_matches db zone t \<longleftrightarrow>
     (case find (\<lambda>z. z_id z = zone) (zones db) of
        None \<Rightarrow> False
      | Some z \<Rightarrow> st_Region t = z_kubernetes_region z \<and> st_Zone t = z_kubernetes_zone z)"

definition createGroup :: "k8s_validation \<Rightarrow> NodeGroupInput \<Rightarrow> db \<Rightarrow> (error + unit) \<times> db" where
  "createGroup K g0 db =
     (case NormalizeID g0 of
        None \<Rightarrow> (Inl ErrInvalid, db)
      | Some g \<Rightarrow>
          if gi_ClusterID g = [] \<or> gi_ZoneID g = [] \<or> gi_NodePoolID g = []
             \<or> gi_CapacityClass g = [] \<or> gi_TemplateRevision g = [] \<or> gi_MinNodes g < 0
             \<or> gi_MaxNodes g < gi_MinNodes g \<or> res_VCPU (gi_PerNode g) \<le> 0
             \<or> res_MemoryMiB (gi_PerNode g) \<le> 0 \<or> \<not> json_valid (gi_LaunchParameters g)
          then (Inl ErrInvalid, db)
          else if scheduling_given (gi_Scheduling g)
             \<and> (\<not> ValidateScheduling K (gi_Scheduling g) (gi_NodePoolID g)
                \<or> \<not> zone_matches db (gi_ZoneID g) (gi_Scheduling g))
          then (Inl ErrInvalid, db)
          else immutableInsert (insert_group (group_row_of g)) db)"

section \<open>Memberships\<close>

definition normalizeMembership :: "ClusterZoneInput \<Rightarrow> error + ClusterZoneInput" where
  "normalizeMembership m0 =
     (let m1 = (if cz_LifecycleState m0 = [] then m0\<lparr>cz_LifecycleState := ''requested''\<rparr> else m0);
          m = (if cz_AccessState m1 = [] then m1\<lparr>cz_AccessState := ''pending''\<rparr> else m1) in
      if cz_ClusterID m = [] \<or> cz_ZoneID m = [] then Inl ErrInvalid
      else if cz_LifecycleState m \<notin> {''requested'', ''initializing'', ''ready'', ''failed''}
      then Inl ErrInvalid
      else if cz_AccessState m \<notin> {''pending'', ''approved'', ''revoked''} then Inl ErrInvalid
      else Inr m)"

definition insert_membership :: "bool \<Rightarrow> membership_row \<Rightarrow> statement" where
  "insert_membership seed m db =
     (case find (\<lambda>x. m_cluster_id x = m_cluster_id m \<and> m_zone_id x = m_zone_id m)
             (cluster_zones db) of
        Some x \<Rightarrow>
          Inr (if seed \<or> (m_lifecycle_state x = m_lifecycle_state m
                          \<and> m_access_state x = m_access_state m) then 1 else 0, db)
      | None \<Rightarrow>
          if m_cluster_id m \<in> set (map c_id (clusters db)) \<and> m_zone_id m \<in> set (map z_id (zones db))
          then Inr (1, db\<lparr>cluster_zones := cluster_zones db @ [m]\<rparr>)
          else Inl foreign_key_violation)"

definition membership_row_of :: "ClusterZoneInput \<Rightarrow> membership_row" where
  "membership_row_of m =
     \<lparr>m_cluster_id = cz_ClusterID m, m_zone_id = cz_ZoneID m,
      m_lifecycle_state = cz_LifecycleState m, m_access_state = cz_AccessState m\<rparr>"

definition createMembership :: "ClusterZoneInput \<Rightarrow> bool \<Rightarrow> db \<Rightarrow> (error + unit) \<times> db" where
  "createMembership m0 seed db =
     (case normalizeMembership m0 of
        Inl e \<Rightarrow> (Inl e, db)
      | Inr m \<Rightarrow> immutableInsert (insert_membership seed (membership_row_of m)) db)"

section \<open>First-zone seed\<close>

text \<open>A step of a transaction: the database is kept only on success.\<close>

definition txn :: "(db \<Rightarrow> (error + unit) \<times> db) \<Rightarrow> db \<Rightarrow> error + db" where
  "txn f db = (case f db of (Inl e, _) \<Rightarrow> Inl e | (Inr _, db') \<Rightarrow> Inr db')"

definition seedFirstZoneTx ::
    "k8s_validation \<Rightarrow> FirstZoneInput \<Rightarrow> bool \<Rightarrow> db \<Rightarrow> error + db" where
  "seedFirstZoneTx K inp ready db =
     (case NormalizeID (fz_Group inp) of
        None \<Rightarrow> Inl ErrInvalid
      | Some g \<Rightarrow>
          if cz_ClusterID (fz_Membership inp) \<noteq> ci_ID (fz_Cluster inp)
             \<or> cz_ZoneID (fz_Membership inp) \<noteq> zi_ID (fz_Zone inp)
             \<or> gi_ClusterID g \<noteq> ci_ID (fz_Cluster inp) \<or> gi_ZoneID g \<noteq> zi_ID (fz_Zone inp)
             \<or> gi_NodePoolID g \<noteq> pi_ID (fz_Pool inp) \<or> gi_MinNodes g \<noteq> 0
          then Inl ErrInvalid
          else
            (let lifecycle = (if ready then ''ready'' else ''initializing'');
                 access = (if ready then ''approved'' else ''pending'');
                 m = (fz_Membership inp)\<lparr>cz_LifecycleState := lifecycle, cz_AccessState := access\<rparr> in
             rbind (txn (createZone K (fz_Zone inp) lifecycle) db) (\<lambda>db1.
             rbind (txn (createCluster (fz_Cluster inp) lifecycle True) db1) (\<lambda>db2.
             rbind (txn (createMembership m True) db2) (\<lambda>db3.
             rbind (txn (createPool (fz_Pool inp)) db3) (\<lambda>db4.
             txn (createGroup K g) db4))))))"

definition SeedFirstZone :: "k8s_validation \<Rightarrow> FirstZoneInput \<Rightarrow> db \<Rightarrow> error + db" where
  "SeedFirstZone K inp db = seedFirstZoneTx K inp True db"

definition SeedFirstZonePending :: "k8s_validation \<Rightarrow> FirstZoneInput \<Rightarrow> db \<Rightarrow> error + db" where
  "SeedFirstZonePending K inp db = seedFirstZoneTx K inp False db"

section \<open>Public operations\<close>

definition CreateZone :: "k8s_validation \<Rightarrow> ZoneInput \<Rightarrow> db \<Rightarrow> (error + unit) \<times> db" where
  "CreateZone K z db = createZone K z ''ready'' db"

definition CreateCluster_op :: "ClusterInput \<Rightarrow> db \<Rightarrow> (error + unit) \<times> db" where
  "CreateCluster_op c db = createCluster c ''ready'' False db"

definition CreateNodePool :: "NodePoolInput \<Rightarrow> db \<Rightarrow> (error + unit) \<times> db" where
  "CreateNodePool p db = createPool p db"

definition CreateNodeGroup :: "k8s_validation \<Rightarrow> NodeGroupInput \<Rightarrow> db \<Rightarrow> (error + unit) \<times> db" where
  "CreateNodeGroup K g db = createGroup K g db"

definition CreateClusterZone :: "ClusterZoneInput \<Rightarrow> db \<Rightarrow> (error + unit) \<times> db" where
  "CreateClusterZone m db = createMembership m False db"

definition UpdateClusterZone :: "ClusterZoneInput \<Rightarrow> db \<Rightarrow> error + db" where
  "UpdateClusterZone m0 db =
     rbind (normalizeMembership m0) (\<lambda>m.
       (let w = (\<lambda>x. m_cluster_id x = cz_ClusterID m \<and> m_zone_id x = cz_ZoneID m) in
        if cnt w (cluster_zones db) = 0 then Inl ErrNoRows
        else Inr (db\<lparr>cluster_zones := upd_where w
               (\<lambda>x. x\<lparr>m_lifecycle_state := cz_LifecycleState m, m_access_state := cz_AccessState m\<rparr>)
               (cluster_zones db)\<rparr>)))"

definition UpdateNodeGroupScheduling ::
    "k8s_validation \<Rightarrow> string \<Rightarrow> string \<Rightarrow> string \<Rightarrow> SchedulingTemplate \<Rightarrow> raw_json \<Rightarrow> db \<Rightarrow> error + db"
  where
  "UpdateNodeGroupScheduling K gid expected revision t launch db =
     (if gid = [] \<or> expected = [] \<or> revision = [] \<or> \<not> json_valid launch then Inl ErrInvalid
      else case [(g, z). g \<leftarrow> node_groups db, g_id g = gid, z \<leftarrow> zones db, z_id z = g_zone_id g] of
          [] \<Rightarrow> Inl ErrNoRows
        | (g, z) # _ \<Rightarrow>
            if \<not> ValidateScheduling K t (g_node_pool_id g) then Inl ErrInvalid
            else if st_Region t \<noteq> z_kubernetes_region z \<or> st_Zone t \<noteq> z_kubernetes_zone z
            then Inl ErrInvalid
            else if g_template_revision g = revision
            then (if g_scheduling g = t \<and> g_launch_parameters g = launch then Inr db
                  else Inl ErrConflict)
            else if g_template_revision g \<noteq> expected then Inl ErrConflict
            else Inr (db\<lparr>node_groups := upd_where (\<lambda>x. g_id x = gid)
                   (\<lambda>x. x\<lparr>g_template_revision := revision, g_scheduling := t,
                          g_launch_parameters := launch\<rparr>) (node_groups db)\<rparr>))"

definition host_of_row :: "string \<Rightarrow> host_row \<Rightarrow> Host" where
  "host_of_row i h =
     \<lparr>ho_Protected = h_protected h, ho_SubdEndpoint = h_subd_endpoint h,
      ho_NodeGroupID = coalesce (h_node_group_id h), ho_NodePoolID = coalesce (h_node_pool_id h),
      ho_OperationID = coalesce (h_operation_id h),
      ho_DesiredStateVersion = h_desired_state_version h,
      ho_ObservedStateVersion = h_observed_state_version h,
      ho_Allocatable = \<lparr>res_VCPU = h_allocatable_vcpu h,
                        res_MemoryMiB = h_allocatable_memory_mib h, res_Nodes = 0\<rparr>,
      ho_Reserved = \<lparr>res_VCPU = h_reserved_vcpu h, res_MemoryMiB = h_reserved_memory_mib h,
                     res_Nodes = (if coalesce (h_node_group_id h) \<noteq> []
                                     \<and> h_state h \<noteq> HostTerminated then 1 else 0)\<rparr>,
      ho_ExcessCapacity = h_excess_capacity h, ho_ID = i,
      ho_ProviderID = coalesce (h_providerid h), ho_Provider = coalesce (h_provider h),
      ho_RoleName = [],
      ho_Zone = (case h_crane_zone h of Some z \<Rightarrow> z | None \<Rightarrow> coalesce (h_zone h)),
      ho_ImageID = [], ho_State = h_state h,
      ho_Health = (case h_health h of None \<Rightarrow> ''unknown'' | Some x \<Rightarrow> x),
      ho_CreatedAt = (case h_createdat h of None \<Rightarrow> 0 | Some t \<Rightarrow> t),
      ho_LastSeenHeartbeat = (case h_lastseenheartbeat h of None \<Rightarrow> 0 | Some t \<Rightarrow> t),
      ho_Endpoint = [], ho_Port = 0, ho_DBName = [], ho_Username = [], ho_SecretARN = [],
      ho_RDSSGID = []\<rparr>"

definition Store_Host :: "db \<Rightarrow> string \<Rightarrow> error + Host" where
  "Store_Host db i =
     (case find (\<lambda>h. h_id h = i) (hosts db) of
        None \<Rightarrow> Inl ErrNoRows
      | Some h \<Rightarrow> Inr (host_of_row i h))"

definition Observe :: "string \<Rightarrow> string \<Rightarrow> int \<Rightarrow> db \<Rightarrow> db" where
  "Observe hostID observedVersion heartbeat db =
     db\<lparr>hosts := upd_where
          (\<lambda>h. h_id h = hostID
             \<and> (case h_lastseenheartbeat h of None \<Rightarrow> True | Some t \<Rightarrow> t \<le> heartbeat))
          (\<lambda>h. h\<lparr>h_observed_state_version := observedVersion, h_lastseenheartbeat := Some heartbeat\<rparr>)
          (hosts db)\<rparr>"

section \<open>Evolution\<close>

lemma immutableInsert_ev:
  assumes "\<And>n db'. st db = Inr (n, db') \<Longrightarrow> store_ev db db' \<and> keys_ok db'" and "keys_ok db"
  shows "store_ev db (snd (immutableInsert st db)) \<and> keys_ok (snd (immutableInsert st db))"
  using assms by (auto simp: immutableInsert_def split: sum.splits prod.splits)

lemma zone_region_trigger_ev:
  assumes "zone_region_trigger z db = Inr db'" "keys_ok db"
  shows "store_ev db db' \<and> keys_ok db'"
  using assms
  by (auto simp: zone_region_trigger_def keys_ok_def store_ev_appends split: option.splits if_splits)

lemma insert_zone_ev:
  assumes "insert_zone z db = Inr (n, db')" and keys: "keys_ok db"
  shows "store_ev db db' \<and> keys_ok db'"
proof -
  from assms(1) obtain db1 where t: "zone_region_trigger z db = Inr db1"
    by (auto simp: insert_zone_def result_simps)
  note 1 = zone_region_trigger_ev [OF t keys]
  have "store_ev db1 db' \<and> keys_ok db'"
    using assms(1) 1 unfolding insert_zone_def t
    by (auto simp: keys_ok_def find_None_iff key_notin intro!: store_ev_zones zone_evo.insert
        split: option.splits if_splits)
  then show ?thesis using 1 store_ev_trans by blast
qed

lemma createZone_ev:
  assumes "keys_ok db"
  shows "store_ev db (snd (createZone K z l db)) \<and> keys_ok (snd (createZone K z l db))"
  using assms immutableInsert_ev [of "insert_zone (zone_row_of z l)" db] insert_zone_ev
  by (auto simp: createZone_def Let_def)

lemma insert_cluster_ev:
  assumes "insert_cluster seed c db = Inr (n, db')" and keys: "keys_ok db"
  shows "store_ev db db' \<and> keys_ok db'"
  using assms
  by (auto simp: insert_cluster_def keys_ok_def find_None_iff key_notin
      intro!: store_ev_clusters cluster_evo.insert split: option.splits if_splits)

lemma createCluster_ev:
  assumes "keys_ok db"
  shows "store_ev db (snd (createCluster c l s db)) \<and> keys_ok (snd (createCluster c l s db))"
  using assms immutableInsert_ev [of "insert_cluster s (cluster_row_of c l)" db] insert_cluster_ev
  by (auto simp: createCluster_def)

lemma insert_pool_ev:
  assumes "insert_pool p db = Inr (n, db')" and keys: "keys_ok db"
  shows "store_ev db db' \<and> keys_ok db'"
  using assms
  by (auto simp: insert_pool_def keys_ok_def find_None_iff key_notin store_ev_appends
      split: option.splits if_splits)

lemma createPool_ev:
  assumes "keys_ok db"
  shows "store_ev db (snd (createPool p db)) \<and> keys_ok (snd (createPool p db))"
  using assms immutableInsert_ev [of "insert_pool (pool_row_of p)" db] insert_pool_ev
  by (auto simp: createPool_def)

lemma insert_group_ev:
  assumes "insert_group g db = Inr (n, db')" and keys: "keys_ok db"
  shows "store_ev db db' \<and> keys_ok db'"
  using assms
  by (auto simp: insert_group_def keys_ok_def find_None_iff key_notin map_upd_where group_ev_def
      intro!: store_ev_groups group_evo.insert group_evo.update split: option.splits if_splits)

lemma createGroup_ev:
  assumes "keys_ok db"
  shows "store_ev db (snd (createGroup K g db)) \<and> keys_ok (snd (createGroup K g db))"
proof (cases "NormalizeID g")
  case (Some g')
  then show ?thesis
    using assms immutableInsert_ev [of "insert_group (group_row_of g')" db] insert_group_ev
    by (auto simp: createGroup_def)
qed (use assms in \<open>simp add: createGroup_def\<close>)

lemma insert_membership_ev:
  assumes "insert_membership s m db = Inr (n, db')" and keys: "keys_ok db"
  shows "store_ev db db' \<and> keys_ok db'"
  using assms
  by (auto simp: insert_membership_def keys_ok_def find_None_iff key_notin
      intro!: store_ev_memberships membership_evo.insert split: option.splits if_splits)

lemma createMembership_ev:
  assumes "keys_ok db"
  shows "store_ev db (snd (createMembership m s db)) \<and> keys_ok (snd (createMembership m s db))"
proof (cases "normalizeMembership m")
  case (Inr m')
  then show ?thesis
    using assms immutableInsert_ev [of "insert_membership s (membership_row_of m')" db]
      insert_membership_ev
    by (auto simp: createMembership_def)
qed (use assms in \<open>simp add: createMembership_def\<close>)

lemma txn_Inr: "txn f db = Inr db' \<Longrightarrow> fst (f db) = Inr () \<and> db' = snd (f db)"
  by (auto simp: txn_def split: prod.splits sum.splits)

lemma seedFirstZoneTx_Inr:
  assumes "seedFirstZoneTx K inp ready db = Inr db'"
  obtains g l m db1 db2 db3 db4 where "NormalizeID (fz_Group inp) = Some g"
    "txn (createZone K (fz_Zone inp) l) db = Inr db1"
    "txn (createCluster (fz_Cluster inp) l True) db1 = Inr db2"
    "txn (createMembership m True) db2 = Inr db3"
    "txn (createPool (fz_Pool inp)) db3 = Inr db4"
    "txn (createGroup K g) db4 = Inr db'"
    "l = (if ready then ''ready'' else ''initializing'')"
    "m = (fz_Membership inp)\<lparr>cz_LifecycleState := l,
       cz_AccessState := (if ready then ''approved'' else ''pending'')\<rparr>"
  using assms unfolding seedFirstZoneTx_def Let_def
  by (auto simp: result_simps split: option.splits if_splits)

lemma seedFirstZoneTx_ev:
  assumes "seedFirstZoneTx K inp ready db = Inr db'" and keys: "keys_ok db"
  shows "store_ev db db' \<and> keys_ok db'"
  using assms(1)
proof (cases rule: seedFirstZoneTx_Inr)
  case (1 g l m db1 db2 db3 db4)
  have 2: "store_ev db db1" "keys_ok db1" using txn_Inr [OF 1(2)] createZone_ev [OF keys] by auto
  have 3: "store_ev db1 db2" "keys_ok db2" using txn_Inr [OF 1(3)] createCluster_ev [OF 2(2)] by auto
  have 4: "store_ev db2 db3" "keys_ok db3" using txn_Inr [OF 1(4)] createMembership_ev [OF 3(2)] by auto
  have 5: "store_ev db3 db4" "keys_ok db4" using txn_Inr [OF 1(5)] createPool_ev [OF 4(2)] by auto
  have 6: "store_ev db4 db'" "keys_ok db'" using txn_Inr [OF 1(6)] createGroup_ev [OF 5(2)] by auto
  from 2 3 4 5 6 show ?thesis by (blast intro: store_ev_trans)
qed

lemma UpdateClusterZone_ev:
  assumes "UpdateClusterZone m db = Inr db'" "keys_ok db"
  shows "store_ev db db' \<and> keys_ok db'"
  using assms
  by (auto simp: UpdateClusterZone_def Let_def result_simps keys_ok_def map_upd_where membership_ev_def
      intro!: store_ev_memberships membership_evo.update split: if_splits)

lemma UpdateNodeGroupScheduling_ev:
  assumes "UpdateNodeGroupScheduling K i e v t l db = Inr db'" "keys_ok db"
  shows "store_ev db db' \<and> keys_ok db'"
  using assms
  by (auto simp: UpdateNodeGroupScheduling_def keys_ok_def map_upd_where group_ev_def
      intro!: store_ev_groups group_evo.update split: if_splits list.splits)

lemma Observe_ev: "keys_ok db \<Longrightarrow> store_ev db (Observe i v t db) \<and> keys_ok (Observe i v t db)"
  by (auto simp: Observe_def keys_ok_def map_upd_where host_ev_def intro!: store_ev_hosts host_evo.update)

section \<open>Repeated writes\<close>

text \<open>A successful insert repeats.\<close>

lemma immutableInsert_again:
  assumes "immutableInsert st db = (Inr (), db1)" "\<And>n d. st db = Inr (n, d) \<Longrightarrow> n \<noteq> 0 \<Longrightarrow> \<exists>m. st d = Inr (Suc m, d)"
  shows "immutableInsert st db1 = (Inr (), db1)"
  using assms by (auto simp: immutableInsert_def split: sum.splits prod.splits if_splits)

lemma insert_zone_again:
  assumes "insert_zone z db = Inr (n, d)" "n \<noteq> 0"
  shows "insert_zone z d = Inr (1, d)"
proof -
  obtain d1 where d1: "zone_region_trigger z db = Inr d1" "z_kubernetes_region z \<noteq> []" "z_kubernetes_zone z \<noteq> []"
    using assms(1) by (auto simp: insert_zone_def result_simps split: if_splits)
  have region: "zone_region_trigger z d = Inr d" if "topology_regions d = topology_regions d1" for d
  proof -
    obtain t where "find (\<lambda>t. tr_provider t = z_provider z \<and> tr_account_id t = z_account_id z \<and> tr_region t = z_region z)
        (topology_regions d1) = Some t" "tr_kubernetes_region t = z_kubernetes_region z"
      using d1(1) by (auto simp: zone_region_trigger_def find_append_new split: option.splits if_splits)
    then show ?thesis by (simp add: zone_region_trigger_def that)
  qed
  show ?thesis
  proof (cases "find (\<lambda>x. z_id x = z_id z) (zones d1)")
    case None
    then have d: "d = d1\<lparr>zones := zones d1 @ [z]\<rparr>"
      using assms d1 by (auto simp: insert_zone_def split: if_splits)
    have "find (\<lambda>x. z_id x = z_id z) (zones d) = Some z" using find_append_new [OF None] d by simp
    then show ?thesis using region [of d] d d1 by (simp add: insert_zone_def same_zone_def)
  next
    case (Some x)
    then have "d = d1" "same_zone x z" using assms d1 by (auto simp: insert_zone_def split: if_splits)
    then show ?thesis using region [of d] Some d1 by (simp add: insert_zone_def)
  qed
qed

lemma createZone_again:
  assumes "createZone K z l db = (Inr (), db1)"
  shows "createZone K z l db1 = (Inr (), db1)"
  using assms insert_zone_again by (auto simp: createZone_def Let_def split: if_splits intro!: immutableInsert_again)

lemma createCluster_again:
  assumes "createCluster c l s db = (Inr (), db1)"
  shows "createCluster c l s db1 = (Inr (), db1)"
proof -
  let ?c = "cluster_row_of c l"
  have "\<exists>m. insert_cluster s ?c d = Inr (Suc m, d)" if "insert_cluster s ?c db = Inr (n, d)" "n \<noteq> 0" for n d
    using that by (auto simp: insert_cluster_def find_append_new cluster_compatible_def split: option.splits if_splits)
  then show ?thesis using assms by (auto simp: createCluster_def split: if_splits intro!: immutableInsert_again)
qed

lemma createPool_again:
  assumes "createPool p db = (Inr (), db1)"
  shows "createPool p db1 = (Inr (), db1)"
proof -
  have "\<exists>m. insert_pool (pool_row_of p) d = Inr (Suc m, d)" if "insert_pool (pool_row_of p) db = Inr (n, d)" "n \<noteq> 0" for n d
    using that by (auto simp: insert_pool_def find_append_new split: option.splits if_splits)
  then show ?thesis using assms by (auto simp: createPool_def split: if_splits intro!: immutableInsert_again)
qed

lemma createMembership_again:
  assumes "createMembership m s db = (Inr (), db1)"
  shows "createMembership m s db1 = (Inr (), db1)"
proof -
  have "\<exists>k. insert_membership s r d = Inr (Suc k, d)" if "insert_membership s r db = Inr (n, d)" "n \<noteq> 0" for r n d
    using that by (auto simp: insert_membership_def find_append_new split: option.splits if_splits)
  then show ?thesis using assms by (auto simp: createMembership_def split: sum.splits intro!: immutableInsert_again)
qed

end
