(* ===== verification/GoNet.thy ===== *)
theory GoNet
  imports Prelude
begin

text \<open>
  The parts of Go's \<open>net\<close> and \<open>net/url\<close> packages the program relies on, as executable
  functions: \<open>net.ParseIP\<close>, \<open>IP.IsPrivate\<close>, \<open>net.JoinHostPort\<close>, \<open>url.Parse\<close>, \<open>URL.Hostname\<close>
  and \<open>URL.Port\<close>, with the strict treatment of colons and brackets of Go 1.26.
\<close>

section \<open>Characters and cutting\<close>

definition digitc :: "char \<Rightarrow> bool" where
  "digitc c \<longleftrightarrow> CHR ''0'' \<le> c \<and> c \<le> CHR ''9''"

definition letterc :: "char \<Rightarrow> bool" where
  "letterc c \<longleftrightarrow> (CHR ''a'' \<le> c \<and> c \<le> CHR ''z'') \<or> (CHR ''A'' \<le> c \<and> c \<le> CHR ''Z'')"

definition hexc :: "char \<Rightarrow> bool" where
  "hexc c \<longleftrightarrow> digitc c \<or> (CHR ''a'' \<le> c \<and> c \<le> CHR ''f'') \<or> (CHR ''A'' \<le> c \<and> c \<le> CHR ''F'')"

definition unhex :: "char \<Rightarrow> nat" where
  "unhex c = (if digitc c then of_char c - 48
     else if CHR ''a'' \<le> c then of_char c - 87 else of_char c - 55)"

definition lowerc :: "char \<Rightarrow> char" where
  "lowerc c = (if CHR ''A'' \<le> c \<and> c \<le> CHR ''Z'' then char_of (of_char c + 32 :: nat) else c)"

text \<open>\<open>strings.Cut\<close>: the text before and after the first occurrence of a byte.\<close>

definition cut :: "char \<Rightarrow> string \<Rightarrow> string \<times> string" where
  "cut c s = (takeWhile (\<lambda>x. x \<noteq> c) s, drop 1 (dropWhile (\<lambda>x. x \<noteq> c) s))"

text \<open>\<open>strings.LastIndex\<close>: the text before and after the last occurrence of a byte.\<close>

definition cut_last :: "char \<Rightarrow> string \<Rightarrow> (string \<times> string) option" where
  "cut_last c s =
     (if c \<in> set s
      then (let post = rev (takeWhile (\<lambda>x. x \<noteq> c) (rev s)) in
            Some (take (length s - length post - 1) s, post))
      else None)"

section \<open>White space\<close>

text \<open>\<open>strings.TrimSpace\<close>: the UTF-8 encodings of the Unicode white space, cut off both ends.\<close>

definition space_codes :: "string list" where
  "space_codes = [[CHR 0x09], [CHR 0x0A], [CHR 0x0B], [CHR 0x0C], [CHR 0x0D], [CHR 0x20],
     [CHR 0xC2, CHR 0x85], [CHR 0xC2, CHR 0xA0], [CHR 0xE1, CHR 0x9A, CHR 0x80]]
     @ map (\<lambda>c. [CHR 0xE2, CHR 0x80, c]) [CHR 0x80, CHR 0x81, CHR 0x82, CHR 0x83, CHR 0x84, CHR 0x85,
         CHR 0x86, CHR 0x87, CHR 0x88, CHR 0x89, CHR 0x8A, CHR 0xA8, CHR 0xA9, CHR 0xAF]
     @ [[CHR 0xE2, CHR 0x81, CHR 0x9F], [CHR 0xE3, CHR 0x80, CHR 0x80]]"

function trim_codes :: "string list \<Rightarrow> string \<Rightarrow> string" where
  "trim_codes ws s =
     (case find (\<lambda>w. w \<noteq> [] \<and> prefix w s) ws of
        None \<Rightarrow> s
      | Some w \<Rightarrow> trim_codes ws (drop (length w) s))"
  by pat_completeness auto
termination
  by (relation "measure (\<lambda>(ws, s). length s)") (auto simp: find_Some_iff prefix_def)

definition TrimSpace :: "string \<Rightarrow> string" where
  "TrimSpace s = rev (trim_codes (map rev space_codes) (rev (trim_codes space_codes s)))"

section \<open>IP addresses\<close>

fun split_on :: "char \<Rightarrow> string \<Rightarrow> string list" where
  "split_on c [] = [[]]"
| "split_on c (x # xs) =
     (if x = c then [] # split_on c xs
      else case split_on c xs of [] \<Rightarrow> [[x]] | w # ws \<Rightarrow> (x # w) # ws)"

definition dec_value :: "string \<Rightarrow> nat" where
  "dec_value s = foldl (\<lambda>a c. 10 * a + (of_char c - 48)) 0 s"

definition hex_value :: "string \<Rightarrow> nat" where
  "hex_value s = foldl (\<lambda>a c. 16 * a + unhex c) 0 s"

definition octet :: "string \<Rightarrow> bool" where
  "octet s \<longleftrightarrow> s \<noteq> [] \<and> list_all digitc s \<and> dec_value s \<le> 255 \<and> (length s > 1 \<longrightarrow> hd s \<noteq> CHR ''0'')"

definition parse_ipv4 :: "string \<Rightarrow> nat list option" where
  "parse_ipv4 s =
     (let fs = split_on CHR ''.'' s in
      if length fs = 4 \<and> list_all octet fs then Some (map dec_value fs) else None)"

text \<open>The groups of an IPv6 address: bytes so far, position of \<open>::\<close>, and what is left.\<close>

function v6_groups ::
    "string \<Rightarrow> nat list \<Rightarrow> nat option \<Rightarrow> (nat list \<times> nat option \<times> string) option" where
  "v6_groups s bs e =
     (if length bs \<ge> 16 then Some (bs, e, s)
      else
        (let run = takeWhile hexc s; rest = dropWhile hexc s in
         if run = [] \<or> length run > 4 then None
         else if rest \<noteq> [] \<and> hd rest = CHR ''.''
         then (if (e = None \<and> length bs \<noteq> 12) \<or> length bs + 4 > 16 then None
               else case parse_ipv4 s of None \<Rightarrow> None | Some q \<Rightarrow> Some (bs @ q, e, []))
         else
           (let bs' = bs @ [hex_value run div 256, hex_value run mod 256] in
            if rest = [] then Some (bs', e, [])
            else if hd rest \<noteq> CHR '':'' \<or> length rest = 1 then None
            else if hd (tl rest) = CHR '':''
            then (if e \<noteq> None then None
                  else if tl (tl rest) = [] then Some (bs', Some (length bs'), [])
                  else v6_groups (tl (tl rest)) bs' (Some (length bs')))
            else v6_groups (tl rest) bs' e)))"
  by pat_completeness auto
termination
  by (relation "measure (\<lambda>(s, bs, e). 16 - length bs)") auto

definition parse_ipv6 :: "string \<Rightarrow> nat list option" where
  "parse_ipv6 s =
     (if CHR ''%'' \<in> set s then None
      else if s = ''::'' then Some (replicate 16 0)
      else
        (let (s', e) = (if prefix ''::'' s then (drop 2 s, Some 0) else (s, None)) in
         case v6_groups s' [] e of
           None \<Rightarrow> None
         | Some (bs, e', rest) \<Rightarrow>
             if rest \<noteq> [] then None
             else if length bs < 16
             then (case e' of None \<Rightarrow> None
                   | Some k \<Rightarrow> Some (take k bs @ replicate (16 - length bs) 0 @ drop k bs))
             else if e' \<noteq> None then None else Some bs))"

text \<open>\<open>net.ParseIP\<close>: sixteen bytes, an IPv4 address in its mapped form.\<close>

definition ParseIP :: "string \<Rightarrow> nat list option" where
  "ParseIP s =
     (case dropWhile (\<lambda>c. c \<noteq> CHR ''.'' \<and> c \<noteq> CHR '':'' \<and> c \<noteq> CHR ''%'') s of
        [] \<Rightarrow> None
      | c # _ \<Rightarrow>
          if c = CHR ''.''
          then map_option (\<lambda>q. replicate 10 0 @ [255, 255] @ q) (parse_ipv4 s)
          else if c = CHR '':'' then parse_ipv6 s else None)"

definition IsPrivate :: "nat list \<Rightarrow> bool" where
  "IsPrivate ip \<longleftrightarrow>
     (if take 12 ip = replicate 10 0 @ [255, 255]
      then ip ! 12 = 10 \<or> (ip ! 12 = 172 \<and> ip ! 13 div 16 = 1) \<or> (ip ! 12 = 192 \<and> ip ! 13 = 168)
      else length ip = 16 \<and> ip ! 0 div 2 = 126)"

definition private_ip :: "string \<Rightarrow> bool" where
  "private_ip s \<longleftrightarrow> (case ParseIP s of None \<Rightarrow> False | Some ip \<Rightarrow> IsPrivate ip)"

definition JoinHostPort :: "string \<Rightarrow> string \<Rightarrow> string" where
  "JoinHostPort host port =
     (if CHR '':'' \<in> set host then ''['' @ host @ '']:'' @ port else host @ '':'' @ port)"

section \<open>URLs\<close>

record url =
  u_scheme :: string
  u_opaque :: string
  u_user :: bool
  u_host :: string
  u_path :: string
  u_rawquery :: string
  u_fragment :: string

datatype url_mode = EncodeHost | EncodeZone | EncodeOther

definition host_char :: "char \<Rightarrow> bool" where
  "host_char c \<longleftrightarrow> digitc c \<or> letterc c
     \<or> c \<in> {CHR ''!'', CHR ''$'', CHR ''&'', CHR 0x27, CHR ''('', CHR '')'', CHR ''*'', CHR ''+'', CHR '','',
            CHR '';'', CHR ''='', CHR '':'', CHR ''['', CHR '']'', CHR ''<'', CHR ''>'', CHR 0x22,
            CHR ''-'', CHR ''_'', CHR ''.'', CHR ''~''}"

fun unescape :: "url_mode \<Rightarrow> string \<Rightarrow> string option" where
  "unescape mode [] = Some []"
| "unescape mode (c # cs) =
     (if c = CHR ''%'' then
        (case cs of
           a # b # rest \<Rightarrow>
             (let v = char_of (16 * unhex a + unhex b) in
              if \<not> hexc a \<or> \<not> hexc b
                 \<or> (mode = EncodeHost \<and> unhex a < 8 \<and> [a, b] \<noteq> ''25'')
                 \<or> (mode = EncodeZone \<and> [a, b] \<noteq> ''25'' \<and> v \<noteq> CHR '' '' \<and> \<not> host_char v)
              then None else map_option (\<lambda>t. v # t) (unescape mode rest))
         | _ \<Rightarrow> None)
      else if mode \<noteq> EncodeOther \<and> c < CHR 0x80 \<and> \<not> host_char c then None
      else map_option (\<lambda>t. c # t) (unescape mode cs))"

text \<open>\<open>getScheme\<close>: \<open>None\<close> is the missing-scheme error.\<close>

definition get_scheme :: "string \<Rightarrow> (string \<times> string) option" where
  "get_scheme s =
     (let sch = takeWhile (\<lambda>c. letterc c \<or> digitc c \<or> c \<in> {CHR ''+'', CHR ''-'', CHR ''.''}) s;
          rest = drop (length sch) s in
      if s = [] then Some ([], s)
      else if hd s = CHR '':'' then None
      else if \<not> letterc (hd s) \<or> rest = [] \<or> hd rest \<noteq> CHR '':'' then Some ([], s)
      else Some (sch, tl rest))"

definition valid_optional_port :: "string \<Rightarrow> bool" where
  "valid_optional_port p \<longleftrightarrow> p = [] \<or> (hd p = CHR '':'' \<and> list_all digitc (tl p))"

fun find_pct25 :: "string \<Rightarrow> nat option" where
  "find_pct25 [] = None"
| "find_pct25 (c # cs) = (if prefix ''%25'' (c # cs) then Some 0 else map_option Suc (find_pct25 cs))"

text \<open>A bracketed host must be an IPv6 address, possibly with a zone (Go 1.26).\<close>

definition is_ipv6_literal :: "string \<Rightarrow> bool" where
  "is_ipv6_literal s \<longleftrightarrow>
     (case dropWhile (\<lambda>c. c \<noteq> CHR ''.'' \<and> c \<noteq> CHR '':'' \<and> c \<noteq> CHR ''%'') s of
        [] \<Rightarrow> False
      | c # _ \<Rightarrow> c = CHR '':'' \<and> parse_ipv6 (fst (cut CHR ''%'' s)) \<noteq> None
          \<and> (CHR ''%'' \<in> set s \<longrightarrow> snd (cut CHR ''%'' s) \<noteq> []))"

definition unescape_literal :: "string \<Rightarrow> string option" where
  "unescape_literal h =
     (case find_pct25 h of
        None \<Rightarrow> unescape EncodeHost h
      | Some k \<Rightarrow>
          (case (unescape EncodeHost (take k h), unescape EncodeZone (drop k h)) of
             (Some a, Some b) \<Rightarrow> Some (a @ b)
           | _ \<Rightarrow> None))"

definition parse_host :: "string \<Rightarrow> string option" where
  "parse_host h =
     (if CHR ''['' \<in> set h then
        (if hd h \<noteq> CHR ''['' \<or> CHR ''['' \<in> set (tl h) then None
         else case cut_last CHR '']'' h of
             None \<Rightarrow> None
           | Some (pre, post) \<Rightarrow>
               if \<not> valid_optional_port post then None
               else case unescape_literal (tl pre) of
                   None \<Rightarrow> None
                 | Some n \<Rightarrow>
                     if is_ipv6_literal n then Some (CHR ''['' # n @ CHR '']'' # post) else None)
      else if CHR '':'' \<in> set h \<and> \<not> list_all digitc (snd (cut CHR '':'' h)) then None
      else unescape EncodeHost h)"

definition userinfo_char :: "char \<Rightarrow> bool" where
  "userinfo_char c \<longleftrightarrow> digitc c \<or> letterc c
     \<or> c \<in> {CHR ''-'', CHR ''.'', CHR ''_'', CHR '':'', CHR ''~'', CHR ''!'', CHR ''$'', CHR ''&'', CHR 0x27,
            CHR ''('', CHR '')'', CHR ''*'', CHR ''+'', CHR '','', CHR '';'', CHR ''='', CHR ''%'', CHR ''@''}"

definition parse_authority :: "string \<Rightarrow> (bool \<times> string) option" where
  "parse_authority a =
     (case cut_last CHR ''@'' a of
        None \<Rightarrow> map_option (\<lambda>h. (False, h)) (parse_host a)
      | Some (info, h) \<Rightarrow>
          if list_all userinfo_char info \<and> unescape EncodeOther (fst (cut CHR '':'' info)) \<noteq> None
             \<and> unescape EncodeOther (snd (cut CHR '':'' info)) \<noteq> None
          then map_option (\<lambda>h'. (True, h')) (parse_host h) else None)"

definition url_parse_main :: "string \<Rightarrow> url option" where
  "url_parse_main s =
     (if list_ex (\<lambda>c. c < CHR 0x20 \<or> c = CHR 0x7F) s then None
      else if s = ''*''
      then Some \<lparr>u_scheme = [], u_opaque = [], u_user = False, u_host = [], u_path = ''*'',
                 u_rawquery = [], u_fragment = []\<rparr>
      else case get_scheme s of
          None \<Rightarrow> None
        | Some (sch, rest0) \<Rightarrow>
            (let (rest, query) = cut CHR ''?'' rest0;
                 u = \<lparr>u_scheme = map lowerc sch, u_opaque = [], u_user = False, u_host = [],
                      u_path = [], u_rawquery = query, u_fragment = []\<rparr> in
             if \<not> prefix ''/'' rest \<and> sch \<noteq> [] then Some (u\<lparr>u_opaque := rest\<rparr>)
             else if \<not> prefix ''/'' rest \<and> CHR '':'' \<in> set (fst (cut CHR ''/'' rest)) then None
             else if (sch \<noteq> [] \<or> \<not> prefix ''///'' rest) \<and> prefix ''//'' rest
             then
               (let auth = takeWhile (\<lambda>c. c \<noteq> CHR ''/'') (drop 2 rest);
                    path = dropWhile (\<lambda>c. c \<noteq> CHR ''/'') (drop 2 rest) in
                case (parse_authority auth, unescape EncodeOther path) of
                  (Some (usr, h), Some p) \<Rightarrow> Some (u\<lparr>u_user := usr, u_host := h, u_path := p\<rparr>)
                | _ \<Rightarrow> None)
             else map_option (\<lambda>p. u\<lparr>u_path := p\<rparr>) (unescape EncodeOther rest)))"

definition url_parse :: "string \<Rightarrow> url option" where
  "url_parse s =
     (let (pre, frag) = cut CHR ''#'' s in
      case (url_parse_main pre, unescape EncodeOther frag) of
        (Some u, Some f) \<Rightarrow> Some (u\<lparr>u_fragment := f\<rparr>)
      | _ \<Rightarrow> None)"

definition split_host_port :: "string \<Rightarrow> string \<times> string" where
  "split_host_port hp =
     (let (h, p) = (case cut_last CHR '':'' hp of
          None \<Rightarrow> (hp, [])
        | Some (pre, post) \<Rightarrow> if list_all digitc post then (pre, post) else (hp, [])) in
      (if prefix ''['' h \<and> suffix '']'' h then butlast (tl h) else h, p))"

definition Hostname :: "url \<Rightarrow> string" where
  "Hostname u = fst (split_host_port (u_host u))"

definition Port :: "url \<Rightarrow> string" where
  "Port u = snd (split_host_port (u_host u))"

end
