(* ===== verification/CapacityProvision.thy ===== *)
theory CapacityProvision
  imports CapacityLease CapacityCatalog GoNet
begin

text \<open>
  The provisioning hand-off: recording a launch, hydrating the trusted target and the worker
  binding (\<open>src/internal/capacity/store.go\<close>, \<open>provision_handoff.go\<close>, \<open>provision_lease.go\<close>) and
  the controller that drives one operation forward (\<open>provision_worker.go\<close>).  The provider
  executor is a parameter: each of its calls returns an outcome and the database as it is when
  the call returns, with whatever was committed meanwhile.
\<close>

section \<open>Recording a launch (store.go)\<close>

definition provider_slot_free :: "string option \<Rightarrow> string \<Rightarrow> bool" where
  "provider_slot_free stored new \<longleftrightarrow> stored = None \<or> stored = Some [] \<or> stored = Some new"

definition launch_hit :: "db \<Rightarrow> string \<Rightarrow> string \<Rightarrow> string \<Rightarrow> host_row \<Rightarrow> bool" where
  "launch_hit db hostID providerID nodeProviderID h \<longleftrightarrow> h_id h = hostID
     \<and> list_ex (\<lambda>z. h_crane_zone h = Some (z_id z)) (zones db)
     \<and> provider_slot_free (h_providerid h) providerID
     \<and> (h_kubernetes_provider_id h = [] \<or> nodeProviderID = []
        \<or> h_kubernetes_provider_id h = nodeProviderID)"

definition launched_host ::
    "db \<Rightarrow> int \<Rightarrow> string \<Rightarrow> string \<Rightarrow> string \<Rightarrow> host_row \<Rightarrow> host_row" where
  "launched_host db now providerID endpoint nodeProviderID h =
     h\<lparr>h_providerid := (if provider_slot_free (h_providerid h) providerID then Some providerID
                        else h_providerid h),
       h_kubernetes_provider_id := (if nodeProviderID = [] then h_kubernetes_provider_id h
                                    else nodeProviderID),
       h_endpoint := (if endpoint = [] then h_endpoint h else Some endpoint),
       h_subd_endpoint := (if endpoint = [] then h_subd_endpoint h else endpoint),
       h_provider := (case find (\<lambda>z. h_crane_zone h = Some (z_id z)) (zones db) of
            None \<Rightarrow> h_provider h | Some z \<Rightarrow> Some (z_provider z)),
       h_state := (if h_state h \<in> {HostProvisioning, HostBooting} then HostBooting else h_state h),
       h_updatedat := Some now\<rparr>"

definition RecordLaunchWithAddress ::
    "int \<Rightarrow> Operation \<Rightarrow> string \<Rightarrow> string \<Rightarrow> string list \<Rightarrow> db \<Rightarrow> error + db" where
  "RecordLaunchWithAddress now op providerID privateIP nodeProviderIDs db =
     (if op_Kind op \<noteq> Provision \<or> providerID = [] then Inl (ErrMsg ''invalid provider result'')
      else if length nodeProviderIDs > 1 then Inl ErrInvalid
      else
        (let nodeProviderID = (case nodeProviderIDs of [] \<Rightarrow> [] | x # _ \<Rightarrow> x) in
         rbind (fenced_ops (\<lambda>r. launching now op r \<and> o_host_id r = Some (op_HostID op))
                  (\<lambda>r. r\<lparr>o_updated_at := now\<rparr>) db) (\<lambda>db1.
         if privateIP \<noteq> [] \<and> \<not> private_ip privateIP then Inl ErrInvalid
         else
           (let endpoint = (if privateIP = [] then []
                            else ''https://'' @ JoinHostPort privateIP ''44001'');
                hit = launch_hit db1 (op_HostID op) providerID nodeProviderID in
            rbind (affectedExactlyOne (cnt hit (hosts db1))) (\<lambda>_.
            Inr (db1\<lparr>
              hosts := upd_where hit (launched_host db1 now providerID endpoint nodeProviderID)
                         (hosts db1),
              infrastructure_reservations :=
                upd_where (\<lambda>r. r_host_id r = op_HostID op \<and> r_state r = Reserved)
                  (\<lambda>r. r\<lparr>r_state := Committed\<rparr>) (infrastructure_reservations db1)\<rparr>))))))"

definition RecordLaunch :: "int \<Rightarrow> Operation \<Rightarrow> string \<Rightarrow> db \<Rightarrow> error + db" where
  "RecordLaunch now op providerID db = RecordLaunchWithAddress now op providerID [] [] db"

section \<open>Trusted target (store.go, provision_lease.go)\<close>

definition oldest_first :: "host_row \<Rightarrow> int \<times> int" where
  "oldest_first h = (case h_createdat h of None \<Rightarrow> (1, 0) | Some t \<Rightarrow> (0, t))"

definition spire_provider :: "db \<Rightarrow> string \<Rightarrow> string" where
  "spire_provider db zone =
     (case order_limit oldest_first 1
            (filter (\<lambda>h. h_protected h \<and> h_crane_zone h = None \<and> h_zone h = Some zone
                       \<and> h_role h = Some ''spire'') (hosts db)) of
        [] \<Rightarrow> []
      | h # _ \<Rightarrow> coalesce (h_providerid h))"

definition template_of :: "op_parameters \<Rightarrow> ProvisioningTemplate option" where
  "template_of ps = (case ps of ParamsTemplate t \<Rightarrow> Some t | _ \<Rightarrow> None)"

definition LoadProvisioningTarget :: "Operation \<Rightarrow> db \<Rightarrow> error + Operation" where
  "LoadProvisioningTarget op db =
     (if op_Kind op \<noteq> Provision \<or> op_HostID op = [] \<or> op_NodeGroupID op = [] then Inl ErrInvalid
      else case template_of (op_Parameters op) of
          None \<Rightarrow> Inl ErrInvalid
        | Some t \<Rightarrow>
            if \<not> json_valid (pt_LaunchParameters t) \<or> pt_TemplateRevision t = []
               \<or> pt_CapacityClass t = [] then Inl ErrInvalid
            else case [(g, z, c). g \<leftarrow> node_groups db,
                         g_id g = op_NodeGroupID op \<and> g_zone_id g = op_ZoneID op,
                         z \<leftarrow> zones db,
                         z_id z = g_zone_id g \<and> z_lifecycle_state z = ''ready'' \<and> z_enabled z,
                         c \<leftarrow> clusters db,
                         c_id c = g_cluster_id g \<and> c_lifecycle_state c = ''ready''
                         \<and> membership_ready db (g_cluster_id g) (g_zone_id g)] of
                [] \<Rightarrow> Inl ErrInactive
              | (g, z, c) # _ \<Rightarrow>
                  (let op' = op\<lparr>op_LaunchParameters := pt_LaunchParameters t,
                         op_Scheduling := pt_Scheduling t,
                         op_TemplateRevision := pt_TemplateRevision t,
                         op_CapacityClass := pt_CapacityClass t,
                         op_ClusterID := g_cluster_id g, op_NodePoolID := g_node_pool_id g,
                         op_Provider := z_provider z, op_AccountID := z_account_id z,
                         op_Region := z_region z, op_ProviderZoneID := z_provider_zone_id z,
                         op_KubernetesRegion := z_kubernetes_region z,
                         op_KubernetesZone := z_kubernetes_zone z,
                         op_APIServerEndpoint := c_api_server_endpoint c,
                         op_CACertHash := c_ca_cert_hash c,
                         op_SpireInstanceID := spire_provider db (z_id z)\<rparr> in
                   if op_SpireInstanceID op' = []
                   then Inl (ErrMsg ''zone SPIRE host is unavailable'')
                   else if st_Zone (pt_Scheduling t) \<noteq> []
                        \<and> (st_Region (pt_Scheduling t) \<noteq> z_kubernetes_region z
                           \<or> st_Zone (pt_Scheduling t) \<noteq> z_kubernetes_zone z)
                   then Inl ErrInvalid else Inr op'))"

text \<open>The group of an operation has a ready, approved membership.\<close>

definition op_membership_ready :: "db \<Rightarrow> op_row \<Rightarrow> bool" where
  "op_membership_ready db r \<longleftrightarrow>
     list_ex (\<lambda>g. o_group_id r = Some (g_id g)
                \<and> membership_ready db (g_cluster_id g) (g_zone_id g)) (node_groups db)"

definition CheckProvisionLease :: "int \<Rightarrow> Operation \<Rightarrow> db \<Rightarrow> error + unit" where
  "CheckProvisionLease now op db =
     (if list_ex (\<lambda>r. launching now op r \<and> o_host_id r = Some (op_HostID op)
           \<and> list_ex (\<lambda>g. o_group_id r = Some (g_id g) \<and> g_cluster_id g = op_ClusterID op
                        \<and> membership_ready db (g_cluster_id g) (g_zone_id g)) (node_groups db))
         (operations db)
      then Inr () else Inl ErrFenced)"

section \<open>Worker binding (provision_handoff.go)\<close>

record ProvisionBinding_t =
  pb_NodeName :: string
  pb_NodeUID :: string
  pb_ProviderID :: string
  pb_ContractHash :: string
  pb_ReleaseStarted :: bool
  pb_ExpectedState :: ExpectedHostState

definition zero_expected :: ExpectedHostState where
  "zero_expected = \<lparr>eh_Revision = 0, eh_ImageID = [], eh_Track = [], eh_Version = [],
     eh_Services = [], eh_Packages = [], eh_Secret = None\<rparr>"

definition binding_row_of :: "Operation \<Rightarrow> ProvisionBinding_t \<Rightarrow> binding_row" where
  "binding_row_of op b =
     \<lparr>b_host_id = op_HostID op, b_operation_id = op_ID op, b_node_name = pb_NodeName b,
      b_node_uid = pb_NodeUID b, b_provider_id = pb_ProviderID b,
      b_contract_hash = pb_ContractHash b, b_expected_state = None, b_release_started = False\<rparr>"

definition same_binding :: "binding_row \<Rightarrow> binding_row \<Rightarrow> bool" where
  "same_binding x y \<longleftrightarrow> b_operation_id x = b_operation_id y \<and> b_node_name x = b_node_name y
     \<and> b_node_uid x = b_node_uid y \<and> b_provider_id x = b_provider_id y
     \<and> b_contract_hash x = b_contract_hash y"

definition BindProvisionNode ::
    "(string \<Rightarrow> string) \<Rightarrow> int \<Rightarrow> Operation \<Rightarrow> ProvisionBinding_t \<Rightarrow> db \<Rightarrow> error + db" where
  "BindProvisionNode sha256 now op b db =
     (if pb_NodeName b \<noteq> WorkerNodeName sha256 (op_HostID op) \<or> pb_NodeUID b = []
         \<or> pb_ProviderID b = [] \<or> length (pb_ContractHash b) \<noteq> 64 then Inl ErrInvalid
      else if \<not> list_ex (\<lambda>r. launching now op r \<and> o_host_id r = Some (op_HostID op)
                \<and> host_in db (o_host_id r) {HostRegistering} \<and> op_membership_ready db r)
              (operations db)
      then Inl ErrFenced
      else
        (let row = binding_row_of op b in
         case find (\<lambda>x. b_host_id x = op_HostID op) (worker_provisioning_state db) of
           Some x \<Rightarrow> if same_binding x row then Inr db else Inl ErrFenced
         | None \<Rightarrow>
             if list_ex (\<lambda>x. b_operation_id x = b_operation_id row \<or> b_node_uid x = b_node_uid row)
                  (worker_provisioning_state db)
             then Inl unique_violation
             else Inr (db\<lparr>worker_provisioning_state := worker_provisioning_state db @ [row]\<rparr>)))"

definition ProvisionBinding :: "Operation \<Rightarrow> db \<Rightarrow> error + ProvisionBinding_t" where
  "ProvisionBinding op db =
     (case find (\<lambda>x. b_host_id x = op_HostID op \<and> b_operation_id x = op_ID op)
             (worker_provisioning_state db) of
        None \<Rightarrow> Inl ErrNoRows
      | Some x \<Rightarrow> Inr \<lparr>pb_NodeName = b_node_name x, pb_NodeUID = b_node_uid x,
                       pb_ProviderID = b_provider_id x, pb_ContractHash = b_contract_hash x,
                       pb_ReleaseStarted = b_release_started x,
                       pb_ExpectedState = (case b_expected_state x of None \<Rightarrow> zero_expected
                                           | Some e \<Rightarrow> e)\<rparr>)"

definition PinProvisionExpectedState ::
    "int \<Rightarrow> Operation \<Rightarrow> ExpectedHostState \<Rightarrow> db \<Rightarrow> error + ExpectedHostState \<times> db" where
  "PinProvisionExpectedState now op inp db =
     (if eh_Revision inp \<noteq> 1 \<or> eh_Version inp = [] \<or> length (eh_Version inp) > 128
         \<or> eh_Secret inp \<noteq> None then Inl ErrInvalid
      else if \<not> list_ex (\<lambda>r. lease_live now op r \<and> o_state r = OpLaunching
                \<and> o_host_id r = Some (op_HostID op) \<and> host_in db (o_host_id r) {HostRegistering})
              (operations db)
      then Inl ErrFenced
      else
        (let w = (\<lambda>x. b_host_id x = op_HostID op \<and> b_operation_id x = op_ID op) in
         case find w (worker_provisioning_state db) of
           None \<Rightarrow> Inl ErrNoRows
         | Some x \<Rightarrow>
             (let pinned = (case b_expected_state x of None \<Rightarrow> inp | Some e \<Rightarrow> e) in
              if eh_Revision pinned \<noteq> 1 \<or> eh_Version pinned = [] \<or> eh_Secret pinned \<noteq> None
              then Inl ErrInvalid
              else Inr (pinned, db\<lparr>
                worker_provisioning_state :=
                  upd_where w (\<lambda>y. y\<lparr>b_expected_state := Some pinned\<rparr>) (worker_provisioning_state db),
                hosts := upd_where (\<lambda>h. h_id h = op_HostID op)
                  (\<lambda>h. h\<lparr>h_desired_state_version := eh_Version pinned\<rparr>) (hosts db)\<rparr>))))"

text \<open>\<open>expected_state->>'version'\<close> and \<open>expected_state->>'revision'\<close> pin the desired version.\<close>

definition pinned_version :: "binding_row \<Rightarrow> string \<Rightarrow> bool" where
  "pinned_version b version \<longleftrightarrow>
     (case b_expected_state b of None \<Rightarrow> False
      | Some e \<Rightarrow> version \<noteq> [] \<and> eh_Version e = version \<and> eh_Revision e = 1)"

definition PrepareProvisionRelease :: "int \<Rightarrow> Operation \<Rightarrow> string \<Rightarrow> db \<Rightarrow> error + db" where
  "PrepareProvisionRelease now op version db =
     (let hit = (\<lambda>b. list_ex (\<lambda>r. lease_live now op r \<and> o_state r = OpLaunching
               \<and> b_operation_id b = o_id r \<and> o_host_id r = Some (b_host_id b)
               \<and> op_membership_ready db r
               \<and> list_ex (\<lambda>h. h_id h = b_host_id b \<and> h_state h = HostConverging
                            \<and> h_desired_state_version h = version) (hosts db))
             (operations db) \<and> pinned_version b version) in
      rbind (fencedResult (cnt hit (worker_provisioning_state db))) (\<lambda>_.
        Inr (db\<lparr>worker_provisioning_state :=
               upd_where hit (\<lambda>b. b\<lparr>b_release_started := True\<rparr>) (worker_provisioning_state db)\<rparr>)))"

definition topology_ready :: "db \<Rightarrow> op_row \<Rightarrow> bool" where
  "topology_ready db r \<longleftrightarrow>
     list_ex (\<lambda>g. o_group_id r = Some (g_id g) \<and> membership_ready db (g_cluster_id g) (g_zone_id g)
        \<and> list_ex (\<lambda>z. z_id z = g_zone_id g \<and> z_enabled z \<and> z_lifecycle_state z = ''ready'') (zones db)
        \<and> list_ex (\<lambda>c. c_id c = g_cluster_id g \<and> c_lifecycle_state c = ''ready'') (clusters db))
       (node_groups db)"

definition finalize_row :: "int \<Rightarrow> Operation \<Rightarrow> string \<Rightarrow> db \<Rightarrow> op_row \<Rightarrow> bool" where
  "finalize_row now op version db r \<longleftrightarrow> lease_live (now + 1000000) op r \<and> o_kind r = Provision
     \<and> o_state r = OpLaunching \<and> o_host_id r = Some (op_HostID op) \<and> topology_ready db r
     \<and> list_ex (\<lambda>h. h_id h = op_HostID op \<and> h_state h = HostConverging
                  \<and> h_desired_state_version h = version) (hosts db)
     \<and> list_ex (\<lambda>b. b_host_id b = op_HostID op \<and> b_operation_id b = o_id r \<and> b_release_started b
                  \<and> pinned_version b version) (worker_provisioning_state db)"

text \<open>
  The release runs while the transaction holds its row locks; \<open>now1\<close> is when the rows are
  locked, \<open>now2\<close> when the release has returned its outcome \<open>rel\<close> and the rows are written.
  Its context expires after 20 seconds or one second before the lease.
\<close>

definition FinalizeProvision ::
    "int \<Rightarrow> int \<Rightarrow> Operation \<Rightarrow> string \<Rightarrow> error + unit \<Rightarrow> db \<Rightarrow> error + db" where
  "FinalizeProvision now1 now2 op version rel db =
     (case find (finalize_row now1 op version db) (operations db) of
        None \<Rightarrow> Inl ErrFenced
      | Some r \<Rightarrow>
          (let until = (case o_lease_until r of None \<Rightarrow> 0 | Some t \<Rightarrow> t);
               deadline = min (now1 + 20 * 1000000) (until - 1000000) in
           case rel of
             Inl e \<Rightarrow> Inl e
           | Inr _ \<Rightarrow>
               if now2 \<ge> deadline then Inl (ErrMsg ''context deadline exceeded'')
               else rbind (fenced_hosts
                   (\<lambda>r h. o_id r = op_ID op \<and> o_host_id r = Some (h_id h) \<and> o_fence r = op_Fence op
                      \<and> (case o_lease_until r of None \<Rightarrow> False | Some t \<Rightarrow> t > now2)
                      \<and> h_state h = HostConverging)
                   (\<lambda>h. h\<lparr>h_state := HostReady, h_observed_state_version := h_desired_state_version h,
                          h_updatedat := Some now2\<rparr>) db)
                 (fenced_ops (\<lambda>r. o_id r = op_ID op \<and> o_fence r = op_Fence op)
                   (\<lambda>r. r\<lparr>o_state := OpSucceeded, o_lease_owner := None, o_lease_until := None,
                          o_updated_at := now2\<rparr>))))"

text \<open>The context value the release callback carries.\<close>

definition ProvisionReleaseAuthorized :: "Operation option \<Rightarrow> Operation \<Rightarrow> bool" where
  "ProvisionReleaseAuthorized ctx op \<longleftrightarrow>
     (case ctx of None \<Rightarrow> False
      | Some h \<Rightarrow> op_ID h = op_ID op \<and> op_Fence h = op_Fence op \<and> op_LeaseOwner h = op_LeaseOwner op)"

section \<open>The provisioning controller (provision_worker.go)\<close>

record ProvisionResult =
  pv_KubernetesProviderID :: string
  pv_ProviderID :: string
  pv_PrivateIP :: string

record ProvisionExecutor =
  pe_Launch :: "Operation \<Rightarrow> db \<Rightarrow> (error + ProvisionResult) \<times> db"
  pe_EnrollAndJoin :: "Operation \<Rightarrow> Host \<Rightarrow> db \<Rightarrow> (error + unit) \<times> db"
  pe_Ready :: "Operation \<Rightarrow> Host \<Rightarrow> db \<Rightarrow> (error + bool) \<times> db"
  pe_Release :: "Operation \<Rightarrow> Host \<Rightarrow> error + unit"

text \<open>A committed store call: on an error the database stays as it was and the step ends.\<close>

definition call :: "error + db \<Rightarrow> db \<Rightarrow> (db \<Rightarrow> (error + unit) \<times> db) \<Rightarrow> (error + unit) \<times> db" where
  "call r db k = (case r of Inl e \<Rightarrow> (Inl e, db) | Inr db' \<Rightarrow> k db')"

definition returned :: "db \<Rightarrow> (error + unit) \<times> db" where
  "returned db = (Inr (), db)"

text \<open>
  The renewals the background loop of \<open>withLease\<close> makes, at the times \<open>ticks\<close>, while an
  executor call runs; one that fails cancels the step.
\<close>

definition renewals :: "Operation \<Rightarrow> int \<Rightarrow> int list \<Rightarrow> db \<Rightarrow> error + db" where
  "renewals op d ticks db = rfold (\<lambda>t. Renew t op d) ticks db"

definition retryable ::
    "(nat \<Rightarrow> int) \<Rightarrow> Operation \<Rightarrow> string \<Rightarrow> error \<Rightarrow> db \<Rightarrow> (error + unit) \<times> db" where
  "retryable now op category cause db =
     call (RecordProvisionFailure (now 8) op category db) db (\<lambda>db1.
     call (ReleaseProvisionLease (now 9) op db1) db1 (\<lambda>db2.
     (Inl (ErrWrap category cause), db2)))"

definition advance_launch ::
    "ProvisionExecutor \<Rightarrow> (nat \<Rightarrow> int) \<Rightarrow> int \<Rightarrow> int list \<Rightarrow> Operation \<Rightarrow> Host \<Rightarrow> db
     \<Rightarrow> (error + unit) \<times> db" where
  "advance_launch E now d ticks op host db =
     call (BeginLaunch (now 1) op db) db (\<lambda>db1.
     call (if ho_State host = HostRequested
           then SetProvisionState (now 2) op HostRequested HostProvisioning db1 else Inr db1) db1 (\<lambda>db2.
     (case pe_Launch E op db2 of (res, db3) \<Rightarrow>
        call (renewals op d ticks db3) db3 (\<lambda>db4.
        case res of
          Inl e \<Rightarrow> retryable now op ''provider_launch'' e db4
        | Inr v \<Rightarrow>
            call (RecordLaunchWithAddress (now 3) op (pv_ProviderID v) (pv_PrivateIP v)
                    [pv_KubernetesProviderID v] db4) db4 (\<lambda>db5.
            call (ReleaseProvisionLease (now 4) op db5) db5 returned)))))"

definition advance_enroll ::
    "ProvisionExecutor \<Rightarrow> (nat \<Rightarrow> int) \<Rightarrow> int \<Rightarrow> int list \<Rightarrow> Operation \<Rightarrow> Host \<Rightarrow> db
     \<Rightarrow> (error + unit) \<times> db" where
  "advance_enroll E now d ticks op host db =
     (case pe_EnrollAndJoin E op host db of (res, db1) \<Rightarrow>
        call (renewals op d ticks db1) db1 (\<lambda>db2.
        case res of
          Inl e \<Rightarrow> retryable now op ''host_enrollment'' e db2
        | Inr _ \<Rightarrow>
            call (SetProvisionState (now 3) op HostRegistering HostConverging db2) db2 (\<lambda>db3.
            call (ReleaseProvisionLease (now 4) op db3) db3 returned)))"

definition advance_ready ::
    "ProvisionExecutor \<Rightarrow> (nat \<Rightarrow> int) \<Rightarrow> int \<Rightarrow> int list \<Rightarrow> Operation \<Rightarrow> Host \<Rightarrow> db
     \<Rightarrow> (error + unit) \<times> db" where
  "advance_ready E now d ticks op host db =
     (case pe_Ready E op host db of (res, db1) \<Rightarrow>
        call (renewals op d ticks db1) db1 (\<lambda>db2.
        case res of
          Inl e \<Rightarrow> retryable now op ''readiness_check'' e db2
        | Inr ready \<Rightarrow>
            if \<not> ready then call (ReleaseProvisionLease (now 3) op db2) db2 returned
            else call (PrepareProvisionRelease (now 3) op (ho_DesiredStateVersion host) db2) db2 (\<lambda>db3.
              case FinalizeProvision (now 4) (now 5) op (ho_DesiredStateVersion host)
                     (pe_Release E op host) db3 of
                Inl e \<Rightarrow> retryable now op ''readiness_handoff'' e db3
              | Inr db4 \<Rightarrow> returned db4)))"

definition advance ::
    "ProvisionExecutor \<Rightarrow> (nat \<Rightarrow> int) \<Rightarrow> int \<Rightarrow> int list \<Rightarrow> Operation \<Rightarrow> db \<Rightarrow> (error + unit) \<times> db"
  where
  "advance E now d ticks op db =
     (case Store_Host db (op_HostID op) of
        Inl e \<Rightarrow> (Inl e, db)
      | Inr host \<Rightarrow>
          (case ho_State host of
             HostRequested \<Rightarrow> advance_launch E now d ticks op host db
           | HostProvisioning \<Rightarrow> advance_launch E now d ticks op host db
           | HostBooting \<Rightarrow>
               call (SetProvisionState (now 2) op HostBooting HostRegistering db) db
                 (advance_enroll E now d ticks op host)
           | HostRegistering \<Rightarrow> advance_enroll E now d ticks op host db
           | HostConverging \<Rightarrow> advance_ready E now d ticks op host db
           | HostReady \<Rightarrow> call (CompleteProvision (now 1) op db) db returned
           | _ \<Rightarrow> (Inl (ErrMsg ''provision operation has host in non-runnable state''), db)))"

text \<open>A zero lease means two minutes.\<close>

definition lease_or_default :: "int \<Rightarrow> int" where
  "lease_or_default d = (if d = 0 then 120 * 1000000000 else d)"

definition ProvisionController_RunOnce ::
    "ProvisionExecutor \<Rightarrow> string \<Rightarrow> string \<Rightarrow> int \<Rightarrow> (nat \<Rightarrow> int) \<Rightarrow> int list \<Rightarrow> db \<Rightarrow> (error + unit) \<times> db"
  where
  "ProvisionController_RunOnce E zoneID identity lease now ticks db =
     (if zoneID = [] \<or> identity = []
      then (Inl (ErrMsg ''provisioning worker is not configured''), db)
      else
        (let d = lease_or_default lease in
         case ClaimDominator (now 0) zoneID Provision identity d db of
           Inl e \<Rightarrow> if e = ErrNoRows then returned db else (Inl e, db)
         | Inr (op, db1) \<Rightarrow>
             (case LoadProvisioningTarget op db1 of
                Inl e \<Rightarrow> (Inl e, db1)
              | Inr op' \<Rightarrow> advance E now d ticks op' db1)))"

section \<open>Fencing\<close>

interpretation record_launch: fenced_call "\<lambda>now op (i, ip, ns). RecordLaunchWithAddress now op i ip ns"
  by unfold_locales
    (auto simp: RecordLaunchWithAddress_def Let_def fenced_defs result_simps elim!: fenced_ops_live
      split: if_splits)

interpretation check_lease: fenced_call "\<lambda>now op (_ :: unit). CheckProvisionLease now op"
  by unfold_locales (auto simp: CheckProvisionLease_def fenced_defs list_ex_iff split: if_splits)

interpretation bind_node: fenced_call "\<lambda>now op (sha, b). BindProvisionNode sha now op b"
  by unfold_locales (auto simp: BindProvisionNode_def fenced_defs list_ex_iff split: if_splits)

interpretation pin_state: fenced_call PinProvisionExpectedState
  by unfold_locales (auto simp: PinProvisionExpectedState_def list_ex_iff split: if_splits)

interpretation prepare_release: fenced_call PrepareProvisionRelease
proof unfold_locales
  fix now op v db y assume "PrepareProvisionRelease now op v db = Inr y"
  then show "\<exists>r\<in>set (operations db). lease_live now op r"
    using cnt_one_ex by (fastforce simp: PrepareProvisionRelease_def Let_def fencedResult_def
        list_ex_iff result_simps split: if_splits)
qed

lemma lease_live_mono: "lease_live t op r \<Longrightarrow> s \<le> t \<Longrightarrow> lease_live s op r"
  by (auto simp: lease_live_def split: option.splits)

interpretation finalize: fenced_call "\<lambda>now op (t, v, rel). FinalizeProvision now t op v rel"
proof unfold_locales
  fix now op x db y
  assume "(\<lambda>(t, v, rel). FinalizeProvision now t op v rel) x db = Inr y"
  then obtain r v where "find (finalize_row now op v db) (operations db) = Some r"
    by (auto simp: FinalizeProvision_def split: option.splits prod.splits)
  then have "r \<in> set (operations db)" "lease_live (now + 1000000) op r"
    using find_SomeD by (fastforce simp: finalize_row_def)+
  then show "\<exists>r\<in>set (operations db). lease_live now op r"
    using lease_live_mono [of "now + 1000000" op r now] by auto
qed

section \<open>Evolution\<close>

lemma RecordLaunchWithAddress_Inr:
  assumes "RecordLaunchWithAddress now op i ip ns db = Inr db'"
  obtains db1 n endpoint where
    "fenced_ops (\<lambda>r. launching now op r \<and> o_host_id r = Some (op_HostID op))
       (\<lambda>r. r\<lparr>o_updated_at := now\<rparr>) db = Inr db1"
    "cnt (launch_hit db1 (op_HostID op) i n) (hosts db1) = 1"
    "db' = db1\<lparr>
       hosts := upd_where (launch_hit db1 (op_HostID op) i n) (launched_host db1 now i endpoint n) (hosts db1),
       infrastructure_reservations :=
         upd_where (\<lambda>r. r_host_id r = op_HostID op \<and> r_state r = Reserved)
           (\<lambda>r. r\<lparr>r_state := Committed\<rparr>) (infrastructure_reservations db1)\<rparr>"
    "i \<noteq> []" "ip = [] \<or> private_ip ip"
  using assms unfolding RecordLaunchWithAddress_def affectedExactlyOne_def Let_def
  by (auto simp: result_simps split: if_splits list.splits)

lemma RecordLaunchWithAddress_ev:
  assumes "RecordLaunchWithAddress now op i ip ns db = Inr db'" and keys: "keys_ok db"
  shows "store_ev db db' \<and> keys_ok db'"
  using assms(1)
proof (cases rule: RecordLaunchWithAddress_Inr)
  case (1 db1 n endpoint)
  have 2: "store_ev db db1" "keys_ok db1"
    using fenced_ops_ev [OF 1(1) keys] by (auto simp: op_ev_def op_intent_def)
  have "store_ev db1 db'"
    unfolding 1(3) store_ev_def
    by (auto simp: table_same reservation_ev_def host_ev_def launched_host_def lifecycle_le_def
        intro!: host_evo.update reservation_evo.update)
  moreover have "keys_ok db'"
    using 2(2) unfolding 1(3) by (simp add: keys_ok_def map_upd_where launched_host_def)
  ultimately show ?thesis using 2 store_ev_trans by blast
qed

lemma BindProvisionNode_ev:
  assumes "BindProvisionNode sha now op b db = Inr db'" "keys_ok db"
  shows "store_ev db db' \<and> keys_ok db'"
  using assms unfolding BindProvisionNode_def Let_def
  by (auto simp: keys_ok_def find_None_iff binding_row_of_def key_notin
      intro!: store_ev_bindings table_insert split: if_splits option.splits)

lemma PinProvisionExpectedState_ev:
  assumes "PinProvisionExpectedState now op e db = Inr (p, db')" and keys: "keys_ok db"
  shows "store_ev db db' \<and> keys_ok db'"
proof -
  let ?w = "\<lambda>x. b_host_id x = op_HostID op \<and> b_operation_id x = op_ID op"
  from assms(1) obtain x where x: "find ?w (worker_provisioning_state db) = Some x"
    and p: "p = (case b_expected_state x of None \<Rightarrow> e | Some y \<Rightarrow> y)"
    and db': "db' = db\<lparr>
        worker_provisioning_state :=
          upd_where ?w (\<lambda>y. y\<lparr>b_expected_state := Some p\<rparr>) (worker_provisioning_state db),
        hosts := upd_where (\<lambda>h. h_id h = op_HostID op)
          (\<lambda>h. h\<lparr>h_desired_state_version := eh_Version p\<rparr>) (hosts db)\<rparr>"
    by (auto simp: PinProvisionExpectedState_def Let_def split: if_splits option.splits)
  have "binding_ev y (y\<lparr>b_expected_state := Some p\<rparr>)"
    if "y \<in> set (worker_provisioning_state db)" "?w y" for y
  proof -
    have "y = x" using that find_SomeD [OF x] keys unique_key [of b_host_id "worker_provisioning_state db"]
      by (simp add: keys_ok_def)
    then show ?thesis using p by (auto simp: binding_ev_def split: option.splits)
  qed
  then have "store_ev db db'" unfolding db' store_ev_def
    by (auto simp: table_same host_ev_def intro!: binding_evo.update host_evo.update)
  moreover have "keys_ok db'" using keys unfolding db' by (simp add: keys_ok_def map_upd_where)
  ultimately show ?thesis by simp
qed

lemma PrepareProvisionRelease_ev:
  assumes "PrepareProvisionRelease now op v db = Inr db'" "keys_ok db"
  shows "store_ev db db' \<and> keys_ok db'"
  using assms unfolding PrepareProvisionRelease_def Let_def fencedResult_def
  by (auto simp: keys_ok_def map_upd_where binding_ev_def
      intro!: store_ev_bindings binding_evo.update split: if_splits)

lemma FinalizeProvision_Inr:
  assumes "FinalizeProvision now1 now2 op v rel db = Inr db'"
  obtains r db1 where "r \<in> set (operations db)" "finalize_row now1 op v db r" "rel = Inr ()"
    "fenced_hosts (\<lambda>r h. o_id r = op_ID op \<and> o_host_id r = Some (h_id h) \<and> o_fence r = op_Fence op
         \<and> (case o_lease_until r of None \<Rightarrow> False | Some t \<Rightarrow> t > now2) \<and> h_state h = HostConverging)
       (\<lambda>h. h\<lparr>h_state := HostReady, h_observed_state_version := h_desired_state_version h,
              h_updatedat := Some now2\<rparr>) db = Inr db1"
    "fenced_ops (\<lambda>r. o_id r = op_ID op \<and> o_fence r = op_Fence op)
       (\<lambda>r. r\<lparr>o_state := OpSucceeded, o_lease_owner := None, o_lease_until := None,
              o_updated_at := now2\<rparr>) db1 = Inr db'"
  using assms unfolding FinalizeProvision_def Let_def
  by (auto simp: result_simps dest!: find_SomeD split: option.splits sum.splits if_splits)

lemma FinalizeProvision_ev:
  assumes "FinalizeProvision now1 now2 op v rel db = Inr db'" and keys: "keys_ok db"
  shows "store_ev db db' \<and> keys_ok db'"
  using assms(1)
proof (cases rule: FinalizeProvision_Inr)
  case (1 r db1)
  have 2: "store_ev db db1" "keys_ok db1"
    using fenced_hosts_ev [OF 1(4) keys] by (auto simp: host_ev_def lifecycle_le_def)
  have ops: "operations db1 = operations db" using 1(4) by (auto simp: fenced_hosts_Inr)
  have "op_ev x (x\<lparr>o_state := OpSucceeded, o_lease_owner := None, o_lease_until := None,
              o_updated_at := now2\<rparr>)" if "x \<in> set (operations db1)" "o_id x = op_ID op" for x
  proof -
    have "x = r" using that 1(1,2) keys unique_key [of o_id "operations db" x r]
      by (auto simp: ops keys_ok_def finalize_row_def lease_live_def)
    then show ?thesis using 1(2) by (auto simp: op_ev_def op_intent_def finalize_row_def op_terminal_def)
  qed
  then have "store_ev db1 db' \<and> keys_ok db'" by (intro fenced_ops_ev [OF 1(5) 2(2)]) auto
  then show ?thesis using 2(1) store_ev_trans by blast
qed

end
