(* ===== verification/CapacityBootstrap.thy ===== *)
theory CapacityBootstrap
  imports CapacityProvision
begin

text \<open>
  Zone bootstrap: the phase graph (\<open>src/internal/capacity/bootstrap_phases.go\<close>), the fenced
  phase transition \<open>BootstrapPhase\<close> of \<open>catalog.go\<close>, intent admission and its secret screen
  (\<open>bootstrap_contract.go\<close>), the discovery, host and route records
  (\<open>bootstrap_discovery.go\<close>, \<open>bootstrap_host.go\<close>, \<open>bootstrap_dominator.go\<close>,
  \<open>bootstrap_target.go\<close>), and the controller (\<open>bootstrap.go\<close>, \<open>bootstrap_worker.go\<close>).
  Decoding the \<open>first_zone\<close> member of the parameters into its struct is a parameter.
\<close>

section \<open>Phases\<close>

definition bootstrap_sequence :: "ZoneBootstrapPhase list" where
  "bootstrap_sequence = [ZoneRequested, ZoneInfrastructureProvisioning, ZoneControlPlaneInitializing,
     ZoneNetworkInstalling, ZoneDominatorInstalling, ZoneValidating, ZoneReady]"

fun next_in :: "'a list \<Rightarrow> 'a \<Rightarrow> 'a option" where
  "next_in (x # y # zs) p = (if x = p then Some y else next_in (y # zs) p)"
| "next_in _ p = None"

definition bootstrapNext :: "op_kind \<Rightarrow> ZoneBootstrapPhase \<Rightarrow> ZoneBootstrapPhase option" where
  "bootstrapNext kind phase =
     (case kind of CreateCluster \<Rightarrow> next_in bootstrap_sequence phase | _ \<Rightarrow> None)"

section \<open>Intent admission\<close>

text \<open>
  \<open>strings.ToLower\<close> as far as ASCII text can be found in the result: the capital letters, and
  the Kelvin sign and the dotted capital I, whose lower case is an ASCII letter.  All other
  code points map to non-ASCII bytes and are left alone.
\<close>

fun go_lower :: "string \<Rightarrow> string" where
  "go_lower (a # b # c # s) =
     (if a = CHR 0xE2 \<and> b = CHR 0x84 \<and> c = CHR 0xAA then CHR ''k'' # go_lower s
      else if a = CHR 0xC4 \<and> b = CHR 0xB0 then CHR ''i'' # go_lower (c # s)
      else lowerc a # go_lower (b # c # s))"
| "go_lower [a, b] = (if a = CHR 0xC4 \<and> b = CHR 0xB0 then ''i'' else [lowerc a, lowerc b])"
| "go_lower [a] = [lowerc a]"
| "go_lower [] = []"

definition reference_key :: "string \<Rightarrow> bool" where
  "reference_key name \<longleftrightarrow> suffix ''_arn'' name \<or> suffix ''_ref'' name \<or> suffix ''_reference'' name"

definition forbidden_key :: "string \<Rightarrow> bool" where
  "forbidden_key name \<longleftrightarrow>
     list_ex (\<lambda>w. sublist w name) [''password'', ''secret'', ''token'', ''credential'', ''private_key'']"

fun safe_walk :: "json \<Rightarrow> bool" where
  "safe_walk (JArr xs) = list_all safe_walk xs"
| "safe_walk (JObj kvs) =
     list_all (\<lambda>kv. (let name = go_lower (fst kv) in
                if reference_key name then True
                else if forbidden_key name then False else safe_walk (snd kv))) kvs"
| "safe_walk _ = True"

definition safeBootstrapParameters :: "raw_json \<Rightarrow> bool" where
  "safeBootstrapParameters raw = (case raw of Raw (JObj kvs) \<Rightarrow> safe_walk (JObj kvs) | _ \<Rightarrow> False)"

definition terminal_phase :: "ZoneBootstrapPhase \<Rightarrow> bool" where
  "terminal_phase p \<longleftrightarrow> p = ZoneReady \<or> p = ZoneFailed"

text \<open>Operation and bootstrap row of an operation id (the join every statement uses).\<close>

definition bootstrap_join :: "db \<Rightarrow> (bootstrap_row \<times> op_row) list" where
  "bootstrap_join db =
     [(b, r). b \<leftarrow> zone_bootstrap_operations db, r \<leftarrow> operations db, o_id r = zb_operation_id b]"

definition bootstrap_op :: "BootstrapRequest \<Rightarrow> json \<Rightarrow> int \<Rightarrow> string \<Rightarrow> string \<Rightarrow> op_row" where
  "bootstrap_op inp v now opID token =
     \<lparr>o_id = opID, o_kind = CreateCluster, o_zone_id = br_ZoneID inp, o_group_id = None,
      o_host_id = None, o_capacity_request_id = None, o_target_revision = 0,
      o_state = OpPending, o_provider_token = token, o_parameters = ParamsBootstrap v,
      o_lease_owner = None, o_lease_until = None, o_fence = 0, o_last_error = [],
      o_created_at = now, o_updated_at = now\<rparr>"

text \<open>The unique indexes \<open>bootstrap_request_id\<close> and \<open>zone_bootstrap_active\<close>.\<close>

definition insert_bootstrap :: "bootstrap_row \<Rightarrow> db \<Rightarrow> error + db" where
  "insert_bootstrap b db =
     (if list_ex (\<lambda>x. zb_operation_id x = zb_operation_id b
           \<or> (zb_request_id b \<noteq> None \<and> zb_request_id x = zb_request_id b)
           \<or> (zb_zone_id x = zb_zone_id b \<and> \<not> terminal_phase (zb_phase x)
              \<and> \<not> terminal_phase (zb_phase b)))
        (zone_bootstrap_operations db)
      then Inl unique_violation
      else if zb_operation_id b \<notin> set (map o_id (operations db))
           \<or> zb_zone_id b \<notin> set (map z_id (zones db))
           \<or> \<not> fk (zb_cluster_id b) (map c_id (clusters db))
      then Inl foreign_key_violation
      else Inr (db\<lparr>zone_bootstrap_operations := zone_bootstrap_operations db @ [b]\<rparr>))"

definition raw_value :: "raw_json \<Rightarrow> json" where
  "raw_value r = (case r of Raw v \<Rightarrow> v | _ \<Rightarrow> JNull)"

definition params_value :: "op_parameters \<Rightarrow> json option" where
  "params_value p = (case p of ParamsBootstrap v \<Rightarrow> Some v | _ \<Rightarrow> None)"

definition CreateBootstrap ::
    "(nat \<Rightarrow> string) \<Rightarrow> int \<Rightarrow> k8s_validation \<Rightarrow> (json \<Rightarrow> FirstZoneInput option) \<Rightarrow> BootstrapRequest
     \<Rightarrow> db \<Rightarrow> error + string \<times> db" where
  "CreateBootstrap uuid now K decode inp db =
     (if br_Kind inp = ''attach_zone'' then Inl ErrAttachmentUnavailable
      else if br_Kind inp \<noteq> ''create_cluster'' \<or> br_RequestID inp = [] \<or> br_ClusterID inp = []
           \<or> br_ZoneID inp = [] \<or> \<not> safeBootstrapParameters (br_Parameters inp)
      then Inl ErrInvalid
      else case find (\<lambda>(b, r). zb_request_id b = Some (br_RequestID inp)) (bootstrap_join db) of
          Some (b, r) \<Rightarrow>
            if zb_cluster_id b = None then Inl (ErrMsg ''converting NULL to string is unsupported'')
            else if o_kind r \<noteq> CreateCluster \<or> zb_cluster_id b \<noteq> Some (br_ClusterID inp)
               \<or> o_zone_id r \<noteq> br_ZoneID inp
               \<or> params_value (o_parameters r) \<noteq> Some (raw_value (br_Parameters inp))
            then Inl ErrReplayMismatch else Inr (o_id r, db)
        | None \<Rightarrow>
            if list_ex (\<lambda>(b, r). zb_cluster_id b = Some (br_ClusterID inp)
                 \<and> \<not> terminal_phase (zb_phase b)
                 \<and> (o_kind r = CreateCluster \<or> (o_kind r = AttachZone \<and> o_zone_id r = br_ZoneID inp)))
                 (bootstrap_join db)
            then Inl ErrConflict
            else case decode (raw_value (br_Parameters inp)) of
                None \<Rightarrow> Inl ErrInvalid
              | Some fz \<Rightarrow>
                  if ci_ID (fz_Cluster fz) \<noteq> br_ClusterID inp \<or> zi_ID (fz_Zone fz) \<noteq> br_ZoneID inp
                  then Inl ErrInvalid
                  else rbind (seedFirstZoneTx K fz False db) (\<lambda>db1.
                    if \<not> (list_ex (\<lambda>c. c_id c = br_ClusterID inp
                                    \<and> c_lifecycle_state c = ''initializing'') (clusters db1)
                          \<and> list_ex (\<lambda>z. z_id z = br_ZoneID inp
                                    \<and> z_lifecycle_state z = ''initializing'') (zones db1))
                    then Inl ErrInvalid
                    else rbind (insert_operation (bootstrap_op inp (raw_value (br_Parameters inp)) now
                                  (uuid 0) (uuid 1)) db1) (\<lambda>db2.
                      rbind (insert_bootstrap \<lparr>zb_operation_id = uuid 0, zb_zone_id = br_ZoneID inp,
                               zb_cluster_id = Some (br_ClusterID inp),
                               zb_request_id = Some (br_RequestID inp),
                               zb_phase = ZoneRequested\<rparr> db2) (\<lambda>db3. Inr (uuid 0, db3)))))"

record BootstrapStatus_t =
  bt_OperationID :: string
  bt_Kind :: op_kind
  bt_ClusterID :: string
  bt_ZoneID :: string
  bt_State :: op_state
  bt_Phase :: ZoneBootstrapPhase

definition BootstrapStatus :: "db \<Rightarrow> string \<Rightarrow> error + BootstrapStatus_t" where
  "BootstrapStatus db i =
     (case find (\<lambda>(b, r). o_id r = i) (bootstrap_join db) of
        None \<Rightarrow> Inl ErrNoRows
      | Some (b, r) \<Rightarrow>
          (case zb_cluster_id b of
             None \<Rightarrow> Inl (ErrMsg ''converting NULL to string is unsupported'')
           | Some c \<Rightarrow> Inr \<lparr>bt_OperationID = o_id r, bt_Kind = o_kind r, bt_ClusterID = c,
                            bt_ZoneID = o_zone_id r, bt_State = o_state r, bt_Phase = zb_phase b\<rparr>))"

section \<open>The fenced phase transition (catalog.go)\<close>

definition bootstrap_ready :: "string \<Rightarrow> string \<Rightarrow> db \<Rightarrow> error + db" where
  "bootstrap_ready cluster zone db =
     (let w = (\<lambda>m. m_cluster_id m = cluster \<and> m_zone_id m = zone
                 \<and> m_lifecycle_state m = ''initializing'' \<and> m_access_state m = ''pending'') in
      if cnt w (cluster_zones db) \<noteq> 1 then Inl ErrConflict
      else Inr (db\<lparr>
        clusters := upd_where (\<lambda>c. c_id c = cluster \<and> c_lifecycle_state c = ''initializing'')
          (\<lambda>c. c\<lparr>c_lifecycle_state := ''ready''\<rparr>) (clusters db),
        zones := upd_where (\<lambda>z. z_id z = zone \<and> z_lifecycle_state z = ''initializing'')
          (\<lambda>z. z\<lparr>z_lifecycle_state := ''ready''\<rparr>) (zones db),
        cluster_zones := upd_where w
          (\<lambda>m. m\<lparr>m_lifecycle_state := ''ready'', m_access_state := ''approved''\<rparr>)
          (cluster_zones db)\<rparr>))"

definition set_phase :: "string \<Rightarrow> ZoneBootstrapPhase \<Rightarrow> db \<Rightarrow> db" where
  "set_phase i nxt db =
     db\<lparr>zone_bootstrap_operations := upd_where (\<lambda>b. zb_operation_id b = i)
          (\<lambda>b. b\<lparr>zb_phase := nxt\<rparr>) (zone_bootstrap_operations db)\<rparr>"

definition finish_op :: "int \<Rightarrow> string \<Rightarrow> op_state \<Rightarrow> db \<Rightarrow> db" where
  "finish_op now i st db =
     db\<lparr>operations := upd_where (\<lambda>r. o_id r = i)
          (\<lambda>r. r\<lparr>o_state := st, o_lease_owner := None, o_lease_until := None, o_updated_at := now\<rparr>)
          (operations db)\<rparr>"

definition BootstrapPhase ::
    "int \<Rightarrow> Operation \<Rightarrow> ZoneBootstrapPhase \<Rightarrow> bool \<Rightarrow> db \<Rightarrow> error + db" where
  "BootstrapPhase now op nxt validated db =
     (if op_Kind op \<noteq> CreateCluster then Inl (ErrMsg ''not a bootstrap operation'')
      else case find (\<lambda>(b, r). held now op r) (bootstrap_join db) of
          None \<Rightarrow> Inl ErrFenced
        | Some (b, r) \<Rightarrow>
            if nxt \<noteq> ZoneFailed \<and> bootstrapNext (op_Kind op) (zb_phase b) \<noteq> Some nxt
            then Inl (ErrMsg ''invalid bootstrap phase transition'')
            else if nxt = ZoneReady \<and> \<not> validated
            then Inl (ErrMsg ''bootstrap handoff has not been validated'')
            else
              rbind (case (nxt, zb_cluster_id b) of
                       (ZoneReady, Some c) \<Rightarrow> bootstrap_ready c (op_ZoneID op) db
                     | _ \<Rightarrow> Inr db) (\<lambda>db1.
                (let db2 = set_phase (op_ID op) nxt db1 in
                 Inr (if nxt = ZoneReady then finish_op now (op_ID op) OpSucceeded db2
                      else if nxt = ZoneFailed then finish_op now (op_ID op) OpFailed db2
                      else db2))))"

section \<open>Recorded results\<close>

definition caHashPattern :: "string \<Rightarrow> bool" where
  "caHashPattern s \<longleftrightarrow> prefix ''sha256:'' s \<and> length s = 71
     \<and> list_all (\<lambda>c. digitc c \<or> (CHR ''a'' \<le> c \<and> c \<le> CHR ''f'')) (drop 7 s)"

definition LoadBootstrapTarget :: "Operation \<Rightarrow> db \<Rightarrow> error + Operation" where
  "LoadBootstrapTarget op db =
     (if op_Kind op \<noteq> CreateCluster then Inl ErrInvalid
      else case [c. (b, r) \<leftarrow> bootstrap_join db,
                    o_id r = op_ID op \<and> o_kind r = op_Kind op \<and> o_zone_id r = op_ZoneID op,
                    c \<leftarrow> clusters db, zb_cluster_id b = Some (c_id c)] of
          [] \<Rightarrow> Inl ErrInvalid
        | c # _ \<Rightarrow> Inr (op\<lparr>op_ClusterID := c_id c, op_APIServerEndpoint := c_api_server_endpoint c,
                           op_CACertHash := c_ca_cert_hash c\<rparr>))"

definition private_https :: "string \<Rightarrow> bool" where
  "private_https s \<longleftrightarrow>
     (case url_parse s of
        None \<Rightarrow> False
      | Some u \<Rightarrow> u_scheme u = ''https'' \<and> u_host u \<noteq> [] \<and> \<not> u_user u \<and> u_rawquery u = []
          \<and> u_fragment u = [] \<and> private_ip (Hostname u))"

definition SetClusterDiscovery :: "int \<Rightarrow> Operation \<Rightarrow> BootstrapStepResult \<Rightarrow> db \<Rightarrow> error + db" where
  "SetClusterDiscovery now op res db =
     (if op_Kind op \<noteq> CreateCluster \<or> \<not> private_https (bs_APIServerEndpoint res)
         \<or> \<not> caHashPattern (bs_CACertHash res) then Inl ErrInvalid
      else
        (let hit = (\<lambda>c. list_ex (\<lambda>(b, r). zb_cluster_id b = Some (c_id c) \<and> held now op r
                  \<and> o_kind r = CreateCluster \<and> zb_phase b = ZoneInfrastructureProvisioning)
                (bootstrap_join db)
               \<and> c_lifecycle_state c = ''initializing''
               \<and> c_api_server_endpoint c \<in> {[], bs_APIServerEndpoint res}
               \<and> c_ca_cert_hash c \<in> {[], bs_CACertHash res}) in
         rbind (fencedResult (cnt hit (clusters db))) (\<lambda>_.
           Inr (db\<lparr>clusters := upd_where hit
                  (\<lambda>c. c\<lparr>c_api_server_endpoint := bs_APIServerEndpoint res,
                         c_ca_cert_hash := bs_CACertHash res\<rparr>) (clusters db)\<rparr>))))"

definition dominator_endpoint_ok :: "string \<Rightarrow> bool" where
  "dominator_endpoint_ok s \<longleftrightarrow>
     (case url_parse s of
        None \<Rightarrow> False
      | Some u \<Rightarrow> u_scheme u = ''https'' \<and> \<not> u_user u \<and> u_path u = [] \<and> u_rawquery u = []
          \<and> u_fragment u = [] \<and> Port u = ''44000''
          \<and> (case ParseIP (Hostname u) of
               Some ip \<Rightarrow> IsPrivate ip
             | None \<Rightarrow> suffix ''.svc.cluster.local'' (Hostname u) \<and> prefix ''dominator-'' (Hostname u)))"

definition dominator_identity_ok :: "string \<Rightarrow> string \<Rightarrow> bool" where
  "dominator_identity_ok zone s \<longleftrightarrow>
     (case url_parse s of
        None \<Rightarrow> False
      | Some u \<Rightarrow> zone \<noteq> [] \<and> u_scheme u = ''spiffe'' \<and> u_host u \<noteq> [] \<and> u_rawquery u = []
          \<and> u_fragment u = [] \<and> u_path u = ''/dominator/'' @ zone)"

definition SetDominatorRoute :: "int \<Rightarrow> Operation \<Rightarrow> BootstrapStepResult \<Rightarrow> db \<Rightarrow> error + db" where
  "SetDominatorRoute now op res db =
     (if op_Kind op \<noteq> CreateCluster then Inl ErrForbidden
      else if \<not> dominator_endpoint_ok (bs_DominatorEndpoint res)
           \<or> \<not> dominator_identity_ok (op_ZoneID op) (bs_DominatorIdentity res) then Inl ErrInvalid
      else case find (\<lambda>(b, r). held now op r \<and> o_kind r = CreateCluster
                    \<and> zb_phase b = ZoneNetworkInstalling) (bootstrap_join db) of
          None \<Rightarrow> Inl ErrFenced
        | Some (b, r) \<Rightarrow>
            (case find (\<lambda>d. d_zone_id d = zb_zone_id b) (zone_dominators db) of
               Some d \<Rightarrow>
                 if d_endpoint d = bs_DominatorEndpoint res \<and> d_identity d = bs_DominatorIdentity res
                 then Inr db else Inl ErrFenced
             | None \<Rightarrow>
                 Inr (db\<lparr>zone_dominators := zone_dominators db @
                   [\<lparr>d_zone_id = zb_zone_id b, d_endpoint = bs_DominatorEndpoint res,
                     d_identity = bs_DominatorIdentity res,
                     d_observability_status = ''configuration_pending''\<rparr>]\<rparr>)))"

definition providerInstanceID :: "string \<Rightarrow> bool" where
  "providerInstanceID s \<longleftrightarrow> 1 \<le> length s \<and> length s \<le> 200
     \<and> list_all (\<lambda>c. letterc c \<or> digitc c \<or> c \<in> {CHR ''.'', CHR ''_'', CHR '':'', CHR ''/'', CHR ''-''}) s"

definition bootstrap_host :: "Operation \<Rightarrow> BootstrapStepResult \<Rightarrow> int \<Rightarrow> host_row" where
  "bootstrap_host op res now =
     \<lparr>h_id = ''bootstrap/'' @ op_ID op, h_role = Some ''cluster-control-plane'',
      h_zone = Some (op_ZoneID op), h_imageid = Some (bs_ImageID res), h_state = HostConverging,
      h_health = Some ''unknown'', h_createdat = Some now, h_updatedat = None,
      h_provider = Some ''aws'', h_providerid = Some (bs_ProviderHostID res),
      h_lastseenheartbeat = None, h_endpoint = None, h_port = None, h_dbname = None,
      h_username = None, h_secretarn = None, h_rdssgid = None, h_protected = True,
      h_subd_endpoint = ''https://'' @ bs_HostPrivateIP res @ '':44001'',
      h_kubernetes_provider_id = [], h_node_group_id = None, h_node_pool_id = None,
      h_crane_zone = None, h_operation_id = None, h_desired_state_version = [],
      h_observed_state_version = [], h_allocatable_vcpu = 0, h_allocatable_memory_mib = 0,
      h_reserved_vcpu = 0, h_reserved_memory_mib = 0, h_excess_capacity = False\<rparr>"

definition upsert_bootstrap_host :: "host_row \<Rightarrow> db \<Rightarrow> db" where
  "upsert_bootstrap_host n db =
     (if list_ex (\<lambda>h. h_id h = h_id n) (hosts db)
      then db\<lparr>hosts := upd_where (\<lambda>h. h_id h = h_id n \<and> h_provider h = h_provider n
                  \<and> h_providerid h = h_providerid n \<and> h_protected h)
             (\<lambda>h. h\<lparr>h_role := h_role n, h_zone := h_zone n, h_imageid := h_imageid n,
                    h_provider := h_provider n, h_providerid := h_providerid n, h_protected := True,
                    h_subd_endpoint := h_subd_endpoint n\<rparr>) (hosts db)\<rparr>
      else db\<lparr>hosts := hosts db @ [n]\<rparr>)"

definition RecordBootstrapHost :: "int \<Rightarrow> Operation \<Rightarrow> BootstrapStepResult \<Rightarrow> db \<Rightarrow> error + db" where
  "RecordBootstrapHost now op res db =
     (if op_Kind op \<noteq> CreateCluster then Inl ErrForbidden
      else if \<not> providerInstanceID (bs_ProviderHostID res) then Inl ErrInvalid
      else if \<not> private_ip (bs_HostPrivateIP res) \<or> bs_ImageID res = [] then Inl ErrInvalid
      else case find (\<lambda>b. zb_operation_id b = op_ID op) (zone_bootstrap_operations db) of
          None \<Rightarrow> Inl ErrNoRows
        | Some b \<Rightarrow>
            if zb_cluster_id b = None then Inl (ErrMsg ''converting NULL to string is unsupported'')
            else
              (let db1 = upsert_bootstrap_host (bootstrap_host op res now) db in
               case find (\<lambda>h. h_id h = ''bootstrap/'' @ op_ID op) (hosts db1) of
                 None \<Rightarrow> Inl ErrNoRows
               | Some h \<Rightarrow>
                   if h_providerid h = Some (bs_ProviderHostID res) then Inr db1
                   else Inl (ErrMsg ''bootstrap host identity conflict'')))"

section \<open>The bootstrap controller\<close>

definition ReleaseBootstrapLease :: "int \<Rightarrow> Operation \<Rightarrow> db \<Rightarrow> error + db" where
  "ReleaseBootstrapLease now op db =
     (if op_Kind op \<noteq> CreateCluster then Inl ErrForbidden
      else fenced_ops (held now op)
        (\<lambda>r. r\<lparr>o_state := OpPending, o_lease_owner := None, o_lease_until := None,
               o_updated_at := now\<rparr>) db)"

definition NextBootstrapZone :: "int \<Rightarrow> db \<Rightarrow> error + string" where
  "NextBootstrapZone now db =
     (case order_limit (\<lambda>(b, r). (o_created_at r, o_id r)) 1
            (filter (\<lambda>(b, r). o_kind r = CreateCluster \<and> \<not> terminal_phase (zb_phase b)
               \<and> (o_state r = OpPending
                  \<or> (o_state r \<in> {OpLeased, OpLaunching}
                     \<and> (case o_lease_until r of None \<Rightarrow> False | Some t \<Rightarrow> t \<le> now))))
              (bootstrap_join db)) of
        [] \<Rightarrow> Inl ErrNoRows
      | (b, r) # _ \<Rightarrow> Inr (o_zone_id r))"

record BootstrapExecutor =
  be_Step :: "Operation \<Rightarrow> ZoneBootstrapPhase \<Rightarrow> db \<Rightarrow> (error + BootstrapStepResult) \<times> db"
  be_Validated :: "Operation \<Rightarrow> db \<Rightarrow> (error + bool) \<times> db"

definition currentPhase :: "db \<Rightarrow> string \<Rightarrow> error + ZoneBootstrapPhase" where
  "currentPhase db i =
     (case find (\<lambda>b. zb_operation_id b = i) (zone_bootstrap_operations db) of
        None \<Rightarrow> Inl ErrNoRows | Some b \<Rightarrow> Inr (zb_phase b))"

text \<open>What the controller stores of a step's result before it moves to phase \<open>n\<close>.\<close>

definition record_step ::
    "int \<Rightarrow> Operation \<Rightarrow> ZoneBootstrapPhase \<Rightarrow> BootstrapStepResult \<Rightarrow> db \<Rightarrow> error + db" where
  "record_step now op n res db =
     (if n = ZoneControlPlaneInitializing then SetClusterDiscovery now op res db
      else if n = ZoneInfrastructureProvisioning then RecordBootstrapHost now op res db
      else if n = ZoneDominatorInstalling then SetDominatorRoute now op res db
      else if bs_APIServerEndpoint res \<noteq> [] \<or> bs_CACertHash res \<noteq> []
      then Inl (ErrMsg ''unexpected cluster discovery'')
      else Inr db)"

definition BootstrapController_RunOnce ::
    "BootstrapExecutor \<Rightarrow> string \<Rightarrow> string \<Rightarrow> int \<Rightarrow> (nat \<Rightarrow> int) \<Rightarrow> int list \<Rightarrow> db \<Rightarrow> (error + unit) \<times> db"
  where
  "BootstrapController_RunOnce E zoneID owner lease now ticks db =
     (if owner = [] then (Inl (ErrMsg ''bootstrap controller is not configured''), db)
      else
        (let d = lease_or_default lease in
         case Claim (now 0) zoneID CreateCluster owner d db of
           Inl e \<Rightarrow> if e = ErrNoRows then returned db else (Inl e, db)
         | Inr (op0, db1) \<Rightarrow>
             (case LoadBootstrapTarget op0 db1 of
                Inl e \<Rightarrow> (Inl e, db1)
              | Inr op \<Rightarrow>
                  (case currentPhase db1 (op_ID op) of
                     Inl e \<Rightarrow> (Inl e, db1)
                   | Inr phase \<Rightarrow>
                       if phase = ZoneValidating
                       then
                         (case be_Validated E op db1 of (res, db2) \<Rightarrow>
                            call (renewals op d ticks db2) db2 (\<lambda>db3.
                            case res of
                              Inl e \<Rightarrow> (Inl e, db3)
                            | Inr ok \<Rightarrow>
                                if \<not> ok
                                then (Inl (ErrMsg ''bootstrap operation has not passed validation''), db3)
                                else call (BootstrapPhase (now 1) op ZoneReady ok db3) db3 returned))
                       else
                         (case bootstrapNext (op_Kind op) phase of
                            None \<Rightarrow>
                              (Inl (ErrMsg ''bootstrap operation is in terminal phase''), db1)
                          | Some n \<Rightarrow>
                              (case be_Step E op n db1 of (res, db2) \<Rightarrow>
                                 call (renewals op d ticks db2) db2 (\<lambda>db3.
                                 case res of
                                   Inl e \<Rightarrow> (Inl e, db3)
                                 | Inr v \<Rightarrow>
                                     call (record_step (now 1) op n v db3) db3 (\<lambda>db4.
                                     call (BootstrapPhase (now 2) op n False db4) db4 (\<lambda>db5.
                                     call (ReleaseBootstrapLease (now 3) op db5) db5 returned)))))))))"

text \<open>Every bootstrap row has its operation, and a finished phase a finished operation.\<close>

definition boot_ok :: "db \<Rightarrow> bool" where
  "boot_ok db \<longleftrightarrow> (\<forall>b\<in>set (zone_bootstrap_operations db). \<exists>r\<in>set (operations db).
     o_id r = zb_operation_id b \<and> (terminal_phase (zb_phase b) \<longrightarrow> op_terminal (o_state r)))"

text \<open>The keys the screen of bootstrap parameters looks at: not those below a reference.\<close>

inductive screened :: "json \<Rightarrow> string \<Rightarrow> bool" where
  here: "(k, v) \<in> set kvs \<Longrightarrow> \<not> reference_key (go_lower k) \<Longrightarrow> screened (JObj kvs) k"
| member: "(k, v) \<in> set kvs \<Longrightarrow> \<not> reference_key (go_lower k) \<Longrightarrow> screened v n \<Longrightarrow> screened (JObj kvs) n"
| item: "v \<in> set xs \<Longrightarrow> screened v n \<Longrightarrow> screened (JArr xs) n"

section \<open>Fencing\<close>

lemma bootstrap_joinD: "(b, r) \<in> set (bootstrap_join db) \<Longrightarrow>
   b \<in> set (zone_bootstrap_operations db) \<and> r \<in> set (operations db) \<and> o_id r = zb_operation_id b"
  by (auto simp: bootstrap_join_def)

interpretation bootstrap_phase: fenced_call "\<lambda>now op (n, v). BootstrapPhase now op n v"
  by unfold_locales (auto simp: BootstrapPhase_def fenced_defs dest!: find_SomeD bootstrap_joinD
      split: if_splits option.splits prod.splits)

interpretation set_discovery: fenced_call SetClusterDiscovery
proof unfold_locales
  fix now op res db y assume "SetClusterDiscovery now op res db = Inr y"
  then obtain c where "c \<in> set (clusters db)"
    "list_ex (\<lambda>(b, r). zb_cluster_id b = Some (c_id c) \<and> held now op r \<and> o_kind r = CreateCluster
        \<and> zb_phase b = ZoneInfrastructureProvisioning) (bootstrap_join db)"
    using cnt_one_ex by (fastforce simp: SetClusterDiscovery_def Let_def fencedResult_def
        result_simps split: if_splits)
  then show "\<exists>r\<in>set (operations db). lease_live now op r"
    by (auto simp: list_ex_iff held_def dest!: bootstrap_joinD)
qed

interpretation set_route: fenced_call SetDominatorRoute
  by unfold_locales (auto simp: SetDominatorRoute_def fenced_defs dest!: find_SomeD bootstrap_joinD
      split: if_splits option.splits prod.splits)

interpretation release_bootstrap: fenced_call "\<lambda>now op (_ :: unit). ReleaseBootstrapLease now op"
  by unfold_locales
    (auto simp: ReleaseBootstrapLease_def fenced_defs elim!: fenced_ops_live split: if_splits)

section \<open>Evolution\<close>

lemma bootstrapNext_le: "bootstrapNext k p = Some q \<Longrightarrow> phase_le p q \<and> phase_rank q = Suc (phase_rank p)"
  by (cases k; cases p) (auto simp: bootstrapNext_def bootstrap_sequence_def phase_le_def)

lemma bootstrap_ready_Inr:
  "bootstrap_ready c z db = Inr db' \<longleftrightarrow>
     cnt (\<lambda>m. m_cluster_id m = c \<and> m_zone_id m = z \<and> m_lifecycle_state m = ''initializing''
            \<and> m_access_state m = ''pending'') (cluster_zones db) = 1
     \<and> db' = db\<lparr>
        clusters := upd_where (\<lambda>x. c_id x = c \<and> c_lifecycle_state x = ''initializing'')
          (\<lambda>x. x\<lparr>c_lifecycle_state := ''ready''\<rparr>) (clusters db),
        zones := upd_where (\<lambda>x. z_id x = z \<and> z_lifecycle_state x = ''initializing'')
          (\<lambda>x. x\<lparr>z_lifecycle_state := ''ready''\<rparr>) (zones db),
        cluster_zones := upd_where (\<lambda>m. m_cluster_id m = c \<and> m_zone_id m = z
            \<and> m_lifecycle_state m = ''initializing'' \<and> m_access_state m = ''pending'')
          (\<lambda>m. m\<lparr>m_lifecycle_state := ''ready'', m_access_state := ''approved''\<rparr>) (cluster_zones db)\<rparr>"
  by (auto simp: bootstrap_ready_def Let_def)

lemma bootstrap_ready_ev:
  assumes "bootstrap_ready c z db = Inr db'" "keys_ok db"
  shows "store_ev db db' \<and> keys_ok db'"
  using assms unfolding bootstrap_ready_Inr
  by (auto simp: store_ev_def table_same keys_ok_def map_upd_where cluster_ev_def zone_ev_def
      membership_ev_def filled_def
      intro!: cluster_evo.update zone_evo.update membership_evo.update)

lemma BootstrapPhase_Inr:
  assumes "BootstrapPhase now op nxt validated db = Inr db'"
  obtains b r db1 where "op_Kind op = CreateCluster" "b \<in> set (zone_bootstrap_operations db)"
    "r \<in> set (operations db)" "o_id r = zb_operation_id b" "held now op r"
    "nxt = ZoneFailed \<or> bootstrapNext CreateCluster (zb_phase b) = Some nxt"
    "nxt = ZoneReady \<Longrightarrow> validated"
    "(case (nxt, zb_cluster_id b) of (ZoneReady, Some c) \<Rightarrow> bootstrap_ready c (op_ZoneID op) db
      | _ \<Rightarrow> Inr db) = Inr db1"
    "db' = (if nxt = ZoneReady then finish_op now (op_ID op) OpSucceeded (set_phase (op_ID op) nxt db1)
            else if nxt = ZoneFailed then finish_op now (op_ID op) OpFailed (set_phase (op_ID op) nxt db1)
            else set_phase (op_ID op) nxt db1)"
proof -
  from assms obtain b r where f: "find (\<lambda>(b, r). held now op r) (bootstrap_join db) = Some (b, r)"
    and k: "op_Kind op = CreateCluster"
    by (auto simp: BootstrapPhase_def split: if_splits option.splits)
  then have "(b, r) \<in> set (bootstrap_join db)" "held now op r" by (auto dest: find_SomeD)
  note br = bootstrap_joinD [OF this(1)] this(2)
  from assms show thesis
    unfolding BootstrapPhase_def f using k br
    by (auto simp: result_simps Let_def split: if_splits intro: that)
qed

lemma set_phase_ev:
  assumes "keys_ok db" and "b \<in> set (zone_bootstrap_operations db)" "zb_operation_id b = i"
    and "phase_le (zb_phase b) n"
  shows "store_ev db (set_phase i n db) \<and> keys_ok (set_phase i n db)"
proof -
  have "bootstrap_ev x (x\<lparr>zb_phase := n\<rparr>)"
    if "x \<in> set (zone_bootstrap_operations db)" "zb_operation_id x = i" for x
  proof -
    have "x = b" using that assms unique_key [of zb_operation_id "zone_bootstrap_operations db"]
      by (auto simp: keys_ok_def)
    then show ?thesis using assms(4) by (simp add: bootstrap_ev_def)
  qed
  then show ?thesis using assms(1)
    by (auto simp: set_phase_def keys_ok_def map_upd_where intro!: store_ev_bootstraps bootstrap_evo.update)
qed

lemma finish_op_ev:
  assumes "keys_ok db" and "r \<in> set (operations db)" "o_id r = i" "\<not> op_terminal (o_state r)"
  shows "store_ev db (finish_op now i st db) \<and> keys_ok (finish_op now i st db)"
proof -
  have "op_ev x (x\<lparr>o_state := st, o_lease_owner := None, o_lease_until := None, o_updated_at := now\<rparr>)"
    if "x \<in> set (operations db)" "o_id x = i" for x
  proof -
    have "x = r" using that assms unique_key [of o_id "operations db"] by (auto simp: keys_ok_def)
    then show ?thesis using assms(4) by (simp add: op_ev_def op_intent_def)
  qed
  then show ?thesis using assms(1)
    by (auto simp: finish_op_def keys_ok_def map_upd_where intro!: store_ev_ops op_evo.update)
qed

lemma BootstrapPhase_ev:
  assumes "BootstrapPhase now op nxt validated db = Inr db'" and keys: "keys_ok db" and boot: "boot_ok db"
  shows "store_ev db db' \<and> keys_ok db'"
  using assms(1)
proof (cases rule: BootstrapPhase_Inr)
  case (1 b r db1)
  have id: "o_id r = op_ID op" using 1(5) by (simp add: held_def lease_live_def)
  have nt: "\<not> op_terminal (o_state r)" using 1(5) by (auto simp: held_def op_terminal_def)
  obtain r' where "r' \<in> set (operations db)" "o_id r' = zb_operation_id b"
    "terminal_phase (zb_phase b) \<longrightarrow> op_terminal (o_state r')"
    using boot 1(2) by (auto simp: boot_ok_def)
  moreover from this have "r' = r" using 1(3,4) keys unique_key [of o_id "operations db"]
    by (auto simp: keys_ok_def)
  ultimately have "\<not> terminal_phase (zb_phase b)" using nt by simp
  then have le: "phase_le (zb_phase b) nxt"
    using 1(6) bootstrapNext_le by (cases "zb_phase b") (auto simp: phase_le_def terminal_phase_def)
  have 2: "store_ev db db1 \<and> keys_ok db1"
    using 1(8) keys bootstrap_ready_ev
    by (auto split: ZoneBootstrapPhase.splits option.splits)
  have same: "zone_bootstrap_operations db1 = zone_bootstrap_operations db" "operations db1 = operations db"
    using 1(8) by (auto simp: bootstrap_ready_Inr split: ZoneBootstrapPhase.splits option.splits)
  have 3: "store_ev db1 (set_phase (op_ID op) nxt db1) \<and> keys_ok (set_phase (op_ID op) nxt db1)"
    using set_phase_ev [of db1 b "op_ID op" nxt] 2 1(2,4) id le same by simp
  have 4: "store_ev (set_phase (op_ID op) nxt db1) (finish_op now (op_ID op) st (set_phase (op_ID op) nxt db1))
     \<and> keys_ok (finish_op now (op_ID op) st (set_phase (op_ID op) nxt db1))" for st
    using finish_op_ev [of "set_phase (op_ID op) nxt db1" r] 3 1(3) id nt by (simp add: set_phase_def same)
  show ?thesis unfolding 1(9) using 2 3 4 by (auto intro: store_ev_trans)
qed

lemma SetClusterDiscovery_ev:
  assumes "SetClusterDiscovery now op res db = Inr db'" "keys_ok db"
  shows "store_ev db db' \<and> keys_ok db'"
  using assms unfolding SetClusterDiscovery_def Let_def fencedResult_def
  by (auto simp: keys_ok_def map_upd_where cluster_ev_def filled_def
      intro!: store_ev_clusters cluster_evo.update split: if_splits)

lemma SetDominatorRoute_ev:
  assumes "SetDominatorRoute now op res db = Inr db'" "keys_ok db"
  shows "store_ev db db' \<and> keys_ok db'"
  using assms unfolding SetDominatorRoute_def
  by (auto simp: keys_ok_def find_None_iff key_notin store_ev_appends
      split: if_splits option.splits prod.splits)

lemma upsert_bootstrap_host_ev:
  assumes "keys_ok db" "h_protected n"
  shows "store_ev db (upsert_bootstrap_host n db) \<and> keys_ok (upsert_bootstrap_host n db)"
  using assms unfolding upsert_bootstrap_host_def
  by (auto simp: keys_ok_def map_upd_where host_ev_def list_ex_iff key_notin
      intro!: store_ev_hosts host_evo.update host_evo.insert)

lemma RecordBootstrapHost_ev:
  assumes "RecordBootstrapHost now op res db = Inr db'" "keys_ok db"
  shows "store_ev db db' \<and> keys_ok db'"
  using assms upsert_bootstrap_host_ev [of db "bootstrap_host op res now"]
  unfolding RecordBootstrapHost_def
  by (auto simp: Let_def bootstrap_host_def split: if_splits option.splits)

lemma ReleaseBootstrapLease_ev:
  assumes "ReleaseBootstrapLease now op db = Inr db'" "keys_ok db"
  shows "store_ev db db' \<and> keys_ok db'"
proof -
  from assms(1) have f: "fenced_ops (held now op) (\<lambda>r. r\<lparr>o_state := OpPending, o_lease_owner := None,
       o_lease_until := None, o_updated_at := now\<rparr>) db = Inr db'"
    by (auto simp: ReleaseBootstrapLease_def split: if_splits)
  show ?thesis by (rule fenced_ops_ev [OF f assms(2)])
      (auto simp: op_ev_def op_intent_def held_def op_terminal_def)
qed

lemma insert_bootstrap_ev:
  assumes "insert_bootstrap b db = Inr db'" "keys_ok db"
  shows "store_ev db db' \<and> keys_ok db'"
  using assms unfolding insert_bootstrap_def
  by (auto simp: keys_ok_def list_ex_iff key_notin intro!: store_ev_bootstraps bootstrap_evo.insert
      split: if_splits)

lemma CreateBootstrap_cases:
  assumes "CreateBootstrap uuid now K decode inp db = Inr (i, db')"
  obtains (replay) b r where "(b, r) \<in> set (bootstrap_join db)" "zb_request_id b = Some (br_RequestID inp)"
      "o_kind r = CreateCluster" "zb_cluster_id b = Some (br_ClusterID inp)" "o_zone_id r = br_ZoneID inp"
      "o_parameters r = ParamsBootstrap (raw_value (br_Parameters inp))" "i = o_id r" "db' = db"
  | (fresh) fz db1 db2 where "safeBootstrapParameters (br_Parameters inp)"
      "seedFirstZoneTx K fz False db = Inr db1"
      "insert_operation (bootstrap_op inp (raw_value (br_Parameters inp)) now (uuid 0) (uuid 1)) db1 = Inr db2"
      "insert_bootstrap \<lparr>zb_operation_id = uuid 0, zb_zone_id = br_ZoneID inp,
         zb_cluster_id = Some (br_ClusterID inp), zb_request_id = Some (br_RequestID inp),
         zb_phase = ZoneRequested\<rparr> db2 = Inr db'" "i = uuid 0"
      "decode (raw_value (br_Parameters inp)) = Some fz"
proof -
  have p: "params_value p = Some v \<longleftrightarrow> p = ParamsBootstrap v" for p v
    by (auto simp: params_value_def split: op_parameters.splits)
  show thesis
    using assms unfolding CreateBootstrap_def
    by (auto simp: result_simps p dest!: find_SomeD split: if_splits option.splits
        intro: replay fresh)
qed

lemma CreateBootstrap_ev:
  assumes "CreateBootstrap uuid now K decode inp db = Inr (i, db')" and keys: "keys_ok db"
  shows "store_ev db db' \<and> keys_ok db'"
  using assms(1)
proof (cases rule: CreateBootstrap_cases)
  case replay
  then show ?thesis using keys by simp
next
  case (fresh fz db1 db2)
  have 1: "store_ev db db1" "keys_ok db1" using seedFirstZoneTx_ev [OF fresh(2) keys] by auto
  then have 2: "store_ev db1 db2" "keys_ok db2"
    using insert_operation_ev [OF fresh(3)] insert_operation_keys [OF fresh(3)] by auto
  then show ?thesis using 1 insert_bootstrap_ev [OF fresh(4)] by (blast intro: store_ev_trans)
qed

section \<open>The secret screen and readiness\<close>

inductive_cases screened_obj: "screened (JObj kvs) n"

inductive_cases screened_arr: "screened (JArr xs) n"

inductive_simps screened_leaf: "screened JNull n" "screened (JBool b) n" "screened (JNum s) n" "screened (JStr s) n"

lemma safe_walk_screened: "safe_walk v \<Longrightarrow> screened v k \<Longrightarrow> \<not> forbidden_key (go_lower k)"
proof (induction v arbitrary: k rule: safe_walk.induct)
  case (1 xs)
  then show ?case by (auto simp: list_all_iff elim!: screened_arr)
next
  case (2 kvs)
  have walk: "(\<not> forbidden_key (go_lower k) \<and> safe_walk v)" if "(k, v) \<in> set kvs" "\<not> reference_key (go_lower k)" for k v
    using "2.prems"(1) that by (force simp: list_all_iff Let_def split: if_splits)
  from "2.prems"(2) consider (here) v where "(k, v) \<in> set kvs" "\<not> reference_key (go_lower k)"
    | (member) n v where "(n, v) \<in> set kvs" "\<not> reference_key (go_lower n)" "screened v k"
    by (auto elim: screened_obj)
  then show ?case
  proof cases
    case (member n v)
    then show ?thesis using "2.IH" [of "(n, v)" "go_lower n" k] walk [of n v] by simp
  qed (use walk in blast)
qed (auto simp: screened_leaf)

lemma screened_safe_walk: "(\<forall>k. screened v k \<longrightarrow> \<not> forbidden_key (go_lower k)) \<Longrightarrow> safe_walk v"
proof (induction v rule: safe_walk.induct)
  case (1 xs)
  then show ?case by (auto simp: list_all_iff intro: screened.item)
next
  case (2 kvs)
  have "safe_walk v" if "(k, v) \<in> set kvs" "\<not> reference_key (go_lower k)" "\<not> forbidden_key (go_lower k)" for k v
    using 2 that by (fastforce intro: screened.member)
  moreover have "\<not> forbidden_key (go_lower k)" if "(k, v) \<in> set kvs" "\<not> reference_key (go_lower k)" for k v
    using 2(2) screened.here [OF that] by blast
  ultimately show ?case unfolding safe_walk.simps list_all_iff Let_def by fastforce
qed auto

lemma membership_ready_upd:
  assumes "cluster_zones db1 = upd_where w (\<lambda>m. m\<lparr>m_lifecycle_state := ''ready'', m_access_state := ''approved''\<rparr>) t"
    "cnt w t = 1" "\<And>m. w m \<Longrightarrow> m_cluster_id m = c \<and> m_zone_id m = z"
  shows "membership_ready db1 c z"
proof -
  obtain m where m: "m \<in> set t" "w m" using cnt_one_ex [OF assms(2)] by blast
  from upd_where_hit [of m t w, OF m] assms(3) [OF m(2)] show ?thesis
    unfolding membership_ready_def list_ex_iff assms(1)
    by (intro bexI [of _ "m\<lparr>m_lifecycle_state := ''ready'', m_access_state := ''approved''\<rparr>"]) simp_all
qed

lemma bootstrap_ready_approved:
  assumes "bootstrap_ready c z db = Inr db1"
  shows "membership_ready db1 c z"
proof (rule membership_ready_upd)
  let ?w = "\<lambda>m. m_cluster_id m = c \<and> m_zone_id m = z \<and> m_lifecycle_state m = ''initializing'' \<and> m_access_state m = ''pending''"
  show "cluster_zones db1 = upd_where ?w (\<lambda>m. m\<lparr>m_lifecycle_state := ''ready'', m_access_state := ''approved''\<rparr>) (cluster_zones db)"
    using assms by (simp add: bootstrap_ready_def Let_def split: if_splits) (drule sym, simp)
  show "cnt ?w (cluster_zones db) = 1"
    using assms by (simp add: bootstrap_ready_def Let_def split: if_splits)
qed simp

end
