(* ===== verification/CapacityRemoval.thy ===== *)
theory CapacityRemoval
  imports CapacityCatalog
begin

text \<open>
  Node removal admission: \<open>CreateRemoval\<close> of \<open>src/internal/capacity/catalog.go\<close> for one named
  host and \<open>CreateAutoscalerRemovals\<close> of \<open>removals.go\<close> for a batch of hosts in one transaction.
\<close>

record NodeRemovalOperation =
  no_NodeGroupID :: string
  no_HostID :: string
  no_NodeName :: string
  no_ProviderID :: string
  no_Reason :: string
  no_PreserveDesiredCapacity :: bool
  no_DrainDeadline :: int

definition removal_op ::
    "group_row \<Rightarrow> string \<Rightarrow> int \<Rightarrow> int \<Rightarrow> op_parameters \<Rightarrow> string \<Rightarrow> string \<Rightarrow> op_row" where
  "removal_op g hostID revision now params opID token =
     \<lparr>o_id = opID, o_kind = RemoveNode, o_zone_id = g_zone_id g, o_group_id = Some (g_id g),
      o_host_id = Some hostID, o_capacity_request_id = None, o_target_revision = revision,
      o_state = OpPending, o_provider_token = token, o_parameters = params,
      o_lease_owner = None, o_lease_until = None, o_fence = 0, o_last_error = [],
      o_created_at = now, o_updated_at = now\<rparr>"

definition removal_row_of ::
    "string \<Rightarrow> string \<Rightarrow> string \<Rightarrow> string \<Rightarrow> string \<Rightarrow> string \<Rightarrow> bool \<Rightarrow> int \<Rightarrow> removal_row" where
  "removal_row_of opID gid hostID nodeName providerID reason preserve deadline =
     \<lparr>nr_operation_id = opID, nr_group_id = gid, nr_host_id = hostID, nr_node_name = nodeName,
      nr_provider_id = providerID, nr_reason = reason, nr_preserve_desired_capacity = preserve,
      nr_drain_deadline = deadline, nr_drain_status = ''pending'',
      nr_provider_termination_status = ''pending'', nr_completed_at = None\<rparr>"

text \<open>The unique index \<open>node_removal_exclusive\<close>: one uncompleted removal per host.\<close>

definition insert_removal :: "removal_row \<Rightarrow> db \<Rightarrow> error + db" where
  "insert_removal n db =
     (if nr_reason n \<notin> {''autoscaler-delete'', ''repair'', ''maintenance''} then Inl check_violation
      else if list_ex (\<lambda>x. nr_operation_id x = nr_operation_id n
             \<or> (nr_host_id x = nr_host_id n \<and> nr_completed_at x = None \<and> nr_completed_at n = None))
           (node_removal_operations db)
      then Inl unique_violation
      else if nr_operation_id n \<notin> set (map o_id (operations db))
           \<or> nr_group_id n \<notin> set (map g_id (node_groups db))
           \<or> nr_host_id n \<notin> set (map h_id (hosts db))
      then Inl foreign_key_violation
      else Inr (db\<lparr>node_removal_operations := node_removal_operations db @ [n]\<rparr>))"

definition gone_states :: "HostState set" where
  "gone_states = {HostTerminated, HostTerminating, HostFailed}"

definition CreateRemoval ::
    "(nat \<Rightarrow> string) \<Rightarrow> int \<Rightarrow> string \<Rightarrow> int \<Rightarrow> NodeRemovalOperation \<Rightarrow> db \<Rightarrow> error + string \<times> db" where
  "CreateRemoval uuid now clusterID expectedRevision rm db =
     (if clusterID = [] \<or> no_NodeGroupID rm = [] \<or> no_HostID rm = [] \<or> no_NodeName rm = []
         \<or> no_ProviderID rm = [] \<or> no_DrainDeadline rm = 0
      then Inl (ErrMsg ''invalid removal operation'')
      else if no_Reason rm \<notin> {''autoscaler-delete'', ''repair'', ''maintenance''}
      then Inl (ErrMsg ''invalid removal reason'')
      else if no_PreserveDesiredCapacity rm \<noteq> (no_Reason rm \<noteq> ''autoscaler-delete'')
      then Inl (ErrMsg ''invalid desired capacity policy'')
      else rbind (loadPolicy db (no_NodeGroupID rm)) (\<lambda>p.
        (let g = pol_group p in
         if g_cluster_id g \<noteq> clusterID then Inl ErrForbidden
         else if g_target_revision g \<noteq> expectedRevision then Inl ErrConflict
         else case find (\<lambda>h. h_id h = no_HostID rm \<and> h_state h \<notin> gone_states) (hosts db) of
             None \<Rightarrow> Inl ErrNoRows
           | Some h \<Rightarrow>
               if coalesce (h_node_group_id h) \<noteq> no_NodeGroupID rm
                  \<or> coalesce (h_providerid h) \<noteq> no_ProviderID rm then Inl ErrForbidden
               else if \<not> no_PreserveDesiredCapacity rm \<and> g_target_nodes g \<le> g_min_nodes g
               then Inl ErrLimit
               else
                 (let revision = (if no_PreserveDesiredCapacity rm then g_target_revision g
                                  else i64 (g_target_revision g + 1)) in
                  rbind (if no_PreserveDesiredCapacity rm then Inr db
                         else update_groups (\<lambda>r. g_id r = g_id g)
                           (\<lambda>r. r\<lparr>g_target_nodes := g_target_nodes r - 1,
                                  g_target_revision := revision\<rparr>) db) (\<lambda>db1.
                  rbind (insert_operation (removal_op g (no_HostID rm) revision now
                           (ParamsRemoval None) (uuid 0) (uuid 1)) db1) (\<lambda>db2.
                  rbind (insert_removal (removal_row_of (uuid 0) (g_id g) (no_HostID rm)
                           (no_NodeName rm) (no_ProviderID rm) (no_Reason rm)
                           (no_PreserveDesiredCapacity rm) (no_DrainDeadline rm)) db2) (\<lambda>db3.
                  Inr (uuid 0, db3))))))))"

section \<open>Autoscaler removals\<close>

fun removal_nodes_ok :: "string list \<Rightarrow> RemovalNode list \<Rightarrow> bool" where
  "removal_nodes_ok seen [] = True"
| "removal_nodes_ok seen (n # ns) =
     (if rn_HostID n = [] \<or> rn_ProviderID n = [] \<or> rn_NodeName n = [] \<or> rn_HostID n \<in> set seen
      then False else removal_nodes_ok (rn_HostID n # seen) ns)"

definition removal_request_of :: "op_row \<Rightarrow> NodeRemovalRequest option" where
  "removal_request_of r = (case o_parameters r of ParamsRemoval q \<Rightarrow> q | _ \<Rightarrow> None)"

definition find_removal :: "db \<Rightarrow> string \<Rightarrow> string \<Rightarrow> NodeRemovalRequest option" where
  "find_removal db gid rid =
     (case find (\<lambda>r. o_group_id r = Some gid \<and> o_kind r = RemoveNode
                   \<and> (case removal_request_of r of None \<Rightarrow> False | Some q \<Rightarrow> rr_RequestID q = rid))
             (operations db) of
        None \<Rightarrow> None
      | Some r \<Rightarrow> removal_request_of r)"

text \<open>The provider identity Kubernetes reports for a host.\<close>

definition provider_identity :: "string \<Rightarrow> string \<Rightarrow> string \<Rightarrow> string" where
  "provider_identity provider zone providerID =
     (if provider = ''aws'' then ''aws:///'' @ zone @ ''/'' @ providerID else providerID)"

definition check_removal_node :: "db \<Rightarrow> string \<Rightarrow> RemovalNode \<Rightarrow> error + string" where
  "check_removal_node db gid n =
     (case [(h, z). h \<leftarrow> hosts db, h_id h = rn_HostID n, z \<leftarrow> zones db, h_crane_zone h = Some (z_id z)] of
        [] \<Rightarrow> Inl ErrNoRows
      | (h, z) # _ \<Rightarrow>
          (let providerID = coalesce (h_providerid h) in
           if coalesce (h_node_group_id h) \<noteq> gid \<or> providerID = []
              \<or> provider_identity (coalesce (h_provider h)) (z_provider_zone_id z) providerID
                 \<noteq> rn_ProviderID n
           then Inl ErrForbidden
           else if h_state h \<in> gone_states then Inl ErrFulfilled
           else if list_ex (\<lambda>x. nr_host_id x = rn_HostID n \<and> nr_completed_at x = None)
                     (node_removal_operations db)
           then Inl ErrConflict
           else Inr providerID))"

fun check_removal_nodes :: "db \<Rightarrow> string \<Rightarrow> RemovalNode list \<Rightarrow> error + string list" where
  "check_removal_nodes db gid [] = Inr []"
| "check_removal_nodes db gid (n # ns) =
     rbind (check_removal_node db gid n) (\<lambda>p.
       rbind (check_removal_nodes db gid ns) (\<lambda>ps. Inr (p # ps)))"

fun insert_removals ::
    "(nat \<Rightarrow> string) \<Rightarrow> int \<Rightarrow> group_row \<Rightarrow> int \<Rightarrow> NodeRemovalRequest \<Rightarrow> nat
     \<Rightarrow> (RemovalNode \<times> string) list \<Rightarrow> db \<Rightarrow> error + db" where
  "insert_removals uuid now g revision req k [] db = Inr db"
| "insert_removals uuid now g revision req k ((n, providerID) # ns) db =
     rbind (insert_operation (removal_op g (rn_HostID n) revision now (ParamsRemoval (Some req))
              (uuid k) (uuid (k + 1))) db) (\<lambda>db1.
     rbind (insert_removal (removal_row_of (uuid k) (rr_NodeGroupID req) (rn_HostID n)
              (rn_NodeName n) providerID ''autoscaler-delete'' False (now + 30 * 60 * 1000000)) db1)
       (insert_removals uuid now g revision req (k + 2) ns))"

definition CreateAutoscalerRemovals ::
    "(nat \<Rightarrow> string) \<Rightarrow> int \<Rightarrow> string \<Rightarrow> NodeRemovalRequest \<Rightarrow> db \<Rightarrow> error + db" where
  "CreateAutoscalerRemovals uuid now clusterID req db =
     (if clusterID = [] \<or> rr_NodeGroupID req = [] \<or> rr_RequestID req = []
         \<or> rr_ExpectedTargetRevision req < 0 \<or> rr_Nodes req = []
         \<or> \<not> removal_nodes_ok [] (rr_Nodes req)
      then Inl ErrInvalid
      else rbind (loadPolicy db (rr_NodeGroupID req)) (\<lambda>p.
        (let g = pol_group p; n = int (length (rr_Nodes req)) in
         if g_cluster_id g \<noteq> clusterID then Inl ErrForbidden
         else case find_removal db (rr_NodeGroupID req) (rr_RequestID req) of
             Some q \<Rightarrow> if q \<noteq> req then Inl ErrReplayMismatch else Inr db
           | None \<Rightarrow>
               if g_target_revision g \<noteq> rr_ExpectedTargetRevision req then Inl ErrConflict
               else if i64 (g_target_nodes g - n) < g_min_nodes g \<or> g_target_revision g = max_int64
               then Inl ErrLimit
               else rbind (check_removal_nodes db (rr_NodeGroupID req) (rr_Nodes req)) (\<lambda>ps.
                 (let revision = i64 (g_target_revision g + 1) in
                  rbind (update_groups (\<lambda>r. g_id r = rr_NodeGroupID req)
                      (\<lambda>r. r\<lparr>g_target_nodes := g_target_nodes r - n,
                             g_target_revision := revision\<rparr>) db)
                    (insert_removals uuid now g revision req 0 (zip (rr_Nodes req) ps)))))))"

definition removal_match :: "string \<Rightarrow> string \<Rightarrow> op_row \<Rightarrow> bool" where
  "removal_match gid rid r \<longleftrightarrow> o_group_id r = Some gid \<and> o_kind r = RemoveNode
     \<and> (case removal_request_of r of None \<Rightarrow> False | Some q \<Rightarrow> rr_RequestID q = rid)"

section \<open>Evolution\<close>

lemma insert_removal_Inr:
  "insert_removal n db = Inr db' \<longleftrightarrow>
     db' = db\<lparr>node_removal_operations := node_removal_operations db @ [n]\<rparr>
     \<and> nr_reason n \<in> {''autoscaler-delete'', ''repair'', ''maintenance''}
     \<and> (\<forall>x\<in>set (node_removal_operations db). nr_operation_id x \<noteq> nr_operation_id n
          \<and> (nr_host_id x = nr_host_id n \<longrightarrow> nr_completed_at x = None \<longrightarrow> nr_completed_at n \<noteq> None))
     \<and> nr_operation_id n \<in> o_id ` set (operations db) \<and> nr_group_id n \<in> g_id ` set (node_groups db)
     \<and> nr_host_id n \<in> h_id ` set (hosts db)"
  by (auto simp: insert_removal_def list_ex_iff)

lemma insert_removal_ev:
  assumes "insert_removal n db = Inr db'" "keys_ok db"
  shows "store_ev db db' \<and> keys_ok db'"
  using assms by (auto simp: insert_removal_Inr keys_ok_def key_notin store_ev_appends)

lemma CreateRemoval_Inr:
  assumes "CreateRemoval uuid now cluster expected rm db = Inr (i, db')"
  obtains p h db1 db2 revision where "loadPolicy db (no_NodeGroupID rm) = Inr p"
    "g_cluster_id (pol_group p) = cluster" "g_target_revision (pol_group p) = expected"
    "find (\<lambda>h. h_id h = no_HostID rm \<and> h_state h \<notin> gone_states) (hosts db) = Some h"
    "coalesce (h_node_group_id h) = no_NodeGroupID rm" "coalesce (h_providerid h) = no_ProviderID rm"
    "no_PreserveDesiredCapacity rm \<or> g_min_nodes (pol_group p) < g_target_nodes (pol_group p)"
    "revision = (if no_PreserveDesiredCapacity rm then g_target_revision (pol_group p)
                 else i64 (g_target_revision (pol_group p) + 1))"
    "(if no_PreserveDesiredCapacity rm then Inr db
      else update_groups (\<lambda>r. g_id r = g_id (pol_group p))
        (\<lambda>r. r\<lparr>g_target_nodes := g_target_nodes r - 1, g_target_revision := revision\<rparr>) db) = Inr db1"
    "insert_operation (removal_op (pol_group p) (no_HostID rm) revision now
        (ParamsRemoval None) (uuid 0) (uuid 1)) db1 = Inr db2"
    "insert_removal (removal_row_of (uuid 0) (g_id (pol_group p)) (no_HostID rm) (no_NodeName rm)
        (no_ProviderID rm) (no_Reason rm) (no_PreserveDesiredCapacity rm) (no_DrainDeadline rm)) db2 = Inr db'"
    "i = uuid 0" "no_NodeGroupID rm \<noteq> []"
    "no_PreserveDesiredCapacity rm \<longleftrightarrow> no_Reason rm \<noteq> ''autoscaler-delete''"
  using assms unfolding CreateRemoval_def Let_def
  by (auto simp: result_simps simp del: if_Inr_iff split: option.splits if_splits)

lemma revision_wraps: "group_check (f g) \<Longrightarrow> g_target_revision (f g) = i64 (g_target_revision g + 1)
  \<Longrightarrow> group_ok g \<Longrightarrow> i64 (g_target_revision g + 1) = g_target_revision g + 1"
proof -
  assume a: "group_check (f g)" "g_target_revision (f g) = i64 (g_target_revision g + 1)" "group_ok g"
  then have "0 \<le> i64 (g_target_revision g + 1)" by (simp add: group_check_def)
  moreover have "0 \<le> g_target_revision g" "g_target_revision g \<le> max_int64"
    using a(3) by (auto simp: group_ok_def group_check_def)
  ultimately show ?thesis
    by (cases "g_target_revision g = max_int64") (auto simp: i64_def max_int64_def)
qed

lemma CreateRemoval_ev:
  assumes "CreateRemoval uuid now cluster expected rm db = Inr (i, db')" and keys: "keys_ok db"
    and ok: "\<forall>g\<in>set (node_groups db). group_ok g"
  shows "store_ev db db' \<and> keys_ok db'"
  using assms(1)
proof (cases rule: CreateRemoval_Inr)
  case (1 p h db1 db2 revision)
  have g: "pol_group p \<in> set (node_groups db)" using 1(1) by (auto elim: loadPolicy_Inr)
  have row: "x = pol_group p" if "x \<in> set (node_groups db)" "g_id x = g_id (pol_group p)" for x
    using that g keys unique_key [of g_id "node_groups db"] by (auto simp: keys_ok_def)
  have 2: "store_ev db db1 \<and> keys_ok db1"
  proof (cases "no_PreserveDesiredCapacity rm")
    case True
    then show ?thesis using 1(9) keys by simp
  next
    case False
    let ?f = "\<lambda>r. r\<lparr>g_target_nodes := g_target_nodes r - 1, g_target_revision := revision\<rparr>"
    have u: "update_groups (\<lambda>r. g_id r = g_id (pol_group p)) ?f db = Inr db1" using 1(9) False by simp
    then have "group_check (?f (pol_group p))" using g by (auto simp: update_groups_Inr)
    then have rev: "revision = g_target_revision (pol_group p) + 1"
      using revision_wraps [of ?f "pol_group p"] ok g 1(8) False by simp
    show ?thesis
      by (rule update_groups_ev [OF u _ keys]) (auto simp: group_ev_def rev dest!: row)
  qed
  then have 3: "store_ev db1 db2" "keys_ok db2"
    using insert_operation_ev [OF 1(10)] insert_operation_keys [OF 1(10)] by auto
  with 2 insert_removal_ev [OF 1(11)] show ?thesis by (blast intro: store_ev_trans)
qed

lemma insert_removals_ev:
  "insert_removals uuid now g revision req k ns db = Inr db' \<Longrightarrow> keys_ok db \<Longrightarrow>
   store_ev db db' \<and> keys_ok db'"
proof (induction ns arbitrary: k db)
  case (Cons a ns)
  obtain n i where a: "a = (n, i)" by force
  from Cons.prems obtain db1 db2 where
    1: "insert_operation (removal_op g (rn_HostID n) revision now (ParamsRemoval (Some req))
              (uuid k) (uuid (k + 1))) db = Inr db1" and
    2: "insert_removal (removal_row_of (uuid k) (rr_NodeGroupID req) (rn_HostID n)
              (rn_NodeName n) i ''autoscaler-delete'' False (now + 30 * 60 * 1000000)) db1 = Inr db2" and
    3: "insert_removals uuid now g revision req (k + 2) ns db2 = Inr db'"
    by (auto simp: a result_simps)
  have "store_ev db db1" "keys_ok db1"
    using insert_operation_ev [OF 1] insert_operation_keys [OF 1 Cons.prems(2)] by auto
  moreover from this have "store_ev db1 db2" "keys_ok db2" using insert_removal_ev [OF 2] by auto
  ultimately show ?case using Cons.IH [OF 3] by (blast intro: store_ev_trans)
qed simp

lemma CreateAutoscalerRemovals_cases:
  assumes "CreateAutoscalerRemovals uuid now cluster req db = Inr db'"
  obtains
    (replay) "find_removal db (rr_NodeGroupID req) (rr_RequestID req) = Some req" "db' = db"
  | (fresh) p ps db1 where "loadPolicy db (rr_NodeGroupID req) = Inr p"
      "g_cluster_id (pol_group p) = cluster"
      "find_removal db (rr_NodeGroupID req) (rr_RequestID req) = None"
      "g_target_revision (pol_group p) = rr_ExpectedTargetRevision req"
      "g_min_nodes (pol_group p) \<le> i64 (g_target_nodes (pol_group p) - int (length (rr_Nodes req)))"
      "g_target_revision (pol_group p) \<noteq> max_int64"
      "check_removal_nodes db (rr_NodeGroupID req) (rr_Nodes req) = Inr ps"
      "update_groups (\<lambda>r. g_id r = rr_NodeGroupID req)
         (\<lambda>r. r\<lparr>g_target_nodes := g_target_nodes r - int (length (rr_Nodes req)),
                g_target_revision := i64 (g_target_revision (pol_group p) + 1)\<rparr>) db = Inr db1"
      "insert_removals uuid now (pol_group p) (i64 (g_target_revision (pol_group p) + 1)) req 0
         (zip (rr_Nodes req) ps) db1 = Inr db'"
      "removal_nodes_ok [] (rr_Nodes req)" "rr_Nodes req \<noteq> []" "rr_NodeGroupID req \<noteq> []"
  using assms unfolding CreateAutoscalerRemovals_def Let_def
  by (auto simp: result_simps not_less split: option.splits if_splits)

lemma CreateAutoscalerRemovals_ev:
  assumes "CreateAutoscalerRemovals uuid now cluster req db = Inr db'" and keys: "keys_ok db"
    and ok: "\<forall>g\<in>set (node_groups db). group_ok g"
  shows "store_ev db db' \<and> keys_ok db'"
  using assms(1)
proof (cases rule: CreateAutoscalerRemovals_cases)
  case replay
  then show ?thesis using keys by simp
next
  case (fresh p ps db1)
  have g: "pol_group p \<in> set (node_groups db)" "g_id (pol_group p) = rr_NodeGroupID req"
    using fresh(1) by (auto elim: loadPolicy_Inr)
  have row: "x = pol_group p" if "x \<in> set (node_groups db)" "g_id x = rr_NodeGroupID req" for x
    using that g keys unique_key [of g_id "node_groups db"] by (auto simp: keys_ok_def)
  have rev: "i64 (g_target_revision (pol_group p) + 1) = g_target_revision (pol_group p) + 1"
    using revision_step ok g(1) fresh(6) by blast
  have "store_ev db db1 \<and> keys_ok db1"
    by (rule update_groups_ev [OF fresh(8) _ keys]) (auto simp: group_ev_def rev dest!: row)
  with insert_removals_ev [OF fresh(9)] show ?thesis by (blast intro: store_ev_trans)
qed

section \<open>Rows a batch creates\<close>

lemma insert_removals_Inr:
  assumes "insert_removals uuid now g revision req k ns db = Inr db'"
  obtains ops rms where "db' = db\<lparr>operations := operations db @ ops,
      node_removal_operations := node_removal_operations db @ rms\<rparr>"
    "map o_host_id ops = map (\<lambda>n. Some (rn_HostID (fst n))) ns"
    "\<forall>x\<in>set ops. o_kind x = RemoveNode \<and> o_group_id x = Some (g_id g) \<and> o_state x = OpPending
       \<and> o_parameters x = ParamsRemoval (Some req) \<and> o_target_revision x = revision"
    "map nr_host_id rms = map (\<lambda>n. rn_HostID (fst n)) ns" "map nr_operation_id rms = map o_id ops"
    "\<forall>x\<in>set rms. nr_completed_at x = None \<and> nr_group_id x = rr_NodeGroupID req
       \<and> nr_reason x = ''autoscaler-delete''"
  using assms
proof (induction ns arbitrary: k db thesis)
  case Nil
  then show ?case by (intro Nil(1) [of "[]" "[]"]) simp_all
next
  case (Cons a ns)
  obtain n i where a: "a = (n, i)" by force
  let ?o = "removal_op g (rn_HostID n) revision now (ParamsRemoval (Some req)) (uuid k) (uuid (k + 1))"
  let ?r = "removal_row_of (uuid k) (rr_NodeGroupID req) (rn_HostID n) (rn_NodeName n) i
     ''autoscaler-delete'' False (now + 30 * 60 * 1000000)"
  from Cons.prems(2) have "insert_removals uuid now g revision req (k + 2) ns
      (db\<lparr>operations := operations db @ [?o],
          node_removal_operations := node_removal_operations db @ [?r]\<rparr>) = Inr db'"
    by (auto simp: a result_simps insert_operation_Inr insert_removal_Inr)
  from Cons.IH [OF _ this] obtain ops rms where 1: "db' = db\<lparr>operations := operations db @ ?o # ops,
      node_removal_operations := node_removal_operations db @ ?r # rms\<rparr>"
    "map o_host_id ops = map (\<lambda>n. Some (rn_HostID (fst n))) ns"
    "\<forall>x\<in>set ops. o_kind x = RemoveNode \<and> o_group_id x = Some (g_id g) \<and> o_state x = OpPending
       \<and> o_parameters x = ParamsRemoval (Some req) \<and> o_target_revision x = revision"
    "map nr_host_id rms = map (\<lambda>n. rn_HostID (fst n)) ns" "map nr_operation_id rms = map o_id ops"
    "\<forall>x\<in>set rms. nr_completed_at x = None \<and> nr_group_id x = rr_NodeGroupID req
       \<and> nr_reason x = ''autoscaler-delete''"
    by auto
  show ?case
    by (rule Cons.prems(1) [OF 1(1)]) (use 1(2-) in \<open>simp_all add: a removal_op_def removal_row_of_def\<close>)
qed

lemma check_removal_nodes_Inr:
  "check_removal_nodes db gid ns = Inr ps \<Longrightarrow> length ps = length ns \<and> (\<forall>n\<in>set ns.
     (\<exists>h\<in>set (hosts db). h_id h = rn_HostID n \<and> coalesce (h_node_group_id h) = gid
        \<and> h_state h \<notin> gone_states)
     \<and> (\<forall>x\<in>set (node_removal_operations db). nr_host_id x = rn_HostID n \<longrightarrow> nr_completed_at x \<noteq> None))"
proof (induction ns arbitrary: ps)
  case (Cons n ns)
  from Cons.prems obtain p qs where p: "check_removal_node db gid n = Inr p"
    "check_removal_nodes db gid ns = Inr qs" "ps = p # qs" by (auto simp: result_simps)
  from p(1) obtain h z hs where "[(h, z). h \<leftarrow> hosts db, h_id h = rn_HostID n, z \<leftarrow> zones db,
      h_crane_zone h = Some (z_id z)] = (h, z) # hs" "coalesce (h_node_group_id h) = gid"
    "h_state h \<notin> gone_states"
    "\<forall>x\<in>set (node_removal_operations db). nr_host_id x = rn_HostID n \<longrightarrow> nr_completed_at x \<noteq> None"
    by (auto simp: check_removal_node_def Let_def list_ex_iff split: list.splits if_splits)
  moreover from this(1) have "(h, z) \<in> set [(h, z). h \<leftarrow> hosts db, h_id h = rn_HostID n, z \<leftarrow> zones db,
      h_crane_zone h = Some (z_id z)]" by simp
  then have "h \<in> set (hosts db)" "h_id h = rn_HostID n" by auto
  ultimately show ?case using Cons.IH [OF p(2)] p(3) by auto
qed simp

section \<open>Replay\<close>

lemma removal_match_ev: "op_ev a b \<Longrightarrow> removal_match g i b = removal_match g i a"
  by (simp add: op_ev_def op_intent_def removal_match_def removal_request_of_def)

lemma find_removal_eq:
  "find_removal db g i = (case find (removal_match g i) (operations db) of None \<Rightarrow> None | Some r \<Rightarrow> removal_request_of r)"
  by (simp add: find_removal_def removal_match_def [abs_def])

lemma find_removal_Some:
  "find_removal db g i = Some q \<longleftrightarrow> (\<exists>r. find (removal_match g i) (operations db) = Some r \<and> removal_request_of r = Some q)"
  by (simp add: find_removal_eq split: option.splits)

lemma find_removal_None:
  assumes "find_removal db g i = None"
  shows "find (removal_match g i) (operations db) = None"
proof (cases "find (removal_match g i) (operations db)")
  case (Some r)
  then have "removal_match g i r" by (rule find_SomeD [THEN conjunct2])
  then show ?thesis using assms Some by (auto simp: find_removal_eq removal_match_def split: option.splits)
qed

lemma find_removal_later:
  assumes "find_removal db g i = Some q" "store_ev db db'"
  shows "find_removal db' g i = Some q"
proof -
  obtain r where r: "find (removal_match g i) (operations db) = Some r" "removal_request_of r = Some q"
    using assms(1) find_removal_Some by blast
  obtain s where "find (removal_match g i) (operations db') = Some s" "op_ev r s"
    using evolves_find [OF store_evD(10) [OF assms(2)] r(1) removal_match_ev] by blast
  then show ?thesis using r(2) by (auto simp: find_removal_Some op_ev_def op_intent_def removal_request_of_def)
qed

lemma removals_stored:
  assumes "CreateAutoscalerRemovals uuid now cluster req db = Inr db1"
  shows "find_removal db1 (rr_NodeGroupID req) (rr_RequestID req) = Some req"
  using assms
proof (cases rule: CreateAutoscalerRemovals_cases)
  case (fresh p ps d)
  from fresh(9) obtain ops rms where ops: "db1 = d\<lparr>operations := operations d @ ops,
      node_removal_operations := node_removal_operations d @ rms\<rparr>"
    "map o_host_id ops = map (\<lambda>n. Some (rn_HostID (fst n))) (zip (rr_Nodes req) ps)"
    "\<forall>x\<in>set ops. o_kind x = RemoveNode \<and> o_group_id x = Some (g_id (pol_group p)) \<and> o_state x = OpPending
       \<and> o_parameters x = ParamsRemoval (Some req) \<and> o_target_revision x = i64 (g_target_revision (pol_group p) + 1)"
    by (rule insert_removals_Inr)
  have gid: "g_id (pol_group p) = rr_NodeGroupID req" using fresh(1) by (rule loadPolicy_Inr)
  have "length ps = length (rr_Nodes req)" using check_removal_nodes_Inr [OF fresh(7)] by simp
  then have "ops \<noteq> []" using ops(2) fresh(11) by (cases "rr_Nodes req"; cases ps) auto
  then obtain x xs where x: "ops = x # xs" by (cases ops) auto
  have "operations d = operations db" using fresh(8) by (auto simp: update_groups_Inr)
  then have "find (removal_match (rr_NodeGroupID req) (rr_RequestID req)) (operations db1) = Some x"
    using find_append_None [OF find_removal_None [OF fresh(3)]] ops(1,3) x gid
    by (simp add: removal_match_def removal_request_of_def)
  then show ?thesis using ops(3) x by (simp add: find_removal_Some removal_request_of_def)
qed simp

end
