(* ===== verification/CapacityAccounting.thy ===== *)
theory CapacityAccounting
  imports CapacityTarget
begin

text \<open>
  The accounting invariant of capacity admission: in every pool the unreleased reservations of
  all groups stay within the pool's limits, and every group's target is backed by unreleased
  reservations.  The first lemmas show that a transaction which neither admits nor releases
  credits keeps it; then \<open>SetTarget\<close> keeps it when it admits and when it cancels.
\<close>

section \<open>Invariant\<close>

definition in_pool :: "db \<Rightarrow> string \<Rightarrow> reservation_row \<Rightarrow> bool" where
  "in_pool db pool r \<longleftrightarrow> r_state r \<noteq> Released
     \<and> (\<exists>g\<in>set (node_groups db). g_id g = r_group_id r \<and> g_node_pool_id g = pool)"

definition within :: "Resources \<Rightarrow> Resources \<Rightarrow> bool" where
  "within a b \<longleftrightarrow> res_VCPU a \<le> res_VCPU b \<and> res_MemoryMiB a \<le> res_MemoryMiB b
     \<and> res_Nodes a \<le> res_Nodes b"

definition pools_within :: "db \<Rightarrow> bool" where
  "pools_within db \<longleftrightarrow> (\<forall>p\<in>set (node_pools db). within (pool_used db (p_id p)) (pool_limits p))"

definition credits :: "db \<Rightarrow> string \<Rightarrow> int" where
  "credits db gid =
     int (cnt (\<lambda>r. r_group_id r = gid \<and> r_state r \<noteq> Released) (infrastructure_reservations db))"

definition targets_backed :: "db \<Rightarrow> bool" where
  "targets_backed db \<longleftrightarrow> (\<forall>g\<in>set (node_groups db). g_target_nodes g \<le> credits db (g_id g))"

definition pool_ok :: "pool_row \<Rightarrow> bool" where
  "pool_ok p \<longleftrightarrow> pool_check p \<and> p_max_vcpu p \<le> max_int64 \<and> p_max_memory_mib p \<le> max_int64
     \<and> p_max_nodes p \<le> max_int64"

definition refs_ok :: "db \<Rightarrow> bool" where
  "refs_ok db \<longleftrightarrow>
     (\<forall>r\<in>set (infrastructure_reservations db).
        r_group_id r \<in> g_id ` set (node_groups db) \<and> r_host_id r \<in> h_id ` set (hosts db))
     \<and> (\<forall>x\<in>set (operations db). \<forall>h. o_host_id x = Some h \<longrightarrow> h \<in> h_id ` set (hosts db))
     \<and> (\<forall>x\<in>set (operations db). \<forall>r\<in>set (infrastructure_reservations db).
          o_kind x = Provision \<and> o_host_id x = Some (r_host_id r) \<longrightarrow> o_group_id x = Some (r_group_id r))
     \<and> (\<forall>g\<in>set (node_groups db). g_node_pool_id g \<in> p_id ` set (node_pools db))"

definition rows_ok :: "db \<Rightarrow> bool" where
  "rows_ok db \<longleftrightarrow> (\<forall>g\<in>set (node_groups db). group_ok g) \<and> (\<forall>p\<in>set (node_pools db). pool_ok p)
     \<and> (\<forall>r\<in>set (infrastructure_reservations db). reservation_check r)"

definition acct :: "db \<Rightarrow> bool" where
  "acct db \<longleftrightarrow> keys_ok db \<and> refs_ok db \<and> rows_ok db \<and> pools_within db \<and> targets_backed db"

section \<open>Lemmas\<close>

lemma pool_reservations_filter:
  assumes "distinct (map g_id (node_groups db))"
  shows "pool_reservations db pool = filter (in_pool db pool) (infrastructure_reservations db)"
proof -
  have "concat (map (\<lambda>g. if g_id g = r_group_id r \<and> g_node_pool_id g = pool \<and> r_state r \<noteq> Released
             then [r] else []) (node_groups db))
        = (if in_pool db pool r then [r] else [])" for r
    using join_unique [OF assms, of "r_group_id r" "\<lambda>g. g_node_pool_id g = pool \<and> r_state r \<noteq> Released" r]
    by (auto simp: in_pool_def)
  then show ?thesis
    unfolding pool_reservations_def by (simp add: concat_if_filter)
qed

lemma in_pool_evolve:
  assumes ev: "store_ev db db'" and keys: "keys_ok db'" and refs: "refs_ok db"
    and r: "r \<in> set (infrastructure_reservations db)" "reservation_ev r r'" and pool: "in_pool db' pool r'"
  shows "in_pool db pool r"
proof -
  have same: "r_group_id r' = r_group_id r" and st: "r_state r \<noteq> Released"
    using reservation_evD [OF r(2)] pool by (auto simp: in_pool_def)
  from refs r(1) obtain g where g: "g \<in> set (node_groups db)" "g_id g = r_group_id r"
    by (force simp: refs_ok_def)
  then obtain g' where g': "g' \<in> set (node_groups db')" "group_ev g g'"
    using group_evo.row_later ev by (fastforce simp: store_ev_def)
  from pool obtain g2 where "g2 \<in> set (node_groups db')" "g_id g2 = r_group_id r'"
    "g_node_pool_id g2 = pool" by (auto simp: in_pool_def)
  then have "g_node_pool_id g = pool"
    using g g' same keys unique_key [of g_id "node_groups db'" g2 g'] by (auto simp: keys_ok_def group_ev_def)
  with g st show ?thesis by (auto simp: in_pool_def)
qed

lemma reservation_sums_mono:
  fixes v :: "reservation_row \<Rightarrow> int"
  assumes ev: "store_ev db db'" and keys: "keys_ok db" "keys_ok db'" and refs: "refs_ok db"
    and len: "length (infrastructure_reservations db') = length (infrastructure_reservations db)"
    and v: "\<And>a b. reservation_ev a b \<Longrightarrow> v b = v a"
      "\<And>r. r \<in> set (infrastructure_reservations db) \<Longrightarrow> 0 \<le> v r"
  shows "sum_list (map v (pool_reservations db' pool)) \<le> sum_list (map v (pool_reservations db pool))"
proof -
  let ?t = "infrastructure_reservations db" and ?t' = "infrastructure_reservations db'"
  have e: "evolves reservation_ev ?t ?t'" using ev by (simp add: store_ev_def)
  have "evolves (\<lambda>a b. v b = v a \<and> (in_pool db' pool b \<longrightarrow> in_pool db pool a)) ?t ?t'"
    unfolding evolves_def
  proof (intro conjI allI impI)
    show "length ?t \<le> length ?t'" using len by simp
    fix i assume i: "i < length ?t"
    then have ri: "reservation_ev (?t ! i) (?t' ! i)" using e by (simp add: evolves_def)
    then show "v (?t' ! i) = v (?t ! i)" using v(1) by blast
    assume "in_pool db' pool (?t' ! i)"
    then show "in_pool db pool (?t ! i)" using in_pool_evolve [OF ev keys(2) refs] i ri by simp
  qed
  from sum_positive_mono [OF this len] v(2)
  show ?thesis using keys by (simp add: pool_reservations_filter keys_ok_def)
qed

lemma pool_used_mono:
  assumes "store_ev db db'" "keys_ok db" "keys_ok db'" "refs_ok db" "rows_ok db"
    and "length (infrastructure_reservations db') = length (infrastructure_reservations db)"
  shows "within (pool_used db' pool) (pool_used db pool)"
proof -
  have nn: "0 \<le> r_vcpu r" "0 \<le> r_memory_mib r" "0 \<le> r_nodes r"
    if "r \<in> set (infrastructure_reservations db)" for r
    using assms(5) that by (force simp: rows_ok_def reservation_check_def)+
  show ?thesis unfolding within_def pool_used_def
    using reservation_sums_mono [OF assms(1-4,6)] nn by (simp add: reservation_evD)
qed

lemma unused_pool:
  assumes "refs_ok db" "keys_ok db" "pool \<notin> p_id ` set (node_pools db)"
  shows "pool_reservations db pool = []"
  using assms by (auto simp: pool_reservations_filter keys_ok_def in_pool_def refs_ok_def filter_empty_conv)

lemma keys_later:
  assumes "store_ev db db'"
  shows "g_id ` set (node_groups db) \<subseteq> g_id ` set (node_groups db')"
    and "h_id ` set (hosts db) \<subseteq> h_id ` set (hosts db')"
    and "p_id ` set (node_pools db) \<subseteq> p_id ` set (node_pools db')"
  by (rule evolves_keys [OF store_evD(6) [OF assms]], simp add: group_ev_def)
    (rule evolves_keys [OF store_evD(8) [OF assms]], simp add: host_ev_def,
     rule evolves_keys [OF store_evD(5) [OF assms]], simp)

lemma refs_ok_evolve:
  assumes ev: "store_ev db db'" and refs: "refs_ok db"
    and len: "length (infrastructure_reservations db') = length (infrastructure_reservations db)"
    and ops: "\<forall>x\<in>set (operations db'). (\<exists>y\<in>set (operations db). op_ev y x)
       \<or> (o_kind x \<noteq> Provision \<and> (\<forall>h. o_host_id x = Some h \<longrightarrow> h \<in> h_id ` set (hosts db')))"
    and groups: "\<forall>g\<in>set (node_groups db'). g_node_pool_id g \<in> p_id ` set (node_pools db')"
  shows "refs_ok db'"
proof -
  have res: "\<exists>r\<in>set (infrastructure_reservations db). reservation_ev r r'"
    if "r' \<in> set (infrastructure_reservations db')" for r'
    using evolves_lengthD [OF _ len that, of reservation_ev] ev by (simp add: store_ev_def)
  note sub = keys_later [OF ev]
  have 1: "r_group_id r' \<in> g_id ` set (node_groups db') \<and> r_host_id r' \<in> h_id ` set (hosts db')"
    if "r' \<in> set (infrastructure_reservations db')" for r'
    using res [OF that] refs sub by (auto simp: refs_ok_def reservation_evD subset_iff)
  have 2: "h \<in> h_id ` set (hosts db')"
    if "x \<in> set (operations db')" "o_host_id x = Some h" for x h
    using ops that refs sub(2) by (fastforce simp: refs_ok_def op_ev_def op_intent_def)
  have 3: "o_group_id x = Some (r_group_id r')"
    if x: "x \<in> set (operations db')" "o_kind x = Provision" "o_host_id x = Some (r_host_id r')"
      and r': "r' \<in> set (infrastructure_reservations db')" for x r'
  proof -
    from ops x obtain y where y: "y \<in> set (operations db)" "op_ev y x" by auto
    from res [OF r'] obtain r where r: "r \<in> set (infrastructure_reservations db)" "reservation_ev r r'"
      by auto
    from y x(2,3) r(2) have "o_kind y = Provision" "o_host_id y = Some (r_host_id r)"
      by (auto simp: op_ev_def op_intent_def reservation_evD)
    with refs y(1) r(1) have "o_group_id y = Some (r_group_id r)" by (auto simp: refs_ok_def)
    with y(2) r(2) show ?thesis by (auto simp: op_ev_def op_intent_def reservation_evD)
  qed
  show ?thesis unfolding refs_ok_def using 1 2 3 groups by blast
qed

lemma credits_mono:
  assumes "evolves (\<lambda>a b. r_group_id b = r_group_id a \<and> (r_state a \<noteq> Released \<longrightarrow> r_state b \<noteq> Released))
             (infrastructure_reservations db) (infrastructure_reservations db')"
  shows "credits db gid \<le> credits db' gid"
  unfolding credits_def
  using cnt_evolve [OF evolves_mono [OF assms], of "\<lambda>r. r_group_id r = gid \<and> r_state r \<noteq> Released"
      "\<lambda>r. r_group_id r = gid \<and> r_state r \<noteq> Released"]
  by simp

text \<open>A transaction that neither admits nor releases credits keeps the accounting invariant.\<close>

lemma acct_evolve:
  assumes inv: "acct db" and ev: "store_ev db db'" and keys: "keys_ok db'"
    and kept: "evolves (\<lambda>a b. r_state a \<noteq> Released \<longrightarrow> r_state b \<noteq> Released)
        (infrastructure_reservations db) (infrastructure_reservations db')"
    and len: "length (infrastructure_reservations db') = length (infrastructure_reservations db)"
    and ops: "\<forall>x\<in>set (operations db'). (\<exists>y\<in>set (operations db). op_ev y x)
       \<or> (o_kind x \<noteq> Provision \<and> (\<forall>h. o_host_id x = Some h \<longrightarrow> h \<in> h_id ` set (hosts db')))"
    and groups: "\<forall>g\<in>set (node_groups db'). group_ok g \<and> g_node_pool_id g \<in> p_id ` set (node_pools db')
       \<and> ((\<exists>f\<in>set (node_groups db). g_id f = g_id g \<and> g_target_nodes g \<le> g_target_nodes f)
          \<or> g_target_nodes g \<le> 0)"
    and pools: "\<forall>p\<in>set (node_pools db'). pool_ok p"
  shows "acct db'"
proof -
  have k: "keys_ok db" "refs_ok db" "rows_ok db" "pools_within db" "targets_backed db"
    using inv by (simp_all add: acct_def)
  have refs: "refs_ok db'" using refs_ok_evolve [OF ev k(2) len ops] groups by blast
  have res: "\<exists>r\<in>set (infrastructure_reservations db). reservation_ev r r'"
    if "r' \<in> set (infrastructure_reservations db')" for r'
    using evolves_lengthD [OF _ len that, of reservation_ev] ev by (simp add: store_ev_def)
  have rows: "rows_ok db'"
    using groups pools res k(3) by (fastforce simp: rows_ok_def reservation_check_def reservation_evD)
  have "within (pool_used db' (p_id p)) (pool_limits p)" if p: "p \<in> set (node_pools db')" for p
  proof (cases "p_id p \<in> p_id ` set (node_pools db)")
    case True
    then obtain q where q: "q \<in> set (node_pools db)" "p_id q = p_id p" by force
    then have "q \<in> set (node_pools db')" using ev by (auto simp: store_ev_def evolves_eq_prefix)
    then have "q = p" using unique_key [of p_id "node_pools db'" q p] p q(2) keys
      by (simp add: keys_ok_def)
    then have "within (pool_used db (p_id p)) (pool_limits p)"
      using k(4) q(1) by (simp add: pools_within_def)
    then show ?thesis using pool_used_mono [OF ev k(1) keys k(2,3) len, of "p_id p"]
      by (auto simp: within_def)
  next
    case False
    then have "within (pool_used db' (p_id p)) (pool_used db (p_id p))"
      using pool_used_mono [OF ev k(1) keys k(2,3) len] by blast
    moreover have "pool_limits p = \<lparr>res_VCPU = p_max_vcpu p, res_MemoryMiB = p_max_memory_mib p,
        res_Nodes = p_max_nodes p\<rparr>" by (simp add: pool_limits_def)
    ultimately show ?thesis using unused_pool [OF k(2,1) False] pools p
      by (force simp: within_def pool_used_def pool_ok_def pool_check_def)
  qed
  then have pw: "pools_within db'" by (simp add: pools_within_def)
  have "evolves (\<lambda>a b. r_group_id b = r_group_id a \<and> (r_state a \<noteq> Released \<longrightarrow> r_state b \<noteq> Released))
       (infrastructure_reservations db) (infrastructure_reservations db')"
    using kept ev by (simp add: evolves_def store_ev_def reservation_evD)
  from credits_mono [OF this] have c: "credits db gid \<le> credits db' gid" for gid .
  have "g_target_nodes g \<le> credits db' (g_id g)" if "g \<in> set (node_groups db')" for g
  proof -
    have "0 \<le> credits db' (g_id g)" by (simp add: credits_def)
    moreover have "g_target_nodes g \<le> credits db' (g_id g)"
      if "f \<in> set (node_groups db)" "g_id f = g_id g" "g_target_nodes g \<le> g_target_nodes f" for f
      using that k(5) c [of "g_id g"] by (fastforce simp: targets_backed_def)
    ultimately show ?thesis using groups that by fastforce
  qed
  then show ?thesis using keys refs rows pw by (simp add: acct_def targets_backed_def)
qed

lemma pool_used_nonneg:
  assumes "\<forall>r\<in>set (infrastructure_reservations db). reservation_check r"
  shows "0 \<le> res_VCPU (pool_used db pool)" "0 \<le> res_MemoryMiB (pool_used db pool)"
    "0 \<le> res_Nodes (pool_used db pool)"
proof -
  have "\<forall>r\<in>set (pool_reservations db pool). reservation_check r"
    using assms by (auto simp: pool_reservations_def)
  then show "0 \<le> res_VCPU (pool_used db pool)" "0 \<le> res_MemoryMiB (pool_used db pool)"
    "0 \<le> res_Nodes (pool_used db pool)"
    by (force simp: pool_used_def reservation_check_def intro!: sum_list_nonneg)+
qed

lemma checkReservations_iff:
  assumes g: "0 < g_vcpu (pol_group p)" "0 < g_memory_mib (pol_group p)" and n: "0 < nodes" "nodes \<le> max_int64"
    and lim: "0 \<le> res_VCPU (pol_limit p)" "res_VCPU (pol_limit p) \<le> max_int64"
      "0 \<le> res_MemoryMiB (pol_limit p)" "res_MemoryMiB (pol_limit p) \<le> max_int64"
      "0 \<le> res_Nodes (pol_limit p)" "res_Nodes (pol_limit p) \<le> max_int64"
    and rows: "\<forall>r\<in>set (infrastructure_reservations db). reservation_check r"
  shows "checkReservations db p nodes = Inr () \<longleftrightarrow>
      within \<lparr>res_VCPU = res_VCPU (pool_used db (g_node_pool_id (pol_group p))) + nodes * g_vcpu (pol_group p),
              res_MemoryMiB = res_MemoryMiB (pool_used db (g_node_pool_id (pol_group p)))
                + nodes * g_memory_mib (pol_group p),
              res_Nodes = res_Nodes (pool_used db (g_node_pool_id (pol_group p))) + nodes\<rparr>
        (pol_limit p)" (is "?L \<longleftrightarrow> ?R")
proof -
  let ?u = "pool_used db (g_node_pool_id (pol_group p))" and ?g = "pol_group p"
  note u = pool_used_nonneg [OF rows, of "g_node_pool_id ?g"]
  have sub: "i64 (l - w) = l - w" if "0 \<le> l" "l \<le> max_int64" "0 \<le> w" "in_i64 w" for l w
    using that by (intro i64_id) (auto simp: in_i64_def max_int64_def)
  have mul: "i64 (nodes * v) = nodes * v" if "0 < v" "nodes \<le> max_int64 div v" for v
    using that n(1) mul_fits [OF that] by (intro i64_id) (auto simp: in_i64_def max_int64_def zero_le_mult_iff
        intro: order_trans [of _ 0])
  show ?thesis
  proof
    assume ?L
    then show ?R
      using sub [OF lim(1,2) u(1)] sub [OF lim(3,4) u(2)] sub [OF lim(5,6) u(3)]
        mul [OF g(1)] mul [OF g(2)]
      by (auto simp: checkReservations_def Let_def within_def split: if_splits)
  next
    assume R: ?R
    have pos: "0 \<le> nodes * g_vcpu ?g" "0 \<le> nodes * g_memory_mib ?g" using g n by auto
    from R u lim have fit: "nodes * g_vcpu ?g \<le> max_int64" "nodes * g_memory_mib ?g \<le> max_int64"
      "res_VCPU ?u \<le> max_int64" "res_MemoryMiB ?u \<le> max_int64" "res_Nodes ?u \<le> max_int64"
      using pos n by (auto simp: within_def)
    then have "in_i64 (res_VCPU ?u)" "in_i64 (res_MemoryMiB ?u)" "in_i64 (res_Nodes ?u)"
      using u by (auto simp: in_i64_def max_int64_def)
    moreover have "nodes \<le> max_int64 div g_vcpu ?g" "nodes \<le> max_int64 div g_memory_mib ?g"
      using div_fits g fit by auto
    ultimately show ?L
      using R sub [OF lim(1,2) u(1)] sub [OF lim(3,4) u(2)] sub [OF lim(5,6) u(3)]
        mul [OF g(1)] mul [OF g(2)]
      by (auto simp: checkReservations_def Let_def within_def)
  qed
qed

lemma provisionIntent_refs:
  assumes "provisionIntent uuid now p requestID revision k db = Inr db'" and "refs_ok db"
    and "\<forall>r\<in>set (infrastructure_reservations db). reservation_check r"
  shows "refs_ok db' \<and> (\<forall>r\<in>set (infrastructure_reservations db'). reservation_check r)"
proof -
  let ?r = "provision_reservation p requestID now (uuid k) (uuid (k + 3))"
  let ?x = "provision_op p requestID revision now (uuid k) (uuid (k + 1)) (uuid (k + 2))"
  from assms(1) have fresh: "uuid k \<notin> h_id ` set (hosts db)"
    and chk: "reservation_check ?r" and grp: "g_id (pol_group p) \<in> g_id ` set (node_groups db)"
    by (auto simp: provisionIntent_def Let_def result_simps insert_operation_Inr insert_host_Inr
        insert_reservation_Inr provision_host_def provision_reservation_def)
  note db' = provisionIntent_Inr [OF assms(1)]
  have old: "o_host_id x \<noteq> Some (uuid k)" if "x \<in> set (operations db)" for x
    using assms(2) that fresh by (auto simp: refs_ok_def)
  have oldr: "r_host_id r \<noteq> uuid k" if "r \<in> set (infrastructure_reservations db)" for r
  proof -
    have "r_host_id r \<in> h_id ` set (hosts db)" using assms(2) that by (simp add: refs_ok_def)
    with fresh show ?thesis by metis
  qed
  have "refs_ok db'"
    using assms(2) grp old oldr unfolding refs_ok_def db'
    by (auto simp: provision_op_def provision_host_def provision_reservation_def)
  then show ?thesis using chk assms(3) by (auto simp: db')
qed

lemma provisionIntents_refs:
  "provisionIntents uuid now p requestID revision k n db = Inr db' \<Longrightarrow> refs_ok db \<Longrightarrow>
   \<forall>r\<in>set (infrastructure_reservations db). reservation_check r \<Longrightarrow>
   refs_ok db' \<and> (\<forall>r\<in>set (infrastructure_reservations db'). reservation_check r)"
proof (induction n arbitrary: k db)
  case (Suc n)
  then obtain db1 where 1: "provisionIntent uuid now p requestID revision k db = Inr db1"
    and 2: "provisionIntents uuid now p requestID revision (k + 4) n db1 = Inr db'"
    by (auto simp: result_simps)
  then show ?case using provisionIntent_refs [OF 1 Suc.prems(2,3)] Suc.IH [OF 2] by blast
qed simp

lemma set_intent_reservations:
  "r \<in> set (intent_reservations uuid now p requestID k n) \<Longrightarrow>
   r_group_id r = g_id (pol_group p) \<and> r_state r = Reserved \<and> r_vcpu r = g_vcpu (pol_group p)
   \<and> r_memory_mib r = g_memory_mib (pol_group p) \<and> r_nodes r = 1"
  by (auto simp: intent_reservations_def provision_reservation_def)

lemma length_intents [simp]:
  "length (intent_reservations uuid now p requestID k n) = n"
  "length (intent_ops uuid now p requestID revision k n) = n"
  "length (intent_hosts uuid now p k n) = n"
  by (simp_all add: intent_reservations_def intent_ops_def intent_hosts_def)

lemma pool_used_admit:
  assumes keys: "distinct (map g_id (node_groups db))"
    and groups: "map (\<lambda>g. (g_id g, g_node_pool_id g)) (node_groups db') =
      map (\<lambda>g. (g_id g, g_node_pool_id g)) (node_groups db)"
    and res: "infrastructure_reservations db' =
      infrastructure_reservations db @ intent_reservations uuid now p requestID k n"
    and g: "pol_group p \<in> set (node_groups db)"
  shows "pool_used db' pool =
    (if pool = g_node_pool_id (pol_group p)
     then \<lparr>res_VCPU = res_VCPU (pool_used db pool) + int n * g_vcpu (pol_group p),
           res_MemoryMiB = res_MemoryMiB (pool_used db pool) + int n * g_memory_mib (pol_group p),
           res_Nodes = res_Nodes (pool_used db pool) + int n\<rparr>
     else pool_used db pool)"
proof -
  let ?new = "intent_reservations uuid now p requestID k n"
  have "map fst (map (\<lambda>g. (g_id g, g_node_pool_id g)) (node_groups db')) =
      map fst (map (\<lambda>g. (g_id g, g_node_pool_id g)) (node_groups db))" using groups by simp
  then have keys': "distinct (map g_id (node_groups db'))" using keys by (simp add: comp_def)
  have "(\<lambda>g. (g_id g, g_node_pool_id g)) ` set (node_groups db') =
      (\<lambda>g. (g_id g, g_node_pool_id g)) ` set (node_groups db)"
    using arg_cong [OF groups, of set] by simp
  then have "(\<exists>g\<in>set (node_groups db'). g_id g = i \<and> g_node_pool_id g = q) \<longleftrightarrow>
      (\<exists>g\<in>set (node_groups db). g_id g = i \<and> g_node_pool_id g = q)" for i q
    by (simp add: ex_pair_image)
  then have same: "in_pool db' pool = in_pool db pool" by (auto simp: in_pool_def fun_eq_iff)
  have new: "in_pool db pool r \<longleftrightarrow> pool = g_node_pool_id (pol_group p)" if "r \<in> set ?new" for r
    using set_intent_reservations [OF that] g unique_key [OF keys _ g]
    by (auto simp: in_pool_def)
  have f: "filter (in_pool db pool) ?new = (if pool = g_node_pool_id (pol_group p) then ?new else [])"
    using new by (auto simp: filter_empty_conv)
  have pr: "pool_reservations db' pool = pool_reservations db pool @
      (if pool = g_node_pool_id (pol_group p) then ?new else [])"
    using keys keys' res same f by (simp add: pool_reservations_filter)
  show ?thesis
    using sum_list_const_on [of ?new r_vcpu "g_vcpu (pol_group p)"]
      sum_list_const_on [of ?new r_memory_mib "g_memory_mib (pol_group p)"]
      sum_list_const_on [of ?new r_nodes 1] set_intent_reservations
    by (simp add: pool_used_def pr)
qed

lemma credits_admit:
  assumes "infrastructure_reservations db' =
      infrastructure_reservations db @ intent_reservations uuid now p requestID k n"
  shows "credits db' gid = credits db gid + (if gid = g_id (pol_group p) then int n else 0)"
proof -
  have "filter (\<lambda>r. r_group_id r = gid \<and> r_state r \<noteq> Released)
      (intent_reservations uuid now p requestID k n) =
      (if gid = g_id (pol_group p) then intent_reservations uuid now p requestID k n else [])"
    using set_intent_reservations by (fastforce simp: filter_empty_conv filter_id_conv)
  then show ?thesis using assms by (simp add: credits_def cnt_def)
qed

lemma group_ids_target:
  "map (\<lambda>g. (g_id g, g_node_pool_id g))
     (upd_where w (\<lambda>r. r\<lparr>g_target_nodes := t, g_target_revision := v\<rparr>) gs)
   = map (\<lambda>g. (g_id g, g_node_pool_id g)) gs"
  by (rule map_upd_where) simp

lemma cancelPending_frame:
  assumes "cancelPending now gid n db = Inr db'" and "keys_ok db"
  shows "node_groups db' = node_groups db" "node_pools db' = node_pools db"
    "length (infrastructure_reservations db') = length (infrastructure_reservations db)"
    "length (operations db') = length (operations db)"
    "credits db x \<le> credits db' x + (if refs_ok db \<and> x \<noteq> gid then 0 else int n)"
proof -
  let ?is = "cancel_intents db gid n"
  obtain db1 where r: "rfold (cancelIntent now) ?is db = Inr db1"
    and db': "db' = (if n - length ?is > 0 then mark_excess gid (n - length ?is) db1 else db1)"
    using cancelPending_Inr [OF assms] by blast
  note db1 = cancelIntents_Inr [OF r distinct_cancel_intents [OF assms(2)]]
  let ?Q = "\<lambda>r. r_group_id r = x \<and> r_state r \<noteq> Released"
  have res: "infrastructure_reservations db' = upd_where (\<lambda>r. Some (r_host_id r) \<in> o_host_id ` set ?is)
       (\<lambda>r. r\<lparr>r_state := Released\<rparr>) (infrastructure_reservations db)"
    by (simp add: db' db1 mark_excess_def Let_def)
  show "node_groups db' = node_groups db" "node_pools db' = node_pools db"
    "length (infrastructure_reservations db') = length (infrastructure_reservations db)"
    "length (operations db') = length (operations db)"
    by (simp_all add: db' db1 mark_excess_def Let_def)
  have c: "cnt ?Q (infrastructure_reservations db') =
      cnt (\<lambda>r. ?Q r \<and> Some (r_host_id r) \<notin> set (map o_host_id ?is)) (infrastructure_reservations db)"
    unfolding res cnt_def upd_where_def filter_map length_map
    by (rule arg_cong [where f = length], rule filter_cong) auto
  have "cnt ?Q (infrastructure_reservations db) \<le> cnt ?Q (infrastructure_reservations db') + length ?is"
    using cnt_release [of r_host_id "infrastructure_reservations db" ?Q "map o_host_id ?is"] assms(2)
    unfolding c by (simp add: keys_ok_def)
  moreover have "length ?is \<le> n" by (simp add: cancel_intents_def length_order_limit)
  moreover have "cnt ?Q (infrastructure_reservations db) \<le> cnt ?Q (infrastructure_reservations db')"
    if refs: "refs_ok db" and ne: "x \<noteq> gid"
  proof -
    have "r_group_id r = gid"
      if "r \<in> set (infrastructure_reservations db)" "Some (r_host_id r) \<in> o_host_id ` set ?is" for r
    proof -
      from that(2) obtain i where "i \<in> set ?is" "o_host_id i = Some (r_host_id r)" by auto
      moreover from this have "i \<in> set (operations db)" "cancellable db gid i"
        using cancel_intents_sub by blast+
      ultimately show ?thesis using refs that(1) by (fastforce simp: refs_ok_def cancellable_def)
    qed
    then show ?thesis unfolding c using ne
      by (auto simp: cnt_def intro!: eq_imp_le arg_cong [where f = length] filter_cong)
  qed
  ultimately show "credits db x \<le> credits db' x + (if refs_ok db \<and> x \<noteq> gid then 0 else int n)"
    by (auto simp: credits_def)
qed

text \<open>The database after the target row is written and the intents are inserted.\<close>

lemma admitted_db:
  assumes "insert_request q db = Inr db1" "update_groups w f db1 = Inr db2"
    and "provisionIntents uuid now p requestID revision k n db2 = Inr db3"
  shows "node_groups db3 = upd_where w f (node_groups db)" "node_pools db3 = node_pools db"
    "infrastructure_reservations db3 =
       infrastructure_reservations db @ intent_reservations uuid now p requestID k n"
    "capacity_requests db3 = capacity_requests db @ [q]"
    "operations db3 = operations db @ intent_ops uuid now p requestID revision k n"
    "hosts db3 = hosts db @ intent_hosts uuid now p k n"
proof -
  have db2: "db2 = db\<lparr>capacity_requests := capacity_requests db @ [q],
      node_groups := upd_where w f (node_groups db)\<rparr>"
    using assms(1,2) unfolding insert_request_Inr update_groups_Inr by simp
  show "node_groups db3 = upd_where w f (node_groups db)" "node_pools db3 = node_pools db"
    "infrastructure_reservations db3 =
       infrastructure_reservations db @ intent_reservations uuid now p requestID k n"
    "capacity_requests db3 = capacity_requests db @ [q]"
    "operations db3 = operations db @ intent_ops uuid now p requestID revision k n"
    "hosts db3 = hosts db @ intent_hosts uuid now p k n"
    by (simp_all add: provisionIntents_Inr [OF assms(3)] db2)
qed

lemma admitted_refs:
  assumes "insert_request q db = Inr db1" "update_groups w f db1 = Inr db2"
    and "provisionIntents uuid now p requestID revision k n db2 = Inr db3"
    and "refs_ok db" and "\<forall>r\<in>set (infrastructure_reservations db). reservation_check r"
    and "\<And>g. g_id (f g) = g_id g \<and> g_node_pool_id (f g) = g_node_pool_id g"
  shows "refs_ok db3 \<and> (\<forall>r\<in>set (infrastructure_reservations db3). reservation_check r)"
proof -
  have "set (map g_id (upd_where w f (node_groups db))) = set (map g_id (node_groups db))"
    using assms(6) by (simp only: map_upd_where)
  then have ids: "g_id ` set (upd_where w f (node_groups db)) = g_id ` set (node_groups db)" by simp
  have "\<forall>g\<in>set (node_groups db). g_node_pool_id g \<in> p_id ` set (node_pools db)"
    using assms(4) by (simp add: refs_ok_def)
  then have pools: "\<forall>g\<in>set (upd_where w f (node_groups db)). g_node_pool_id g \<in> p_id ` set (node_pools db)"
    unfolding set_upd_where using assms(6) by auto
  have db2: "db2 = db\<lparr>capacity_requests := capacity_requests db @ [q],
      node_groups := upd_where w f (node_groups db)\<rparr>"
    using assms(1,2) unfolding insert_request_Inr update_groups_Inr by simp
  have "refs_ok db2" using assms(4) pools unfolding refs_ok_def db2 by (simp add: ids)
  then show ?thesis using provisionIntents_refs [OF assms(3)] assms(5) by (simp add: db2)
qed

lemma within_trans: "within a b \<Longrightarrow> within b c \<Longrightarrow> within a c"
  by (auto simp: within_def)

lemma acct_admit:
  assumes inv: "acct db" and keys': "keys_ok db'" and refs': "refs_ok db'"
    and rows': "\<forall>r\<in>set (infrastructure_reservations db'). reservation_check r"
    and ok': "\<forall>g\<in>set (node_groups db'). group_ok g"
    and groups: "node_groups db' = upd_where (\<lambda>r. g_id r = g_id (pol_group p))
        (\<lambda>r. r\<lparr>g_target_nodes := t, g_target_revision := v\<rparr>) (node_groups db)"
    and pools: "node_pools db' = node_pools db"
    and res: "infrastructure_reservations db' =
      infrastructure_reservations db @ intent_reservations uuid now p requestID k n"
    and g: "pol_group p \<in> set (node_groups db)" and t: "t = g_target_nodes (pol_group p) + int n"
    and pool: "find (\<lambda>r. p_id r = g_node_pool_id (pol_group p)) (node_pools db) = Some pool"
    and adm: "n > 0 \<Longrightarrow> checkReservations db (p\<lparr>pol_limit := pool_limits pool\<rparr>) (int n) = Inr ()"
    and n: "int n \<le> max_int64"
  shows "acct db'"
proof -
  have k: "keys_ok db" "rows_ok db" "pools_within db" "targets_backed db"
    using inv by (simp_all add: acct_def)
  have row: "x = pol_group p" if "x \<in> set (node_groups db)" "g_id x = g_id (pol_group p)" for x
    using that g k(1) unique_key [of g_id "node_groups db"] by (auto simp: keys_ok_def)
  have "map (\<lambda>g. (g_id g, g_node_pool_id g)) (node_groups db') =
      map (\<lambda>g. (g_id g, g_node_pool_id g)) (node_groups db)" unfolding groups by (rule group_ids_target)
  moreover have "distinct (map g_id (node_groups db))" using k(1) by (simp add: keys_ok_def)
  ultimately have used: "pool_used db' q =
    (if q = g_node_pool_id (pol_group p)
     then \<lparr>res_VCPU = res_VCPU (pool_used db q) + int n * g_vcpu (pol_group p),
           res_MemoryMiB = res_MemoryMiB (pool_used db q) + int n * g_memory_mib (pol_group p),
           res_Nodes = res_Nodes (pool_used db q) + int n\<rparr>
     else pool_used db q)" for q
    using pool_used_admit [OF _ _ res g] by blast
  have pool': "pool \<in> set (node_pools db)" "p_id pool = g_node_pool_id (pol_group p)"
    using find_SomeD [OF pool] by auto
  have "group_ok (pol_group p)" "pool_ok pool" using k(2) g pool'(1) by (simp_all add: rows_ok_def)
  note pg = this
  have chk: "within (pool_used db' (p_id pool)) (pool_limits pool)"
  proof (cases "n = 0")
    case True
    then show ?thesis using used [of "p_id pool"] k(3) pool'(1)
      by (force simp: pools_within_def within_def split: if_splits)
  next
    case False
    have "checkReservations db (p\<lparr>pol_limit := pool_limits pool\<rparr>) (int n) = Inr ()"
      using adm False by simp
    moreover have "\<forall>r\<in>set (infrastructure_reservations db). reservation_check r"
      using k(2) by (simp add: rows_ok_def)
    ultimately show ?thesis
      using checkReservations_iff [of "p\<lparr>pol_limit := pool_limits pool\<rparr>" "int n" db] False n pg
        used [of "p_id pool"] pool'(2)
      by (simp add: group_ok_def group_check_def pool_ok_def pool_check_def pool_limits_def)
  qed
  have "within (pool_used db' (p_id q)) (pool_limits q)" if q: "q \<in> set (node_pools db)" for q
  proof (cases "p_id q = p_id pool")
    case True
    then have "q = pool" using q pool'(1) k(1) unique_key [of p_id "node_pools db"]
      by (simp add: keys_ok_def)
    then show ?thesis using chk by simp
  next
    case False
    then show ?thesis using used [of "p_id q"] k(3) q pool'(2) by (simp add: pools_within_def)
  qed
  then have pw: "pools_within db'" by (simp add: pools_within_def pools)
  have "g_target_nodes x \<le> credits db' (g_id x)" if x: "x \<in> set (node_groups db')" for x
  proof -
    from x obtain y where y: "y \<in> set (node_groups db)"
      "x = (if g_id y = g_id (pol_group p) then y\<lparr>g_target_nodes := t, g_target_revision := v\<rparr> else y)"
      by (auto simp: groups upd_where_def)
    have "g_target_nodes y \<le> credits db (g_id y)" using k(4) y(1) by (simp add: targets_backed_def)
    then show ?thesis using y credits_admit [OF res, of "g_id x"] t row [OF y(1)] by (auto split: if_splits)
  qed
  then show ?thesis
    using keys' refs' rows' ok' pw inv by (simp add: acct_def rows_ok_def targets_backed_def pools)
qed

text \<open>Lowering the target: the credits released are at most the nodes given up.\<close>

lemma acct_cancel:
  assumes inv: "acct db" and ev: "store_ev db db'" and keys': "keys_ok db'"
    and refs: "refs_ok db3" and rows: "\<forall>r\<in>set (infrastructure_reservations db3). reservation_check r"
    and ok: "\<forall>g\<in>set (node_groups db3). group_ok g" and keys: "keys_ok db3"
    and groups: "node_groups db3 = upd_where (\<lambda>r. g_id r = g_id (pol_group p))
        (\<lambda>r. r\<lparr>g_target_nodes := t, g_target_revision := v\<rparr>) (node_groups db)"
    and same: "node_pools db3 = node_pools db"
      "infrastructure_reservations db3 = infrastructure_reservations db"
    and g: "pol_group p \<in> set (node_groups db)" and t: "t = g_target_nodes (pol_group p) - int n"
    and cancel: "cancelPending now (g_id (pol_group p)) n db3 = Inr db'"
  shows "acct db'"
proof -
  have k: "keys_ok db" "refs_ok db" "rows_ok db" "pools_within db" "targets_backed db"
    using inv by (simp_all add: acct_def)
  have row: "x = pol_group p" if "x \<in> set (node_groups db)" "g_id x = g_id (pol_group p)" for x
    using that g k(1) unique_key [of g_id "node_groups db"] by (auto simp: keys_ok_def)
  note fr = cancelPending_frame [OF cancel keys]
  have ev3: "store_ev db3 db'" using cancelPending_ev [OF cancel keys] by simp
  have ops: "\<forall>x\<in>set (operations db'). \<exists>y\<in>set (operations db3). op_ev y x"
    using evolves_lengthD [OF store_evD(10) [OF ev3] fr(4)] by blast
  have refs': "refs_ok db'"
    using refs_ok_evolve [OF ev3 refs fr(3)] ops refs fr(1,2) by (auto simp: refs_ok_def)
  have res: "\<exists>r\<in>set (infrastructure_reservations db3). reservation_ev r r'"
    if "r' \<in> set (infrastructure_reservations db')" for r'
    using evolves_lengthD [OF store_evD(12) [OF ev3] fr(3) that] .
  have "reservation_check r'" if "r' \<in> set (infrastructure_reservations db')" for r'
    using res [OF that] rows by (auto simp: reservation_check_def reservation_evD)
  then have rows': "rows_ok db'" using ok k(3) by (simp add: rows_ok_def fr(1,2) same)
  have len: "length (infrastructure_reservations db') = length (infrastructure_reservations db)"
    using fr(3) same by simp
  have pw: "pools_within db'"
    using k(4) pool_used_mono [OF ev k(1) keys' k(2,3) len] within_trans
    by (fastforce simp: pools_within_def fr(2) same)
  have cr: "credits db3 = credits db" by (simp add: credits_def same fun_eq_iff)
  have "g_target_nodes x \<le> credits db' (g_id x)" if x: "x \<in> set (node_groups db')" for x
  proof -
    from x obtain y where y: "y \<in> set (node_groups db)"
      "x = (if g_id y = g_id (pol_group p) then y\<lparr>g_target_nodes := t, g_target_revision := v\<rparr> else y)"
      by (auto simp: fr(1) groups upd_where_def)
    have "g_target_nodes y \<le> credits db (g_id y)" using k(5) y(1) by (simp add: targets_backed_def)
    then show ?thesis using y fr(5) [of "g_id x"] t row [OF y(1)] refs cr by (auto split: if_splits)
  qed
  then show ?thesis using keys' refs' rows' pw by (simp add: acct_def targets_backed_def)
qed

lemma SetTarget_acct:
  assumes "SetTarget uuid now req db = Inr (res, db')" and inv: "acct db"
  shows "acct db'"
  using assms(1)
proof (cases rule: SetTarget_cases)
  case replay
  then show ?thesis using inv by simp
next
  case (fresh p)
  let ?g = "pol_group p" and ?t = "cr_DesiredTarget req"
  have k: "keys_ok db" "refs_ok db" "rows_ok db" using inv by (simp_all add: acct_def)
  have ok: "\<forall>g\<in>set (node_groups db). group_ok g"
    and rows: "\<forall>r\<in>set (infrastructure_reservations db). reservation_check r"
    using k(3) by (simp_all add: rows_ok_def)
  obtain ev: "store_ev db db'" and keys': "keys_ok db'"
    using apply_target_ev [OF fresh(5,1,4) k(1) ok] by simp
  from fresh(1) have g: "?g \<in> set (node_groups db)" and gid: "cr_NodeGroupID req = g_id ?g"
    by (auto elim: loadPolicy_Inr)
  have row: "x = ?g" if "x \<in> set (node_groups db)" "g_id x = g_id ?g" for x
    using that g k(1) unique_key [of g_id "node_groups db"] by (auto simp: keys_ok_def)
  from fresh(4) obtain pool where adm: "g_min_nodes ?g \<le> ?t" "?t \<le> g_max_nodes ?g"
      "g_target_revision ?g \<noteq> max_int64"
      "find (\<lambda>r. p_id r = g_node_pool_id ?g) (node_pools db) = Some pool"
      "i64 (?t - g_target_nodes ?g) > 0 \<Longrightarrow>
        checkReservations db (p\<lparr>pol_limit := pool_limits pool\<rparr>) (i64 (?t - g_target_nodes ?g)) = Inr ()"
    by (rule admit_target_Inr) blast
  note okg = ok [rule_format, OF g]
  note delta = target_delta [OF okg adm(1,2)] and rev = revision_step [OF okg adm(3)]
  from fresh(5) show ?thesis
  proof (cases rule: apply_target_Inr)
    case (1 db1 db2 db3)
    note st = 1 [unfolded gid delta]
    note d3 = admitted_db [OF st(1-3)]
    have r3: "refs_ok db3" "\<forall>r\<in>set (infrastructure_reservations db3). reservation_check r"
      using admitted_refs [OF st(1-3) k(2) rows] by simp_all
    have "keys_ok db1" using insert_request_keys [OF st(1) k(1)] .
    moreover have g1: "node_groups db1 = node_groups db" using st(1) by (simp add: insert_request_Inr)
    ultimately have "keys_ok db2"
      using update_groups_ev [OF st(2)] rev row by (fastforce simp: group_ev_def)
    then have k3: "keys_ok db3" using provisionIntents_ev [OF st(3)] by simp
    have "group_ok x" if x: "x \<in> set (node_groups db3)" for x
      using x st(2) ok okg rev adm(3) unfolding d3(1) update_groups_Inr g1
      by (auto simp: set_upd_where group_ok_def dest: row)
    then have ok3: "\<forall>x\<in>set (node_groups db3). group_ok x" by blast
    show ?thesis
    proof (cases "?t - g_target_nodes ?g < 0")
      case True
      then have n0: "nat (?t - g_target_nodes ?g) = 0" by simp
      have same: "infrastructure_reservations db3 = infrastructure_reservations db"
        using d3(3) unfolding n0 by (simp add: intent_reservations_def)
      show ?thesis
        using acct_cancel [OF inv ev keys' r3 ok3 k3 d3(1,2) same g,
            of "nat (g_target_nodes ?g - ?t)" now] st(4) True by simp
    next
      case False
      then have db': "db' = db3" using st(4) by simp
      have le: "int (nat (?t - g_target_nodes ?g)) \<le> max_int64"
        using False okg adm(2) by (simp add: group_ok_def group_check_def)
      show ?thesis unfolding db'
        by (rule acct_admit [OF inv k3 r3 ok3 d3(1-3) g _ adm(4) _ le]) (use False adm(5) delta in auto)
    qed
  qed
qed

end
