(* ===== verification/HostCatalog.thy ===== *)
theory HostCatalog
  imports CapacityCatalog
begin

text \<open>
  The legacy host catalogue, \<open>src/internal/hostcatalog\<close>: the table access of
  \<open>store/repository.go\<close>, the lifecycle rules of \<open>service/service.go\<close> and the handlers of
  \<open>http/handlers.go\<close>.  It shares the \<open>host\<close> table with the capacity store and has no
  transaction around its statements: a service call that issues several takes an argument
  \<open>env\<close>, where \<open>env k\<close> is what other clients commit before the \<open>k\<close>-th statement.
\<close>

section \<open>Host states as strings (pkg/api/types.go)\<close>

fun host_state_string :: "HostState \<Rightarrow> string" where
  "host_state_string HostRequested = ''REQUESTED''"
| "host_state_string HostProvisioning = ''PROVISIONING''"
| "host_state_string HostBooting = ''BOOTING''"
| "host_state_string HostRegistering = ''REGISTERING''"
| "host_state_string HostConverging = ''CONVERGING''"
| "host_state_string HostReady = ''READY''"
| "host_state_string HostDraining = ''DRAINING''"
| "host_state_string HostTerminating = ''TERMINATING''"
| "host_state_string HostTerminated = ''TERMINATED''"
| "host_state_string HostFailed = ''FAILED''"
| "host_state_string HostUnhealthy = ''UNHEALTHY''"

definition host_states :: "HostState list" where
  "host_states = [HostRequested, HostProvisioning, HostBooting, HostRegistering, HostConverging,
     HostReady, HostDraining, HostTerminating, HostTerminated, HostFailed, HostUnhealthy]"

text \<open>The check constraint of the column \<open>state\<close> admits exactly these strings.\<close>

definition host_state_of :: "string \<Rightarrow> HostState option" where
  "host_state_of s = find (\<lambda>t. host_state_string t = s) host_states"

section \<open>Table access (store/repository.go)\<close>

text \<open>Scanning a \<open>NULL\<close> into a Go string or time is an error.\<close>

definition scan :: "'a option \<Rightarrow> error + 'a" where
  "scan x = (case x of None \<Rightarrow> Inl (ErrMsg ''converting NULL is unsupported'') | Some v \<Rightarrow> Inr v)"

definition scan_host :: "host_row \<Rightarrow> error + Host" where
  "scan_host h =
     rbind (scan (h_role h)) (\<lambda>role.
     rbind (scan (h_zone h)) (\<lambda>zone.
     rbind (scan (h_imageid h)) (\<lambda>image.
     rbind (scan (h_health h)) (\<lambda>health.
     rbind (scan (h_createdat h)) (\<lambda>created.
     Inr \<lparr>ho_Protected = h_protected h, ho_SubdEndpoint = h_subd_endpoint h, ho_NodeGroupID = [],
          ho_NodePoolID = [], ho_OperationID = [], ho_DesiredStateVersion = [],
          ho_ObservedStateVersion = [],
          ho_Allocatable = \<lparr>res_VCPU = 0, res_MemoryMiB = 0, res_Nodes = 0\<rparr>,
          ho_Reserved = \<lparr>res_VCPU = 0, res_MemoryMiB = 0, res_Nodes = 0\<rparr>,
          ho_ExcessCapacity = False, ho_ID = h_id h, ho_ProviderID = coalesce (h_providerid h),
          ho_Provider = coalesce (h_provider h), ho_RoleName = role, ho_Zone = zone,
          ho_ImageID = image, ho_State = h_state h, ho_Health = health, ho_CreatedAt = created,
          ho_LastSeenHeartbeat = (case h_lastseenheartbeat h of None \<Rightarrow> 0 | Some t \<Rightarrow> t),
          ho_Endpoint = [], ho_Port = 0, ho_DBName = [], ho_Username = [], ho_SecretARN = [],
          ho_RDSSGID = []\<rparr>)))))"

definition catalog_row :: "Host \<Rightarrow> host_row" where
  "catalog_row h =
     \<lparr>h_id = ho_ID h, h_role = Some (ho_RoleName h), h_zone = Some (ho_Zone h),
      h_imageid = Some (ho_ImageID h), h_state = ho_State h, h_health = Some (ho_Health h),
      h_createdat = Some (ho_CreatedAt h), h_updatedat = None, h_provider = Some (ho_Provider h),
      h_providerid = Some (ho_ProviderID h), h_lastseenheartbeat = None, h_endpoint = None,
      h_port = None, h_dbname = None, h_username = None, h_secretarn = None, h_rdssgid = None,
      h_protected = False, h_subd_endpoint = [], h_kubernetes_provider_id = [],
      h_node_group_id = None, h_node_pool_id = None, h_crane_zone = None, h_operation_id = None,
      h_desired_state_version = [], h_observed_state_version = [], h_allocatable_vcpu = 0,
      h_allocatable_memory_mib = 0, h_reserved_vcpu = 0, h_reserved_memory_mib = 0,
      h_excess_capacity = False\<rparr>"

definition PostgresHostStore_Create :: "Host \<Rightarrow> db \<Rightarrow> error + db" where
  "PostgresHostStore_Create h db = insert_host (catalog_row h) db"

text \<open>
  \<open>DELETE FROM host\<close> fails while a row of another table refers to the host; \<open>refs\<close> stands for
  the tables outside the capacity record (host problems, trends and state requests).
\<close>

definition host_referenced :: "(string \<Rightarrow> bool) \<Rightarrow> string \<Rightarrow> db \<Rightarrow> bool" where
  "host_referenced refs i db \<longleftrightarrow> refs i
     \<or> list_ex (\<lambda>r. o_host_id r = Some i) (operations db)
     \<or> list_ex (\<lambda>b. b_host_id b = i) (worker_provisioning_state db)
     \<or> list_ex (\<lambda>r. r_host_id r = i) (infrastructure_reservations db)
     \<or> list_ex (\<lambda>n. nr_host_id n = i) (node_removal_operations db)"

definition PostgresHostStore_Delete :: "(string \<Rightarrow> bool) \<Rightarrow> string \<Rightarrow> db \<Rightarrow> error + db" where
  "PostgresHostStore_Delete refs i db =
     (if list_ex (\<lambda>h. h_id h = i) (hosts db) \<and> host_referenced refs i db
      then Inl foreign_key_violation
      else Inr (db\<lparr>hosts := filter (\<lambda>h. h_id h \<noteq> i) (hosts db)\<rparr>))"

definition PostgresHostStore_GetByID :: "string \<Rightarrow> db \<Rightarrow> error + Host" where
  "PostgresHostStore_GetByID i db =
     (case find (\<lambda>h. h_id h = i) (hosts db) of None \<Rightarrow> Inl ErrNoRows | Some h \<Rightarrow> scan_host h)"

definition PostgresHostStore_GetByProviderID :: "string \<Rightarrow> db \<Rightarrow> error + Host" where
  "PostgresHostStore_GetByProviderID i db =
     (case find (\<lambda>h. h_providerid h = Some i) (hosts db) of
        None \<Rightarrow> Inl ErrNoRows | Some h \<Rightarrow> scan_host h)"

definition PostgresHostStore_UpdateState :: "string \<Rightarrow> string \<Rightarrow> db \<Rightarrow> error + db" where
  "PostgresHostStore_UpdateState i s db =
     (case host_state_of s of
        Some t \<Rightarrow> Inr (db\<lparr>hosts := upd_where (\<lambda>h. h_id h = i) (\<lambda>h. h\<lparr>h_state := t\<rparr>) (hosts db)\<rparr>)
      | None \<Rightarrow> if list_ex (\<lambda>h. h_id h = i) (hosts db) then Inl check_violation else Inr db)"

definition PostgresHostStore_UpdateHealth :: "string \<Rightarrow> string \<Rightarrow> db \<Rightarrow> db" where
  "PostgresHostStore_UpdateHealth i health db =
     db\<lparr>hosts := upd_where (\<lambda>h. h_id h = i) (\<lambda>h. h\<lparr>h_health := Some health\<rparr>) (hosts db)\<rparr>"

fun scan_all :: "host_row list \<Rightarrow> error + Host list" where
  "scan_all [] = Inr []"
| "scan_all (h # hs) = rbind (scan_host h) (\<lambda>x. rbind (scan_all hs) (\<lambda>xs. Inr (x # xs)))"

text \<open>The query of \<open>GetByZone\<close> has no condition: the zone is only logged.\<close>

definition PostgresHostStore_GetByZone :: "string \<Rightarrow> db \<Rightarrow> error + Host list" where
  "PostgresHostStore_GetByZone zone db = scan_all (hosts db)"

definition PostgresHostStore_ListHosts :: "db \<Rightarrow> error + Host list" where
  "PostgresHostStore_ListHosts db = scan_all (hosts db)"

definition PostgresHostStore_UpdateProviderID :: "string \<Rightarrow> string \<Rightarrow> db \<Rightarrow> db" where
  "PostgresHostStore_UpdateProviderID i p db =
     db\<lparr>hosts := upd_where (\<lambda>h. h_id h = i) (\<lambda>h. h\<lparr>h_providerid := Some p\<rparr>) (hosts db)\<rparr>"

definition PostgresHostStore_UpdateLastSeenHeartbeat :: "string \<Rightarrow> int \<Rightarrow> db \<Rightarrow> db" where
  "PostgresHostStore_UpdateLastSeenHeartbeat i t db =
     db\<lparr>hosts := upd_where (\<lambda>h. h_id h = i) (\<lambda>h. h\<lparr>h_lastseenheartbeat := Some t\<rparr>) (hosts db)\<rparr>"

record DBConnectionInfo =
  dc_Endpoint :: string
  dc_Port :: int
  dc_DBName :: string
  dc_Username :: string
  dc_SecretARN :: string
  dc_SGID :: string

definition PostgresHostStore_UpdateDBConnectionInfo :: "string \<Rightarrow> DBConnectionInfo \<Rightarrow> db \<Rightarrow> db" where
  "PostgresHostStore_UpdateDBConnectionInfo i c db =
     db\<lparr>hosts := upd_where (\<lambda>h. h_id h = i)
          (\<lambda>h. h\<lparr>h_endpoint := Some (dc_Endpoint c), h_port := Some (dc_Port c),
                 h_dbname := Some (dc_DBName c), h_username := Some (dc_Username c),
                 h_secretarn := Some (dc_SecretARN c), h_rdssgid := Some (dc_SGID c)\<rparr>) (hosts db)\<rparr>"

text \<open>The query names a column the table does not have (SQL state \<open>undefined_column\<close>).\<close>

definition PostgresHostStore_GetByToken :: "string \<Rightarrow> db \<Rightarrow> error + Host" where
  "PostgresHostStore_GetByToken token db = Inl (SqlState ''42703'')"

section \<open>Lifecycle rules (service/service.go)\<close>

abbreviation ErrManagedCapacity :: error where
  "ErrManagedCapacity \<equiv> ErrMsg ''capacity-managed host requires a fenced durable operation''"

abbreviation ErrProtectedHost :: error where
  "ErrProtectedHost \<equiv> ErrMsg ''protected host cannot be changed by automatic lifecycle operations''"

definition EnsureLegacyLifecycle :: "string \<Rightarrow> db \<Rightarrow> error + unit" where
  "EnsureLegacyLifecycle i db =
     (case find (\<lambda>h. h_id h = i) (hosts db) of
        None \<Rightarrow> Inl ErrNoRows
      | Some h \<Rightarrow> if h_protected h then Inl ErrProtectedHost
                  else if h_node_group_id h \<noteq> None then Inl ErrManagedCapacity else Inr ())"

fun GetValidNextStates :: "HostState \<Rightarrow> HostState list" where
  "GetValidNextStates HostRequested = [HostProvisioning, HostTerminated, HostFailed]"
| "GetValidNextStates HostProvisioning = [HostBooting, HostFailed]"
| "GetValidNextStates HostBooting = [HostRegistering, HostFailed]"
| "GetValidNextStates HostRegistering = [HostConverging, HostFailed]"
| "GetValidNextStates HostConverging = [HostReady, HostFailed]"
| "GetValidNextStates HostReady = [HostDraining, HostUnhealthy]"
| "GetValidNextStates HostDraining = [HostUnhealthy, HostTerminating]"
| "GetValidNextStates HostTerminating = [HostTerminated, HostFailed]"
| "GetValidNextStates HostUnhealthy = [HostReady, HostTerminated]"
| "GetValidNextStates HostTerminated = []"
| "GetValidNextStates HostFailed = []"

type_synonym client = "nat \<Rightarrow> db \<Rightarrow> db"

definition TransitionState :: "client \<Rightarrow> string \<Rightarrow> string \<Rightarrow> db \<Rightarrow> (error + unit) \<times> db" where
  "TransitionState env i s db =
     (let db1 = env 0 db in
      case EnsureLegacyLifecycle i db1 of
        Inl e \<Rightarrow> (Inl e, db1)
      | Inr _ \<Rightarrow>
          (let db2 = env 1 db1 in
           case PostgresHostStore_GetByID i db2 of
             Inl _ \<Rightarrow> (Inl (ErrMsg ''Host not found''), db2)
           | Inr host \<Rightarrow>
               if s \<notin> set (map host_state_string (GetValidNextStates (ho_State host)))
               then (Inl (ErrMsg ''Not a valid next state''), db2)
               else
                 (let db3 = env 2 db2 in
                  case PostgresHostStore_UpdateState i s db3 of
                    Inl e \<Rightarrow> (Inl e, db3) | Inr db4 \<Rightarrow> (Inr (), db4))))"

definition TransitionHealth :: "string \<Rightarrow> string \<Rightarrow> db \<Rightarrow> db" where
  "TransitionHealth i health db = PostgresHostStore_UpdateHealth i health db"

text \<open>\<open>uuid\<close> is the fresh identifier and \<open>now\<close> the wall clock.\<close>

definition new_host :: "string \<Rightarrow> int \<Rightarrow> string \<Rightarrow> Host" where
  "new_host uuid now provider =
     \<lparr>ho_Protected = False, ho_SubdEndpoint = [], ho_NodeGroupID = [], ho_NodePoolID = [],
      ho_OperationID = [], ho_DesiredStateVersion = [], ho_ObservedStateVersion = [],
      ho_Allocatable = \<lparr>res_VCPU = 0, res_MemoryMiB = 0, res_Nodes = 0\<rparr>,
      ho_Reserved = \<lparr>res_VCPU = 0, res_MemoryMiB = 0, res_Nodes = 0\<rparr>, ho_ExcessCapacity = False,
      ho_ID = uuid, ho_ProviderID = [], ho_Provider = provider, ho_RoleName = [],
      ho_Zone = ''us-west-2'', ho_ImageID = [], ho_State = HostProvisioning, ho_Health = [],
      ho_CreatedAt = now, ho_LastSeenHeartbeat = 0, ho_Endpoint = [], ho_Port = 0, ho_DBName = [],
      ho_Username = [], ho_SecretARN = [], ho_RDSSGID = []\<rparr>"

definition CreateHost :: "string \<Rightarrow> int \<Rightarrow> string \<Rightarrow> db \<Rightarrow> (string \<times> (error + unit)) \<times> db" where
  "CreateHost uuid now provider db =
     (case PostgresHostStore_Create (new_host uuid now provider) db of
        Inl e \<Rightarrow> ((uuid, Inl e), db) | Inr db' \<Rightarrow> ((uuid, Inr ()), db'))"

text \<open>A guarded write: the lifecycle check, then the statement.\<close>

definition legacy_write ::
    "client \<Rightarrow> string \<Rightarrow> (db \<Rightarrow> error + db) \<Rightarrow> db \<Rightarrow> (error + unit) \<times> db" where
  "legacy_write env i f db =
     (let db1 = env 0 db in
      case EnsureLegacyLifecycle i db1 of
        Inl e \<Rightarrow> (Inl e, db1)
      | Inr _ \<Rightarrow>
          (let db2 = env 1 db1 in
           case f db2 of Inl e \<Rightarrow> (Inl e, db2) | Inr db3 \<Rightarrow> (Inr (), db3)))"

definition UpdateHostProviderID :: "client \<Rightarrow> string \<Rightarrow> string \<Rightarrow> db \<Rightarrow> (error + unit) \<times> db" where
  "UpdateHostProviderID env i p = legacy_write env i (\<lambda>db. Inr (PostgresHostStore_UpdateProviderID i p db))"

definition DeleteHost :: "client \<Rightarrow> (string \<Rightarrow> bool) \<Rightarrow> string \<Rightarrow> db \<Rightarrow> (error + unit) \<times> db" where
  "DeleteHost env refs i = legacy_write env i (PostgresHostStore_Delete refs i)"

definition HostCatalog_UpdateState :: "client \<Rightarrow> string \<Rightarrow> string \<Rightarrow> db \<Rightarrow> (error + unit) \<times> db" where
  "HostCatalog_UpdateState env i s = legacy_write env i (PostgresHostStore_UpdateState i s)"

section \<open>Handlers (http/handlers.go)\<close>

definition Handler_TransitionState :: "client \<Rightarrow> string \<Rightarrow> string \<Rightarrow> db \<Rightarrow> nat \<times> db" where
  "Handler_TransitionState env i s db =
     (if i = [] \<or> s = [] then (400, db)
      else case TransitionState env i s db of
          (Inl e, db') \<Rightarrow> (500, db') | (Inr _, db') \<Rightarrow> (204, db'))"

text \<open>\<open>body\<close> is the decoded request, \<open>None\<close> when decoding fails.\<close>

definition Handler_TransitionHealth :: "string \<Rightarrow> string option \<Rightarrow> db \<Rightarrow> nat \<times> db" where
  "Handler_TransitionHealth i body db =
     (case body of
        None \<Rightarrow> (400, db)
      | Some health \<Rightarrow>
          if i = [] \<or> health = [] then (400, db)
          else (204, TransitionHealth i health db))"

section \<open>Lemmas\<close>

lemma host_state_of_string [simp]: "host_state_of (host_state_string s) = Some s"
  by (cases s) (simp_all add: host_state_of_def host_states_def)

lemma host_state_of_Some: "host_state_of s = Some t \<longleftrightarrow> s = host_state_string t"
  by (auto simp: host_state_of_def dest: find_SomeD) (simp add: host_state_of_def [symmetric])

lemma EnsureLegacyLifecycle_Inr:
  assumes "EnsureLegacyLifecycle i db = Inr ()" and "keys_ok db"
    and "h \<in> set (hosts db)" "h_id h = i"
  shows "\<not> h_protected h \<and> h_node_group_id h = None"
proof -
  from assms(1) obtain x where x: "find (\<lambda>h. h_id h = i) (hosts db) = Some x" "\<not> h_protected x"
    "h_node_group_id x = None" by (auto simp: EnsureLegacyLifecycle_def split: option.splits if_splits)
  then have "x \<in> set (hosts db)" "h_id x = i" by (auto dest: find_SomeD)
  then have "h = x" using assms(2-4) unique_key [of h_id "hosts db"] by (auto simp: keys_ok_def)
  then show ?thesis using x by simp
qed

end
