(* ===== verification/PlatformSeed.thy ===== *)
theory PlatformSeed
  imports CapacityCatalog GoNet
begin

text \<open>
  The registration of the protected bootstrap hosts: \<open>checkAgentHosts\<close> and
  \<open>RenderSeedHostsScript\<close> of \<open>src/internal/provider/awscompute/bootstrap_scripts.go\<close> and the SQL
  transaction of \<open>templates/seed-hosts.sh.tmpl\<close> that the rendered script runs.  It adds the SPIRE
  and platform hosts outside every node group and the Dominator route of the first zone; a rerun
  with the same values changes nothing and a conflicting record aborts the transaction.
\<close>

record bootstrapAgentHost =
  ah_ID :: string
  ah_PrivateIP :: string
  ah_Role :: string
  ah_AMI :: string

text \<open>\<open>^i-[0-9a-f]{8,17}$\<close>\<close>

definition instanceIDRE :: "string \<Rightarrow> bool" where
  "instanceIDRE s \<longleftrightarrow> prefix ''i-'' s \<and> 10 \<le> length s \<and> length s \<le> 19
     \<and> list_all (\<lambda>c. digitc c \<or> (CHR ''a'' \<le> c \<and> c \<le> CHR ''f'')) (drop 2 s)"

definition checkAgentHosts :: "bootstrapAgentHost list \<Rightarrow> bool" where
  "checkAgentHosts hs \<longleftrightarrow>
     (case hs of
        [a, b] \<Rightarrow> ah_Role a = ''spire'' \<and> ah_Role b = ''platform'' \<and> ah_ID a \<noteq> ah_ID b
          \<and> list_all (\<lambda>h. instanceIDRE (ah_ID h) \<and> private_ip (ah_PrivateIP h)) hs
      | _ \<Rightarrow> False)"

definition agent_row :: "string \<Rightarrow> string \<Rightarrow> int \<Rightarrow> bootstrapAgentHost \<Rightarrow> host_row" where
  "agent_row name zone now a =
     \<lparr>h_id = name @ ''/bootstrap/'' @ ah_Role a, h_role = Some (ah_Role a), h_zone = Some zone,
      h_imageid = Some (ah_AMI a), h_state = HostConverging, h_health = Some ''unknown'',
      h_createdat = Some now, h_updatedat = None, h_provider = Some ''aws'',
      h_providerid = Some (ah_ID a), h_lastseenheartbeat = None, h_endpoint = None, h_port = None,
      h_dbname = None, h_username = None, h_secretarn = None, h_rdssgid = None, h_protected = True,
      h_subd_endpoint = ''https://'' @ ah_PrivateIP a @ '':44001'', h_kubernetes_provider_id = [],
      h_node_group_id = None, h_node_pool_id = None, h_crane_zone = None, h_operation_id = None,
      h_desired_state_version = [], h_observed_state_version = [], h_allocatable_vcpu = 0,
      h_allocatable_memory_mib = 0, h_reserved_vcpu = 0, h_reserved_memory_mib = 0,
      h_excess_capacity = False\<rparr>"

text \<open>The check the script makes after its insert.\<close>

definition agent_matches :: "host_row \<Rightarrow> host_row \<Rightarrow> bool" where
  "agent_matches n h \<longleftrightarrow> h_id h = h_id n \<and> h_provider h = h_provider n
     \<and> h_providerid h = h_providerid n \<and> h_role h = h_role n \<and> h_zone h = h_zone n
     \<and> h_imageid h = h_imageid n \<and> h_state h \<in> {HostConverging, HostReady} \<and> h_protected h
     \<and> h_subd_endpoint h = h_subd_endpoint n \<and> h_node_group_id h = None
     \<and> h_node_pool_id h = None \<and> h_crane_zone h = None \<and> h_operation_id h = None"

definition same_instance :: "host_row \<Rightarrow> host_row \<Rightarrow> bool" where
  "same_instance n h \<longleftrightarrow> h_provider h = h_provider n \<and> h_providerid h = h_providerid n"

definition seed_host :: "host_row \<Rightarrow> db \<Rightarrow> error + db" where
  "seed_host n db =
     (let db1 = (if list_ex (same_instance n) (hosts db) \<or> list_ex (\<lambda>h. h_id h = h_id n) (hosts db)
                 then db else db\<lparr>hosts := hosts db @ [n]\<rparr>);
          found = filter (\<lambda>h. same_instance n h \<or> h_id h = h_id n) (hosts db1) in
      if length found = 1 \<and> list_all (agent_matches n) found then Inr db1
      else Inl (ErrMsg ''conflicting bootstrap host catalog record''))"

definition seed_route :: "string \<Rightarrow> string \<Rightarrow> string \<Rightarrow> db \<Rightarrow> error + db" where
  "seed_route zone endpoint identity db =
     (case find (\<lambda>d. d_zone_id d = zone) (zone_dominators db) of
        Some d \<Rightarrow>
          if d_endpoint d = endpoint \<and> d_identity d = identity then Inr db
          else Inl (ErrMsg ''conflicting bootstrap Dominator route'')
      | None \<Rightarrow>
          if zone \<notin> set (map z_id (zones db)) then Inl foreign_key_violation
          else Inr (db\<lparr>zone_dominators := zone_dominators db @
            [\<lparr>d_zone_id = zone, d_endpoint = endpoint, d_identity = identity,
              d_observability_status = ''configuration_pending''\<rparr>]\<rparr>))"

text \<open>
  \<open>zone\<close> is the zone of the rendered first-zone file, \<open>zoneID\<close> the one the configuration derives;
  \<open>clock_timestamp()\<close> reads \<open>now k\<close> at the \<open>k\<close>-th host.
\<close>

definition SeedHosts ::
    "string \<Rightarrow> string \<Rightarrow> string \<Rightarrow> string \<Rightarrow> (nat \<Rightarrow> int) \<Rightarrow> bootstrapAgentHost list \<Rightarrow> db \<Rightarrow> error + db"
  where
  "SeedHosts name trustDomain zone zoneID now hs db =
     (if \<not> checkAgentHosts hs then Inl (ErrMsg ''bootstrap host has invalid identity'')
      else
        rbind (rfold (\<lambda>(k, a). seed_host (agent_row name zone (now k) a)) (List.enumerate 0 hs) db)
          (rfold (\<lambda>a. seed_route zone (''https://'' @ ah_PrivateIP a @ '':44000'')
                        (''spiffe://'' @ trustDomain @ ''/dominator/'' @ zoneID))
             (filter (\<lambda>a. ah_Role a = ''platform'') hs)))"

section \<open>Lemmas\<close>

lemma seed_host_Inr:
  "seed_host n db = Inr db' \<Longrightarrow> db' = db \<or>
     (db' = db\<lparr>hosts := hosts db @ [n]\<rparr> \<and> (\<forall>h\<in>set (hosts db). h_id h \<noteq> h_id n))"
  by (auto simp: seed_host_def Let_def list_ex_iff split: if_splits)

lemma seed_host_ev:
  assumes "seed_host n db = Inr db'" "keys_ok db"
  shows "store_ev db db' \<and> keys_ok db'"
  using seed_host_Inr [OF assms(1)] assms(2)
  by (auto simp: keys_ok_def key_notin intro!: store_ev_hosts host_evo.insert)

lemma seed_route_ev:
  assumes "seed_route z e i db = Inr db'" "keys_ok db"
  shows "store_ev db db' \<and> keys_ok db'"
  using assms by (auto simp: seed_route_def keys_ok_def key_notin store_ev_appends find_None_iff
      split: option.splits if_splits)

lemma SeedHosts_ev:
  assumes "SeedHosts name td zone zid now hs db = Inr db'" and keys: "keys_ok db"
  shows "store_ev db db' \<and> keys_ok db'"
proof -
  from assms(1) obtain db1 where
    1: "rfold (\<lambda>(k, a). seed_host (agent_row name zone (now k) a)) (List.enumerate 0 hs) db = Inr db1" and
    2: "rfold (\<lambda>a. seed_route zone (''https://'' @ ah_PrivateIP a @ '':44000'')
            (''spiffe://'' @ td @ ''/dominator/'' @ zid)) (filter (\<lambda>a. ah_Role a = ''platform'') hs) db1 = Inr db'"
    by (auto simp: SeedHosts_def result_simps split: if_splits)
  have 3: "store_ev db db1 \<and> keys_ok db1"
    by (rule rfold_inv [OF 1]) (use keys seed_host_ev in \<open>auto intro: store_ev_trans\<close>)
  show ?thesis
    by (rule rfold_inv [OF 2, of "\<lambda>d. store_ev db d \<and> keys_ok d"])
      (use 3 seed_route_ev in \<open>auto intro: store_ev_trans\<close>)
qed

lemma SeedHosts_tables:
  assumes "SeedHosts name td zone zid now hs db = Inr db'"
  shows "db'\<lparr>hosts := [], zone_dominators := []\<rparr> = db\<lparr>hosts := [], zone_dominators := []\<rparr>"
proof -
  from assms obtain db1 where
    1: "rfold (\<lambda>(k, a). seed_host (agent_row name zone (now k) a)) (List.enumerate 0 hs) db = Inr db1" and
    2: "rfold (\<lambda>a. seed_route zone (''https://'' @ ah_PrivateIP a @ '':44000'')
            (''spiffe://'' @ td @ ''/dominator/'' @ zid)) (filter (\<lambda>a. ah_Role a = ''platform'') hs) db1 = Inr db'"
    by (auto simp: SeedHosts_def result_simps split: if_splits)
  let ?P = "\<lambda>x. x\<lparr>hosts := [], zone_dominators := []\<rparr> = db\<lparr>hosts := [], zone_dominators := []\<rparr>"
  have "?P db1"
    by (rule rfold_inv [OF 1]) (auto dest!: seed_host_Inr split: prod.splits)
  then show ?thesis
    by (rule rfold_inv [OF 2]) (auto simp: seed_route_def split: option.splits if_splits)
qed

end
