(* ===== verification/CapacitySystem.thy ===== *)
theory CapacitySystem
  imports CapacityBootstrap CapacityRemoval CapacityAccounting HostCatalog PlatformSeed
begin

text \<open>
  The capacity store as a transition system: one rule of \<open>cap_step\<close> per operation of
  \<open>src/internal/capacity\<close> that writes the database, each committing in one transaction.  The
  invariant \<open>system_ok\<close> joins the accounting of pools and targets, the bootstrap rows and the
  history of accepted target requests; every step keeps it and only lets rows evolve.
  The statements of the legacy host catalogue are steps of the same database; its state update is
  one only for a host outside every node group, which its service checks first.
\<close>

inductive cap_step :: "k8s_validation \<Rightarrow> db \<Rightarrow> db \<Rightarrow> bool" for K where
  set_target: "SetTarget uuid now req db = Inr (res, db') \<Longrightarrow> cap_step K db db'"
| claim: "Claim now zone kind owner d db = Inr (op, db') \<Longrightarrow> cap_step K db db'"
| claim_dominator: "ClaimDominator now zone kind owner d db = Inr (op, db') \<Longrightarrow> cap_step K db db'"
| renew: "Renew now op d db = Inr db' \<Longrightarrow> cap_step K db db'"
| begin_launch: "BeginLaunch now op db = Inr db' \<Longrightarrow> cap_step K db db'"
| record_launch: "RecordLaunchWithAddress now op i ip ns db = Inr db' \<Longrightarrow> cap_step K db db'"
| desired_version: "SetProvisionDesiredVersion now op v db = Inr db' \<Longrightarrow> cap_step K db db'"
| provision_state: "SetProvisionState now op s t db = Inr db' \<Longrightarrow> cap_step K db db'"
| complete: "CompleteProvision now op db = Inr db' \<Longrightarrow> cap_step K db db'"
| failure: "RecordProvisionFailure now op c db = Inr db' \<Longrightarrow> cap_step K db db'"
| release: "ReleaseProvisionLease now op db = Inr db' \<Longrightarrow> cap_step K db db'"
| bind: "BindProvisionNode sha now op b db = Inr db' \<Longrightarrow> cap_step K db db'"
| pin: "PinProvisionExpectedState now op e db = Inr (p, db') \<Longrightarrow> cap_step K db db'"
| prepare: "PrepareProvisionRelease now op v db = Inr db' \<Longrightarrow> cap_step K db db'"
| finalize: "FinalizeProvision now1 now2 op v rel db = Inr db' \<Longrightarrow> cap_step K db db'"
| create_zone: "cap_step K db (snd (CreateZone K z db))"
| create_cluster: "cap_step K db (snd (CreateCluster_op c db))"
| create_membership: "cap_step K db (snd (CreateClusterZone m db))"
| create_pool: "resources_i64 (pi_Limits p) \<Longrightarrow> cap_step K db (snd (CreateNodePool p db))"
| create_group: "group_input_i64 g \<Longrightarrow> cap_step K db (snd (CreateNodeGroup K g db))"
| seed: "first_zone_i64 f \<Longrightarrow> seedFirstZoneTx K f ready db = Inr db' \<Longrightarrow> cap_step K db db'"
| update_membership: "UpdateClusterZone m db = Inr db' \<Longrightarrow> cap_step K db db'"
| update_scheduling: "UpdateNodeGroupScheduling K i e v t l db = Inr db' \<Longrightarrow> cap_step K db db'"
| observe: "cap_step K db (Observe i v now db)"
| removal: "CreateRemoval uuid now cluster expected rm db = Inr (i, db') \<Longrightarrow> cap_step K db db'"
| removals: "CreateAutoscalerRemovals uuid now cluster rq db = Inr db' \<Longrightarrow> cap_step K db db'"
| bootstrap: "(\<forall>v f. decode v = Some f \<longrightarrow> first_zone_i64 f) \<Longrightarrow>
    CreateBootstrap uuid now K decode inp db = Inr (i, db') \<Longrightarrow> cap_step K db db'"
| phase: "BootstrapPhase now op n validated db = Inr db' \<Longrightarrow> cap_step K db db'"
| discovery: "SetClusterDiscovery now op bs db = Inr db' \<Longrightarrow> cap_step K db db'"
| route: "SetDominatorRoute now op bs db = Inr db' \<Longrightarrow> cap_step K db db'"
| bootstrap_host: "RecordBootstrapHost now op bs db = Inr db' \<Longrightarrow> cap_step K db db'"
| release_bootstrap: "ReleaseBootstrapLease now op db = Inr db' \<Longrightarrow> cap_step K db db'"
| seed_hosts: "SeedHosts name td zone zid now hs db = Inr db' \<Longrightarrow> cap_step K db db'"
| catalog_create: "PostgresHostStore_Create h db = Inr db' \<Longrightarrow> cap_step K db db'"
| catalog_state: "(\<forall>h\<in>set (hosts db). h_id h = i \<longrightarrow> h_node_group_id h = None) \<Longrightarrow>
    PostgresHostStore_UpdateState i st db = Inr db' \<Longrightarrow> cap_step K db db'"
| catalog_health: "cap_step K db (PostgresHostStore_UpdateHealth i health db)"
| catalog_provider: "cap_step K db (PostgresHostStore_UpdateProviderID i pid db)"
| catalog_heartbeat: "cap_step K db (PostgresHostStore_UpdateLastSeenHeartbeat i t db)"
| catalog_connection: "cap_step K db (PostgresHostStore_UpdateDBConnectionInfo i conn db)"

text \<open>
  The accepted requests of a group form one history: each was built on the revision that the one
  before it in the table produced, and the group has moved at least as far as the last.
\<close>

definition requests_ok :: "db \<Rightarrow> bool" where
  "requests_ok db \<longleftrightarrow>
     (\<forall>q\<in>set (capacity_requests db). q_result_revision q = q_expected_revision q + 1
        \<and> (\<exists>g\<in>set (node_groups db). g_id g = q_group_id q \<and> q_result_revision q \<le> g_target_revision g))
     \<and> sorted_wrt (\<lambda>a b. q_group_id a = q_group_id b \<longrightarrow> q_result_revision a \<le> q_expected_revision b)
         (capacity_requests db)"

definition log_ok :: "db \<Rightarrow> bool" where
  "log_ok db \<longleftrightarrow> boot_ok db \<and> requests_ok db"

definition system_ok :: "db \<Rightarrow> bool" where
  "system_ok db \<longleftrightarrow> acct db \<and> log_ok db"

definition frame :: "db \<Rightarrow> db \<Rightarrow> bool" where
  "frame db db' \<longleftrightarrow> infrastructure_reservations db' = infrastructure_reservations db
     \<and> node_groups db' = node_groups db \<and> node_pools db' = node_pools db
     \<and> length (operations db') = length (operations db)
     \<and> zone_bootstrap_operations db' = zone_bootstrap_operations db
     \<and> capacity_requests db' = capacity_requests db"

section \<open>Frames\<close>

lemma boot_ok_evolve:
  assumes ev: "store_ev db db'" and ok: "boot_ok db"
    and same: "\<forall>b\<in>set (zone_bootstrap_operations db'). (\<exists>a\<in>set (zone_bootstrap_operations db).
       zb_operation_id a = zb_operation_id b \<and> zb_phase a = zb_phase b)
       \<or> (\<not> terminal_phase (zb_phase b) \<and> zb_operation_id b \<in> o_id ` set (operations db'))"
  shows "boot_ok db'"
  unfolding boot_ok_def
proof
  fix b assume b: "b \<in> set (zone_bootstrap_operations db')"
  show "\<exists>r\<in>set (operations db'). o_id r = zb_operation_id b
      \<and> (terminal_phase (zb_phase b) \<longrightarrow> op_terminal (o_state r))"
  proof (cases "\<exists>a\<in>set (zone_bootstrap_operations db).
      zb_operation_id a = zb_operation_id b \<and> zb_phase a = zb_phase b")
    case True
    then obtain r where r: "r \<in> set (operations db)" "o_id r = zb_operation_id b"
      "terminal_phase (zb_phase b) \<longrightarrow> op_terminal (o_state r)"
      using ok unfolding boot_ok_def by metis
    obtain r' where "r' \<in> set (operations db')" "op_ev r r'"
      using op_evo.row_later [OF store_evD(10) [OF ev] r(1)] by blast
    then show ?thesis using r(2,3) by (intro bexI [of _ r']) (auto simp: op_ev_def)
  next
    case False
    then show ?thesis using same b by force
  qed
qed

lemma revision_later:
  assumes ev: "store_ev db db'" and "\<exists>g\<in>set (node_groups db). g_id g = i \<and> v \<le> g_target_revision g"
  shows "\<exists>g\<in>set (node_groups db'). g_id g = i \<and> v \<le> g_target_revision g"
proof -
  from assms(2) obtain g where g: "g \<in> set (node_groups db)" "g_id g = i" "v \<le> g_target_revision g" by blast
  obtain g' where "g' \<in> set (node_groups db')" "group_ev g g'"
    using group_evo.row_later [OF store_evD(6) [OF ev] g(1)] by blast
  then show ?thesis using g(2,3) by (intro bexI [of _ g']) (auto simp: group_ev_def)
qed

lemma requests_ok_evolve:
  assumes ev: "store_ev db db'" and ok: "requests_ok db" and same: "capacity_requests db' = capacity_requests db"
  shows "requests_ok db'"
  using ok revision_later [OF ev] unfolding requests_ok_def same by blast

lemma log_ok_evolve:
  assumes "store_ev db db'" "log_ok db" "capacity_requests db' = capacity_requests db"
    and "zone_bootstrap_operations db' = zone_bootstrap_operations db"
  shows "log_ok db'"
  using assms boot_ok_evolve [of db db'] requests_ok_evolve [of db db'] by (auto simp: log_ok_def)

lemma acct_keep:
  assumes "acct db" "store_ev db db'" "keys_ok db'"
    and res: "infrastructure_reservations db' = infrastructure_reservations db"
    and len: "length (operations db') = length (operations db)"
    and "\<forall>g\<in>set (node_groups db'). group_ok g \<and> g_node_pool_id g \<in> p_id ` set (node_pools db')
       \<and> ((\<exists>f\<in>set (node_groups db). g_id f = g_id g \<and> g_target_nodes g \<le> g_target_nodes f)
          \<or> g_target_nodes g \<le> 0)"
    and "\<forall>p\<in>set (node_pools db'). pool_ok p"
  shows "acct db'"
proof -
  have "\<forall>x\<in>set (operations db'). \<exists>y\<in>set (operations db). op_ev y x"
    using evolves_lengthD [OF store_evD(10) [OF assms(2)] len] by blast
  then show ?thesis
    using acct_evolve [OF assms(1-3) _ _ _ assms(6,7)] res by (auto simp: evolves_def)
qed

lemma acct_frame:
  assumes "acct db" "store_ev db db'" "keys_ok db'" "frame db db'"
  shows "acct db'"
proof -
  have "\<forall>g\<in>set (node_groups db). group_ok g \<and> g_node_pool_id g \<in> p_id ` set (node_pools db)"
    "\<forall>p\<in>set (node_pools db). pool_ok p"
    using assms(1) by (simp_all add: acct_def rows_ok_def refs_ok_def)
  then show ?thesis using assms(4) by (intro acct_keep [OF assms(1-3)]) (auto simp: frame_def)
qed

lemma system_frame:
  assumes "system_ok db" "store_ev db db' \<and> keys_ok db'" "frame db db'"
  shows "store_ev db db' \<and> system_ok db'"
  using assms acct_frame [of db db'] log_ok_evolve [of db db']
  by (auto simp: system_ok_def frame_def)

lemma fenced_ops_frame: "fenced_ops w f db = Inr db' \<Longrightarrow> frame db db'"
  by (auto simp: fenced_ops_Inr frame_def)

lemma fenced_hosts_frame: "fenced_hosts w f db = Inr db' \<Longrightarrow> frame db db'"
  by (auto simp: fenced_hosts_Inr frame_def)

lemma claim_frame: "claim now zone kind owner d a db = Inr (op, db') \<Longrightarrow> frame db db'"
  by (auto simp: frame_def elim!: claim_Inr)

lemma lease_frames:
  "Renew now op d db = Inr db' \<Longrightarrow> frame db db'"
  "BeginLaunch now op db = Inr db' \<Longrightarrow> frame db db'"
  "SetProvisionDesiredVersion now op v db = Inr db' \<Longrightarrow> frame db db'"
  "SetProvisionState now op s t db = Inr db' \<Longrightarrow> frame db db'"
  "CompleteProvision now op db = Inr db' \<Longrightarrow> frame db db'"
  "RecordProvisionFailure now op c db = Inr db' \<Longrightarrow> frame db db'"
  "ReleaseProvisionLease now op db = Inr db' \<Longrightarrow> frame db db'"
  "ReleaseBootstrapLease now op db = Inr db' \<Longrightarrow> frame db db'"
  by (auto simp: Renew_def BeginLaunch_def SetProvisionDesiredVersion_def SetProvisionState_def
      CompleteProvision_def RecordProvisionFailure_def ReleaseProvisionLease_def
      ReleaseBootstrapLease_def elim: fenced_ops_frame fenced_hosts_frame split: if_splits)

lemma handoff_frames:
  "BindProvisionNode sha now op b db = Inr db' \<Longrightarrow> frame db db'"
  "PinProvisionExpectedState now op e db = Inr (p, db') \<Longrightarrow> frame db db'"
  "PrepareProvisionRelease now op v db = Inr db' \<Longrightarrow> frame db db'"
  "FinalizeProvision now1 now2 op v rel db = Inr db' \<Longrightarrow> frame db db'"
     apply (auto simp: BindProvisionNode_def Let_def frame_def split: if_splits option.splits)[1]
    apply (auto simp: PinProvisionExpectedState_def Let_def frame_def split: if_splits option.splits)[1]
   apply (auto simp: PrepareProvisionRelease_def Let_def frame_def result_simps split: if_splits option.splits)[1]
  apply (erule FinalizeProvision_Inr)
  apply (auto simp: fenced_hosts_Inr fenced_ops_Inr frame_def)
  done

lemma frame_refl [simp]: "frame db db"
  by (simp add: frame_def)

lemma immutableInsert_frame:
  assumes "\<And>n db'. st db = Inr (n, db') \<Longrightarrow> frame db db'"
  shows "frame db (snd (immutableInsert st db))"
proof (cases "st db")
  case (Inr a)
  then show ?thesis using assms by (cases a) (simp add: immutableInsert_def)
qed (simp add: immutableInsert_def)

lemma statement_frames:
  "insert_zone z db = Inr (n, db') \<Longrightarrow> frame db db'"
  "insert_cluster s c db = Inr (n, db') \<Longrightarrow> frame db db'"
  "insert_membership s m db = Inr (n, db') \<Longrightarrow> frame db db'"
  by (auto simp: insert_zone_def zone_region_trigger_def insert_cluster_def insert_membership_def
      result_simps frame_def split: option.splits if_splits)

lemma topology_frames:
  "frame db (snd (createZone K z l db))"
  "frame db (snd (createCluster c l s db))"
  "frame db (snd (createMembership m s db))"
proof -
  show "frame db (snd (createZone K z l db))"
    using immutableInsert_frame [OF statement_frames(1)] by (simp add: createZone_def Let_def)
  show "frame db (snd (createCluster c l s db))"
    using immutableInsert_frame [OF statement_frames(2)] by (simp add: createCluster_def)
  show "frame db (snd (createMembership m s db))"
    using immutableInsert_frame [OF statement_frames(3)]
    by (simp add: createMembership_def split: sum.splits)
qed

lemma update_frames:
  "UpdateClusterZone m db = Inr db' \<Longrightarrow> frame db db'"
  "frame db (Observe i v now db)"
  "SetClusterDiscovery now op bs db = Inr db' \<Longrightarrow> frame db db'"
  "SetDominatorRoute now op bs db = Inr db' \<Longrightarrow> frame db db'"
  "RecordBootstrapHost now op bs db = Inr db' \<Longrightarrow> frame db db'"
proof -
  show "UpdateClusterZone m db = Inr db' \<Longrightarrow> frame db db'"
    by (auto simp: UpdateClusterZone_def Let_def frame_def result_simps split: if_splits)
  show "frame db (Observe i v now db)"
    by (simp add: Observe_def frame_def)
  show "SetClusterDiscovery now op bs db = Inr db' \<Longrightarrow> frame db db'"
    by (auto simp: SetClusterDiscovery_def Let_def frame_def result_simps split: if_splits)
  show "SetDominatorRoute now op bs db = Inr db' \<Longrightarrow> frame db db'"
    by (auto simp: SetDominatorRoute_def frame_def split: if_splits option.splits)
  show "RecordBootstrapHost now op bs db = Inr db' \<Longrightarrow> frame db db'"
    by (auto simp: RecordBootstrapHost_def upsert_bootstrap_host_def Let_def frame_def
        split: if_splits option.splits)
qed

lemma SeedHosts_frame:
  assumes "SeedHosts name td zone zid now hs db = Inr db'"
  shows "frame db db'"
  using SeedHosts_tables [OF assms] by (cases db; cases db') (simp add: frame_def)

lemma system_okD: "system_ok db \<Longrightarrow> keys_ok db" "system_ok db \<Longrightarrow> \<forall>g\<in>set (node_groups db). group_ok g"
  by (simp_all add: system_ok_def acct_def rows_ok_def)

lemma createZone_system: "system_ok db \<Longrightarrow>
   store_ev db (snd (createZone K z l db)) \<and> system_ok (snd (createZone K z l db))"
  by (rule system_frame [OF _ createZone_ev [OF system_okD(1)] topology_frames(1)])

lemma createCluster_system: "system_ok db \<Longrightarrow>
   store_ev db (snd (createCluster c l s db)) \<and> system_ok (snd (createCluster c l s db))"
  by (rule system_frame [OF _ createCluster_ev [OF system_okD(1)] topology_frames(2)])

lemma createMembership_system: "system_ok db \<Longrightarrow>
   store_ev db (snd (createMembership m s db)) \<and> system_ok (snd (createMembership m s db))"
  by (rule system_frame [OF _ createMembership_ev [OF system_okD(1)] topology_frames(3)])

lemma createPool_system:
  assumes "system_ok db" "resources_i64 (pi_Limits p)"
  shows "store_ev db (snd (createPool p db)) \<and> system_ok (snd (createPool p db))"
proof -
  let ?db = "snd (createPool p db)"
  note ev = createPool_ev [OF system_okD(1) [OF assms(1)], of p]
  have d: "?db = db \<or> (?db = db\<lparr>node_pools := node_pools db @ [pool_row_of p]\<rparr> \<and> pool_check (pool_row_of p))"
    by (auto simp: createPool_def immutableInsert_def insert_pool_def split: option.splits)
  then have fr: "infrastructure_reservations ?db = infrastructure_reservations db"
    "node_groups ?db = node_groups db" "operations ?db = operations db"
    "zone_bootstrap_operations ?db = zone_bootstrap_operations db"
    "capacity_requests ?db = capacity_requests db"
    by auto
  have inv: "acct db" "log_ok db" using assms(1) by (simp_all add: system_ok_def)
  have ok: "pool_ok q" if "q \<in> set (node_pools ?db)" for q
    using d that inv(1) assms(2) by (auto simp: acct_def rows_ok_def pool_ok_def pool_row_of_def
        resources_i64_def in_i64_def)
  have "\<forall>g\<in>set (node_groups db). group_ok g \<and> g_node_pool_id g \<in> p_id ` set (node_pools ?db)"
    using keys_later(3) [OF conjunct1 [OF ev]] inv(1) by (auto simp: acct_def rows_ok_def refs_ok_def)
  then have "acct ?db" using ok
    by (intro acct_keep [OF inv(1) conjunct1 [OF ev] conjunct2 [OF ev]]) (auto simp only: fr)
  moreover have "log_ok ?db" by (rule log_ok_evolve [OF conjunct1 [OF ev] inv(2)]) (simp_all add: fr)
  ultimately show ?thesis using ev by (simp add: system_ok_def)
qed

lemma group_row_ok:
  "group_input_i64 g \<Longrightarrow> group_check (group_row_of g) \<Longrightarrow> group_ok (group_row_of g)"
  by (simp add: group_ok_def group_row_of_def group_input_i64_def resources_i64_def in_i64_def max_int64_def)

lemma NormalizeID_i64: "NormalizeID g = Some g' \<Longrightarrow> group_input_i64 g \<Longrightarrow> group_input_i64 g'"
  by (auto simp: NormalizeID_def group_input_i64_def split: option.splits if_splits)

lemma insert_group_system:
  assumes "system_ok db" "insert_group g db = Inr (n, db')" "group_ok g" "g_target_nodes g = 0"
  shows "store_ev db db' \<and> system_ok db'"
proof -
  note ev = insert_group_ev [OF assms(2) system_okD(1) [OF assms(1)]]
  have k: "\<forall>x\<in>set (node_groups db). group_ok x \<and> g_node_pool_id x \<in> p_id ` set (node_pools db)"
    using assms(1) by (auto simp: system_ok_def acct_def rows_ok_def refs_ok_def)
  have fr: "infrastructure_reservations db' = infrastructure_reservations db"
    "node_pools db' = node_pools db" "operations db' = operations db"
    "zone_bootstrap_operations db' = zone_bootstrap_operations db"
    "capacity_requests db' = capacity_requests db"
    using assms(2) by (auto simp: insert_group_def split: option.splits if_splits)
  have inv: "acct db" "log_ok db" using assms(1) by (simp_all add: system_ok_def)
  have row: "(x = g \<and> g_node_pool_id g \<in> p_id ` set (node_pools db))
      \<or> (\<exists>y\<in>set (node_groups db). x = y \<or> x = y\<lparr>g_scheduling := g_scheduling g\<rparr>)"
    if "x \<in> set (node_groups db')" for x
    using assms(2) that
    by (auto simp: insert_group_def set_upd_where group_fk_def split: option.splits if_splits)
  have "group_ok x \<and> g_node_pool_id x \<in> p_id ` set (node_pools db)
      \<and> ((\<exists>f\<in>set (node_groups db). g_id f = g_id x \<and> g_target_nodes x \<le> g_target_nodes f)
         \<or> g_target_nodes x \<le> 0)" if "x \<in> set (node_groups db')" for x
    using row [OF that] k assms(3,4) by (auto simp: group_ok_def group_check_def)
  moreover have "\<forall>p\<in>set (node_pools db). pool_ok p" using inv(1) by (simp add: acct_def rows_ok_def)
  ultimately have "acct db'"
    by (intro acct_keep [OF inv(1) conjunct1 [OF ev] conjunct2 [OF ev]]) (auto simp only: fr)
  moreover have "log_ok db'" by (rule log_ok_evolve [OF conjunct1 [OF ev] inv(2)]) (simp_all add: fr)
  ultimately show ?thesis using ev by (simp add: system_ok_def)
qed

lemma createGroup_system:
  assumes "system_ok db" "group_input_i64 g"
  shows "store_ev db (snd (createGroup K g db)) \<and> system_ok (snd (createGroup K g db))"
proof (cases "NormalizeID g")
  case None
  then show ?thesis using assms by (simp add: createGroup_def)
next
  case (Some g')
  have "store_ev db db' \<and> system_ok db'" if i: "insert_group (group_row_of g') db = Inr (n, db')" for n db'
  proof -
    have "group_check (group_row_of g')" using i by (auto simp: insert_group_def split: if_splits)
    then show ?thesis
      using insert_group_system [OF assms(1) i] group_row_ok NormalizeID_i64 [OF Some assms(2)]
      by (simp add: group_row_of_def)
  qed
  then show ?thesis using assms Some
    by (auto simp: createGroup_def immutableInsert_def split: sum.splits prod.splits)
qed


lemma seedFirstZoneTx_system:
  assumes "system_ok db" "seedFirstZoneTx K f ready db = Inr db'" "first_zone_i64 f"
  shows "store_ev db db' \<and> system_ok db'"
  using assms(2)
proof (cases rule: seedFirstZoneTx_Inr)
  case (1 g l m db1 db2 db3 db4)
  have i64: "resources_i64 (pi_Limits (fz_Pool f))" "group_input_i64 g"
    using assms(3) NormalizeID_i64 [OF 1(1)] by (auto simp: first_zone_i64_def)
  have 2: "store_ev db db1" "system_ok db1"
    using txn_Inr [OF 1(2)] createZone_system [OF assms(1)] by auto
  have 3: "store_ev db1 db2" "system_ok db2"
    using txn_Inr [OF 1(3)] createCluster_system [OF 2(2)] by auto
  have 4: "store_ev db2 db3" "system_ok db3"
    using txn_Inr [OF 1(4)] createMembership_system [OF 3(2)] by auto
  have 5: "store_ev db3 db4" "system_ok db4"
    using txn_Inr [OF 1(5)] createPool_system [OF 4(2) i64(1)] by auto
  have 6: "store_ev db4 db'" "system_ok db'"
    using txn_Inr [OF 1(6)] createGroup_system [OF 5(2) i64(2)] by auto
  from 2 3 4 5 6 show ?thesis by (blast intro: store_ev_trans)
qed

lemma RecordLaunchWithAddress_system:
  assumes "system_ok db" "RecordLaunchWithAddress now op i ip ns db = Inr db'"
  shows "store_ev db db' \<and> system_ok db'"
proof -
  have inv: "acct db" "log_ok db" using assms(1) by (simp_all add: system_ok_def)
  note ev = RecordLaunchWithAddress_ev [OF assms(2) system_okD(1) [OF assms(1)]]
  from assms(2) obtain t where fr: "node_groups db' = node_groups db" "node_pools db' = node_pools db"
    "length (operations db') = length (operations db)"
    "zone_bootstrap_operations db' = zone_bootstrap_operations db"
    "capacity_requests db' = capacity_requests db"
    "infrastructure_reservations db' = upd_where (\<lambda>r. r_host_id r = t \<and> r_state r = Reserved)
       (\<lambda>r. r\<lparr>r_state := Committed\<rparr>) (infrastructure_reservations db)"
    by (rule RecordLaunchWithAddress_Inr) (auto simp: fenced_ops_Inr)
  have g: "\<forall>g\<in>set (node_groups db'). group_ok g \<and> g_node_pool_id g \<in> p_id ` set (node_pools db')
       \<and> ((\<exists>f\<in>set (node_groups db). g_id f = g_id g \<and> g_target_nodes g \<le> g_target_nodes f)
          \<or> g_target_nodes g \<le> 0)"
    and p: "\<forall>p\<in>set (node_pools db'). pool_ok p"
    using inv(1) by (auto simp: fr acct_def rows_ok_def refs_ok_def)
  have o: "\<forall>x\<in>set (operations db'). (\<exists>y\<in>set (operations db). op_ev y x) \<or> Q x" for Q
    using evolves_lengthD [OF store_evD(10) [OF conjunct1 [OF ev]] fr(3)] by blast
  have "acct db'"
    by (rule acct_evolve [OF inv(1) conjunct1 [OF ev] conjunct2 [OF ev] _ _ o g p])
      (auto simp: fr evolves_def upd_where_def)
  moreover have "log_ok db'" by (rule log_ok_evolve [OF conjunct1 [OF ev] inv(2)]) (simp_all add: fr)
  ultimately show ?thesis using ev by (simp add: system_ok_def)
qed

lemma UpdateNodeGroupScheduling_system:
  assumes "system_ok db" "UpdateNodeGroupScheduling K i e v t l db = Inr db'"
  shows "store_ev db db' \<and> system_ok db'"
proof -
  have inv: "acct db" "log_ok db" using assms(1) by (simp_all add: system_ok_def)
  note ev = UpdateNodeGroupScheduling_ev [OF assms(2) system_okD(1) [OF assms(1)]]
  have d: "db' = db \<or> db' = db\<lparr>node_groups := upd_where (\<lambda>x. g_id x = i)
      (\<lambda>x. x\<lparr>g_template_revision := v, g_scheduling := t, g_launch_parameters := l\<rparr>) (node_groups db)\<rparr>"
    using assms(2) by (auto simp: UpdateNodeGroupScheduling_def split: if_splits list.splits)
  then have fr: "node_pools db' = node_pools db" "operations db' = operations db"
    "infrastructure_reservations db' = infrastructure_reservations db"
    "zone_bootstrap_operations db' = zone_bootstrap_operations db"
    "capacity_requests db' = capacity_requests db" by auto
  have k: "\<forall>x\<in>set (node_groups db). group_ok x \<and> g_node_pool_id x \<in> p_id ` set (node_pools db)"
    "\<forall>p\<in>set (node_pools db). pool_ok p"
    using inv(1) by (simp_all add: acct_def rows_ok_def refs_ok_def)
  have "\<exists>y\<in>set (node_groups db). x = y \<or>
      x = y\<lparr>g_template_revision := v, g_scheduling := t, g_launch_parameters := l\<rparr>"
    if "x \<in> set (node_groups db')" for x
    using d that by (auto simp: set_upd_where)
  then have "group_ok x \<and> g_node_pool_id x \<in> p_id ` set (node_pools db)
      \<and> ((\<exists>f\<in>set (node_groups db). g_id f = g_id x \<and> g_target_nodes x \<le> g_target_nodes f)
         \<or> g_target_nodes x \<le> 0)" if "x \<in> set (node_groups db')" for x
    using that k(1) by (fastforce simp: group_ok_def group_check_def)
  then have "acct db'" using k(2)
    by (intro acct_keep [OF inv(1) conjunct1 [OF ev] conjunct2 [OF ev]]) (auto simp only: fr)
  moreover have "log_ok db'" by (rule log_ok_evolve [OF conjunct1 [OF ev] inv(2)]) (simp_all add: fr)
  ultimately show ?thesis using ev by (simp add: system_ok_def)
qed

text \<open>Lowering targets and queueing removals keeps the accounting.\<close>

lemma acct_removals:
  assumes inv: "acct db" and ev: "store_ev db db'" and keys: "keys_ok db'"
    and groups: "node_groups db' = upd_where w f (node_groups db)"
    and f: "\<And>g. g \<in> set (node_groups db) \<Longrightarrow> w g \<Longrightarrow> group_ok (f g) \<and> g_id (f g) = g_id g
          \<and> g_node_pool_id (f g) = g_node_pool_id g \<and> g_target_nodes (f g) \<le> g_target_nodes g"
    and same: "infrastructure_reservations db' = infrastructure_reservations db"
      "node_pools db' = node_pools db" "hosts db' = hosts db"
    and ops: "operations db' = operations db @ news"
    and news: "\<forall>x\<in>set news. o_kind x = RemoveNode \<and> (\<exists>h\<in>set (hosts db). o_host_id x = Some (h_id h))"
  shows "acct db'"
proof -
  have k: "\<forall>x\<in>set (node_groups db). group_ok x \<and> g_node_pool_id x \<in> p_id ` set (node_pools db)"
    "\<forall>p\<in>set (node_pools db'). pool_ok p"
    using inv by (simp_all add: acct_def rows_ok_def refs_ok_def same)
  have "group_ok x \<and> g_node_pool_id x \<in> p_id ` set (node_pools db')
      \<and> ((\<exists>f\<in>set (node_groups db). g_id f = g_id x \<and> g_target_nodes x \<le> g_target_nodes f)
         \<or> g_target_nodes x \<le> 0)" if x: "x \<in> set (node_groups db')" for x
  proof -
    obtain y where y: "y \<in> set (node_groups db)" "x = (if w y then f y else y)"
      using x unfolding groups upd_where_def by auto
    have "group_ok x" "g_id x = g_id y" "g_node_pool_id x = g_node_pool_id y"
      "g_target_nodes x \<le> g_target_nodes y"
      using y f [OF y(1)] k(1) by (simp_all split: if_splits)
    then show ?thesis using y(1) k(1) by (simp only: same) force
  qed
  then have g: "\<forall>g\<in>set (node_groups db'). group_ok g \<and> g_node_pool_id g \<in> p_id ` set (node_pools db')
      \<and> ((\<exists>f\<in>set (node_groups db). g_id f = g_id g \<and> g_target_nodes g \<le> g_target_nodes f)
         \<or> g_target_nodes g \<le> 0)" by blast
  have o: "\<forall>x\<in>set (operations db'). (\<exists>y\<in>set (operations db). op_ev y x)
       \<or> (o_kind x \<noteq> Provision \<and> (\<forall>h. o_host_id x = Some h \<longrightarrow> h \<in> h_id ` set (hosts db')))"
  proof
    fix x assume "x \<in> set (operations db')"
    then consider "x \<in> set (operations db)" | "x \<in> set news" by (auto simp: ops)
    then show "(\<exists>y\<in>set (operations db). op_ev y x)
       \<or> (o_kind x \<noteq> Provision \<and> (\<forall>h. o_host_id x = Some h \<longrightarrow> h \<in> h_id ` set (hosts db')))"
    proof cases
      case 2
      then show ?thesis using news by (simp only: same) force
    qed (use op_evo.row_refl in blast)
  qed
  show ?thesis
    by (rule acct_evolve [OF inv ev keys _ _ o g k(2)]) (simp_all add: same evolves_def)
qed


lemma lowered_group_ok:
  "group_ok g \<Longrightarrow> group_check (g\<lparr>g_target_nodes := t, g_target_revision := i64 v\<rparr>) \<Longrightarrow>
   group_ok (g\<lparr>g_target_nodes := t, g_target_revision := i64 v\<rparr>)"
  using in_i64_i64 [of v] by (simp add: group_ok_def in_i64_def max_int64_def)

lemma CreateRemoval_system:
  assumes "system_ok db" "CreateRemoval uuid now cluster expected rm db = Inr (i, db')"
  shows "store_ev db db' \<and> system_ok db'"
proof -
  have inv: "acct db" "log_ok db" using assms(1) by (simp_all add: system_ok_def)
  note ev = CreateRemoval_ev [OF assms(2) system_okD [OF assms(1)]]
  from assms(2) show ?thesis
  proof (cases rule: CreateRemoval_Inr)
    case (1 p h db1 db2 revision)
    let ?w = "\<lambda>r. g_id r = g_id (pol_group p) \<and> \<not> no_PreserveDesiredCapacity rm"
    let ?f = "\<lambda>r. r\<lparr>g_target_nodes := g_target_nodes r - 1, g_target_revision := revision\<rparr>"
    have u: "db1 = db\<lparr>node_groups := upd_where ?w ?f (node_groups db)\<rparr>"
      "\<forall>g\<in>set (node_groups db). ?w g \<longrightarrow> group_check (?f g)"
      using 1(9) by (auto simp: update_groups_Inr upd_where_def split: if_splits)
    have fr: "node_groups db' = upd_where ?w ?f (node_groups db)"
      "infrastructure_reservations db' = infrastructure_reservations db"
      "node_pools db' = node_pools db" "hosts db' = hosts db"
      "operations db' = operations db @ [removal_op (pol_group p) (no_HostID rm) revision now
        (ParamsRemoval None) (uuid 0) (uuid 1)]"
      "zone_bootstrap_operations db' = zone_bootstrap_operations db"
      "capacity_requests db' = capacity_requests db"
      using 1(10,11) u(1) by (simp_all add: insert_operation_Inr insert_removal_Inr)
    have h: "h \<in> set (hosts db)" "h_id h = no_HostID rm" using 1(4) by (auto dest: find_SomeD)
    have f: "group_ok (?f g) \<and> g_id (?f g) = g_id g \<and> g_node_pool_id (?f g) = g_node_pool_id g
          \<and> g_target_nodes (?f g) \<le> g_target_nodes g" if "g \<in> set (node_groups db)" "?w g" for g
    proof -
      have "group_ok g" using that(1) system_okD(2) [OF assms(1)] by blast
      moreover have "revision = i64 (g_target_revision (pol_group p) + 1)" using 1(8) that(2) by simp
      ultimately show ?thesis using lowered_group_ok [of g] u(2) that by simp
    qed
    have "acct db'"
      by (rule acct_removals [OF inv(1) conjunct1 [OF ev] conjunct2 [OF ev] fr(1) f fr(2-5)])
        (use h in \<open>auto simp: removal_op_def intro!: bexI [of _ h]\<close>)
    moreover have "log_ok db'" by (rule log_ok_evolve [OF conjunct1 [OF ev] inv(2)]) (simp_all add: fr)
    ultimately show ?thesis using ev by (simp add: system_ok_def)
  qed
qed

lemma CreateAutoscalerRemovals_system:
  assumes "system_ok db" "CreateAutoscalerRemovals uuid now cluster req db = Inr db'"
  shows "store_ev db db' \<and> system_ok db'"
proof -
  have inv: "acct db" "log_ok db" using assms(1) by (simp_all add: system_ok_def)
  note ev = CreateAutoscalerRemovals_ev [OF assms(2) system_okD [OF assms(1)]]
  from assms(2) show ?thesis
  proof (cases rule: CreateAutoscalerRemovals_cases)
    case replay
    then show ?thesis using assms(1) by simp
  next
    case (fresh p ps db1)
    let ?f = "\<lambda>r. r\<lparr>g_target_nodes := g_target_nodes r - int (length (rr_Nodes req)),
                g_target_revision := i64 (g_target_revision (pol_group p) + 1)\<rparr>"
    note n = check_removal_nodes_Inr [OF fresh(7)]
    from fresh(8) have u: "db1 = db\<lparr>node_groups := upd_where (\<lambda>r. g_id r = rr_NodeGroupID req) ?f (node_groups db)\<rparr>"
      "\<forall>g\<in>set (node_groups db). g_id g = rr_NodeGroupID req \<longrightarrow> group_check (?f g)"
      by (simp_all add: update_groups_Inr)
    from fresh(9) obtain ops where fr:
      "node_groups db' = upd_where (\<lambda>r. g_id r = rr_NodeGroupID req) ?f (node_groups db)"
      "infrastructure_reservations db' = infrastructure_reservations db"
      "node_pools db' = node_pools db" "hosts db' = hosts db"
      "operations db' = operations db @ ops"
      "zone_bootstrap_operations db' = zone_bootstrap_operations db"
      "capacity_requests db' = capacity_requests db"
      and ops: "map o_host_id ops = map (\<lambda>n. Some (rn_HostID (fst n))) (zip (rr_Nodes req) ps)"
      "\<forall>x\<in>set ops. o_kind x = RemoveNode"
      by (rule insert_removals_Inr) (auto simp: u(1))
    have f: "group_ok (?f g) \<and> g_id (?f g) = g_id g \<and> g_node_pool_id (?f g) = g_node_pool_id g
          \<and> g_target_nodes (?f g) \<le> g_target_nodes g"
      if "g \<in> set (node_groups db)" "g_id g = rr_NodeGroupID req" for g
      using lowered_group_ok [of g] u(2) that system_okD(2) [OF assms(1)] by simp
    have new: "\<forall>x\<in>set ops. o_kind x = RemoveNode \<and> (\<exists>h\<in>set (hosts db). o_host_id x = Some (h_id h))"
    proof
      fix x assume x: "x \<in> set ops"
      then have "o_host_id x \<in> set (map (\<lambda>n. Some (rn_HostID (fst n))) (zip (rr_Nodes req) ps))"
        using ops(1) by (metis image_eqI list.set_map)
      then obtain m where "m \<in> set (rr_Nodes req)" "o_host_id x = Some (rn_HostID m)"
        by (auto dest: set_zip_leftD)
      then show "o_kind x = RemoveNode \<and> (\<exists>h\<in>set (hosts db). o_host_id x = Some (h_id h))"
        using n ops(2) x by metis
    qed
    have "acct db'"
      by (rule acct_removals [OF inv(1) conjunct1 [OF ev] conjunct2 [OF ev] fr(1) f fr(2-5) new])
    moreover have "log_ok db'" by (rule log_ok_evolve [OF conjunct1 [OF ev] inv(2)]) (simp_all add: fr)
    ultimately show ?thesis using ev by (simp add: system_ok_def)
  qed
qed

lemma CreateBootstrap_system:
  assumes "system_ok db" "CreateBootstrap uuid now K decode inp db = Inr (i, db')"
    and i64: "\<forall>v f. decode v = Some f \<longrightarrow> first_zone_i64 f"
  shows "store_ev db db' \<and> system_ok db'"
  using assms(2)
proof (cases rule: CreateBootstrap_cases)
  case replay
  then show ?thesis using assms(1) by simp
next
  case (fresh fz db1 db2)
  have 1: "store_ev db db1" "acct db1" "log_ok db1"
    using seedFirstZoneTx_system [OF assms(1) fresh(2)] i64 fresh(6) by (auto simp: system_ok_def)
  have keys: "keys_ok db1" using 1(2) by (simp add: acct_def)
  have "store_ev db1 db2" "keys_ok db2"
    using insert_operation_ev [OF fresh(3)] insert_operation_keys [OF fresh(3) keys] by auto
  then have 2: "store_ev db1 db'" "keys_ok db'"
    using insert_bootstrap_ev [OF fresh(4)] store_ev_trans by blast+
  let ?o = "bootstrap_op inp (raw_value (br_Parameters inp)) now (uuid 0) (uuid 1)"
  have fr: "node_groups db' = node_groups db1" "node_pools db' = node_pools db1"
    "infrastructure_reservations db' = infrastructure_reservations db1"
    "operations db' = operations db1 @ [?o]" "capacity_requests db' = capacity_requests db1"
    and zb: "zone_bootstrap_operations db' = zone_bootstrap_operations db1 @
      [\<lparr>zb_operation_id = uuid 0, zb_zone_id = br_ZoneID inp,
         zb_cluster_id = Some (br_ClusterID inp), zb_request_id = Some (br_RequestID inp),
         zb_phase = ZoneRequested\<rparr>]"
    using fresh(3,4) by (auto simp: insert_operation_Inr insert_bootstrap_def split: if_splits)
  have g: "\<forall>g\<in>set (node_groups db'). group_ok g \<and> g_node_pool_id g \<in> p_id ` set (node_pools db')
       \<and> ((\<exists>f\<in>set (node_groups db1). g_id f = g_id g \<and> g_target_nodes g \<le> g_target_nodes f)
          \<or> g_target_nodes g \<le> 0)"
    and p: "\<forall>p\<in>set (node_pools db'). pool_ok p"
    using 1(2) by (auto simp: fr acct_def rows_ok_def refs_ok_def)
  have o: "\<forall>x\<in>set (operations db'). (\<exists>y\<in>set (operations db1). op_ev y x)
       \<or> (o_kind x \<noteq> Provision \<and> (\<forall>h. o_host_id x = Some h \<longrightarrow> h \<in> h_id ` set (hosts db')))"
    using op_evo.row_refl by (auto simp: fr bootstrap_op_def)
  have "acct db'"
    by (rule acct_evolve [OF 1(2) 2 _ _ o g p]) (simp_all add: fr evolves_def)
  moreover have "boot_ok db'"
    by (rule boot_ok_evolve [OF 2(1)]) (use 1(3) in \<open>auto simp: log_ok_def zb fr terminal_phase_def bootstrap_op_def\<close>)
  moreover have "requests_ok db'"
    using requests_ok_evolve [OF 2(1) _ fr(5)] 1(3) by (simp add: log_ok_def)
  ultimately show ?thesis using 1(1) 2(1) store_ev_trans by (auto simp: system_ok_def log_ok_def)
qed

lemma bootstrap_ready_frame: "bootstrap_ready c z db = Inr db' \<Longrightarrow> frame db db' \<and> operations db' = operations db"
  by (auto simp: bootstrap_ready_def Let_def frame_def split: if_splits)

text \<open>The rows a phase transition touches.\<close>

lemma BootstrapPhase_rows:
  assumes "BootstrapPhase now op n validated db = Inr db'"
  obtains r where "r \<in> set (operations db)" "o_id r = op_ID op"
    "infrastructure_reservations db' = infrastructure_reservations db"
    "node_groups db' = node_groups db" "node_pools db' = node_pools db"
    "capacity_requests db' = capacity_requests db"
    "zone_bootstrap_operations db' = upd_where (\<lambda>b. zb_operation_id b = op_ID op)
          (\<lambda>b. b\<lparr>zb_phase := n\<rparr>) (zone_bootstrap_operations db)"
    "operations db' = (if terminal_phase n then upd_where (\<lambda>r. o_id r = op_ID op)
          (\<lambda>r. r\<lparr>o_state := (if n = ZoneReady then OpSucceeded else OpFailed), o_lease_owner := None,
                 o_lease_until := None, o_updated_at := now\<rparr>) (operations db) else operations db)"
  using assms
proof (cases rule: BootstrapPhase_Inr)
  case (1 b r db1)
  have "frame db db1 \<and> operations db1 = operations db"
    using 1(8) bootstrap_ready_frame by (cases n; cases "zb_cluster_id b") auto
  then show ?thesis using that [OF 1(3)] 1(5,9)
    by (auto simp: frame_def held_def lease_live_def set_phase_def finish_op_def terminal_phase_def)
qed

lemma BootstrapPhase_system:
  assumes "system_ok db" "BootstrapPhase now op n validated db = Inr db'"
  shows "store_ev db db' \<and> system_ok db'"
proof -
  have inv: "acct db" "boot_ok db" "requests_ok db" using assms(1) by (simp_all add: system_ok_def log_ok_def)
  note ev = BootstrapPhase_ev [OF assms(2) system_okD(1) [OF assms(1)] inv(2)]
  from assms(2) show ?thesis
  proof (cases rule: BootstrapPhase_rows)
    case (1 r)
    have "\<forall>g\<in>set (node_groups db). group_ok g \<and> g_node_pool_id g \<in> p_id ` set (node_pools db)"
      "\<forall>p\<in>set (node_pools db). pool_ok p"
      using inv(1) by (simp_all add: acct_def rows_ok_def refs_ok_def)
    then have "acct db'" by (intro acct_keep [OF inv(1) conjunct1 [OF ev] conjunct2 [OF ev]]) (auto simp: 1)
    moreover have "boot_ok db'"
      unfolding boot_ok_def
    proof
      fix b assume "b \<in> set (zone_bootstrap_operations db')"
      then consider "b \<in> set (zone_bootstrap_operations db)" | "zb_operation_id b = op_ID op" "zb_phase b = n"
        by (auto simp: 1(7) set_upd_where)
      then show "\<exists>r\<in>set (operations db'). o_id r = zb_operation_id b
          \<and> (terminal_phase (zb_phase b) \<longrightarrow> op_terminal (o_state r))"
      proof cases
        case 1
        then obtain x where x: "x \<in> set (operations db)" "o_id x = zb_operation_id b"
          "terminal_phase (zb_phase b) \<longrightarrow> op_terminal (o_state x)"
          using inv(2) by (auto simp: boot_ok_def)
        obtain y where "y \<in> set (operations db')" "op_ev x y"
          using op_evo.row_later [OF store_evD(10) [OF conjunct1 [OF ev]] x(1)] by blast
        then show ?thesis using x(2,3) by (intro bexI [of _ y]) (auto simp: op_ev_def)
      next
        case 2
        let ?f = "\<lambda>r. r\<lparr>o_state := (if n = ZoneReady then OpSucceeded else OpFailed),
            o_lease_owner := None, o_lease_until := None, o_updated_at := now\<rparr>"
        have "(if terminal_phase n then ?f r else r) \<in> set (operations db')"
          using 1(1,2) by (auto simp: 1(8) set_upd_where)
        then show ?thesis using 2 1(2) by (rule_tac bexI) (auto simp: op_terminal_def)
      qed
    qed
    moreover have "requests_ok db'" by (rule requests_ok_evolve [OF conjunct1 [OF ev] inv(3) 1(6)])
    ultimately show ?thesis using ev by (simp add: system_ok_def log_ok_def)
  qed
qed



text \<open>Steps that only touch the frame: leases, hand-off, bootstrap data and host records.\<close>

lemmas frame_evs = Renew_ev BeginLaunch_ev SetProvisionDesiredVersion_ev SetProvisionState_ev
  CompleteProvision_ev RecordProvisionFailure_ev ReleaseProvisionLease_ev ReleaseBootstrapLease_ev
  BindProvisionNode_ev PinProvisionExpectedState_ev PrepareProvisionRelease_ev FinalizeProvision_ev
  UpdateClusterZone_ev SeedHosts_ev SetClusterDiscovery_ev SetDominatorRoute_ev RecordBootstrapHost_ev

lemmas frames = lease_frames handoff_frames update_frames SeedHosts_frame

lemma SetTarget_requests:
  assumes "SetTarget uuid now req db = Inr (res, db')" and inv: "acct db" and ok: "requests_ok db"
  shows "requests_ok db'"
  using assms(1)
proof (cases rule: SetTarget_cases)
  case replay
  then show ?thesis using ok by simp
next
  case (fresh p)
  have keys: "keys_ok db" "\<forall>g\<in>set (node_groups db). group_ok g"
    using inv by (simp_all add: acct_def rows_ok_def)
  have ev: "store_ev db db'" using SetTarget_ev [OF assms(1) keys] by simp
  have g: "pol_group p \<in> set (node_groups db)" "g_id (pol_group p) = cr_NodeGroupID req"
    using fresh(1) by (auto elim: loadPolicy_Inr)
  let ?v = "i64 (g_target_revision (pol_group p) + 1)"
  have rev: "g_target_revision (pol_group p) = cr_ExpectedTargetRevision req"
    "?v = cr_ExpectedTargetRevision req + 1"
    using fresh(4) revision_step [of "pol_group p"] keys(2) g(1) by (auto elim!: admit_target_Inr)
  let ?f = "\<lambda>r. r\<lparr>g_target_nodes := cr_DesiredTarget req, g_target_revision := ?v\<rparr>"
  have "?f (pol_group p) \<in> set (node_groups db')"
    using apply_target_rows [OF fresh(5)] upd_where_hit [OF g(1)] g(2) by simp
  then have new: "capacity_requests db' = capacity_requests db @ [request_row_of req (uuid 0) ?v now]"
    "\<exists>g\<in>set (node_groups db'). g_id g = cr_NodeGroupID req \<and> ?v \<le> g_target_revision g"
    using apply_target_rows [OF fresh(5)] g(2) by (auto intro!: bexI [of _ "?f (pol_group p)"])
  have last: "q_result_revision q \<le> cr_ExpectedTargetRevision req"
    if q: "q \<in> set (capacity_requests db)" "q_group_id q = cr_NodeGroupID req" for q
  proof -
    obtain f where f: "f \<in> set (node_groups db)" "g_id f = q_group_id q" "q_result_revision q \<le> g_target_revision f"
      using ok q(1) by (auto simp: requests_ok_def)
    have "f = pol_group p" using keys(1) f(1,2) g q(2) unique_key [of g_id "node_groups db"] by (auto simp: keys_ok_def)
    then show ?thesis using f(3) rev(1) by simp
  qed
  have later: "\<exists>g\<in>set (node_groups db'). g_id g = q_group_id q \<and> q_result_revision q \<le> g_target_revision g"
    if "q \<in> set (capacity_requests db)" for q
    using revision_later [OF ev] ok that unfolding requests_ok_def by blast
  show ?thesis
    using ok later last new(2) rev(2) unfolding requests_ok_def new(1)
    by (simp add: request_row_of_def sorted_wrt_append)
qed

lemma SetTarget_system:
  assumes "system_ok db" "SetTarget uuid now req db = Inr (res, db')"
  shows "store_ev db db' \<and> system_ok db'"
proof -
  have ev: "store_ev db db'" using SetTarget_ev [OF assms(2) system_okD [OF assms(1)]] by simp
  have "zone_bootstrap_operations db' = zone_bootstrap_operations db"
    using assms(2) apply_target_rows by (cases rule: SetTarget_cases) blast+
  then have "boot_ok db'"
    using boot_ok_evolve [OF ev] assms(1) by (auto simp: system_ok_def log_ok_def)
  then show ?thesis
    using ev SetTarget_acct [OF assms(2)] SetTarget_requests [OF assms(2)] assms(1)
    by (simp add: system_ok_def log_ok_def)
qed

lemma Claim_system:
  assumes "system_ok db"
  shows "Claim now zone kind owner d db = Inr (op, db') \<Longrightarrow> store_ev db db' \<and> system_ok db'"
    "ClaimDominator now zone kind owner d db = Inr (op, db') \<Longrightarrow> store_ev db db' \<and> system_ok db'"
  using system_frame [OF assms claim_ev [OF _ system_okD(1) [OF assms]] claim_frame]
  by (auto simp: Claim_def ClaimDominator_def split: if_splits)

lemma topology_system:
  assumes "system_ok db"
  shows "store_ev db (snd (CreateZone K z db)) \<and> system_ok (snd (CreateZone K z db))"
    "store_ev db (snd (CreateCluster_op c db)) \<and> system_ok (snd (CreateCluster_op c db))"
    "store_ev db (snd (CreateClusterZone m db)) \<and> system_ok (snd (CreateClusterZone m db))"
    "resources_i64 (pi_Limits p) \<Longrightarrow>
       store_ev db (snd (CreateNodePool p db)) \<and> system_ok (snd (CreateNodePool p db))"
    "group_input_i64 g \<Longrightarrow>
       store_ev db (snd (CreateNodeGroup K g db)) \<and> system_ok (snd (CreateNodeGroup K g db))"
  unfolding CreateZone_def CreateCluster_op_def CreateClusterZone_def CreateNodePool_def CreateNodeGroup_def
  using createZone_system createCluster_system createMembership_system createPool_system
    createGroup_system assms by blast+

lemma hosts_update_system:
  assumes "system_ok db" "\<And>h. h \<in> set (hosts db) \<Longrightarrow> w h \<Longrightarrow> host_ev h (f h)"
  shows "store_ev db (db\<lparr>hosts := upd_where w f (hosts db)\<rparr>)
    \<and> system_ok (db\<lparr>hosts := upd_where w f (hosts db)\<rparr>)"
proof (rule system_frame [OF assms(1)])
  have "h_id (f h) = h_id h" if "h \<in> set (hosts db)" "w h" for h
    using assms(2) [OF that] by (simp add: host_ev_def)
  then show "store_ev db (db\<lparr>hosts := upd_where w f (hosts db)\<rparr>)
    \<and> keys_ok (db\<lparr>hosts := upd_where w f (hosts db)\<rparr>)"
    using assms(2) system_okD(1) [OF assms(1)]
    by (auto simp: keys_ok_def map_upd_where intro!: store_ev_hosts host_evo.update)
qed (simp add: frame_def)

lemma catalog_system:
  assumes "system_ok db"
  shows "PostgresHostStore_Create h db = Inr db' \<Longrightarrow> store_ev db db' \<and> system_ok db'"
    "\<forall>h\<in>set (hosts db). h_id h = i \<longrightarrow> h_node_group_id h = None \<Longrightarrow>
       PostgresHostStore_UpdateState i st db = Inr db' \<Longrightarrow> store_ev db db' \<and> system_ok db'"
    "store_ev db (PostgresHostStore_UpdateHealth i health db)
       \<and> system_ok (PostgresHostStore_UpdateHealth i health db)"
    "store_ev db (PostgresHostStore_UpdateProviderID i pid db)
       \<and> system_ok (PostgresHostStore_UpdateProviderID i pid db)"
    "store_ev db (PostgresHostStore_UpdateLastSeenHeartbeat i t db)
       \<and> system_ok (PostgresHostStore_UpdateLastSeenHeartbeat i t db)"
    "store_ev db (PostgresHostStore_UpdateDBConnectionInfo i conn db)
       \<and> system_ok (PostgresHostStore_UpdateDBConnectionInfo i conn db)"
proof -
  show "store_ev db db' \<and> system_ok db'" if "PostgresHostStore_Create h db = Inr db'"
  proof (rule system_frame [OF assms])
    show "store_ev db db' \<and> keys_ok db'"
      using insert_host_ev insert_host_keys that system_okD(1) [OF assms]
      by (auto simp: PostgresHostStore_Create_def)
    show "frame db db'"
      using that by (simp add: PostgresHostStore_Create_def insert_host_Inr frame_def)
  qed
  show "store_ev db db' \<and> system_ok db'"
    if "\<forall>h\<in>set (hosts db). h_id h = i \<longrightarrow> h_node_group_id h = None" "PostgresHostStore_UpdateState i st db = Inr db'"
    using hosts_update_system [OF assms, of "\<lambda>h. h_id h = i"] assms that
    by (auto simp: PostgresHostStore_UpdateState_def host_ev_def split: option.splits if_splits)
qed (auto simp: PostgresHostStore_UpdateHealth_def PostgresHostStore_UpdateProviderID_def
    PostgresHostStore_UpdateLastSeenHeartbeat_def PostgresHostStore_UpdateDBConnectionInfo_def host_ev_def
    intro!: hosts_update_system [OF assms, THEN conjunct1] hosts_update_system [OF assms, THEN conjunct2])

text \<open>Every step of the store keeps the invariant and moves each row along its evolution.\<close>

lemma system_step:
  assumes "cap_step K db db'" "system_ok db"
  shows "store_ev db db' \<and> system_ok db'"
  using assms
  by (induction rule: cap_step.induct)
    (rule topology_system catalog_system(3-6), assumption+
     | rule SetTarget_system Claim_system RecordLaunchWithAddress_system seedFirstZoneTx_system
        UpdateNodeGroupScheduling_system CreateRemoval_system CreateAutoscalerRemovals_system
        BootstrapPhase_system CreateBootstrap_system catalog_system(1,2), assumption, assumption+
     | rule system_frame, assumption, rule frame_evs, assumption, erule system_okD(1), rule frames, assumption
     | rule system_frame, assumption, rule Observe_ev, erule system_okD(1), rule frames)+

section \<open>Runs\<close>

lemma system_ok_empty: "system_ok empty_db"
  by (simp add: system_ok_def log_ok_def acct_def boot_ok_def requests_ok_def keys_ok_def refs_ok_def
      rows_ok_def pools_within_def targets_backed_def empty_db_def)

interpretation cap: step_system "cap_step K" system_ok store_ev for K
  by unfold_locales (use system_step store_ev_trans in \<open>auto\<close>)

lemma reachable_ok: "(cap_step K)\<^sup>*\<^sup>* empty_db db \<Longrightarrow> system_ok db"
  using cap.run_inv system_ok_empty by blast

end
