(* ===== verification/CapacityControllers.thy ===== *)
theory CapacityControllers
  imports CapacitySystem
begin

text \<open>
  The controllers and services over the store's steps: a pass of the provisioning controller
  (\<open>src/internal/capacity/provision_worker.go\<close>), a pass of the bootstrap controller
  (\<open>bootstrap.go\<close>) and the calls of the host catalogue (\<open>src/internal/hostcatalog/service\<close>)
  are runs of \<open>cap_step\<close>, whatever their executors and other clients commit meanwhile.
\<close>

abbreviation steps :: "k8s_validation \<Rightarrow> db \<Rightarrow> db \<Rightarrow> bool" where
  "steps K \<equiv> (cap_step K)\<^sup>*\<^sup>*"

definition bootstrap_executor_ok :: "k8s_validation \<Rightarrow> BootstrapExecutor \<Rightarrow> bool" where
  "bootstrap_executor_ok K E \<longleftrightarrow> (\<forall>op n db. steps K db (snd (be_Step E op n db)))
     \<and> (\<forall>op db. steps K db (snd (be_Validated E op db)))"

definition provision_executor_ok :: "k8s_validation \<Rightarrow> ProvisionExecutor \<Rightarrow> bool" where
  "provision_executor_ok K E \<longleftrightarrow> (\<forall>op db. steps K db (snd (pe_Launch E op db)))
     \<and> (\<forall>op h db. steps K db (snd (pe_EnrollAndJoin E op h db)))
     \<and> (\<forall>op h db. steps K db (snd (pe_Ready E op h db)))"

lemma steps_snoc: "steps K a b \<Longrightarrow> cap_step K b c \<Longrightarrow> steps K a c"
  by (rule rtranclp.rtrancl_into_rtrancl)

lemma call_run:
  assumes "steps K s db" "\<And>db'. r = Inr db' \<Longrightarrow> cap_step K db db'"
    and "\<And>db'. steps K s db' \<Longrightarrow> steps K s (snd (k db'))"
  shows "steps K s (snd (call r db k))"
  using assms by (cases r) (auto simp: call_def intro: steps_snoc)

lemma call_steps:
  assumes "steps K s db" "\<And>db'. steps K s db' \<Longrightarrow> steps K s (snd (k db'))"
  shows "steps K s (snd (call (BeginLaunch t op db) db k))"
    "steps K s (snd (call (SetProvisionState t op a b db) db k))"
    "steps K s (snd (call (if p then SetProvisionState t op a b db else Inr db) db k))"
    "steps K s (snd (call (RecordLaunchWithAddress t op i ip ns db) db k))"
    "steps K s (snd (call (ReleaseProvisionLease t op db) db k))"
    "steps K s (snd (call (RecordProvisionFailure t op c db) db k))"
    "steps K s (snd (call (CompleteProvision t op db) db k))"
    "steps K s (snd (call (PrepareProvisionRelease t op v db) db k))"
    "steps K s (snd (call (BootstrapPhase t op n ok db) db k))"
    "steps K s (snd (call (ReleaseBootstrapLease t op db) db k))"
proof -
  show set_state: "steps K s (snd (call (SetProvisionState t op a b db) db k))"
    by (rule call_run [OF assms(1) _ assms(2)]) (rule cap_step.provision_state)
  then show "steps K s (snd (call (if p then SetProvisionState t op a b db else Inr db) db k))"
    using assms by (simp add: call_def)
  show "steps K s (snd (call (BeginLaunch t op db) db k))"
    by (rule call_run [OF assms(1) _ assms(2)]) (rule cap_step.begin_launch)
  show "steps K s (snd (call (RecordLaunchWithAddress t op i ip ns db) db k))"
    by (rule call_run [OF assms(1) _ assms(2)]) (rule cap_step.record_launch)
  show "steps K s (snd (call (ReleaseProvisionLease t op db) db k))"
    by (rule call_run [OF assms(1) _ assms(2)]) (rule cap_step.release)
  show "steps K s (snd (call (RecordProvisionFailure t op c db) db k))"
    by (rule call_run [OF assms(1) _ assms(2)]) (rule cap_step.failure)
  show "steps K s (snd (call (CompleteProvision t op db) db k))"
    by (rule call_run [OF assms(1) _ assms(2)]) (rule cap_step.complete)
  show "steps K s (snd (call (PrepareProvisionRelease t op v db) db k))"
    by (rule call_run [OF assms(1) _ assms(2)]) (rule cap_step.prepare)
  show "steps K s (snd (call (BootstrapPhase t op n ok db) db k))"
    by (rule call_run [OF assms(1) _ assms(2)]) (rule cap_step.phase)
  show "steps K s (snd (call (ReleaseBootstrapLease t op db) db k))"
    by (rule call_run [OF assms(1) _ assms(2)]) (rule cap_step.release_bootstrap)
qed

lemma renewals_run: "renewals op d ticks db = Inr db' \<Longrightarrow> steps K s db \<Longrightarrow> steps K s db'"
  unfolding renewals_def by (erule rfold_inv) (auto intro: steps_snoc cap_step.renew)

lemma call_renewals:
  assumes "steps K s db" "\<And>db'. steps K s db' \<Longrightarrow> steps K s (snd (k db'))"
  shows "steps K s (snd (call (renewals op d ticks db) db k))"
  using assms renewals_run by (cases "renewals op d ticks db") (auto simp: call_def)

lemma returned_run: "steps K s db \<Longrightarrow> steps K s (snd (returned db))"
  by (simp add: returned_def)

lemma retryable_run: "steps K s db \<Longrightarrow> steps K s (snd (retryable now op c e db))"
  unfolding retryable_def by (auto intro!: call_steps)

lemma record_step_run:
  assumes "record_step now op n v db = Inr db'" "steps K s db"
  shows "steps K s db'"
  using assms unfolding record_step_def
  by (auto split: if_splits intro: steps_snoc cap_step.discovery cap_step.bootstrap_host cap_step.route)

lemma call_record_step:
  assumes "steps K s db" "\<And>db'. steps K s db' \<Longrightarrow> steps K s (snd (k db'))"
  shows "steps K s (snd (call (record_step now op n v db) db k))"
  using assms record_step_run by (cases "record_step now op n v db") (auto simp: call_def)

lemma bootstrap_pass_run:
  assumes "bootstrap_executor_ok K E"
  shows "steps K db (snd (BootstrapController_RunOnce E zoneID owner lease now ticks db))"
proof -
  have ex: "be_Step E op n db1 = (r1, db2) \<Longrightarrow> steps K db db1 \<Longrightarrow> steps K db db2"
    "be_Validated E op db1 = (r2, db2) \<Longrightarrow> steps K db db1 \<Longrightarrow> steps K db db2" for op n db1 db2 r1 r2
    using assms unfolding bootstrap_executor_ok_def by (metis rtranclp_trans snd_conv)+
  have claimed: "steps K db db1" if "Claim (now 0) zoneID CreateCluster owner d db = Inr (op, db1)" for d op db1
    using cap_step.claim [OF that] by blast
  show ?thesis
    unfolding BootstrapController_RunOnce_def Let_def
    using claimed ex
    by (auto split: sum.splits prod.splits option.splits
        intro!: call_renewals call_record_step call_steps returned_run)
qed

lemma advance_run:
  assumes "provision_executor_ok K E" "steps K s db"
  shows "steps K s (snd (advance E now d ticks op db))"
proof -
  have ex: "pe_Launch E op db1 = (r1, db2) \<Longrightarrow> steps K s db1 \<Longrightarrow> steps K s db2"
    "pe_EnrollAndJoin E op h db1 = (r2, db2) \<Longrightarrow> steps K s db1 \<Longrightarrow> steps K s db2"
    "pe_Ready E op h db1 = (r3, db2) \<Longrightarrow> steps K s db1 \<Longrightarrow> steps K s db2" for h db1 db2 r1 r2 r3
    using assms(1) unfolding provision_executor_ok_def by (metis rtranclp_trans snd_conv)+
  note runs = call_steps call_renewals returned_run retryable_run
  have launch: "steps K s (snd (advance_launch E now d ticks op host db))" if "steps K s db" for host db
    unfolding advance_launch_def using that ex(1) by (auto split: prod.splits sum.splits intro!: runs)
  have enroll: "steps K s (snd (advance_enroll E now d ticks op host db))" if "steps K s db" for host db
    unfolding advance_enroll_def using that ex(2) by (auto split: prod.splits sum.splits intro!: runs)
  have finalized: "FinalizeProvision t1 t2 op v rel db1 = Inr db2 \<Longrightarrow> steps K s db1 \<Longrightarrow> steps K s db2"
    for t1 t2 v rel db1 db2 by (rule steps_snoc [OF _ cap_step.finalize])
  have ready: "steps K s (snd (advance_ready E now d ticks op host db))" if "steps K s db" for host db
    unfolding advance_ready_def using that ex(3) finalized
    by (auto split: prod.splits sum.splits intro!: runs)
  show ?thesis unfolding advance_def
    using assms(2) launch enroll ready by (auto split: sum.splits HostState.splits intro!: runs)
qed

lemma provision_pass_run:
  assumes "provision_executor_ok K E"
  shows "steps K db (snd (ProvisionController_RunOnce E zoneID owner lease now ticks db))"
proof -
  have "steps K db db1" if "ClaimDominator (now 0) zoneID Provision owner d db = Inr (op, db1)" for d op db1
    using cap_step.claim_dominator [OF that] by blast
  then show ?thesis unfolding ProvisionController_RunOnce_def Let_def
    using advance_run [OF assms] returned_run by (auto split: sum.splits prod.splits)
qed

section \<open>The host catalogue\<close>

definition client_ok :: "k8s_validation \<Rightarrow> client \<Rightarrow> bool" where
  "client_ok K env \<longleftrightarrow> (\<forall>k db. steps K db (env k db))"

lemma legacy_later:
  assumes "EnsureLegacyLifecycle i db = Inr ()" and run: "steps K db db'" and ok: "system_ok db"
  shows "\<forall>h\<in>set (hosts db'). h_id h = i \<longrightarrow> h_node_group_id h = None"
proof
  fix h assume h: "h \<in> set (hosts db')"
  have ev: "store_ev db db'" "keys_ok db'"
    using cap.run_keeps [OF run ok] by (auto simp: system_ok_def acct_def)
  obtain x where x: "x \<in> set (hosts db)" "h_id x = i"
    using assms(1) by (auto simp: EnsureLegacyLifecycle_def dest: find_SomeD split: option.splits)
  then have g: "h_node_group_id x = None"
    using EnsureLegacyLifecycle_Inr [OF assms(1) system_okD(1) [OF ok]] by blast
  obtain y where y: "y \<in> set (hosts db')" "host_ev x y"
    using host_evo.row_later [OF store_evD(8) [OF ev(1)] x(1)] by blast
  show "h_id h = i \<longrightarrow> h_node_group_id h = None"
    using unique_key [of h_id "hosts db'" h y] ev(2) h y x(2) g by (auto simp: keys_ok_def host_ev_def)
qed

lemma UpdateState_run:
  assumes "EnsureLegacyLifecycle i db = Inr ()" "steps K db db1" "system_ok db"
    and "PostgresHostStore_UpdateState i s db1 = Inr db2"
  shows "steps K db db2"
  using steps_snoc [OF assms(2) cap_step.catalog_state] legacy_later [OF assms(1-3)] assms(4) by blast

lemma TransitionState_run:
  assumes "client_ok K env" "system_ok db"
  shows "steps K db (snd (TransitionState env i s db))"
proof -
  have st: "steps K d (env k d)" for k d using assms(1) by (simp add: client_ok_def)
  have ok: "system_ok (env 0 db)" using cap.run_inv [OF st assms(2)] .
  have 2: "steps K (env 0 db) (env 2 (env 1 (env 0 db)))"
    using rtranclp_trans [OF st [of "env 0 db" 1] st [of _ 2]] .
  have "steps K (env 0 db) db4" if "EnsureLegacyLifecycle i (env 0 db) = Inr ()"
    "PostgresHostStore_UpdateState i s (env 2 (env 1 (env 0 db))) = Inr db4" for db4
    using UpdateState_run [OF that(1) 2 ok that(2)] .
  then have "steps K (env 0 db) (snd (TransitionState env i s db))"
    unfolding TransitionState_def Let_def using st 2 by (auto split: sum.splits)
  then show ?thesis using st [of db 0] by (rule rtranclp_trans [rotated])
qed

end
