(* ===== verification/CapacityProtocol.thy ===== *)
theory CapacityProtocol
  imports CapacityControllers
begin

text \<open>
  What the store's clients rely on across calls (\<open>src/internal/capacity/store.go\<close>): every write
  under a lease is refused once a newer fence is stored, an accepted capacity request returns
  its recorded result however much later it is retried, and an admitted request always commits
  when the identifiers it draws are fresh.
\<close>

section \<open>Fenced writes\<close>

text \<open>
  Every write that carries an operation's owner and fence, as data, and what performing one does.
  Reads that are fenced too (\<open>CheckProvisionLease\<close>) leave the database alone.
\<close>

datatype fenced_write =
    WRenew int
  | WBeginLaunch
  | WSetDesiredVersion string
  | WSetState HostState HostState
  | WComplete
  | WFailure string
  | WReleaseProvision
  | WRecordLaunch string string "string list"
  | WCheckLease
  | WBind ProvisionBinding_t
  | WPin ExpectedHostState
  | WPrepareRelease string
  | WFinalize int string "error + unit"
  | WPhase ZoneBootstrapPhase bool
  | WDiscovery BootstrapStepResult
  | WRoute BootstrapStepResult
  | WReleaseBootstrap

fun perform :: "(string \<Rightarrow> string) \<Rightarrow> int \<Rightarrow> Operation \<Rightarrow> fenced_write \<Rightarrow> db \<Rightarrow> error + db" where
  "perform sha now op (WRenew d) db = Renew now op d db"
| "perform sha now op WBeginLaunch db = BeginLaunch now op db"
| "perform sha now op (WSetDesiredVersion v) db = SetProvisionDesiredVersion now op v db"
| "perform sha now op (WSetState a b) db = SetProvisionState now op a b db"
| "perform sha now op WComplete db = CompleteProvision now op db"
| "perform sha now op (WFailure c) db = RecordProvisionFailure now op c db"
| "perform sha now op WReleaseProvision db = ReleaseProvisionLease now op db"
| "perform sha now op (WRecordLaunch i ip ns) db = RecordLaunchWithAddress now op i ip ns db"
| "perform sha now op WCheckLease db = rbind (CheckProvisionLease now op db) (\<lambda>_. Inr db)"
| "perform sha now op (WBind b) db = BindProvisionNode sha now op b db"
| "perform sha now op (WPin e) db = rbind (PinProvisionExpectedState now op e db) (\<lambda>(_, db'). Inr db')"
| "perform sha now op (WPrepareRelease v) db = PrepareProvisionRelease now op v db"
| "perform sha now op (WFinalize t v rel) db = FinalizeProvision now t op v rel db"
| "perform sha now op (WPhase n ok) db = BootstrapPhase now op n ok db"
| "perform sha now op (WDiscovery v) db = SetClusterDiscovery now op v db"
| "perform sha now op (WRoute v) db = SetDominatorRoute now op v db"
| "perform sha now op WReleaseBootstrap db = ReleaseBootstrapLease now op db"

section \<open>Fresh identifiers\<close>

text \<open>
  What \<open>uuid.NewString\<close> promises: the identifiers of a transaction are distinct and none is
  in use.
\<close>

definition fresh_ids :: "(nat \<Rightarrow> string) \<Rightarrow> nat \<Rightarrow> db \<Rightarrow> bool" where
  "fresh_ids uuid k db \<longleftrightarrow> inj uuid \<and> (\<forall>j\<ge>k. uuid j \<notin> q_id ` set (capacity_requests db)
     \<union> h_id ` set (hosts db) \<union> o_id ` set (operations db) \<union> o_provider_token ` set (operations db)
     \<union> r_id ` set (infrastructure_reservations db) \<union> r_host_id ` set (infrastructure_reservations db))"

text \<open>The rows a provisioning intent refers to.\<close>

definition intent_ready :: "policy \<Rightarrow> string \<Rightarrow> db \<Rightarrow> bool" where
  "intent_ready p q db \<longleftrightarrow> g_zone_id (pol_group p) \<in> z_id ` set (zones db)
     \<and> (\<exists>g\<in>set (node_groups db). g_id g = g_id (pol_group p)
          \<and> g_node_pool_id g = g_node_pool_id (pol_group p) \<and> g_zone_id g = g_zone_id (pol_group p))
     \<and> q \<in> q_id ` set (capacity_requests db)
     \<and> 0 < g_vcpu (pol_group p) \<and> 0 < g_memory_mib (pol_group p)"

section \<open>Fencing\<close>

lemma perform_live:
  assumes "perform sha now op w db = Inr db'"
  shows "\<exists>r\<in>set (operations db). lease_live now op r"
proof (cases w)
  case (WPhase n ok)
  then show ?thesis using assms bootstrap_phase.fenced [of now op "(n, ok)" db] by auto
next
  case (WRecordLaunch i ip ns)
  then show ?thesis using assms record_launch.fenced [of now op "(i, ip, ns)" db] by auto
next
  case (WBind b)
  then show ?thesis using assms bind_node.fenced [of now op "(sha, b)" db] by auto
next
  case (WFinalize t v rel)
  then show ?thesis using assms finalize.fenced [of now op "(t, v, rel)" db] by auto
next
  case (WSetState a b)
  then show ?thesis using assms set_provision_state.fenced [of now op "(a, b)" db] by auto
qed (use assms in \<open>auto simp: result_simps elim: renew.fenced begin_launch.fenced set_desired_version.fenced
    complete_provision.fenced record_failure.fenced release_lease.fenced check_lease.fenced
    pin_state.fenced prepare_release.fenced set_discovery.fenced set_route.fenced
    release_bootstrap.fenced\<close>)

interpretation performing: fenced_call "\<lambda>now op (sha, w). perform sha now op w"
  by unfold_locales (auto dest: perform_live)

section \<open>Retries\<close>

lemma loadPolicy_Some:
  assumes "g \<in> set (node_groups db)" "g_id g = i" "p \<in> set (node_pools db)" "p_id p = g_node_pool_id g"
    "z \<in> set (zones db)" "z_id z = g_zone_id g" "c \<in> set (clusters db)" "c_id c = g_cluster_id g"
    "m \<in> set (cluster_zones db)" "m_cluster_id m = g_cluster_id g" "m_zone_id m = g_zone_id g"
  shows "\<exists>pol. loadPolicy db i = Inr pol"
proof -
  let ?L = "[\<lparr>pol_group = g, pol_limit = pool_limits p,
             pol_enabled = (g_lifecycle_state g = ''active'' \<and> p_enabled p \<and> z_enabled z
                \<and> z_lifecycle_state z = ''ready'' \<and> c_lifecycle_state c = ''ready''
                \<and> m_lifecycle_state m = ''ready'' \<and> m_access_state m = ''approved'')\<rparr>.
            g \<leftarrow> node_groups db, g_id g = i,
            p \<leftarrow> node_pools db, p_id p = g_node_pool_id g,
            z \<leftarrow> zones db, z_id z = g_zone_id g,
            c \<leftarrow> clusters db, c_id c = g_cluster_id g,
            m \<leftarrow> cluster_zones db, m_cluster_id m = g_cluster_id g \<and> m_zone_id m = g_zone_id g]"
  have "\<lparr>pol_group = g, pol_limit = pool_limits p,
      pol_enabled = (g_lifecycle_state g = ''active'' \<and> p_enabled p \<and> z_enabled z
        \<and> z_lifecycle_state z = ''ready'' \<and> c_lifecycle_state c = ''ready''
        \<and> m_lifecycle_state m = ''ready'' \<and> m_access_state m = ''approved'')\<rparr> \<in> set ?L"
    using assms by force
  then have "?L \<noteq> []" by (metis empty_iff empty_set)
  then show ?thesis unfolding loadPolicy_def by (cases ?L) auto
qed

lemma loadPolicy_later:
  assumes "loadPolicy db i = Inr pol" and ev: "store_ev db db'" and keys: "keys_ok db'"
  shows "\<exists>pol'. loadPolicy db' i = Inr pol' \<and> group_ev (pol_group pol) (pol_group pol')"
  using assms(1)
proof (cases rule: loadPolicy_Inr)
  case (1 p z c m)
  obtain g where g: "g \<in> set (node_groups db')" "group_ev (pol_group pol) g"
    using group_evo.row_later [OF store_evD(6) [OF ev] 1(1)] by blast
  obtain z' where z: "z' \<in> set (zones db')" "zone_ev z z'"
    using zone_evo.row_later [OF store_evD(2) [OF ev] 1(6)] by blast
  obtain c' where c: "c' \<in> set (clusters db')" "cluster_ev c c'"
    using cluster_evo.row_later [OF store_evD(3) [OF ev] 1(8)] by blast
  obtain m' where m: "m' \<in> set (cluster_zones db')" "membership_ev m m'"
    using membership_evo.row_later [OF store_evD(4) [OF ev] 1(10)] by blast
  have p: "p \<in> set (node_pools db')"
    using same_row.row_later [OF store_evD(5) [OF ev] 1(3)] by blast
  have z_id: "z_id z' = z_id z" using z(2) by (metis zone_ev_def zone_row.simps(1) zone_row.ext_inject zone_row.surjective zone_row.update_convs(9))
  have "g_id g = i" "p_id p = g_node_pool_id g" "z_id z' = g_zone_id g" "c_id c' = g_cluster_id g"
    "m_cluster_id m' = g_cluster_id g" "m_zone_id m' = g_zone_id g"
    using 1 g(2) z_id c(2) m(2) by (auto simp: group_ev_def cluster_ev_def membership_ev_def)
  from loadPolicy_Some [OF g(1) this(1) p this(2) z(1) this(3) c(1) this(4) m(1) this(5,6)]
  obtain pol' where pol': "loadPolicy db' i = Inr pol'" by blast
  then have "pol_group pol' \<in> set (node_groups db')" "g_id (pol_group pol') = i"
    by (auto elim: loadPolicy_Inr)
  then have "pol_group pol' = g"
    using g(1) \<open>g_id g = i\<close> keys unique_key [of g_id "node_groups db'"] by (auto simp: keys_ok_def)
  then show ?thesis using pol' g(2) by blast
qed

lemma find_unique:
  assumes "x \<in> set xs" "P x" "\<And>y. y \<in> set xs \<Longrightarrow> P y \<Longrightarrow> y = x"
  shows "find P xs = Some x"
proof (cases "find P xs")
  case None
  then show ?thesis using assms(1,2) by (auto simp: find_None_iff)
next
  case (Some y)
  then show ?thesis using assms(3) by (auto dest!: find_SomeD)
qed

lemma find_request_Some:
  assumes "keys_ok db" "q \<in> set (capacity_requests db)"
  shows "find_request db (q_group_id q) (q_request_id q) = Some q"
  unfolding find_request_def
proof (rule find_unique)
  fix y assume y: "y \<in> set (capacity_requests db)"
    "q_group_id y = q_group_id q \<and> q_request_id y = q_request_id q"
  show "y = q" using assms y unique_key [of "\<lambda>q. (q_group_id q, q_request_id q)" "capacity_requests db" y q]
    by (auto simp: keys_ok_def)
qed (use assms(2) in auto)

lemma SetTarget_stored:
  assumes "SetTarget uuid now req db = Inr (res, db1)"
  shows "\<exists>q\<in>set (capacity_requests db1). previous_request q = req
    \<and> res = target_result req (q_result_revision q)"
  using assms
proof (cases rule: SetTarget_cases)
  case (replay q)
  then show ?thesis by (auto simp: find_request_def dest!: find_SomeD)
next
  case (fresh p)
  then show ?thesis using apply_target_rows [OF fresh(5)]
    by (auto simp: request_row_of_def previous_request_def)
qed

lemma SetTarget_policy:
  assumes "SetTarget uuid now req db = Inr (res, db1)"
  shows "\<exists>p. loadPolicy db (cr_NodeGroupID req) = Inr p \<and> g_cluster_id (pol_group p) = cr_ClusterID req"
  using assms unfolding SetTarget_def by (auto simp: result_simps split: if_splits)

lemma SetTarget_again:
  assumes set: "SetTarget uuid now req db = Inr (res, db1)" and ok: "system_ok db" and run: "steps K db1 db2"
  shows "SetTarget uuid' now' req db2 = Inr (res, db2)"
proof -
  have 1: "store_ev db db1" "system_ok db1" using SetTarget_system [OF ok set] by auto
  have 2: "store_ev db1 db2" "system_ok db2" using cap.run_keeps [OF run 1(2)] by auto
  note keys = system_okD(1) [OF 2(2)]
  obtain p where p: "loadPolicy db (cr_NodeGroupID req) = Inr p" "g_cluster_id (pol_group p) = cr_ClusterID req"
    using SetTarget_policy [OF set] by blast
  obtain p2 where p2: "loadPolicy db2 (cr_NodeGroupID req) = Inr p2" "g_cluster_id (pol_group p2) = cr_ClusterID req"
    using loadPolicy_later [OF p(1) store_ev_trans [OF 1(1) 2(1)] keys] p(2) by (auto simp: group_ev_def)
  obtain q where q: "q \<in> set (capacity_requests db1)" "previous_request q = req"
    "res = target_result req (q_result_revision q)" using SetTarget_stored [OF set] by blast
  have "q \<in> set (capacity_requests db2)"
    using same_row.row_later [OF store_evD(7) [OF 2(1)] q(1)] by blast
  then have "find_request db2 (cr_NodeGroupID req) (cr_RequestID req) = Some q"
    using find_request_Some [OF keys] q(2) by (auto simp: previous_request_def)
  moreover have "\<not> (cr_NodeGroupID req = [] \<or> cr_RequestID req = [] \<or> cr_ClusterID req = []
         \<or> cr_TemplateRevision req = [] \<or> cr_DesiredTarget req < 0 \<or> cr_ExpectedTargetRevision req < 0)"
    using set by (auto simp: SetTarget_def split: if_splits)
  ultimately show ?thesis unfolding SetTarget_def using p2 q(2,3) by simp
qed

section \<open>Admitted requests commit\<close>

lemma fresh_idsD:
  assumes "fresh_ids uuid k db" "k \<le> j"
  shows "\<forall>q\<in>set (capacity_requests db). q_id q \<noteq> uuid j"
    "\<forall>h\<in>set (hosts db). h_id h \<noteq> uuid j"
    "\<forall>x\<in>set (operations db). o_id x \<noteq> uuid j"
    "\<forall>x\<in>set (operations db). o_provider_token x \<noteq> uuid j"
    "\<forall>r\<in>set (infrastructure_reservations db). r_id r \<noteq> uuid j"
    "\<forall>r\<in>set (infrastructure_reservations db). r_host_id r \<noteq> uuid j"
proof -
  have n: "uuid j \<notin> q_id ` set (capacity_requests db)
     \<union> h_id ` set (hosts db) \<union> o_id ` set (operations db) \<union> o_provider_token ` set (operations db)
     \<union> r_id ` set (infrastructure_reservations db) \<union> r_host_id ` set (infrastructure_reservations db)"
    using assms by (simp add: fresh_ids_def)
  then show "\<forall>q\<in>set (capacity_requests db). q_id q \<noteq> uuid j" by (simp add: image_iff) metis
  show "\<forall>h\<in>set (hosts db). h_id h \<noteq> uuid j" using n by (simp add: image_iff) metis
  show "\<forall>x\<in>set (operations db). o_id x \<noteq> uuid j" using n by (simp add: image_iff) metis
  show "\<forall>x\<in>set (operations db). o_provider_token x \<noteq> uuid j" using n by (simp add: image_iff) metis
  show "\<forall>r\<in>set (infrastructure_reservations db). r_id r \<noteq> uuid j" using n by (simp add: image_iff) metis
  show "\<forall>r\<in>set (infrastructure_reservations db). r_host_id r \<noteq> uuid j" using n by (simp add: image_iff) metis
qed

lemma provisionIntent_total:
  assumes "fresh_ids uuid k db" "intent_ready p q db"
  shows "provisionIntent uuid now p q v k db = Inr (db\<lparr>
     operations := operations db @ [provision_op p q v now (uuid k) (uuid (k + 1)) (uuid (k + 2))],
     hosts := hosts db @ [provision_host p now (uuid k) (uuid (k + 1))],
     infrastructure_reservations := infrastructure_reservations db @
       [provision_reservation p q now (uuid k) (uuid (k + 3))]\<rparr>)"
proof -
  let ?o = "provision_op p q v now (uuid k) (uuid (k + 1)) (uuid (k + 2))"
  let ?h = "provision_host p now (uuid k) (uuid (k + 1))"
  let ?r = "provision_reservation p q now (uuid k) (uuid (k + 3))"
  let ?d1 = "db\<lparr>operations := operations db @ [?o]\<rparr>"
  let ?d2 = "?d1\<lparr>hosts := hosts db @ [?h]\<rparr>"
  note f = fresh_idsD [OF assms(1)]
  have g: "g_id (pol_group p) \<in> g_id ` set (node_groups db)"
  proof -
    obtain g where "g \<in> set (node_groups db)" "g_id g = g_id (pol_group p)"
      using assms(2) unfolding intent_ready_def by blast
    then show ?thesis by (simp add: image_iff) metis
  qed
  have 1: "insert_operation ?o db = Inr ?d1"
    using assms(2) g f(3) [of "k + 1"] f(4) [of "k + 2"]
    by (auto simp: insert_operation_Inr provision_op_def op_check_def fk_def intent_ready_def)
  have 2: "insert_host ?h ?d1 = Inr ?d2"
    using assms(2) f(2) [of k]
    by (auto simp: insert_host_Inr provision_host_def provision_op_def host_group_fk_def fk_def
        intent_ready_def list_ex_iff)
  have 3: "insert_reservation ?r ?d2 = Inr (?d2\<lparr>infrastructure_reservations := infrastructure_reservations db @ [?r]\<rparr>)"
    using assms(2) g f(5) [of "k + 3"] f(6) [of k]
    by (auto simp: insert_reservation_Inr provision_reservation_def provision_host_def reservation_check_def
        intent_ready_def)
  show ?thesis unfolding provisionIntent_def Let_def using 1 2 3 by simp
qed

lemma provisionIntents_total:
  "fresh_ids uuid k db \<Longrightarrow> intent_ready p q db \<Longrightarrow> \<exists>db'. provisionIntents uuid now p q v k n db = Inr db'"
proof (induction n arbitrary: k db)
  case (Suc n)
  let ?db = "db\<lparr>
     operations := operations db @ [provision_op p q v now (uuid k) (uuid (k + 1)) (uuid (k + 2))],
     hosts := hosts db @ [provision_host p now (uuid k) (uuid (k + 1))],
     infrastructure_reservations := infrastructure_reservations db @
       [provision_reservation p q now (uuid k) (uuid (k + 3))]\<rparr>"
  have inj: "inj uuid" using Suc.prems(1) by (simp add: fresh_ids_def)
  have ne: "uuid j \<noteq> uuid i" if "k + 4 \<le> j" "i < k + 4" for i j
    using inj_eq [OF inj, of j i] that by simp
  have "fresh_ids uuid (k + 4) ?db"
    using Suc.prems(1) ne unfolding fresh_ids_def
    by (auto simp: provision_op_def provision_host_def provision_reservation_def)
  moreover have "intent_ready p q ?db" using Suc.prems(2) by (simp add: intent_ready_def)
  ultimately show ?case
    using Suc.IH provisionIntent_total [OF Suc.prems] by simp
qed simp

lemma cancelIntents_total:
  assumes "\<forall>i\<in>set ts. \<forall>r\<in>set (operations db). o_id r = o_id i \<longrightarrow> o_fence r < max_int64"
    and "distinct (map o_id ts)"
  shows "\<exists>db'. rfold (cancelIntent now) ts db = Inr db'"
  using assms
proof (induction ts arbitrary: db)
  case (Cons t ts)
  have ok: "\<not> list_ex (\<lambda>r. o_id r = o_id t \<and> o_fence r \<ge> max_int64) (operations db)"
    using Cons.prems(1) by (force simp: list_ex_iff)
  obtain db1 where db1: "cancelIntent now t db = Inr db1"
    and ops: "operations db1 = upd_where (\<lambda>r. o_id r = o_id t) (cancelled_op now) (operations db)"
    using ok by (simp add: cancelIntent_def)
  have "\<forall>i\<in>set ts. \<forall>r\<in>set (operations db1). o_id r = o_id i \<longrightarrow> o_fence r < max_int64"
    using Cons.prems unfolding ops upd_where_def by (force simp: cancelled_op_def)
  then show ?case using Cons.IH [of db1] Cons.prems(2) db1 by simp
qed simp

lemma cancelPending_total:
  assumes "keys_ok db" "\<forall>r\<in>set (operations db). o_fence r < max_int64"
  shows "\<exists>db'. cancelPending now gid n db = Inr db'"
proof -
  obtain db1 where "rfold (cancelIntent now) (cancel_intents db gid n) db = Inr db1"
    using cancelIntents_total [OF _ distinct_cancel_intents [OF assms(1)]] assms(2) by blast
  then show ?thesis by (simp add: cancelPending_def Let_def)
qed

lemma apply_target_total:
  assumes ok: "system_ok db" and pol: "loadPolicy db (cr_NodeGroupID req) = Inr p"
    and cluster: "g_cluster_id (pol_group p) = cr_ClusterID req"
    and new: "find_request db (cr_NodeGroupID req) (cr_RequestID req) = None"
    and admit: "admit_target req p db = Inr ()" and fresh: "fresh_ids uuid 0 db"
    and fences: "\<forall>r\<in>set (operations db). o_fence r < max_int64"
  shows "\<exists>db'. apply_target uuid now req p db = Inr db'"
proof -
  let ?g = "pol_group p" and ?rev = "i64 (g_target_revision (pol_group p) + 1)"
  let ?q = "request_row_of req (uuid 0) ?rev now"
  let ?d1 = "db\<lparr>capacity_requests := capacity_requests db @ [?q]\<rparr>"
  let ?f = "\<lambda>r. r\<lparr>g_target_nodes := cr_DesiredTarget req, g_target_revision := ?rev\<rparr>"
  let ?w = "\<lambda>r. g_id r = cr_NodeGroupID req"
  let ?d2 = "?d1\<lparr>node_groups := upd_where ?w ?f (node_groups db)\<rparr>"
  obtain z c where g: "?g \<in> set (node_groups db)" "g_id ?g = cr_NodeGroupID req"
    and z: "z \<in> set (zones db)" "z_id z = g_zone_id ?g"
    and c: "c \<in> set (clusters db)" "c_id c = g_cluster_id ?g"
    using loadPolicy_Inr [OF pol] by metis
  have gok: "group_ok ?g" using system_okD(2) [OF ok] g(1) by blast
  have rev: "?rev = g_target_revision ?g + 1" "g_min_nodes ?g \<le> cr_DesiredTarget req"
    "cr_DesiredTarget req \<le> g_max_nodes ?g"
    using admit gok by (auto elim!: admit_target_Inr simp: group_ok_def group_check_def in_i64_def max_int64_def intro!: i64_id)
  have only: "x = ?g" if "x \<in> set (node_groups db)" "g_id x = cr_NodeGroupID req" for x
    using that g system_okD(1) [OF ok] unique_key [of g_id "node_groups db" x ?g] by (simp add: keys_ok_def)
  have 1: "insert_request ?q db = Inr ?d1"
    unfolding insert_request_Inr using fresh_idsD(1) [OF fresh, of 0] new g z c cluster
    by (auto simp: request_row_of_def find_request_def find_None_iff image_iff intro: bexI [of _ ?g] bexI [of _ c])
  have 2: "update_groups ?w ?f ?d1 = Inr ?d2"
    using gok rev only by (auto simp: update_groups_def list_all_iff group_check_def group_ok_def)
  have free: "fresh_ids uuid 1 ?d2"
    using fresh unfolding fresh_ids_def by (auto simp: request_row_of_def inj_eq)
  have ready: "intent_ready p (uuid 0) ?d2"
    unfolding intent_ready_def
  proof (intro conjI)
    show "\<exists>x\<in>set (node_groups ?d2). g_id x = g_id ?g \<and> g_node_pool_id x = g_node_pool_id ?g
        \<and> g_zone_id x = g_zone_id ?g"
      using g by (intro bexI [of _ "?f ?g"]) (auto simp: upd_where_def image_iff intro!: bexI [of _ ?g])
  qed (use gok z in \<open>auto simp: group_ok_def group_check_def request_row_of_def image_iff intro!: bexI [of _ z]\<close>)
  let ?delta = "i64 (cr_DesiredTarget req - g_target_nodes ?g)"
  obtain db3 where 3: "provisionIntents uuid now p (uuid 0) ?rev 1 (nat ?delta) ?d2 = Inr db3"
    using provisionIntents_total [OF free ready] by blast
  show ?thesis
  proof (cases "?delta < 0")
    case True
    then have "db3 = ?d2" using 3 by simp
    moreover have "keys_ok ?d2"
      using system_okD(1) [OF ok] fresh_idsD(1) [OF fresh, of 0] new
      by (auto simp: keys_ok_def map_upd_where request_row_of_def find_request_def find_None_iff)
    ultimately have "\<exists>db'. cancelPending now (cr_NodeGroupID req) (nat (- ?delta)) db3 = Inr db'"
      using fences by (intro cancelPending_total) auto
    then show ?thesis unfolding apply_target_def Let_def using 1 2 3 True by simp
  next
    case False
    then show ?thesis unfolding apply_target_def Let_def using 1 2 3 by simp
  qed
qed

section \<open>Bootstrap retries\<close>

lemma bootstrap_found:
  assumes "(b, r) \<in> set (bootstrap_join db)" "keys_ok db"
    and "\<And>x. x \<in> set (zone_bootstrap_operations db) \<Longrightarrow> zb_request_id x = zb_request_id b \<Longrightarrow> x = b"
  shows "find (\<lambda>(x, _). zb_request_id x = zb_request_id b) (bootstrap_join db) = Some (b, r)"
proof (rule find_unique [OF assms(1)])
  fix y assume y: "y \<in> set (bootstrap_join db)" "case y of (x, _) \<Rightarrow> zb_request_id x = zb_request_id b"
  obtain x s where xs: "y = (x, s)" by force
  have "x = b" using bootstrap_joinD [of x s db] assms(3) y xs by auto
  moreover have "s = r"
    using bootstrap_joinD [of x s db] bootstrap_joinD [OF assms(1)] y(1) xs \<open>x = b\<close> assms(2)
      unique_key [of o_id "operations db" s r] by (auto simp: keys_ok_def)
  ultimately show "y = (b, r)" using xs by simp
qed simp

lemma CreateBootstrap_again:
  assumes "CreateBootstrap uuid now K decode inp db = Inr (i, db1)" "keys_ok db1"
  shows "CreateBootstrap uuid' now' K' decode' inp db1 = Inr (i, db1)"
  using assms(1)
proof (cases "find (\<lambda>(b, r). zb_request_id b = Some (br_RequestID inp)) (bootstrap_join db)")
  case (Some x)
  then show ?thesis using assms(1) by (auto simp: CreateBootstrap_def split: if_splits prod.splits)
next
  case None
  have valid: "br_Kind inp = ''create_cluster'' \<and> br_RequestID inp \<noteq> [] \<and> br_ClusterID inp \<noteq> [] \<and> br_ZoneID inp \<noteq> []
      \<and> safeBootstrapParameters (br_Parameters inp)"
    using assms(1) by (auto simp: CreateBootstrap_def split: if_splits)
  from assms(1) show ?thesis
  proof (cases rule: CreateBootstrap_cases)
    case (replay b r)
    then show ?thesis using None by (auto simp: find_None_iff)
  next
    case (fresh fz d1 d2)
    let ?o = "bootstrap_op inp (raw_value (br_Parameters inp)) now (uuid 0) (uuid 1)"
    let ?b = "\<lparr>zb_operation_id = uuid 0, zb_zone_id = br_ZoneID inp, zb_cluster_id = Some (br_ClusterID inp),
        zb_request_id = Some (br_RequestID inp), zb_phase = ZoneRequested\<rparr>"
    have rows: "operations db1 = operations d1 @ [?o]" "zone_bootstrap_operations db1 = zone_bootstrap_operations d2 @ [?b]"
      "\<forall>x\<in>set (zone_bootstrap_operations d2). zb_request_id x \<noteq> Some (br_RequestID inp)"
      using fresh(3,4) by (auto simp: insert_operation_Inr insert_bootstrap_def list_ex_iff split: if_splits)
    have "(?b, ?o) \<in> set (bootstrap_join db1)"
      by (auto simp: bootstrap_join_def rows bootstrap_op_def)
    then have "find (\<lambda>(x, _). zb_request_id x = zb_request_id ?b) (bootstrap_join db1) = Some (?b, ?o)"
      by (rule bootstrap_found [OF _ assms(2)]) (use rows in auto)
    then show ?thesis using valid fresh(5)
      by (simp add: CreateBootstrap_def bootstrap_op_def params_value_def)
  qed
qed

end
