(* ===== verification/CapacityReady.thy ===== *)
theory CapacityReady
  imports CapacityProtocol
begin

text \<open>
  How a managed worker becomes \<open>READY\<close>: of all the transactions of the store only
  \<open>FinalizeProvision\<close> (\<open>src/internal/capacity/provision_handoff.go\<close>) makes one so.  The lemmas go
  through the steps of \<open>cap_step\<close> and show which leave the hosts alone and which change them
  without entering that state.
\<close>

text \<open>A managed host that is \<open>READY\<close> afterwards was so before.\<close>

definition ready_kept :: "db \<Rightarrow> db \<Rightarrow> bool" where
  "ready_kept db db' \<longleftrightarrow> (\<forall>h'\<in>set (hosts db'). h_state h' = HostReady \<and> h_node_group_id h' \<noteq> None \<longrightarrow>
     (\<exists>h\<in>set (hosts db). h_id h = h_id h' \<and> h_node_group_id h = h_node_group_id h' \<and> h_state h = HostReady))"

section \<open>Lemmas\<close>

lemma ready_kept_same: "hosts db' = hosts db \<Longrightarrow> ready_kept db db'"
  by (auto simp: ready_kept_def)

lemma ready_kept_trans: "ready_kept a b \<Longrightarrow> ready_kept b c \<Longrightarrow> ready_kept a c"
  unfolding ready_kept_def by metis

lemma ready_kept_update:
  assumes "hosts db' = upd_where w f (hosts db) @ new"
    and "\<And>h. h \<in> set (hosts db) \<Longrightarrow> w h \<Longrightarrow> h_id (f h) = h_id h \<and> h_node_group_id (f h) = h_node_group_id h
          \<and> (h_state (f h) = HostReady \<longrightarrow> h_node_group_id h \<noteq> None \<longrightarrow> h_state h = HostReady)"
    and "\<And>h. h \<in> set new \<Longrightarrow> h_state h \<noteq> HostReady \<or> h_node_group_id h = None"
  shows "ready_kept db db'"
  using assms(2,3) unfolding ready_kept_def assms(1) by (auto simp: set_upd_where)

lemma ready_kept_updates:
  assumes "hosts db' = upd_where w f (hosts db)"
    and "\<And>h. h \<in> set (hosts db) \<Longrightarrow> w h \<Longrightarrow> h_id (f h) = h_id h \<and> h_node_group_id (f h) = h_node_group_id h
          \<and> (h_state (f h) = HostReady \<longrightarrow> h_node_group_id h \<noteq> None \<longrightarrow> h_state h = HostReady)"
  shows "ready_kept db db'"
  using ready_kept_update [of db' w f db "[]"] assms by simp

lemma ready_kept_new:
  assumes "hosts db' = hosts db @ new"
    and "\<And>h. h \<in> set new \<Longrightarrow> h_state h \<noteq> HostReady \<or> h_node_group_id h = None"
  shows "ready_kept db db'"
  using assms unfolding ready_kept_def by auto

lemma fenced_ops_hosts: "fenced_ops w f db = Inr db' \<Longrightarrow> hosts db' = hosts db"
  by (auto simp: fenced_ops_Inr)

lemma fenced_hosts_kept:
  assumes "fenced_hosts w f db = Inr db'"
    and "\<And>r h. r \<in> set (operations db) \<Longrightarrow> w r h \<Longrightarrow> h_id (f h) = h_id h \<and> h_node_group_id (f h) = h_node_group_id h
          \<and> (h_state (f h) = HostReady \<longrightarrow> h_node_group_id h \<noteq> None \<longrightarrow> h_state h = HostReady)"
  shows "ready_kept db db'"
proof (rule ready_kept_updates)
  show "hosts db' = upd_where (\<lambda>h. \<exists>r\<in>set (operations db). w r h) f (hosts db)"
    using assms(1) by (simp add: fenced_hosts_Inr)
qed (use assms(2) in blast)

lemma cancelPending_kept:
  assumes "cancelPending now gid n db = Inr db'"
  shows "ready_kept db db'"
proof -
  obtain db1 xs where 1: "rfold (cancelIntent now) xs db = Inr db1"
    "db' = db1 \<or> (\<exists>m. db' = mark_excess gid m db1)"
    using assms by (auto simp: cancelPending_def Let_def result_simps split: if_splits)
  have "ready_kept db db1"
  proof (rule rfold_inv [OF 1(1)])
    fix i s t assume "cancelIntent now i s = Inr t" and k: "ready_kept db s"
    then have "hosts t = upd_where (\<lambda>h. o_host_id i = Some (h_id h)) (terminated_host now) (hosts s)"
      by (auto simp: cancelIntent_def split: if_splits)
    then have "ready_kept s t" by (rule ready_kept_updates) (simp add: terminated_host_def)
    then show "ready_kept db t" using k ready_kept_trans by blast
  qed (simp add: ready_kept_same)
  moreover have "ready_kept db1 (mark_excess gid m db1)" for m
    by (rule ready_kept_updates [of _ "\<lambda>h. h_id h \<in> h_id ` set (order_limit newest_first m (filter (excess_candidate db1 gid) (hosts db1)))"
          "\<lambda>h. h\<lparr>h_excess_capacity := True\<rparr>"]) (simp_all add: mark_excess_def Let_def)
  ultimately show ?thesis using 1(2) ready_kept_trans by blast
qed

lemma SetTarget_kept:
  assumes "SetTarget uuid now req db = Inr (res, db')"
  shows "ready_kept db db'"
  using assms
proof (cases rule: SetTarget_cases)
  case (fresh p)
  from fresh(5) show ?thesis
  proof (cases rule: apply_target_Inr)
    case (1 db1 db2 db3)
    have "hosts db2 = hosts db" using 1(1,2) by (auto simp: insert_request_Inr update_groups_Inr)
    moreover have "hosts db3 = hosts db2 @ intent_hosts uuid now p 1 (nat (i64 (cr_DesiredTarget req - g_target_nodes (pol_group p))))"
      using provisionIntents_Inr [OF 1(3)] by simp
    ultimately have "ready_kept db db3"
      by (intro ready_kept_new) (auto simp: intent_hosts_def provision_host_def)
    then show ?thesis using 1(4) cancelPending_kept ready_kept_trans by (auto split: if_splits)
  qed
qed (simp add: ready_kept_same)

lemma topology_hosts:
  "hosts (snd (createZone K z l db)) = hosts db"
  "hosts (snd (createCluster c l s db)) = hosts db"
  "hosts (snd (createMembership m s db)) = hosts db"
  "hosts (snd (createPool p db)) = hosts db"
  "hosts (snd (createGroup K g db)) = hosts db"
proof -
  show "hosts (snd (createZone K z l db)) = hosts db"
    by (auto simp: createZone_def Let_def immutableInsert_def insert_zone_def zone_region_trigger_def rbind_def
        split: sum.splits option.splits if_splits)
  show "hosts (snd (createCluster c l s db)) = hosts db"
    by (auto simp: createCluster_def immutableInsert_def insert_cluster_def split: option.splits)
  show "hosts (snd (createMembership m s db)) = hosts db"
    by (auto simp: createMembership_def immutableInsert_def insert_membership_def split: option.splits sum.splits)
  show "hosts (snd (createPool p db)) = hosts db"
    by (auto simp: createPool_def immutableInsert_def insert_pool_def split: option.splits)
  show "hosts (snd (createGroup K g db)) = hosts db"
    by (auto simp: createGroup_def immutableInsert_def insert_group_def split: option.splits)
qed

lemma txn_hosts: "txn f db = Inr db' \<Longrightarrow> hosts (snd (f db)) = hosts db \<Longrightarrow> hosts db' = hosts db"
  by (auto dest: txn_Inr)

lemma seed_hosts_same:
  assumes "seedFirstZoneTx K f ready db = Inr db'"
  shows "hosts db' = hosts db"
  using assms
proof (cases rule: seedFirstZoneTx_Inr)
  case (1 g l m db1 db2 db3 db4)
  show ?thesis using 1(2-6) [THEN txn_hosts] by (simp add: topology_hosts)
qed

lemma removal_hosts:
  "CreateRemoval uuid now cluster expected rm db = Inr (i, db') \<Longrightarrow> hosts db' = hosts db"
  "CreateAutoscalerRemovals uuid now cluster rq db = Inr db' \<Longrightarrow> hosts db' = hosts db"
proof -
  show "CreateRemoval uuid now cluster expected rm db = Inr (i, db') \<Longrightarrow> hosts db' = hosts db"
    by (erule CreateRemoval_Inr)
      (auto simp: update_groups_Inr insert_operation_Inr insert_removal_Inr split: if_splits)
  assume "CreateAutoscalerRemovals uuid now cluster rq db = Inr db'"
  then show "hosts db' = hosts db"
    by (cases rule: CreateAutoscalerRemovals_cases) (auto simp: update_groups_Inr elim!: insert_removals_Inr)
qed

lemma bootstrap_hosts:
  "CreateBootstrap uuid now K decode inp db = Inr (i, db') \<Longrightarrow> hosts db' = hosts db"
  "BootstrapPhase now op n v db = Inr db' \<Longrightarrow> hosts db' = hosts db"
  "SetClusterDiscovery now op bs db = Inr db' \<Longrightarrow> hosts db' = hosts db"
  "SetDominatorRoute now op bs db = Inr db' \<Longrightarrow> hosts db' = hosts db"
  "ReleaseBootstrapLease now op db = Inr db' \<Longrightarrow> hosts db' = hosts db"
proof -
  assume "CreateBootstrap uuid now K decode inp db = Inr (i, db')"
  then show "hosts db' = hosts db"
  proof (cases rule: CreateBootstrap_cases)
    case (fresh fz db1 db2)
    then show ?thesis using seed_hosts_same [OF fresh(2)]
      by (auto simp: insert_operation_Inr insert_bootstrap_def split: if_splits)
  qed simp
next
  assume "BootstrapPhase now op n v db = Inr db'"
  then show "hosts db' = hosts db"
  proof (cases rule: BootstrapPhase_Inr)
    case (1 b r db1)
    have "hosts db1 = hosts db"
      using 1(8) by (auto simp: bootstrap_ready_Inr split: ZoneBootstrapPhase.splits option.splits)
    then show ?thesis unfolding 1(9) by (simp add: finish_op_def set_phase_def)
  qed
next
  show "SetClusterDiscovery now op bs db = Inr db' \<Longrightarrow> hosts db' = hosts db"
    by (auto simp: SetClusterDiscovery_def Let_def result_simps split: if_splits)
  show "SetDominatorRoute now op bs db = Inr db' \<Longrightarrow> hosts db' = hosts db"
    by (auto simp: SetDominatorRoute_def split: if_splits option.splits prod.splits)
  show "ReleaseBootstrapLease now op db = Inr db' \<Longrightarrow> hosts db' = hosts db"
    by (auto simp: ReleaseBootstrapLease_def dest!: fenced_ops_hosts split: if_splits)
qed

lemma lease_hosts:
  "Claim now zone kind owner d db = Inr (op, db') \<Longrightarrow> hosts db' = hosts db"
  "ClaimDominator now zone kind owner d db = Inr (op, db') \<Longrightarrow> hosts db' = hosts db"
  "Renew now op d db = Inr db' \<Longrightarrow> hosts db' = hosts db"
  "BeginLaunch now op db = Inr db' \<Longrightarrow> hosts db' = hosts db"
  "CompleteProvision now op db = Inr db' \<Longrightarrow> hosts db' = hosts db"
  "RecordProvisionFailure now op c db = Inr db' \<Longrightarrow> hosts db' = hosts db"
  "ReleaseProvisionLease now op db = Inr db' \<Longrightarrow> hosts db' = hosts db"
  "BindProvisionNode sha now op b db = Inr db' \<Longrightarrow> hosts db' = hosts db"
  "PrepareProvisionRelease now op v db = Inr db' \<Longrightarrow> hosts db' = hosts db"
  "UpdateClusterZone m db = Inr db' \<Longrightarrow> hosts db' = hosts db"
  "UpdateNodeGroupScheduling K i e v t l db = Inr db' \<Longrightarrow> hosts db' = hosts db"
  by (auto simp: Claim_def ClaimDominator_def Renew_def BeginLaunch_def CompleteProvision_def
      RecordProvisionFailure_def ReleaseProvisionLease_def BindProvisionNode_def PrepareProvisionRelease_def
      UpdateClusterZone_def UpdateNodeGroupScheduling_def fencedResult_def Let_def result_simps
      dest!: fenced_ops_hosts elim!: claim_Inr split: if_splits option.splits list.splits prod.splits)

lemma provision_kept:
  "SetProvisionDesiredVersion now op v db = Inr db' \<Longrightarrow> ready_kept db db'"
  "SetProvisionState now op s t db = Inr db' \<Longrightarrow> ready_kept db db'"
  "PinProvisionExpectedState now op e db = Inr (p, db') \<Longrightarrow> ready_kept db db'"
  "RecordLaunchWithAddress now op i ip ns db = Inr db' \<Longrightarrow> ready_kept db db'"
proof -
  show "SetProvisionDesiredVersion now op v db = Inr db' \<Longrightarrow> ready_kept db db'"
    by (auto simp: SetProvisionDesiredVersion_def elim!: fenced_hosts_kept split: if_splits)
  have "allowed_handoff s \<noteq> Some HostReady" by (cases s) auto
  then show "SetProvisionState now op s t db = Inr db' \<Longrightarrow> ready_kept db db'"
    by (auto simp: SetProvisionState_def elim!: fenced_hosts_kept split: if_splits)
next
  assume "PinProvisionExpectedState now op e db = Inr (p, db')"
  then have "hosts db' = upd_where (\<lambda>h. h_id h = op_HostID op) (\<lambda>h. h\<lparr>h_desired_state_version := eh_Version p\<rparr>) (hosts db)"
    by (auto simp: PinProvisionExpectedState_def Let_def split: if_splits option.splits)
  then show "ready_kept db db'" by (rule ready_kept_updates) simp
next
  assume "RecordLaunchWithAddress now op i ip ns db = Inr db'"
  then show "ready_kept db db'"
  proof (cases rule: RecordLaunchWithAddress_Inr)
    case (1 db1 n endpoint)
    have "hosts db' = upd_where (launch_hit db1 (op_HostID op) i n) (launched_host db1 now i endpoint n) (hosts db)"
      using fenced_ops_hosts [OF 1(1)] by (simp add: 1(3))
    then show ?thesis by (rule ready_kept_updates) (auto simp: launched_host_def split: if_splits)
  qed
qed

lemma agent_kept:
  "RecordBootstrapHost now op bs db = Inr db' \<Longrightarrow> ready_kept db db'"
  "SeedHosts name td zone zid clock hs db = Inr db' \<Longrightarrow> ready_kept db db'"
  "ready_kept db (Observe i v now db)"
proof -
  have up: "ready_kept db (upsert_bootstrap_host (bootstrap_host op bs now) db)"
  proof (cases "list_ex (\<lambda>h. h_id h = h_id (bootstrap_host op bs now)) (hosts db)")
    case True
    then show ?thesis unfolding upsert_bootstrap_host_def
      by (simp add: ready_kept_def set_upd_where) (auto simp: set_upd_where)
  next
    case False
    then show ?thesis
      by (intro ready_kept_new [of _ _ "[bootstrap_host op bs now]"])
        (auto simp: upsert_bootstrap_host_def bootstrap_host_def)
  qed
  then show "RecordBootstrapHost now op bs db = Inr db' \<Longrightarrow> ready_kept db db'"
    by (auto simp: RecordBootstrapHost_def Let_def split: if_splits option.splits)
  show "ready_kept db (Observe i v now db)"
    unfolding Observe_def by (auto simp: ready_kept_def set_upd_where)
  assume "SeedHosts name td zone zid clock hs db = Inr db'"
  then obtain db1 where
    1: "rfold (\<lambda>(k, a). seed_host (agent_row name zone (clock k) a)) (List.enumerate 0 hs) db = Inr db1" and
    2: "rfold (\<lambda>a. seed_route zone (''https://'' @ ah_PrivateIP a @ '':44000'')
            (''spiffe://'' @ td @ ''/dominator/'' @ zid)) (filter (\<lambda>a. ah_Role a = ''platform'') hs) db1 = Inr db'"
    by (auto simp: SeedHosts_def result_simps split: if_splits)
  have "ready_kept db db1"
  proof (rule rfold_inv [OF 1])
    fix x s t assume "(case x of (k, a) \<Rightarrow> seed_host (agent_row name zone (clock k) a)) s = Inr t" and k: "ready_kept db s"
    then have "ready_kept s t"
      by (cases x) (auto simp: ready_kept_def agent_row_def dest!: seed_host_Inr)
    then show "ready_kept db t" using k ready_kept_trans by blast
  qed (simp add: ready_kept_same)
  moreover have "hosts db' = hosts db1"
    by (rule rfold_inv [OF 2]) (auto simp: seed_route_def split: option.splits if_splits)
  ultimately show "ready_kept db db'" by (simp add: ready_kept_def)
qed

lemma catalog_kept:
  "PostgresHostStore_Create h db = Inr db' \<Longrightarrow> ready_kept db db'"
  "\<forall>h\<in>set (hosts db). h_id h = i \<longrightarrow> h_node_group_id h = None \<Longrightarrow>
     PostgresHostStore_UpdateState i st db = Inr db' \<Longrightarrow> ready_kept db db'"
  "ready_kept db (PostgresHostStore_UpdateHealth i health db)"
  "ready_kept db (PostgresHostStore_UpdateProviderID i pid db)"
  "ready_kept db (PostgresHostStore_UpdateLastSeenHeartbeat i t db)"
  "ready_kept db (PostgresHostStore_UpdateDBConnectionInfo i conn db)"
  by (auto simp: PostgresHostStore_Create_def PostgresHostStore_UpdateState_def PostgresHostStore_UpdateHealth_def
      PostgresHostStore_UpdateProviderID_def PostgresHostStore_UpdateLastSeenHeartbeat_def
      PostgresHostStore_UpdateDBConnectionInfo_def insert_host_Inr ready_kept_def set_upd_where catalog_row_def
      split: option.splits if_splits)

lemmas same_hosts = lease_hosts bootstrap_hosts removal_hosts seed_hosts_same topology_hosts
lemmas step_kept = SetTarget_kept provision_kept agent_kept catalog_kept same_hosts [THEN ready_kept_same]

lemma ready_step:
  assumes "cap_step K db db'"
  shows "ready_kept db db' \<or> (\<exists>now1 now2 op v rel. FinalizeProvision now1 now2 op v rel db = Inr db')"
  using assms
proof (induction rule: cap_step.induct)
  case (finalize now1 now2 op v rel db db')
  then show ?case by blast
qed (auto simp: CreateZone_def CreateCluster_op_def CreateClusterZone_def CreateNodePool_def CreateNodeGroup_def
    intro: step_kept)

text \<open>A managed worker reaches \<open>READY\<close> only through the validated hand-off.\<close>

lemma new_ready_finalized:
  assumes "cap_step K db db'" "keys_ok db" "h' \<in> set (hosts db')" "h_state h' = HostReady"
    "h_node_group_id h' \<noteq> None" "h \<in> set (hosts db)" "h_id h = h_id h'" "h_state h \<noteq> HostReady"
  obtains now1 now2 op v where "FinalizeProvision now1 now2 op v (Inr ()) db = Inr db'"
proof -
  have "\<not> ready_kept db db'"
  proof
    assume "ready_kept db db'"
    then obtain x where "x \<in> set (hosts db)" "h_id x = h_id h'" "h_state x = HostReady"
      using assms(3-5) unfolding ready_kept_def by blast
    then show False
      using assms(2,6-8) unique_key [of h_id "hosts db" x h] by (simp add: keys_ok_def)
  qed
  then obtain now1 now2 op v rel where f: "FinalizeProvision now1 now2 op v rel db = Inr db'"
    using ready_step [OF assms(1)] by blast
  then have "rel = Inr ()" by (rule FinalizeProvision_Inr)
  then show thesis using f that by blast
qed

lemma fenced_hosts_changed:
  assumes "fenced_hosts w f db = Inr db'" "keys_ok db" "\<And>x. h_id (f x) = h_id x"
    "h' \<in> set (hosts db')" "h \<in> set (hosts db)" "h_id h = h_id h'" "h' \<noteq> h"
  shows "\<exists>r\<in>set (operations db). w r h"
proof -
  let ?hit = "\<lambda>h. \<exists>r\<in>set (operations db). w r h"
  have "h' \<in> set (upd_where ?hit f (hosts db))" using assms(1,4) by (simp add: fenced_hosts_Inr)
  from in_upd_where [OF this] obtain g where g: "g \<in> set (hosts db)" "h' = (if ?hit g then f g else g)" by blast
  have "h_id g = h_id h" using g(2) assms(3,6) by (simp split: if_splits)
  then have "g = h" using g(1) assms(2,5) unique_key [of h_id "hosts db" g h] by (simp add: keys_ok_def)
  then show ?thesis using g(2) assms(7) by (simp split: if_splits)
qed

lemma finalize_host:
  assumes "FinalizeProvision now1 now2 op v rel db = Inr db'" "keys_ok db"
    "h' \<in> set (hosts db')" "h \<in> set (hosts db)" "h_id h = h_id h'" "h' \<noteq> h"
  shows "\<exists>r\<in>set (operations db). finalize_row now1 op v db r \<and> op_HostID op = h_id h'"
  using assms(1)
proof (cases rule: FinalizeProvision_Inr)
  case (1 r db1)
  have "h' \<in> set (hosts db1)" using assms(3) fenced_ops_hosts [OF 1(5)] by simp
  from fenced_hosts_changed [OF 1(4) assms(2) _ this assms(4-6)]
  obtain x where x: "x \<in> set (operations db)" "o_id x = op_ID op" "o_host_id x = Some (h_id h)" by auto
  have r: "o_id r = op_ID op" "o_host_id r = Some (op_HostID op)"
    using 1(2) by (simp_all add: finalize_row_def lease_live_def)
  have "x = r" using x(1,2) 1(1) r(1) assms(2) unique_key [of o_id "operations db" x r] by (simp add: keys_ok_def)
  then have "op_HostID op = h_id h'" using x(3) r(2) assms(5) by simp
  then show ?thesis using 1(1,2) by blast
qed

end
