(* ===== verification/Scenario.thy ===== *)
theory Scenario
  imports CapacityReady
begin

text \<open>
  Two concrete runs of the model, evaluated inside the logic.  The states \<open>w0\<close> to \<open>w5\<close> seed a
  first zone, register its bootstrap hosts, admit a target of two workers and drive the first
  worker to \<open>READY\<close> in three controller passes; the states \<open>x0\<close>, \<open>x1\<close>, \<open>x5\<close> and \<open>x6\<close> admit a cluster bootstrap
  and drive it to \<open>ZoneReady\<close> in six.  The witnesses of the properties instantiate them here.
\<close>

section \<open>Inputs\<close>

definition demo_K :: k8s_validation where
  "demo_K = \<lparr>IsQualifiedName = (\<lambda>s. s \<noteq> [] \<and> length s \<le> 63), IsValidLabelValue = (\<lambda>s. length s \<le> 63),
     IsDNS1123Label = (\<lambda>s. s \<noteq> [] \<and> length s \<le> 63), IsDNS1123Subdomain = (\<lambda>s. s \<noteq> [] \<and> length s \<le> 253),
     IsConfigMapKey = (\<lambda>s. s \<noteq> [] \<and> length s \<le> 253)\<rparr>"

definition demo_sha :: "string \<Rightarrow> string" where
  "demo_sha s = take 32 (s @ replicate 32 CHR ''x'')"

definition demo_uuid :: "string \<Rightarrow> nat \<Rightarrow> string" where
  "demo_uuid s n = s @ replicate n CHR ''-''"

definition demo_zone :: ZoneInput where
  "demo_zone = \<lparr>zi_ID = ''z'', zi_Provider = ''aws'', zi_AccountID = ''1'', zi_Region = ''r'',
     zi_ProviderZoneID = ''a'', zi_KubernetesRegion = [], zi_KubernetesZone = []\<rparr>"

definition demo_cluster :: ClusterInput where
  "demo_cluster = \<lparr>ci_ID = ''c'', ci_APIServerEndpoint = [], ci_CACertHash = [], ci_KubeadmVersion = ''v1'',
     ci_KubeletVersion = ''v1'', ci_ContainerRuntime = ''cri'', ci_CNI = ''cilium''\<rparr>"

definition demo_scheduling :: SchedulingTemplate where
  "demo_scheduling = \<lparr>st_InstanceType = ''t'', st_Architecture = ''amd64'', st_Region = ''r'',
     st_Zone = ''a'', st_Labels = [], st_Taints = []\<rparr>"

definition demo_group :: NodeGroupInput where
  "demo_group = \<lparr>gi_Naming = \<lparr>nm_Provider = ''aws'', nm_DevelopmentStage = ''d'', nm_Region = ''r'',
       nm_AZ = ''a'', nm_Group = ''g''\<rparr>, gi_ID = [], gi_ClusterID = ''c'', gi_NodePoolID = ''p'',
     gi_ZoneID = ''z'', gi_CapacityClass = ''w'', gi_ProviderZoneID = ''a'', gi_MinNodes = 0,
     gi_MaxNodes = 3, gi_TemplateRevision = ''t1'',
     gi_PerNode = \<lparr>res_VCPU = 2, res_MemoryMiB = 4, res_Nodes = 1\<rparr>,
     gi_LaunchParameters = Raw (JObj [(''image_id'', JStr ''i'')]), gi_Scheduling = demo_scheduling\<rparr>"

definition demo_first_zone :: FirstZoneInput where
  "demo_first_zone = \<lparr>fz_Zone = demo_zone, fz_Cluster = demo_cluster,
     fz_Membership = \<lparr>cz_ClusterID = ''c'', cz_ZoneID = ''z'', cz_LifecycleState = [], cz_AccessState = []\<rparr>,
     fz_Pool = \<lparr>pi_ID = ''p'', pi_Limits = \<lparr>res_VCPU = 4, res_MemoryMiB = 8, res_Nodes = 2\<rparr>\<rparr>,
     fz_Group = demo_group\<rparr>"

definition demo_agents :: "bootstrapAgentHost list" where
  "demo_agents = [\<lparr>ah_ID = ''i-00000001'', ah_PrivateIP = ''10.0.0.1'', ah_Role = ''spire'', ah_AMI = ''m''\<rparr>,
     \<lparr>ah_ID = ''i-00000002'', ah_PrivateIP = ''10.0.0.2'', ah_Role = ''platform'', ah_AMI = ''m''\<rparr>]"

definition demo_request :: CapacityRequest where
  "demo_request = \<lparr>cr_NodeGroupID = ''aws-d-r-a-g'', cr_RequestID = ''q1'', cr_ClusterID = ''c'',
     cr_ExpectedTargetRevision = 0, cr_DesiredTarget = 2, cr_TemplateRevision = ''t1''\<rparr>"

text \<open>The value a computation ends in; the empty store stands for a failed one.\<close>

definition final :: "error + db \<Rightarrow> db" where
  "final x = (case x of Inl _ \<Rightarrow> empty_db | Inr db \<Rightarrow> db)"

section \<open>A first zone and its workers\<close>

definition w0 :: db where
  "w0 = final (seedFirstZoneTx demo_K demo_first_zone True empty_db)"

definition w1 :: db where
  "w1 = final (SeedHosts ''n'' ''td'' ''z'' ''z'' int demo_agents w0)"

definition w2 :: db where
  "w2 = final (map_sum id snd (SetTarget (demo_uuid ''u'') 10 demo_request w1))"

definition demo_identity :: string where
  "demo_identity = ''spiffe://td/dominator/z''"

definition demo_claim :: "Operation \<times> db" where
  "demo_claim = (case ClaimDominator 20 ''z'' Provision demo_identity 60000000000 w2 of Inr x \<Rightarrow> x)"

definition demo_binding :: "Operation \<Rightarrow> ProvisionBinding_t" where
  "demo_binding op = \<lparr>pb_NodeName = WorkerNodeName demo_sha (op_HostID op), pb_NodeUID = ''n1'',
     pb_ProviderID = ''aws:///a/i-9'', pb_ContractHash = replicate 64 CHR ''0'',
     pb_ReleaseStarted = False, pb_ExpectedState = zero_expected\<rparr>"

definition demo_expected :: ExpectedHostState where
  "demo_expected = zero_expected\<lparr>eh_Revision := 1, eh_Version := ''s1''\<rparr>"

definition demo_enroll :: "int \<Rightarrow> Operation \<Rightarrow> db \<Rightarrow> (error + unit) \<times> db" where
  "demo_enroll t op db =
     (case BindProvisionNode demo_sha t op (demo_binding op) db of
        Inl e \<Rightarrow> (Inl e, db)
      | Inr db1 \<Rightarrow> (case PinProvisionExpectedState t op demo_expected db1 of
            Inl e \<Rightarrow> (Inl e, db1) | Inr (_, db2) \<Rightarrow> (Inr (), db2)))"

definition demo_executor :: "int \<Rightarrow> ProvisionExecutor" where
  "demo_executor t = \<lparr>pe_Launch = (\<lambda>op db. (Inr \<lparr>pv_KubernetesProviderID = ''aws:///a/i-9'',
       pv_ProviderID = ''i-9'', pv_PrivateIP = ''10.0.0.9''\<rparr>, db)),
     pe_EnrollAndJoin = (\<lambda>op h db. demo_enroll t op db),
     pe_Ready = (\<lambda>op h db. (Inr True, db)), pe_Release = (\<lambda>op h. Inr ())\<rparr>"

definition demo_pass :: "int \<Rightarrow> db \<Rightarrow> (error + unit) \<times> db" where
  "demo_pass t db = ProvisionController_RunOnce (demo_executor t) ''z'' demo_identity 0
     (\<lambda>k. t + int k) [t + 1] db"

definition w3 :: db where
  "w3 = snd (demo_pass 100 w2)"

definition w4 :: db where
  "w4 = snd (demo_pass 200 w3)"

definition w5 :: db where
  "w5 = snd (demo_pass 300 w4)"

section \<open>A bootstrapped cluster\<close>

definition demo_bootstrap :: BootstrapRequest where
  "demo_bootstrap = \<lparr>br_Kind = ''create_cluster'', br_RequestID = ''b1'', br_ClusterID = ''c'', br_ZoneID = ''z'',
     br_Parameters = Raw (JObj [(''first_zone'', JObj []), (''ssh_key_ref'', JStr ''k'')])\<rparr>"

definition demo_decode :: "json \<Rightarrow> FirstZoneInput option" where
  "demo_decode v = Some demo_first_zone"

definition demo_ca :: string where
  "demo_ca = ''sha256:'' @ replicate 64 CHR ''a''"

definition demo_result :: "ZoneBootstrapPhase \<Rightarrow> BootstrapStepResult" where
  "demo_result n = \<lparr>bs_APIServerEndpoint = (if n = ZoneControlPlaneInitializing then ''https://10.0.0.5:6443'' else []),
     bs_CACertHash = (if n = ZoneControlPlaneInitializing then demo_ca else []),
     bs_ProviderHostID = ''i-5'', bs_HostPrivateIP = ''10.0.0.5'', bs_ImageID = ''m'',
     bs_DominatorEndpoint = ''https://10.0.0.5:44000'', bs_DominatorIdentity = ''spiffe://td/dominator/z''\<rparr>"

definition demo_bootstrapper :: BootstrapExecutor where
  "demo_bootstrapper = \<lparr>be_Step = (\<lambda>op n db. (Inr (demo_result n), db)), be_Validated = (\<lambda>op db. (Inr True, db))\<rparr>"

definition boot_pass :: "int \<Rightarrow> db \<Rightarrow> (error + unit) \<times> db" where
  "boot_pass t db = BootstrapController_RunOnce demo_bootstrapper ''z'' ''o'' 0 (\<lambda>k. t + int k) [t + 1] db"

definition x0 :: db where
  "x0 = final (map_sum id snd (CreateBootstrap (demo_uuid ''v'') 1 demo_K demo_decode demo_bootstrap empty_db))"

definition x1 :: db where
  "x1 = snd (boot_pass 100 x0)"

text \<open>Passes started at the given times, one after the other.\<close>

fun passes :: "(int \<Rightarrow> db \<Rightarrow> (error + unit) \<times> db) \<Rightarrow> int list \<Rightarrow> db \<Rightarrow> (error + unit) list \<times> db" where
  "passes f [] db = ([], db)"
| "passes f (t # ts) db =
     (case f t db of (r, db1) \<Rightarrow> case passes f ts db1 of (rs, db2) \<Rightarrow> (r # rs, db2))"

definition x5 :: db where
  "x5 = snd (passes boot_pass [200, 300, 400, 500] x1)"

definition x6 :: db where
  "x6 = snd (boot_pass 600 x5)"

section \<open>The states written out\<close>

text \<open>
  Each state is its predecessor with the rows the step changed.  As code equations these keep the
  later evaluations from computing a run again from the empty store.
\<close>

definition at_row :: "nat \<Rightarrow> ('a \<Rightarrow> 'a) \<Rightarrow> 'a list \<Rightarrow> 'a list" where
  "at_row i f xs = xs[i := f (xs ! i)]"

lemma w0_ok: "seedFirstZoneTx demo_K demo_first_zone True empty_db = Inr w0"
  by code_simp

lemma w1_ok: "SeedHosts ''n'' ''td'' ''z'' ''z'' int demo_agents w0 = Inr w1"
  by code_simp

lemma w1_state [code]: "w1 =
    \<lparr>topology_regions = [\<lparr>tr_provider = ''aws'', tr_account_id = ''1'', tr_region = ''r'',
    tr_kubernetes_region = ''r''\<rparr>], zones = [\<lparr>z_id = ''z'', z_provider = ''aws'',
    z_account_id = ''1'', z_region = ''r'', z_provider_zone_id = ''a'', z_kubernetes_region = ''r'',
    z_kubernetes_zone = ''a'', z_enabled = True, z_lifecycle_state = ''ready''\<rparr>],
    clusters = [\<lparr>c_id = ''c'', c_api_server_endpoint = [], c_ca_cert_hash = [],
    c_kubeadm_version = ''v1'', c_kubelet_version = ''v1'', c_container_runtime = ''cri'',
    c_cni = ''cilium'', c_lifecycle_state = ''ready''\<rparr>],
    cluster_zones = [\<lparr>m_cluster_id = ''c'', m_zone_id = ''z'', m_lifecycle_state = ''ready'',
    m_access_state = ''approved''\<rparr>], node_pools = [\<lparr>p_id = ''p'', p_enabled = True,
    p_max_vcpu = 4, p_max_memory_mib = 8, p_max_nodes = 2\<rparr>],
    node_groups = [\<lparr>g_naming = \<lparr>nm_Provider = ''aws'', nm_DevelopmentStage = ''d'',
    nm_Region = ''r'', nm_AZ = ''a'', nm_Group = ''g''\<rparr>, g_id = ''aws-d-r-a-g'', g_cluster_id = ''c'',
    g_zone_id = ''z'', g_node_pool_id = ''p'', g_capacity_class = ''w'', g_provider_zone_id = ''a'',
    g_target_nodes = 0, g_target_revision = 0, g_min_nodes = 0, g_max_nodes = 3,
    g_template_revision = ''t1'', g_lifecycle_state = ''active'', g_vcpu = 2, g_memory_mib = 4,
    g_launch_parameters = Raw (JObj [(''image_id'', JStr ''i'')]),
    g_scheduling = \<lparr>st_InstanceType = ''t'', st_Architecture = ''amd64'', st_Region = ''r'',
    st_Zone = ''a'', st_Labels = [], st_Taints = []\<rparr>\<rparr>], capacity_requests = [],
    hosts = [\<lparr>h_id = ''n/bootstrap/spire'', h_role = Some ''spire'', h_zone = Some ''z'',
    h_imageid = Some ''m'', h_state = HostConverging, h_health = Some ''unknown'', h_createdat = Some 0,
    h_updatedat = None, h_provider = Some ''aws'', h_providerid = Some ''i-00000001'',
    h_lastseenheartbeat = None, h_endpoint = None, h_port = None, h_dbname = None, h_username = None,
    h_secretarn = None, h_rdssgid = None, h_protected = True, h_subd_endpoint = ''https://10.0.0.1:44001'',
    h_kubernetes_provider_id = [], h_node_group_id = None, h_node_pool_id = None, h_crane_zone = None,
    h_operation_id = None, h_desired_state_version = [], h_observed_state_version = [],
    h_allocatable_vcpu = 0, h_allocatable_memory_mib = 0, h_reserved_vcpu = 0, h_reserved_memory_mib = 0,
    h_excess_capacity = False\<rparr>, \<lparr>h_id = ''n/bootstrap/platform'', h_role = Some ''platform'',
    h_zone = Some ''z'', h_imageid = Some ''m'', h_state = HostConverging, h_health = Some ''unknown'',
    h_createdat = Some 1, h_updatedat = None, h_provider = Some ''aws'', h_providerid = Some ''i-00000002'',
    h_lastseenheartbeat = None, h_endpoint = None, h_port = None, h_dbname = None, h_username = None,
    h_secretarn = None, h_rdssgid = None, h_protected = True, h_subd_endpoint = ''https://10.0.0.2:44001'',
    h_kubernetes_provider_id = [], h_node_group_id = None, h_node_pool_id = None, h_crane_zone = None,
    h_operation_id = None, h_desired_state_version = [], h_observed_state_version = [],
    h_allocatable_vcpu = 0, h_allocatable_memory_mib = 0, h_reserved_vcpu = 0, h_reserved_memory_mib = 0,
    h_excess_capacity = False\<rparr>], zone_dominators = [\<lparr>d_zone_id = ''z'',
    d_endpoint = ''https://10.0.0.2:44000'', d_identity = ''spiffe://td/dominator/z'',
    d_observability_status = ''configuration_pending''\<rparr>], operations = [],
    worker_provisioning_state = [], infrastructure_reservations = [], zone_bootstrap_operations = [],
    node_removal_operations = []\<rparr>"
  by code_simp

lemma w2_state [code]: "w2 =
    node_groups_update (at_row 0 (\<lambda>g. g\<lparr>g_target_nodes := 2, g_target_revision := 1\<rparr>)) (
    capacity_requests_update (\<lambda>_. [\<lparr>q_id = ''u'', q_group_id = ''aws-d-r-a-g'',
    q_request_id = ''q1'', q_cluster_id = ''c'', q_expected_revision = 0, q_desired_target = 2,
    q_template_revision = ''t1'', q_result_revision = 1, q_created_at = 10\<rparr>]) (
    hosts_update (\<lambda>rs. rs @ [\<lparr>h_id = ''u-'', h_role = Some ''w'', h_zone = Some ''z'',
    h_imageid = Some ''i'', h_state = HostRequested, h_health = Some ''unknown'', h_createdat = Some 10,
    h_updatedat = None, h_provider = None, h_providerid = None, h_lastseenheartbeat = None,
    h_endpoint = None, h_port = None, h_dbname = None, h_username = None, h_secretarn = None,
    h_rdssgid = None, h_protected = False, h_subd_endpoint = [], h_kubernetes_provider_id = [],
    h_node_group_id = Some ''aws-d-r-a-g'', h_node_pool_id = Some ''p'', h_crane_zone = Some ''z'',
    h_operation_id = Some ''u--'', h_desired_state_version = ''t1'', h_observed_state_version = [],
    h_allocatable_vcpu = 0, h_allocatable_memory_mib = 0, h_reserved_vcpu = 2, h_reserved_memory_mib = 4,
    h_excess_capacity = False\<rparr>, \<lparr>h_id = ''u-----'', h_role = Some ''w'', h_zone = Some ''z'',
    h_imageid = Some ''i'', h_state = HostRequested, h_health = Some ''unknown'', h_createdat = Some 10,
    h_updatedat = None, h_provider = None, h_providerid = None, h_lastseenheartbeat = None,
    h_endpoint = None, h_port = None, h_dbname = None, h_username = None, h_secretarn = None,
    h_rdssgid = None, h_protected = False, h_subd_endpoint = [], h_kubernetes_provider_id = [],
    h_node_group_id = Some ''aws-d-r-a-g'', h_node_pool_id = Some ''p'', h_crane_zone = Some ''z'',
    h_operation_id = Some ''u------'', h_desired_state_version = ''t1'', h_observed_state_version = [],
    h_allocatable_vcpu = 0, h_allocatable_memory_mib = 0, h_reserved_vcpu = 2, h_reserved_memory_mib = 4,
    h_excess_capacity = False\<rparr>]) (
    operations_update (\<lambda>_. [\<lparr>o_id = ''u--'', o_kind = Provision, o_zone_id = ''z'',
    o_group_id = Some ''aws-d-r-a-g'', o_host_id = Some ''u-'', o_capacity_request_id = Some ''u'',
    o_target_revision = 1, o_state = OpPending, o_provider_token = ''u---'',
    o_parameters = ParamsTemplate \<lparr>pt_LaunchParameters = Raw (JObj [(''image_id'', JStr ''i'')]),
    pt_Scheduling = \<lparr>st_InstanceType = ''t'', st_Architecture = ''amd64'', st_Region = ''r'',
    st_Zone = ''a'', st_Labels = [], st_Taints = []\<rparr>, pt_TemplateRevision = ''t1'',
    pt_CapacityClass = ''w''\<rparr>, o_lease_owner = None, o_lease_until = None, o_fence = 0,
    o_last_error = [], o_created_at = 10, o_updated_at = 10\<rparr>, \<lparr>o_id = ''u------'',
    o_kind = Provision, o_zone_id = ''z'', o_group_id = Some ''aws-d-r-a-g'', o_host_id = Some ''u-----'',
    o_capacity_request_id = Some ''u'', o_target_revision = 1, o_state = OpPending,
    o_provider_token = ''u-------'',
    o_parameters = ParamsTemplate \<lparr>pt_LaunchParameters = Raw (JObj [(''image_id'', JStr ''i'')]),
    pt_Scheduling = \<lparr>st_InstanceType = ''t'', st_Architecture = ''amd64'', st_Region = ''r'',
    st_Zone = ''a'', st_Labels = [], st_Taints = []\<rparr>, pt_TemplateRevision = ''t1'',
    pt_CapacityClass = ''w''\<rparr>, o_lease_owner = None, o_lease_until = None, o_fence = 0,
    o_last_error = [], o_created_at = 10, o_updated_at = 10\<rparr>]) (
    infrastructure_reservations_update (\<lambda>_. [\<lparr>r_id = ''u----'', r_group_id = ''aws-d-r-a-g'',
    r_capacity_request_id = ''u'', r_host_id = ''u-'', r_vcpu = 2, r_memory_mib = 4, r_nodes = 1,
    r_state = Reserved, r_created_at = 10\<rparr>, \<lparr>r_id = ''u--------'',
    r_group_id = ''aws-d-r-a-g'', r_capacity_request_id = ''u'', r_host_id = ''u-----'', r_vcpu = 2,
    r_memory_mib = 4, r_nodes = 1, r_state = Reserved, r_created_at = 10\<rparr>]) w1))))"
  by code_simp

lemma w3_state [code]: "w3 =
    hosts_update (at_row 2 (\<lambda>h. h\<lparr>h_state := HostBooting, h_updatedat := Some 103,
    h_provider := Some ''aws'', h_providerid := Some ''i-9'', h_endpoint := Some ''https://10.0.0.9:44001'',
    h_subd_endpoint := ''https://10.0.0.9:44001'', h_kubernetes_provider_id := ''aws:///a/i-9''\<rparr>)) (
    operations_update (at_row 0 (\<lambda>r. r\<lparr>o_state := OpLaunching, o_fence := 1,
    o_updated_at := 104\<rparr>)) (
    infrastructure_reservations_update (at_row 0 (\<lambda>r. r\<lparr>r_state := Committed\<rparr>)) w2))"
  by code_simp

lemma w4_state [code]: "w4 =
    hosts_update (at_row 2 (\<lambda>h. h\<lparr>h_state := HostConverging, h_updatedat := Some 203,
    h_desired_state_version := ''s1''\<rparr>)) (
    operations_update (at_row 0 (\<lambda>r. r\<lparr>o_fence := 2, o_updated_at := 204\<rparr>)) (
    worker_provisioning_state_update (\<lambda>_. [\<lparr>b_host_id = ''u-'', b_operation_id = ''u--'',
    b_node_name = ''crane-752d7878787878787878787878787878'', b_node_uid = ''n1'',
    b_provider_id = ''aws:///a/i-9'',
    b_contract_hash = ''0000000000000000000000000000000000000000000000000000000000000000'',
    b_expected_state = Some \<lparr>eh_Revision = 1, eh_ImageID = [], eh_Track = [], eh_Version = ''s1'',
    eh_Services = [], eh_Packages = [], eh_Secret = None\<rparr>, b_release_started = False\<rparr>]) w3))"
  by code_simp

lemma w5_state [code]: "w5 =
    hosts_update (at_row 2 (\<lambda>h. h\<lparr>h_state := HostReady, h_updatedat := Some 305,
    h_observed_state_version := ''s1''\<rparr>)) (
    operations_update (at_row 0 (\<lambda>r. r\<lparr>o_state := OpSucceeded, o_fence := 3,
    o_updated_at := 305\<rparr>)) (
    worker_provisioning_state_update (at_row 0 (\<lambda>b. b\<lparr>b_release_started := True\<rparr>)) w4))"
  by code_simp

lemma x0_state [code]: "x0 =
    \<lparr>topology_regions = [\<lparr>tr_provider = ''aws'', tr_account_id = ''1'', tr_region = ''r'',
    tr_kubernetes_region = ''r''\<rparr>], zones = [\<lparr>z_id = ''z'', z_provider = ''aws'',
    z_account_id = ''1'', z_region = ''r'', z_provider_zone_id = ''a'', z_kubernetes_region = ''r'',
    z_kubernetes_zone = ''a'', z_enabled = True, z_lifecycle_state = ''initializing''\<rparr>],
    clusters = [\<lparr>c_id = ''c'', c_api_server_endpoint = [], c_ca_cert_hash = [],
    c_kubeadm_version = ''v1'', c_kubelet_version = ''v1'', c_container_runtime = ''cri'',
    c_cni = ''cilium'', c_lifecycle_state = ''initializing''\<rparr>],
    cluster_zones = [\<lparr>m_cluster_id = ''c'', m_zone_id = ''z'', m_lifecycle_state = ''initializing'',
    m_access_state = ''pending''\<rparr>], node_pools = [\<lparr>p_id = ''p'', p_enabled = True,
    p_max_vcpu = 4, p_max_memory_mib = 8, p_max_nodes = 2\<rparr>],
    node_groups = [\<lparr>g_naming = \<lparr>nm_Provider = ''aws'', nm_DevelopmentStage = ''d'',
    nm_Region = ''r'', nm_AZ = ''a'', nm_Group = ''g''\<rparr>, g_id = ''aws-d-r-a-g'', g_cluster_id = ''c'',
    g_zone_id = ''z'', g_node_pool_id = ''p'', g_capacity_class = ''w'', g_provider_zone_id = ''a'',
    g_target_nodes = 0, g_target_revision = 0, g_min_nodes = 0, g_max_nodes = 3,
    g_template_revision = ''t1'', g_lifecycle_state = ''active'', g_vcpu = 2, g_memory_mib = 4,
    g_launch_parameters = Raw (JObj [(''image_id'', JStr ''i'')]),
    g_scheduling = \<lparr>st_InstanceType = ''t'', st_Architecture = ''amd64'', st_Region = ''r'',
    st_Zone = ''a'', st_Labels = [], st_Taints = []\<rparr>\<rparr>], capacity_requests = [], hosts = [],
    zone_dominators = [], operations = [\<lparr>o_id = ''v'', o_kind = CreateCluster, o_zone_id = ''z'',
    o_group_id = None, o_host_id = None, o_capacity_request_id = None, o_target_revision = 0,
    o_state = OpPending, o_provider_token = ''v-'', o_parameters = ParamsBootstrap (JObj [(''first_zone'',
    JObj []), (''ssh_key_ref'', JStr ''k'')]), o_lease_owner = None, o_lease_until = None, o_fence = 0,
    o_last_error = [], o_created_at = 1, o_updated_at = 1\<rparr>], worker_provisioning_state = [],
    infrastructure_reservations = [], zone_bootstrap_operations = [\<lparr>zb_operation_id = ''v'',
    zb_zone_id = ''z'', zb_cluster_id = Some ''c'', zb_request_id = Some ''b1'',
    zb_phase = ZoneRequested\<rparr>], node_removal_operations = []\<rparr>"
  by code_simp

lemma x1_state [code]: "x1 =
    hosts_update (\<lambda>_. [\<lparr>h_id = ''bootstrap/v'', h_role = Some ''cluster-control-plane'',
    h_zone = Some ''z'', h_imageid = Some ''m'', h_state = HostConverging, h_health = Some ''unknown'',
    h_createdat = Some 101, h_updatedat = None, h_provider = Some ''aws'', h_providerid = Some ''i-5'',
    h_lastseenheartbeat = None, h_endpoint = None, h_port = None, h_dbname = None, h_username = None,
    h_secretarn = None, h_rdssgid = None, h_protected = True, h_subd_endpoint = ''https://10.0.0.5:44001'',
    h_kubernetes_provider_id = [], h_node_group_id = None, h_node_pool_id = None, h_crane_zone = None,
    h_operation_id = None, h_desired_state_version = [], h_observed_state_version = [],
    h_allocatable_vcpu = 0, h_allocatable_memory_mib = 0, h_reserved_vcpu = 0, h_reserved_memory_mib = 0,
    h_excess_capacity = False\<rparr>]) (
    operations_update (at_row 0 (\<lambda>r. r\<lparr>o_fence := 1, o_updated_at := 103\<rparr>)) (
    zone_bootstrap_operations_update (at_row 0 (\<lambda>b. b\<lparr>zb_phase := ZoneInfrastructureProvisioning\<rparr>)) x0))"
  by code_simp

lemma x5_state [code]: "x5 =
    clusters_update (at_row 0 (\<lambda>c. c\<lparr>c_api_server_endpoint := ''https://10.0.0.5:6443'',
    c_ca_cert_hash := ''sha256:aaaaaaaaaaaaaaaaaaaaaaaaaaaaaaaaaaaaaaaaaaaaaaaaaaaaaaaaaaaaaaaa''\<rparr>)) (
    zone_dominators_update (\<lambda>_. [\<lparr>d_zone_id = ''z'', d_endpoint = ''https://10.0.0.5:44000'',
    d_identity = ''spiffe://td/dominator/z'', d_observability_status = ''configuration_pending''\<rparr>]) (
    operations_update (at_row 0 (\<lambda>r. r\<lparr>o_fence := 5, o_updated_at := 503\<rparr>)) (
    zone_bootstrap_operations_update (at_row 0 (\<lambda>b. b\<lparr>zb_phase := ZoneValidating\<rparr>)) x1)))"
  by code_simp

lemma x6_state [code]: "x6 =
    zones_update (at_row 0 (\<lambda>z. z\<lparr>z_lifecycle_state := ''ready''\<rparr>)) (
    clusters_update (at_row 0 (\<lambda>c. c\<lparr>c_lifecycle_state := ''ready''\<rparr>)) (
    cluster_zones_update (at_row 0 (\<lambda>m. m\<lparr>m_lifecycle_state := ''ready'',
    m_access_state := ''approved''\<rparr>)) (
    operations_update (at_row 0 (\<lambda>r. r\<lparr>o_state := OpSucceeded, o_fence := 6,
    o_updated_at := 601\<rparr>)) (
    zone_bootstrap_operations_update (at_row 0 (\<lambda>b. b\<lparr>zb_phase := ZoneReady\<rparr>)) x5))))"
  by code_simp

section \<open>The steps succeed\<close>

lemma demo_target_ok: "SetTarget (demo_uuid ''u'') 10 demo_request w1 = Inr (target_result demo_request 1, w2)"
  by code_simp

lemma demo_passes_ok:
  "fst (demo_pass 100 w2) = Inr ()" "fst (demo_pass 200 w3) = Inr ()" "fst (demo_pass 300 w4) = Inr ()"
  by code_simp+

lemma demo_hosts: "map (\<lambda>h. (h_id h, h_state h)) (hosts w5) =
  [(''n/bootstrap/spire'', HostConverging), (''n/bootstrap/platform'', HostConverging),
   (''u-'', HostReady), (''u-----'', HostRequested)]"
  by code_simp

lemma x0_ok: "CreateBootstrap (demo_uuid ''v'') 1 demo_K demo_decode demo_bootstrap empty_db = Inr (''v'', x0)"
  by code_simp

lemma boot_passes_ok:
  "fst (boot_pass 100 x0) = Inr ()"
  "fst (passes boot_pass [200, 300, 400, 500] x1) = replicate 4 (Inr ())" "fst (boot_pass 600 x5) = Inr ()"
  by code_simp+

section \<open>They are runs\<close>

lemma demo_first_zone_i64: "first_zone_i64 demo_first_zone"
  by code_simp

lemma demo_executor_ok: "provision_executor_ok demo_K (demo_executor t)"
proof -
  have "steps demo_K db (snd (demo_enroll t op db))" for op db
  proof (cases "BindProvisionNode demo_sha t op (demo_binding op) db")
    case (Inr db1)
    have 1: "cap_step demo_K db db1" using Inr by (rule cap_step.bind)
    then show ?thesis using Inr cap_step.pin [of t op demo_expected db1]
      by (auto simp: demo_enroll_def split: sum.splits intro: rtranclp.rtrancl_into_rtrancl)
  qed (simp add: demo_enroll_def)
  then show ?thesis by (simp add: provision_executor_ok_def demo_executor_def)
qed

lemma demo_bootstrapper_ok: "bootstrap_executor_ok demo_K demo_bootstrapper"
  by (simp add: bootstrap_executor_ok_def demo_bootstrapper_def)

lemma w0_run: "steps demo_K empty_db w0"
  using cap_step.seed [OF demo_first_zone_i64 w0_ok] by blast

lemma w1_run: "steps demo_K empty_db w1"
  using w0_run cap_step.seed_hosts [OF w1_ok] by (rule steps_snoc)

lemma w2_run: "steps demo_K w1 w2"
  using cap_step.set_target [OF demo_target_ok] by blast

lemma passes_run:
  assumes "\<And>t db. steps K db (snd (f t db))"
  shows "steps K db (snd (passes f ts db))"
proof (induction ts arbitrary: db)
  case (Cons t ts)
  show ?case using rtranclp_trans [OF assms [of db t] Cons.IH] by (simp add: case_prod_beta)
qed simp

lemma demo_pass_run: "steps demo_K db (snd (demo_pass t db))"
  unfolding demo_pass_def by (rule provision_pass_run [OF demo_executor_ok])

lemma demo_steps: "steps demo_K w2 w3" "steps demo_K w3 w4" "steps demo_K w4 w5"
  unfolding w3_def w4_def w5_def by (rule demo_pass_run)+

lemma w5_run: "steps demo_K w2 w3" "steps demo_K w3 w5"
  using demo_steps by (meson rtranclp_trans)+

lemma reach_w: "steps demo_K empty_db w2" "steps demo_K empty_db w4" "steps demo_K empty_db w5"
  using w1_run w2_run demo_steps by (meson rtranclp_trans)+

lemma x0_run: "steps demo_K empty_db x0"
  using cap_step.bootstrap [OF _ x0_ok] demo_first_zone_i64 by (auto simp: demo_decode_def)

lemma boot_pass_run: "steps demo_K db (snd (boot_pass t db))"
  unfolding boot_pass_def by (rule bootstrap_pass_run [OF demo_bootstrapper_ok])

lemma x_run: "steps demo_K x0 x1" "steps demo_K x1 x5" "steps demo_K x5 x6"
  unfolding x1_def x5_def x6_def by (rule boot_pass_run passes_run)+

lemma reach_x: "steps demo_K empty_db x1" "steps demo_K empty_db x5" "steps demo_K empty_db x6"
  using x0_run x_run by (meson rtranclp_trans)+

section \<open>Rows of the runs\<close>

lemma demo_rows:
  "node_pools w2 \<noteq> []" "node_groups w2 \<noteq> []" "capacity_requests w2 \<noteq> []" "operations w2 \<noteq> []"
  by code_simp+

lemma demo_bound: "map (\<lambda>b. (b_host_id b, map_option eh_Version (b_expected_state b))) (worker_provisioning_state w5)
    = [(''u-'', Some ''s1'')]"
  by code_simp

lemma demo_claim_ok: "claim 20 ''z'' Provision demo_identity 60000000000 True w2 = Inr demo_claim"
  by code_simp

lemma demo_claim_fence: "op_Fence (fst demo_claim) = 1"
  by code_simp

lemma demo_claim_keys: "keys_ok w2"
  using reachable_ok [OF reach_w(1)] by (rule system_okD(1))

lemma demo_fresh: "fresh_ids (demo_uuid ''u'') 0 w1"
proof -
  have "inj (demo_uuid ''u'')" by (rule injI) (simp add: demo_uuid_def)
  moreover have "map h_id (hosts w1) = [''n/bootstrap/spire'', ''n/bootstrap/platform'']"
    "capacity_requests w1 = []" "operations w1 = []" "infrastructure_reservations w1 = []"
    by code_simp+
  moreover from this(1) have "h_id ` set (hosts w1) = {''n/bootstrap/spire'', ''n/bootstrap/platform''}"
    by (metis list.set_map list.simps(15) empty_set)
  ultimately show ?thesis by (simp add: fresh_ids_def demo_uuid_def)
qed

end
