(* ===== verification/ScenarioLater.thy ===== *)
theory ScenarioLater
  imports Scenario
begin

text \<open>
  Calls made later in the two runs of \<open>Scenario\<close>: the hand-off of the first worker taken apart
  into its claim, preparation and finalisation, a batch removal, a decreased target, a host of
  the legacy catalogue and the claim before the last bootstrap phase.  Each group of calls is a
  check of one state, so that the state is computed once.
\<close>

section \<open>Calls\<close>

definition workers :: "db \<Rightarrow> (string \<times> HostState \<times> bool) list" where
  "workers db = map (\<lambda>h. (h_id h, h_state h, h_node_group_id h \<noteq> None)) (hosts db)"

definition handoff_check :: "db \<Rightarrow> bool" where
  "handoff_check db =
     (case ClaimDominator 300 ''z'' Provision demo_identity 120000000000 db of
        Inl _ \<Rightarrow> False
      | Inr (op, db1) \<Rightarrow>
          (case PrepareProvisionRelease 303 op ''s1'' db1 of
             Inl _ \<Rightarrow> False
           | Inr db2 \<Rightarrow>
               (case FinalizeProvision 304 305 op ''s1'' (Inr ()) db2 of
                  Inl _ \<Rightarrow> False
                | Inr db3 \<Rightarrow> (''u-'', HostConverging, True) \<in> set (workers db2)
                    \<and> (''u-'', HostReady, True) \<in> set (workers db3))))"

definition demo_removal :: NodeRemovalRequest where
  "demo_removal = \<lparr>rr_NodeGroupID = ''aws-d-r-a-g'', rr_RequestID = ''r1'', rr_ExpectedTargetRevision = 1,
     rr_Nodes = [\<lparr>rn_HostID = ''u-'', rn_NodeName = ''n'', rn_ProviderID = ''aws:///a/i-9''\<rparr>]\<rparr>"

definition demo_shrink :: CapacityRequest where
  "demo_shrink = demo_request\<lparr>cr_RequestID := ''q2'', cr_ExpectedTargetRevision := 1, cr_DesiredTarget := 1\<rparr>"

definition later_check :: "db \<Rightarrow> bool" where
  "later_check db \<longleftrightarrow> \<not> isl (CreateAutoscalerRemovals (demo_uuid ''y'') 400 ''c'' demo_removal db)
     \<and> find_removal db ''aws-d-r-a-g'' ''r1'' = None
     \<and> \<not> isl (SetTarget (demo_uuid ''k'') 500 demo_shrink db)
     \<and> map (\<lambda>r. (o_id r, o_state r)) (operations db) = [(''u--'', OpSucceeded), (''u------'', OpPending)]"

definition boot_check :: "db \<Rightarrow> bool" where
  "boot_check db =
     (case Claim 600 ''z'' CreateCluster ''o'' 120000000000 db of
        Inl _ \<Rightarrow> False
      | Inr (op, db1) \<Rightarrow> \<not> isl (BootstrapPhase 601 op ZoneReady True db1))"

text \<open>A database whose only host is one of the legacy catalogue.\<close>

definition demo_host :: host_row where
  "demo_host = catalog_row (new_host ''h1'' 5 ''aws'')"

definition demo_legacy :: db where
  "demo_legacy = empty_db\<lparr>hosts := [demo_host]\<rparr>"

definition demo_secret :: KubernetesSecret where
  "demo_secret = \<lparr>ks_Namespace = ''n'', ks_Name = ''s'', ks_Type = [], ks_Data = [(''a'', ''1'')],
     ks_StringData = [(''b'', ''2'')], ks_RolloutDeployment = []\<rparr>"

section \<open>They succeed\<close>

lemma w4_checked: "handoff_check w4"
  by code_simp

lemma w5_checked: "later_check w5"
  by code_simp

lemma x5_checked: "boot_check x5"
  by code_simp

lemma demo_host_scan: "\<not> isl (scan_host demo_host)"
  by code_simp

section \<open>They are runs\<close>

lemma handoff_calls:
  assumes "handoff_check db"
  obtains op db1 db2 db3 where
    "ClaimDominator 300 ''z'' Provision demo_identity 120000000000 db = Inr (op, db1)"
    "PrepareProvisionRelease 303 op ''s1'' db1 = Inr db2"
    "FinalizeProvision 304 305 op ''s1'' (Inr ()) db2 = Inr db3"
    "(''u-'', HostConverging, True) \<in> set (workers db2)" "(''u-'', HostReady, True) \<in> set (workers db3)"
proof -
  from assms obtain op db1 where 1: "ClaimDominator 300 ''z'' Provision demo_identity 120000000000 db = Inr (op, db1)"
    by (auto simp: handoff_check_def split: sum.splits)
  with assms obtain db2 where 2: "PrepareProvisionRelease 303 op ''s1'' db1 = Inr db2"
    by (cases "PrepareProvisionRelease 303 op ''s1'' db1") (auto simp: handoff_check_def)
  with 1 assms obtain db3 where 3: "FinalizeProvision 304 305 op ''s1'' (Inr ()) db2 = Inr db3"
    by (cases "FinalizeProvision 304 305 op ''s1'' (Inr ()) db2") (auto simp: handoff_check_def)
  with 1 2 assms show thesis by (intro that) (auto simp: handoff_check_def)
qed

lemma handoff_run:
  obtains db db' h h' where "steps demo_K empty_db db" "cap_step demo_K db db'"
    "h \<in> set (hosts db)" "h_id h = ''u-''" "h_state h = HostConverging"
    "h' \<in> set (hosts db')" "h_id h' = ''u-''" "h_state h' = HostReady" "h_node_group_id h' \<noteq> None"
proof -
  from w4_checked obtain op db1 db2 db3 where
    1: "ClaimDominator 300 ''z'' Provision demo_identity 120000000000 w4 = Inr (op, db1)" and
    2: "PrepareProvisionRelease 303 op ''s1'' db1 = Inr db2" and
    3: "FinalizeProvision 304 305 op ''s1'' (Inr ()) db2 = Inr db3" and
    4: "(''u-'', HostConverging, True) \<in> set (workers db2)" "(''u-'', HostReady, True) \<in> set (workers db3)"
    by (rule handoff_calls)
  have "steps demo_K empty_db db2"
    by (rule steps_snoc [OF steps_snoc [OF reach_w(2) cap_step.claim_dominator [OF 1]] cap_step.prepare [OF 2]])
  moreover have "cap_step demo_K db2 db3" by (rule cap_step.finalize [OF 3])
  moreover obtain h where "h \<in> set (hosts db2)" "h_id h = ''u-''" "h_state h = HostConverging"
    using 4(1) by (auto simp: workers_def)
  moreover obtain h' where "h' \<in> set (hosts db3)" "h_id h' = ''u-''" "h_state h' = HostReady" "h_node_group_id h' \<noteq> None"
    using 4(2) by (auto simp: workers_def)
  ultimately show thesis by (rule that)
qed

lemma later_removal:
  obtains db6 where "CreateAutoscalerRemovals (demo_uuid ''y'') 400 ''c'' demo_removal w5 = Inr db6"
    "find_removal w5 ''aws-d-r-a-g'' ''r1'' = None"
  using w5_checked by (cases "CreateAutoscalerRemovals (demo_uuid ''y'') 400 ''c'' demo_removal w5")
    (auto simp: later_check_def)

lemma later_shrink:
  obtains res db7 r where "SetTarget (demo_uuid ''k'') 500 demo_shrink w5 = Inr (res, db7)"
    "r \<in> set (operations w5)" "o_id r = ''u--''" "o_state r = OpSucceeded"
proof -
  have "(''u--'', OpSucceeded) \<in> set (map (\<lambda>r. (o_id r, o_state r)) (operations w5))"
    using w5_checked by (simp add: later_check_def)
  then obtain r where "r \<in> set (operations w5)" "o_id r = ''u--''" "o_state r = OpSucceeded" by auto
  then show thesis using w5_checked that
    by (cases "SetTarget (demo_uuid ''k'') 500 demo_shrink w5") (auto simp: later_check_def)
qed

lemma boot_calls:
  obtains op db1 db2 where "BootstrapPhase 601 op ZoneReady True db1 = Inr db2"
proof -
  from x5_checked obtain op db1 where 1: "Claim 600 ''z'' CreateCluster ''o'' 120000000000 x5 = Inr (op, db1)"
    by (auto simp: boot_check_def split: sum.splits)
  with x5_checked show thesis using that
    by (cases "BootstrapPhase 601 op ZoneReady True db1") (auto simp: boot_check_def)
qed

end
