(* ===== verification/GoJSON.thy ===== *)
theory GoJSON
  imports Api GoNet
begin

text \<open>
  Go's \<open>encoding/json\<close> as the program uses it, on JSON values: a struct is described once by the
  table of its tagged fields, and the table gives both the encoder and the decoder.  Decoding
  fills an existing value, finds a field by its exact name and then without regard to case,
  skips an unknown member or (\<open>DisallowUnknownFields\<close>) refuses it, keeps a field at \<open>null\<close>, and
  refuses a number outside \<open>int64\<close>.  Maps and raw messages are kept in canonical order.
\<close>

section \<open>Numbers\<close>

definition digit :: "int \<Rightarrow> char" where
  "digit n = char_of (48 + n)"

function show_digits :: "int \<Rightarrow> string" where
  "show_digits n = (if n < 10 then [digit n] else show_digits (n div 10) @ [digit (n mod 10)])"
  by pat_completeness auto
termination
  by (relation "measure nat") auto

text \<open>\<open>strconv.AppendInt\<close> and \<open>strconv.ParseInt\<close> in base 10.\<close>

definition FormatInt :: "int \<Rightarrow> string" where
  "FormatInt n = (if n < 0 then CHR ''-'' # show_digits (- n) else show_digits n)"

definition digits_value :: "string \<Rightarrow> int" where
  "digits_value s = foldl (\<lambda>a c. 10 * a + (of_char c - 48)) 0 s"

definition ParseInt64 :: "string \<Rightarrow> int option" where
  "ParseInt64 s =
     (let neg = (s \<noteq> [] \<and> hd s = CHR ''-''); ds = (if neg then tl s else s);
          n = (if neg then - digits_value ds else digits_value ds) in
      if ds \<noteq> [] \<and> list_all digitc ds \<and> in_i64 n then Some n else None)"

section \<open>Canonical values\<close>

definition canonical :: "(string \<times> 'a) list \<Rightarrow> (string \<times> 'a) list" where
  "canonical kvs = sort_key fst (fold (\<lambda>(k, v) m. AList.update k v m) kvs [])"

fun canon :: "json \<Rightarrow> json" where
  "canon (JArr xs) = JArr (map canon xs)"
| "canon (JObj kvs) = JObj (canonical (map (\<lambda>kv. (fst kv, canon (snd kv))) kvs))"
| "canon j = j"

section \<open>Struct tables\<close>

text \<open>Case folding of field names: ASCII letters, the Kelvin sign and the long s.\<close>

definition upperc :: "char \<Rightarrow> char" where
  "upperc c = (if CHR ''a'' \<le> c \<and> c \<le> CHR ''z'' then char_of (of_char c - 32 :: nat) else c)"

fun fold_name :: "string \<Rightarrow> string" where
  "fold_name (a # b # c # s) =
     (if a = CHR 0xE2 \<and> b = CHR 0x84 \<and> c = CHR 0xAA then CHR ''K'' # fold_name s
      else if a = CHR 0xC5 \<and> b = CHR 0xBF then CHR ''S'' # fold_name (c # s)
      else upperc a # fold_name (b # c # s))"
| "fold_name [a, b] = (if a = CHR 0xC5 \<and> b = CHR 0xBF then ''S'' else [upperc a, upperc b])"
| "fold_name [a] = [upperc a]"
| "fold_name [] = []"

type_synonym 'a decoder = "bool \<Rightarrow> json \<Rightarrow> 'a \<Rightarrow> 'a option"

record 's jfield =
  jf_name :: string
  jf_omit :: "'s \<Rightarrow> bool"
  jf_enc :: "'s \<Rightarrow> json"
  jf_dec :: "'s decoder"

text \<open>One field: its tag, its accessors, and the codec of its type; the second form has \<open>omitempty\<close>.\<close>

definition jf :: "string \<Rightarrow> ('s \<Rightarrow> 'a) \<Rightarrow> (('a \<Rightarrow> 'a) \<Rightarrow> 's \<Rightarrow> 's) \<Rightarrow> ('a \<Rightarrow> json) \<Rightarrow> 'a decoder \<Rightarrow> 's jfield"
  where
  "jf n get upd enc dec = \<lparr>jf_name = n, jf_omit = (\<lambda>_. False), jf_enc = (\<lambda>s. enc (get s)),
     jf_dec = (\<lambda>strict j s. map_option (\<lambda>v. upd (\<lambda>_. v) s) (dec strict j (get s)))\<rparr>"

definition omitempty :: "('s \<Rightarrow> 'a list) \<Rightarrow> 's jfield \<Rightarrow> 's jfield" where
  "omitempty get f = f\<lparr>jf_omit := (\<lambda>s. get s = [])\<rparr>"

definition enc_struct :: "'s jfield list \<Rightarrow> 's \<Rightarrow> json" where
  "enc_struct fs s = JObj (map (\<lambda>f. (jf_name f, jf_enc f s)) (filter (\<lambda>f. \<not> jf_omit f s) fs))"

definition struct_field :: "'s jfield list \<Rightarrow> string \<Rightarrow> 's jfield option" where
  "struct_field fs k =
     (case find (\<lambda>f. jf_name f = k) fs of
        Some f \<Rightarrow> Some f
      | None \<Rightarrow> find (\<lambda>f. fold_name (jf_name f) = fold_name k) fs)"

fun dec_members :: "'s jfield list \<Rightarrow> bool \<Rightarrow> (string \<times> json) list \<Rightarrow> 's \<Rightarrow> 's option" where
  "dec_members fs strict [] s = Some s"
| "dec_members fs strict ((k, v) # kvs) s =
     (case struct_field fs k of
        None \<Rightarrow> if strict then None else dec_members fs strict kvs s
      | Some f \<Rightarrow>
          (case jf_dec f strict v s of None \<Rightarrow> None | Some s' \<Rightarrow> dec_members fs strict kvs s'))"

definition dec_struct :: "'s jfield list \<Rightarrow> 's decoder" where
  "dec_struct fs strict j s =
     (case j of JNull \<Rightarrow> Some s | JObj kvs \<Rightarrow> dec_members fs strict kvs s | _ \<Rightarrow> None)"

section \<open>Basic types\<close>

definition dec_string :: "string decoder" where
  "dec_string strict j s = (case j of JStr t \<Rightarrow> Some t | JNull \<Rightarrow> Some s | _ \<Rightarrow> None)"

definition dec_int64 :: "int decoder" where
  "dec_int64 strict j n = (case j of JNum t \<Rightarrow> ParseInt64 t | JNull \<Rightarrow> Some n | _ \<Rightarrow> None)"

definition dec_bool :: "bool decoder" where
  "dec_bool strict j b = (case j of JBool c \<Rightarrow> Some c | JNull \<Rightarrow> Some b | _ \<Rightarrow> None)"

definition enc_int64 :: "int \<Rightarrow> json" where
  "enc_int64 n = JNum (FormatInt n)"

definition enc_raw :: "raw_json \<Rightarrow> json" where
  "enc_raw r = (case r of Raw v \<Rightarrow> v | _ \<Rightarrow> JNull)"

definition dec_raw :: "raw_json decoder" where
  "dec_raw strict j r = Some (Raw (canon j))"

definition enc_map :: "(string \<times> string) list \<Rightarrow> json" where
  "enc_map m = JObj (map (\<lambda>(k, v). (k, JStr v)) m)"

fun dec_entries :: "(string \<times> json) list \<Rightarrow> (string \<times> string) list option" where
  "dec_entries [] = Some []"
| "dec_entries ((k, v) # kvs) =
     (case dec_string False v [] of
        None \<Rightarrow> None
      | Some s \<Rightarrow> map_option (\<lambda>m. (k, s) # m) (dec_entries kvs))"

definition dec_map :: "(string \<times> string) list decoder" where
  "dec_map strict j m =
     (case j of
        JNull \<Rightarrow> Some []
      | JObj kvs \<Rightarrow> map_option (\<lambda>es. canonical (m @ es)) (dec_entries kvs)
      | _ \<Rightarrow> None)"

text \<open>The elements of an array are decoded into those the slice already holds.\<close>

fun dec_items :: "'a \<Rightarrow> 'a decoder \<Rightarrow> bool \<Rightarrow> json list \<Rightarrow> 'a list \<Rightarrow> 'a list option" where
  "dec_items z dec strict [] old = Some []"
| "dec_items z dec strict (x # xs) old =
     (case dec strict x (case old of [] \<Rightarrow> z | y # _ \<Rightarrow> y) of
        None \<Rightarrow> None
      | Some y \<Rightarrow> map_option (\<lambda>ys. y # ys) (dec_items z dec strict xs (tl old)))"

definition enc_slice :: "('a \<Rightarrow> json) \<Rightarrow> 'a list \<Rightarrow> json" where
  "enc_slice enc xs = JArr (map enc xs)"

definition dec_slice :: "'a \<Rightarrow> 'a decoder \<Rightarrow> 'a list decoder" where
  "dec_slice z dec strict j old =
     (case j of JNull \<Rightarrow> Some [] | JArr xs \<Rightarrow> dec_items z dec strict xs old | _ \<Rightarrow> None)"

abbreviation jf_string where "jf_string n get upd \<equiv> jf n get upd JStr dec_string"
abbreviation jf_int64 where "jf_int64 n get upd \<equiv> jf n get upd enc_int64 dec_int64"
abbreviation jf_bool where "jf_bool n get upd \<equiv> jf n get upd JBool dec_bool"

section \<open>Lemmas\<close>

lemma digit_char: "0 \<le> n \<Longrightarrow> n < 10 \<Longrightarrow> digitc (digit n) \<and> (of_char (digit n) :: int) = 48 + n"
proof -
  assume n: "0 \<le> n" "n < 10"
  then have "n \<in> {0, 1, 2, 3, 4, 5, 6, 7, 8, 9}" by (simp, presburger)
  moreover have "\<forall>m \<in> {0, 1, 2, 3, 4, 5, 6, 7, 8, 9 :: int}. digitc (digit m) \<and> (of_char (digit m) :: int) = 48 + m"
    by code_simp
  ultimately show ?thesis by blast
qed

declare show_digits.simps [simp del]

lemma show_digits_parse: "0 \<le> n \<Longrightarrow> list_all digitc (show_digits n) \<and> show_digits n \<noteq> [] \<and> digits_value (show_digits n) = n"
proof (induction n rule: show_digits.induct)
  case (1 n)
  show ?case
  proof (cases "n < 10")
    case True
    then show ?thesis using 1(2) digit_char [of n] by (simp add: show_digits.simps [of n] digits_value_def)
  next
    case False
    have m: "digitc (digit (n mod 10))" "(of_char (digit (n mod 10)) :: int) = 48 + n mod 10"
      using digit_char [of "n mod 10"] by simp_all
    have "digits_value (show_digits n) = 10 * digits_value (show_digits (n div 10)) + n mod 10"
      using False m(2) by (simp add: show_digits.simps [of n] digits_value_def)
    then show ?thesis using 1 False m(1) by (simp add: show_digits.simps [of n])
  qed
qed

lemma digitc_minus: "\<not> digitc CHR ''-''"
  by code_simp

lemma ParseInt64_FormatInt_iff: "ParseInt64 (FormatInt n) = Some m \<longleftrightarrow> in_i64 n \<and> m = n"
proof (cases "n < 0")
  case True
  then show ?thesis using show_digits_parse [of "- n"] by (auto simp: ParseInt64_def FormatInt_def)
next
  case False
  have d: "list_all digitc (show_digits n)" "show_digits n \<noteq> []" "digits_value (show_digits n) = n"
    using show_digits_parse [of n] False by simp_all
  then have "hd (show_digits n) \<noteq> CHR ''-''" using digitc_minus by (metis list_all_iff hd_in_set)
  then show ?thesis using d False by (auto simp: ParseInt64_def FormatInt_def)
qed

lemma ParseInt64_FormatInt: "in_i64 n \<Longrightarrow> ParseInt64 (FormatInt n) = Some n"
  by (simp add: ParseInt64_FormatInt_iff)

lemma ParseInt64_range: "ParseInt64 s = Some n \<Longrightarrow> in_i64 n"
  by (auto simp: ParseInt64_def Let_def split: if_splits)

lemma dec_int64_enc [simp]: "in_i64 n \<Longrightarrow> dec_int64 strict (enc_int64 n) m = Some n"
  by (simp add: dec_int64_def enc_int64_def ParseInt64_FormatInt)

lemma dec_string_enc [simp]: "dec_string strict (JStr s) t = Some s"
  by (simp add: dec_string_def)

lemma dec_bool_enc [simp]: "dec_bool strict (JBool b) c = Some b"
  by (simp add: dec_bool_def)

text \<open>What a decoder keeps of the value it fills.\<close>

definition keeps :: "('a \<Rightarrow> bool) \<Rightarrow> 'a decoder \<Rightarrow> bool" where
  "keeps P dec \<longleftrightarrow> (\<forall>strict j x y. P x \<longrightarrow> dec strict j x = Some y \<longrightarrow> P y)"

lemma keepsD: "keeps P dec \<Longrightarrow> dec strict j x = Some y \<Longrightarrow> P x \<Longrightarrow> P y"
  by (auto simp: keeps_def)

lemma keeps_int64: "keeps in_i64 dec_int64"
  by (auto simp: keeps_def dec_int64_def dest: ParseInt64_range split: json.splits)

lemma struct_field_in: "struct_field fs k = Some f \<Longrightarrow> f \<in> set fs"
  by (auto simp: struct_field_def find_Some_iff split: option.splits)

lemma dec_members_keeps:
  assumes "\<forall>f\<in>set fs. keeps P (jf_dec f)"
  shows "dec_members fs strict kvs s = Some t \<Longrightarrow> P s \<Longrightarrow> P t"
proof (induction kvs arbitrary: s)
  case (Cons kv kvs)
  obtain k v where kv: "kv = (k, v)" by (cases kv)
  show ?case
  proof (cases "struct_field fs k")
    case None
    then show ?thesis using Cons kv by (simp split: if_splits)
  next
    case (Some f)
    then have "keeps P (jf_dec f)" using assms struct_field_in by blast
    then show ?thesis using Cons kv Some by (auto split: option.splits dest: keepsD)
  qed
qed simp

lemma keeps_struct: "\<forall>f\<in>set fs. keeps P (jf_dec f) \<Longrightarrow> keeps P (dec_struct fs)"
  unfolding keeps_def [of P "dec_struct fs"]
  by (auto simp: dec_struct_def intro: dec_members_keeps split: json.splits)

lemma keeps_jf:
  assumes "keeps Q dec" "\<And>s. P s \<Longrightarrow> Q (get s)" "\<And>s v. P s \<Longrightarrow> Q v \<Longrightarrow> P (upd (\<lambda>_. v) s)"
  shows "keeps P (jf_dec (jf n get upd enc dec))"
  unfolding keeps_def using assms by (auto simp: jf_def dest: keepsD)

lemma keeps_any: "keeps (\<lambda>_. True) dec"
  by (simp add: keeps_def)

lemma canonical_sorted:
  assumes "sorted (map fst kvs)" "distinct (map fst kvs)"
  shows "canonical kvs = kvs"
  using assms fold_update_distinct [of "[]" kvs] by (simp add: canonical_def sort_key_id_if_sorted)

end
