(* ===== verification/ApiJSON.thy ===== *)
theory ApiJSON
  imports GoJSON
begin

text \<open>
  The JSON tables of the request and response types of \<open>src/pkg/api\<close>: one entry per tagged field,
  in the order of the struct.  A type without tags is written under its Go field names.
\<close>

section \<open>Zero values\<close>

definition zero_resources :: Resources where
  "zero_resources = \<lparr>res_VCPU = 0, res_MemoryMiB = 0, res_Nodes = 0\<rparr>"

definition zero_zone :: ZoneInput where
  "zero_zone = \<lparr>zi_ID = [], zi_Provider = [], zi_AccountID = [], zi_Region = [], zi_ProviderZoneID = [],
     zi_KubernetesRegion = [], zi_KubernetesZone = []\<rparr>"

definition zero_cluster :: ClusterInput where
  "zero_cluster = \<lparr>ci_ID = [], ci_APIServerEndpoint = [], ci_CACertHash = [], ci_KubeadmVersion = [],
     ci_KubeletVersion = [], ci_ContainerRuntime = [], ci_CNI = []\<rparr>"

definition zero_pool :: NodePoolInput where
  "zero_pool = \<lparr>pi_ID = [], pi_Limits = zero_resources\<rparr>"

definition zero_membership :: ClusterZoneInput where
  "zero_membership = \<lparr>cz_ClusterID = [], cz_ZoneID = [], cz_LifecycleState = [], cz_AccessState = []\<rparr>"

definition zero_naming :: NodeGroupNaming where
  "zero_naming = \<lparr>nm_Provider = [], nm_DevelopmentStage = [], nm_Region = [], nm_AZ = [], nm_Group = []\<rparr>"

definition zero_taint :: SchedulingTaint where
  "zero_taint = \<lparr>tt_Key = [], tt_Value = [], tt_Effect = []\<rparr>"

definition zero_group :: NodeGroupInput where
  "zero_group = \<lparr>gi_Naming = zero_naming, gi_ID = [], gi_ClusterID = [], gi_NodePoolID = [], gi_ZoneID = [],
     gi_CapacityClass = [], gi_ProviderZoneID = [], gi_MinNodes = 0, gi_MaxNodes = 0,
     gi_TemplateRevision = [], gi_PerNode = zero_resources, gi_LaunchParameters = RawNone,
     gi_Scheduling = zero_scheduling\<rparr>"

definition zero_first_zone :: FirstZoneInput where
  "zero_first_zone = \<lparr>fz_Zone = zero_zone, fz_Cluster = zero_cluster, fz_Membership = zero_membership,
     fz_Pool = zero_pool, fz_Group = zero_group\<rparr>"

definition zero_bootstrap :: BootstrapRequest where
  "zero_bootstrap = \<lparr>br_Kind = [], br_RequestID = [], br_ClusterID = [], br_ZoneID = [], br_Parameters = RawNone\<rparr>"

definition zero_removal_node :: RemovalNode where
  "zero_removal_node = \<lparr>rn_HostID = [], rn_NodeName = [], rn_ProviderID = []\<rparr>"

definition zero_removal :: NodeRemovalRequest where
  "zero_removal = \<lparr>rr_NodeGroupID = [], rr_RequestID = [], rr_ExpectedTargetRevision = 0, rr_Nodes = []\<rparr>"

section \<open>Topology (capacity.go)\<close>

definition Resources_json :: "Resources jfield list" where
  "Resources_json = [jf_int64 ''vcpu'' res_VCPU res_VCPU_update,
     jf_int64 ''memory_mib'' res_MemoryMiB res_MemoryMiB_update, jf_int64 ''nodes'' res_Nodes res_Nodes_update]"

definition ZoneInput_json :: "ZoneInput jfield list" where
  "ZoneInput_json = [jf_string ''id'' zi_ID zi_ID_update, jf_string ''provider'' zi_Provider zi_Provider_update,
     jf_string ''account_id'' zi_AccountID zi_AccountID_update, jf_string ''region'' zi_Region zi_Region_update,
     jf_string ''provider_zone_id'' zi_ProviderZoneID zi_ProviderZoneID_update,
     omitempty zi_KubernetesRegion (jf_string ''kubernetes_region'' zi_KubernetesRegion zi_KubernetesRegion_update),
     omitempty zi_KubernetesZone (jf_string ''kubernetes_zone'' zi_KubernetesZone zi_KubernetesZone_update)]"

definition ClusterInput_json :: "ClusterInput jfield list" where
  "ClusterInput_json = [jf_string ''id'' ci_ID ci_ID_update,
     jf_string ''api_server_endpoint'' ci_APIServerEndpoint ci_APIServerEndpoint_update,
     jf_string ''ca_cert_hash'' ci_CACertHash ci_CACertHash_update,
     jf_string ''kubeadm_version'' ci_KubeadmVersion ci_KubeadmVersion_update,
     jf_string ''kubelet_version'' ci_KubeletVersion ci_KubeletVersion_update,
     jf_string ''container_runtime'' ci_ContainerRuntime ci_ContainerRuntime_update,
     jf_string ''cni'' ci_CNI ci_CNI_update]"

definition NodePoolInput_json :: "NodePoolInput jfield list" where
  "NodePoolInput_json = [jf_string ''id'' pi_ID pi_ID_update,
     jf ''limits'' pi_Limits pi_Limits_update (enc_struct Resources_json) (dec_struct Resources_json)]"

definition ClusterZoneInput_json :: "ClusterZoneInput jfield list" where
  "ClusterZoneInput_json = [jf_string ''cluster_id'' cz_ClusterID cz_ClusterID_update,
     jf_string ''zone_id'' cz_ZoneID cz_ZoneID_update,
     jf_string ''lifecycle_state'' cz_LifecycleState cz_LifecycleState_update,
     jf_string ''access_state'' cz_AccessState cz_AccessState_update]"

definition NodeGroupNaming_json :: "NodeGroupNaming jfield list" where
  "NodeGroupNaming_json = [jf_string ''provider'' nm_Provider nm_Provider_update,
     jf_string ''development_stage'' nm_DevelopmentStage nm_DevelopmentStage_update,
     jf_string ''region'' nm_Region nm_Region_update, jf_string ''az'' nm_AZ nm_AZ_update,
     jf_string ''group'' nm_Group nm_Group_update]"

definition SchedulingTaint_json :: "SchedulingTaint jfield list" where
  "SchedulingTaint_json = [jf_string ''key'' tt_Key tt_Key_update, jf_string ''value'' tt_Value tt_Value_update,
     jf_string ''effect'' tt_Effect tt_Effect_update]"

definition SchedulingTemplate_json :: "SchedulingTemplate jfield list" where
  "SchedulingTemplate_json = [jf_string ''instance_type'' st_InstanceType st_InstanceType_update,
     jf_string ''architecture'' st_Architecture st_Architecture_update,
     jf_string ''region'' st_Region st_Region_update, jf_string ''zone'' st_Zone st_Zone_update,
     omitempty st_Labels (jf ''labels'' st_Labels st_Labels_update enc_map dec_map),
     omitempty st_Taints (jf ''taints'' st_Taints st_Taints_update (enc_slice (enc_struct SchedulingTaint_json))
       (dec_slice zero_taint (dec_struct SchedulingTaint_json)))]"

definition NodeGroupInput_json :: "NodeGroupInput jfield list" where
  "NodeGroupInput_json = [
     jf ''naming'' gi_Naming gi_Naming_update (enc_struct NodeGroupNaming_json) (dec_struct NodeGroupNaming_json),
     jf_string ''id'' gi_ID gi_ID_update, jf_string ''cluster_id'' gi_ClusterID gi_ClusterID_update,
     jf_string ''node_pool_id'' gi_NodePoolID gi_NodePoolID_update, jf_string ''zone_id'' gi_ZoneID gi_ZoneID_update,
     jf_string ''capacity_class'' gi_CapacityClass gi_CapacityClass_update,
     jf_string ''provider_zone_id'' gi_ProviderZoneID gi_ProviderZoneID_update,
     jf_int64 ''min_nodes'' gi_MinNodes gi_MinNodes_update, jf_int64 ''max_nodes'' gi_MaxNodes gi_MaxNodes_update,
     jf_string ''template_revision'' gi_TemplateRevision gi_TemplateRevision_update,
     jf ''per_node'' gi_PerNode gi_PerNode_update (enc_struct Resources_json) (dec_struct Resources_json),
     jf ''launch_parameters'' gi_LaunchParameters gi_LaunchParameters_update enc_raw dec_raw,
     jf ''scheduling'' gi_Scheduling gi_Scheduling_update (enc_struct SchedulingTemplate_json)
       (dec_struct SchedulingTemplate_json)]"

definition FirstZoneInput_json :: "FirstZoneInput jfield list" where
  "FirstZoneInput_json = [
     jf ''zone'' fz_Zone fz_Zone_update (enc_struct ZoneInput_json) (dec_struct ZoneInput_json),
     jf ''cluster'' fz_Cluster fz_Cluster_update (enc_struct ClusterInput_json) (dec_struct ClusterInput_json),
     jf ''membership'' fz_Membership fz_Membership_update (enc_struct ClusterZoneInput_json)
       (dec_struct ClusterZoneInput_json),
     jf ''pool'' fz_Pool fz_Pool_update (enc_struct NodePoolInput_json) (dec_struct NodePoolInput_json),
     jf ''group'' fz_Group fz_Group_update (enc_struct NodeGroupInput_json) (dec_struct NodeGroupInput_json)]"

section \<open>Requests (capacity.go, removal.go)\<close>

definition BootstrapRequest_json :: "BootstrapRequest jfield list" where
  "BootstrapRequest_json = [jf_string ''kind'' br_Kind br_Kind_update,
     jf_string ''request_id'' br_RequestID br_RequestID_update, jf_string ''cluster_id'' br_ClusterID br_ClusterID_update,
     jf_string ''zone_id'' br_ZoneID br_ZoneID_update,
     jf ''parameters'' br_Parameters br_Parameters_update enc_raw dec_raw]"

definition RemovalNode_json :: "RemovalNode jfield list" where
  "RemovalNode_json = [jf_string ''host_id'' rn_HostID rn_HostID_update,
     jf_string ''node_name'' rn_NodeName rn_NodeName_update, jf_string ''provider_id'' rn_ProviderID rn_ProviderID_update]"

definition NodeRemovalRequest_json :: "NodeRemovalRequest jfield list" where
  "NodeRemovalRequest_json = [jf_string ''node_group_id'' rr_NodeGroupID rr_NodeGroupID_update,
     jf_string ''request_id'' rr_RequestID rr_RequestID_update,
     jf_int64 ''expected_target_revision'' rr_ExpectedTargetRevision rr_ExpectedTargetRevision_update,
     jf ''nodes'' rr_Nodes rr_Nodes_update (enc_slice (enc_struct RemovalNode_json))
       (dec_slice zero_removal_node (dec_struct RemovalNode_json))]"

definition CapacityResult_json :: "CapacityResult jfield list" where
  "CapacityResult_json = [jf_string ''RequestID'' cs_RequestID cs_RequestID_update,
     jf_string ''NodeGroupID'' cs_NodeGroupID cs_NodeGroupID_update,
     jf_int64 ''TargetNodes'' cs_TargetNodes cs_TargetNodes_update,
     jf_int64 ''TargetRevision'' cs_TargetRevision cs_TargetRevision_update]"

section \<open>Inventory and discovery (hosts.go, capacity.go)\<close>

record HostSummary =
  hs_ID :: string
  hs_Provider :: string
  hs_ProviderID :: string
  hs_Region :: string
  hs_ZoneID :: string
  hs_Role :: string
  hs_State :: string
  hs_Health :: string
  hs_Protected :: bool
  hs_NodeGroupID :: string
  hs_NodePoolID :: string
  hs_DesiredStateVersion :: string
  hs_ObservedStateVersion :: string

record AutoscalerNode =
  an_HostID :: string
  an_ProviderID :: string
  an_State :: string

record AutoscalerGroup =
  ag_ID :: string
  ag_ClusterID :: string
  ag_ZoneID :: string
  ag_Pool :: string
  ag_TemplateRevision :: string
  ag_MinNodes :: int
  ag_MaxNodes :: int
  ag_CPU :: int
  ag_MemoryMiB :: int
  ag_LaunchReady :: bool
  ag_Scheduling :: SchedulingTemplate
  ag_Nodes :: "AutoscalerNode list"

definition zero_node :: AutoscalerNode where
  "zero_node = \<lparr>an_HostID = [], an_ProviderID = [], an_State = []\<rparr>"

definition zero_agroup :: AutoscalerGroup where
  "zero_agroup = \<lparr>ag_ID = [], ag_ClusterID = [], ag_ZoneID = [], ag_Pool = [], ag_TemplateRevision = [],
     ag_MinNodes = 0, ag_MaxNodes = 0, ag_CPU = 0, ag_MemoryMiB = 0, ag_LaunchReady = False,
     ag_Scheduling = zero_scheduling, ag_Nodes = []\<rparr>"

definition HostSummary_json :: "HostSummary jfield list" where
  "HostSummary_json = [jf_string ''id'' hs_ID hs_ID_update, jf_string ''provider'' hs_Provider hs_Provider_update,
     jf_string ''provider_id'' hs_ProviderID hs_ProviderID_update, jf_string ''region'' hs_Region hs_Region_update,
     jf_string ''zone_id'' hs_ZoneID hs_ZoneID_update, jf_string ''role'' hs_Role hs_Role_update,
     jf_string ''state'' hs_State hs_State_update, jf_string ''health'' hs_Health hs_Health_update,
     jf_bool ''protected'' hs_Protected hs_Protected_update,
     omitempty hs_NodeGroupID (jf_string ''node_group_id'' hs_NodeGroupID hs_NodeGroupID_update),
     omitempty hs_NodePoolID (jf_string ''node_pool_id'' hs_NodePoolID hs_NodePoolID_update),
     omitempty hs_DesiredStateVersion
       (jf_string ''desired_state_version'' hs_DesiredStateVersion hs_DesiredStateVersion_update),
     omitempty hs_ObservedStateVersion
       (jf_string ''observed_state_version'' hs_ObservedStateVersion hs_ObservedStateVersion_update)]"

definition AutoscalerNode_json :: "AutoscalerNode jfield list" where
  "AutoscalerNode_json = [jf_string ''host_id'' an_HostID an_HostID_update,
     jf_string ''provider_id'' an_ProviderID an_ProviderID_update, jf_string ''state'' an_State an_State_update]"

definition AutoscalerGroup_json :: "AutoscalerGroup jfield list" where
  "AutoscalerGroup_json = [jf_string ''id'' ag_ID ag_ID_update,
     jf_string ''cluster_id'' ag_ClusterID ag_ClusterID_update, jf_string ''zone_id'' ag_ZoneID ag_ZoneID_update,
     jf_string ''pool'' ag_Pool ag_Pool_update,
     jf_string ''template_revision'' ag_TemplateRevision ag_TemplateRevision_update,
     jf_int64 ''min_nodes'' ag_MinNodes ag_MinNodes_update, jf_int64 ''max_nodes'' ag_MaxNodes ag_MaxNodes_update,
     jf_int64 ''cpu'' ag_CPU ag_CPU_update, jf_int64 ''memory_mib'' ag_MemoryMiB ag_MemoryMiB_update,
     jf_bool ''launch_ready'' ag_LaunchReady ag_LaunchReady_update,
     jf ''scheduling'' ag_Scheduling ag_Scheduling_update (enc_struct SchedulingTemplate_json)
       (dec_struct SchedulingTemplate_json),
     jf ''nodes'' ag_Nodes ag_Nodes_update (enc_slice (enc_struct AutoscalerNode_json))
       (dec_slice zero_node (dec_struct AutoscalerNode_json))]"

text \<open>\<open>AutoscalerDiscovery\<close> and \<open>HostList\<close> have one field each and are represented by it.\<close>

definition AutoscalerDiscovery_json :: "AutoscalerGroup list jfield list" where
  "AutoscalerDiscovery_json = [jf ''groups'' (\<lambda>gs. gs) (\<lambda>f gs. f gs) (enc_slice (enc_struct AutoscalerGroup_json))
     (dec_slice zero_agroup (dec_struct AutoscalerGroup_json))]"

definition HostList_json :: "HostSummary list \<Rightarrow> json" where
  "HostList_json hs = JObj [(''hosts'', enc_slice (enc_struct HostSummary_json) hs)]"

section \<open>Round trips\<close>

definition scheduling_canonical :: "SchedulingTemplate \<Rightarrow> bool" where
  "scheduling_canonical t \<longleftrightarrow> sorted (map fst (st_Labels t)) \<and> distinct (map fst (st_Labels t))"

lemmas codec_simps = jf_def omitempty_def enc_struct_def dec_struct_def struct_field_def

lemma dec_entries_enc: "dec_entries (map (\<lambda>(k, v). (k, JStr v)) m) = Some m"
  by (induction m) auto

lemma dec_map_enc: "sorted (map fst m) \<Longrightarrow> distinct (map fst m) \<Longrightarrow> dec_map strict (enc_map m) [] = Some m"
  by (simp add: dec_map_def enc_map_def dec_entries_enc canonical_sorted)

lemma dec_items_enc:
  assumes "\<And>x. x \<in> set xs \<Longrightarrow> dec strict (enc x) z = Some x"
  shows "dec_items z dec strict (map enc xs) [] = Some xs"
  using assms by (induction xs) auto

lemma dec_slice_enc: "(\<And>x. x \<in> set xs \<Longrightarrow> dec strict (enc x) z = Some x) \<Longrightarrow>
    dec_slice z dec strict (enc_slice enc xs) [] = Some xs"
  by (simp add: dec_slice_def enc_slice_def dec_items_enc)

lemma dec_raw_enc: "r = Raw v \<Longrightarrow> canon v = v \<Longrightarrow> dec_raw strict (enc_raw r) x = Some r"
  by (simp add: dec_raw_def enc_raw_def)

lemma Resources_roundtrip:
  "in_i64 (res_VCPU r) \<Longrightarrow> in_i64 (res_MemoryMiB r) \<Longrightarrow> in_i64 (res_Nodes r) \<Longrightarrow>
   dec_struct Resources_json strict (enc_struct Resources_json r) zero_resources = Some r"
  by (cases r) (simp add: Resources_json_def codec_simps zero_resources_def)

lemma ZoneInput_roundtrip: "dec_struct ZoneInput_json strict (enc_struct ZoneInput_json z) zero_zone = Some z"
  by (cases z) (simp add: ZoneInput_json_def codec_simps zero_zone_def)

lemma ClusterInput_roundtrip: "dec_struct ClusterInput_json strict (enc_struct ClusterInput_json z) zero_cluster = Some z"
  by (cases z) (simp add: ClusterInput_json_def codec_simps zero_cluster_def)

lemma ClusterZoneInput_roundtrip:
  "dec_struct ClusterZoneInput_json strict (enc_struct ClusterZoneInput_json z) zero_membership = Some z"
  by (cases z) (simp add: ClusterZoneInput_json_def codec_simps zero_membership_def)

lemma NodeGroupNaming_roundtrip:
  "dec_struct NodeGroupNaming_json strict (enc_struct NodeGroupNaming_json z) zero_naming = Some z"
  by (cases z) (simp add: NodeGroupNaming_json_def codec_simps zero_naming_def)

lemma SchedulingTaint_roundtrip:
  "dec_struct SchedulingTaint_json strict (enc_struct SchedulingTaint_json z) zero_taint = Some z"
  by (cases z) (simp add: SchedulingTaint_json_def codec_simps zero_taint_def)

lemma RemovalNode_roundtrip:
  "dec_struct RemovalNode_json strict (enc_struct RemovalNode_json z) zero_removal_node = Some z"
  by (cases z) (simp add: RemovalNode_json_def codec_simps zero_removal_node_def)

lemma AutoscalerNode_roundtrip:
  "dec_struct AutoscalerNode_json strict (enc_struct AutoscalerNode_json z) zero_node = Some z"
  by (cases z) (simp add: AutoscalerNode_json_def codec_simps zero_node_def)


text \<open>The structs that hold other structs: only the outer table is unfolded.\<close>

lemmas field_simps' = jf_def omitempty_def struct_field_def

lemma dec_enc_struct: "dec_struct fs strict (enc_struct fs s) z =
    dec_members fs strict (map (\<lambda>f. (jf_name f, jf_enc f s)) (filter (\<lambda>f. \<not> jf_omit f s) fs)) z"
  by (simp add: enc_struct_def dec_struct_def)

lemma SchedulingTemplate_roundtrip:
  assumes "scheduling_canonical t"
  shows "dec_struct SchedulingTemplate_json strict (enc_struct SchedulingTemplate_json t) zero_scheduling = Some t"
proof -
  have l: "dec_map strict (enc_map (st_Labels t)) [] = Some (st_Labels t)"
    using assms by (simp add: scheduling_canonical_def dec_map_enc)
  have s: "dec_slice zero_taint (dec_struct SchedulingTaint_json) strict (enc_slice (enc_struct SchedulingTaint_json) (st_Taints t)) []
      = Some (st_Taints t)" by (rule dec_slice_enc) (rule SchedulingTaint_roundtrip)
  show ?thesis using l s
    unfolding dec_enc_struct [of SchedulingTemplate_json] by (cases t) (simp add: SchedulingTemplate_json_def field_simps' zero_scheduling_def)
qed

lemma NodePoolInput_roundtrip:
  assumes "resources_i64 (pi_Limits p)"
  shows "dec_struct NodePoolInput_json strict (enc_struct NodePoolInput_json p) zero_pool = Some p"
  using assms Resources_roundtrip [of "pi_Limits p" strict]
  unfolding dec_enc_struct [of NodePoolInput_json] by (cases p) (simp add: NodePoolInput_json_def field_simps' zero_pool_def resources_i64_def)

definition raw_canonical :: "raw_json \<Rightarrow> bool" where
  "raw_canonical r = (case r of Raw v \<Rightarrow> canon v = v | _ \<Rightarrow> False)"

lemma raw_canonical_iff: "raw_canonical r \<longleftrightarrow> (\<exists>v. r = Raw v \<and> canon v = v)"
  by (cases r) (auto simp: raw_canonical_def)

text \<open>A group input the program can hold: \<open>int64\<close> quantities, parameters and labels in canonical order.\<close>

definition group_fits :: "NodeGroupInput \<Rightarrow> bool" where
  "group_fits g \<longleftrightarrow> in_i64 (gi_MinNodes g) \<and> in_i64 (gi_MaxNodes g) \<and> resources_i64 (gi_PerNode g)
     \<and> raw_canonical (gi_LaunchParameters g) \<and> scheduling_canonical (gi_Scheduling g)"

lemma NodeGroupInput_roundtrip:
  assumes "group_fits g"
  shows "dec_struct NodeGroupInput_json strict (enc_struct NodeGroupInput_json g) zero_group = Some g"
proof -
  note fits = assms [unfolded group_fits_def resources_i64_def raw_canonical_iff]
  have r: "dec_raw strict (enc_raw (gi_LaunchParameters g)) x = Some (gi_LaunchParameters g)" for x
    using fits by (auto intro: dec_raw_enc)
  show ?thesis
    using fits r Resources_roundtrip [of "gi_PerNode g" strict] SchedulingTemplate_roundtrip [of "gi_Scheduling g" strict]
      NodeGroupNaming_roundtrip [of strict "gi_Naming g"]
    unfolding dec_enc_struct [of NodeGroupInput_json] by (cases g) (simp add: NodeGroupInput_json_def field_simps' zero_group_def)
qed

definition first_zone_fits :: "FirstZoneInput \<Rightarrow> bool" where
  "first_zone_fits f \<longleftrightarrow> resources_i64 (pi_Limits (fz_Pool f)) \<and> group_fits (fz_Group f)"

lemma FirstZoneInput_roundtrip:
  assumes "first_zone_fits f"
  shows "dec_struct FirstZoneInput_json strict (enc_struct FirstZoneInput_json f) zero_first_zone = Some f"
  using assms NodeGroupInput_roundtrip [of "fz_Group f" strict] NodePoolInput_roundtrip [of "fz_Pool f" strict]
    ZoneInput_roundtrip [of strict "fz_Zone f"] ClusterInput_roundtrip [of strict "fz_Cluster f"]
    ClusterZoneInput_roundtrip [of strict "fz_Membership f"]
  unfolding dec_enc_struct [of FirstZoneInput_json] by (cases f) (simp add: FirstZoneInput_json_def field_simps' zero_first_zone_def first_zone_fits_def)

lemma NodeRemovalRequest_roundtrip:
  assumes "in_i64 (rr_ExpectedTargetRevision r)"
  shows "dec_struct NodeRemovalRequest_json strict (enc_struct NodeRemovalRequest_json r) zero_removal = Some r"
  using assms dec_slice_enc [of "rr_Nodes r" "dec_struct RemovalNode_json" strict "enc_struct RemovalNode_json" zero_removal_node]
    RemovalNode_roundtrip
  unfolding dec_enc_struct [of NodeRemovalRequest_json] by (cases r) (simp add: NodeRemovalRequest_json_def field_simps' zero_removal_def)

definition agroup_fits :: "AutoscalerGroup \<Rightarrow> bool" where
  "agroup_fits g \<longleftrightarrow> in_i64 (ag_MinNodes g) \<and> in_i64 (ag_MaxNodes g) \<and> in_i64 (ag_CPU g) \<and> in_i64 (ag_MemoryMiB g)
     \<and> scheduling_canonical (ag_Scheduling g)"

lemma AutoscalerGroup_roundtrip:
  assumes "agroup_fits g"
  shows "dec_struct AutoscalerGroup_json strict (enc_struct AutoscalerGroup_json g) zero_agroup = Some g"
  using assms dec_slice_enc [of "ag_Nodes g" "dec_struct AutoscalerNode_json" strict "enc_struct AutoscalerNode_json" zero_node]
    AutoscalerNode_roundtrip SchedulingTemplate_roundtrip [of "ag_Scheduling g" strict]
  unfolding dec_enc_struct [of AutoscalerGroup_json] by (cases g) (simp add: AutoscalerGroup_json_def field_simps' zero_agroup_def agroup_fits_def)

lemma AutoscalerDiscovery_roundtrip:
  assumes "\<forall>g\<in>set gs. agroup_fits g"
  shows "dec_struct AutoscalerDiscovery_json strict (enc_struct AutoscalerDiscovery_json gs) [] = Some gs"
proof -
  have "dec_slice zero_agroup (dec_struct AutoscalerGroup_json) strict (enc_slice (enc_struct AutoscalerGroup_json) gs) [] = Some gs"
    using assms by (intro dec_slice_enc AutoscalerGroup_roundtrip) blast
  then show ?thesis
    unfolding dec_enc_struct [of AutoscalerDiscovery_json] by (simp add: AutoscalerDiscovery_json_def field_simps')
qed

definition zero_result :: CapacityResult where
  "zero_result = \<lparr>cs_RequestID = [], cs_NodeGroupID = [], cs_TargetNodes = 0, cs_TargetRevision = 0\<rparr>"

lemma CapacityResult_roundtrip:
  assumes "in_i64 (cs_TargetNodes r)" "in_i64 (cs_TargetRevision r)"
  shows "dec_struct CapacityResult_json strict (enc_struct CapacityResult_json r) zero_result = Some r"
  using assms by (cases r) (simp add: CapacityResult_json_def codec_simps zero_result_def)

section \<open>Ranges\<close>

text \<open>Whatever the body says, a decoded input holds \<open>int64\<close> quantities only.\<close>

lemma keeps_resources: "keeps resources_i64 (dec_struct Resources_json)"
  by (rule keeps_struct) (auto simp: Resources_json_def resources_i64_def intro!: keeps_jf [OF keeps_int64])

lemma keeps_pool: "keeps (\<lambda>p. resources_i64 (pi_Limits p)) (dec_struct NodePoolInput_json)"
  by (rule keeps_struct) (auto simp: NodePoolInput_json_def intro!: keeps_jf [OF keeps_any] keeps_jf [OF keeps_resources])

lemma keeps_group: "keeps group_input_i64 (dec_struct NodeGroupInput_json)"
  by (rule keeps_struct) (auto simp: NodeGroupInput_json_def group_input_i64_def
      intro!: keeps_jf [OF keeps_any] keeps_jf [OF keeps_resources] keeps_jf [OF keeps_int64])

lemma keeps_first_zone:
  "keeps first_zone_i64 (dec_struct FirstZoneInput_json)"
  by (rule keeps_struct) (auto simp: FirstZoneInput_json_def first_zone_i64_def
      intro!: keeps_jf [OF keeps_any] keeps_jf [OF keeps_pool] keeps_jf [OF keeps_group])

end
