(* ===== verification/CapacityHTTP.thy ===== *)
theory CapacityHTTP
  imports ApiJSON CapacityControllers
begin

text \<open>
  The platform API (\<open>src/internal/capacity/http.go\<close>, \<open>hosts.go\<close>, \<open>discovery.go\<close>): routing, the two
  authentication guards, request decoding, the fifteen handlers and the mapping of errors to
  statuses.  A request is its method, the segments of its cleaned path, its query and header
  values in order, and its body; a body is its length in bytes, the JSON documents it holds and
  whether nothing but white space follows them.  A handler runs against the database and returns
  a reply and the new database.  Tracing is left out.
\<close>

section \<open>Requests and replies\<close>

record body =
  by_length :: int
  by_docs :: "json list"
  by_clean :: bool

record request =
  rq_method :: string
  rq_path :: "string list"
  rq_query :: "(string \<times> string) list"
  rq_headers :: "(string \<times> string) list"
  rq_body :: body

definition values_of :: "string \<Rightarrow> (string \<times> string) list \<Rightarrow> string list" where
  "values_of k kvs = map snd (filter (\<lambda>kv. fst kv = k) kvs)"

text \<open>\<open>Header.Get\<close> and \<open>Values.Get\<close>: the first value, or none.\<close>

definition value_of :: "string \<Rightarrow> (string \<times> string) list \<Rightarrow> string" where
  "value_of k kvs = (case values_of k kvs of [] \<Rightarrow> [] | v # _ \<Rightarrow> v)"

datatype reply = Text (status: int) string | Json (status: int) json

record API =
  api_ValidateTopology :: "(ZoneInput \<Rightarrow> bool) option"
  api_adminToken :: string
  api_adapterPrincipals :: "(string \<times> string) list"

definition NewAPI :: "string \<Rightarrow> (string \<times> string) list \<Rightarrow> API" where
  "NewAPI adminToken principals =
     \<lparr>api_ValidateTopology = None, api_adminToken = adminToken, api_adapterPrincipals = principals\<rparr>"

section \<open>Principals\<close>

fun check_principals :: "string list \<Rightarrow> (string \<times> string) list \<Rightarrow> string + unit" where
  "check_principals seen [] = Inr ()"
| "check_principals seen ((clusterID, token) # ps) =
     (if clusterID = [] \<or> clusterID \<noteq> TrimSpace clusterID \<or> token = [] \<or> token \<noteq> TrimSpace token
      then Inl ''adapter principal cluster IDs and credentials must be non-empty and canonical''
      else if token \<in> set seen then Inl ''adapter credential is assigned to multiple clusters''
      else check_principals (token # seen) ps)"

text \<open>The raw value is \<open>RawNone\<close> when the text is blank.\<close>

definition ParseAdapterPrincipals :: "raw_json \<Rightarrow> string + (string \<times> string) list" where
  "ParseAdapterPrincipals raw =
     (case raw of
        RawNone \<Rightarrow> Inr []
      | Raw (JObj kvs) \<Rightarrow>
          (case dec_map False (JObj kvs) [] of
             None \<Rightarrow> Inl ''CRANE_ADAPTER_PRINCIPALS must be a JSON object''
           | Some ps \<Rightarrow> rbind (check_principals [] ps) (\<lambda>_. Inr ps))
      | _ \<Rightarrow> Inl ''CRANE_ADAPTER_PRINCIPALS must be a JSON object'')"

section \<open>Errors and bodies\<close>

fun error_code :: "error \<Rightarrow> string \<times> int" where
  "error_code ErrAttachmentUnavailable = (''attachment_unavailable'', 503)"
| "error_code ErrNoRows = (''not_found'', 404)"
| "error_code ErrForbidden = (''forbidden'', 403)"
| "error_code ErrConflict = (''conflict'', 409)"
| "error_code ErrReplayMismatch = (''conflict'', 409)"
| "error_code ErrLimit = (''capacity_limit'', 422)"
| "error_code ErrInactive = (''precondition'', 422)"
| "error_code ErrTemplate = (''precondition'', 422)"
| "error_code ErrFulfilled = (''precondition'', 422)"
| "error_code ErrInvalid = (''invalid'', 400)"
| "error_code (ErrWrap s e) = error_code e"
| "error_code _ = (''internal'', 500)"

definition capacityError :: "error \<Rightarrow> reply" where
  "capacityError e = Json (snd (error_code e)) (JObj [(''code'', JStr (fst (error_code e)))])"

definition maxBodyBytes :: int where
  "maxBodyBytes = 1048576"

definition decodeJSON :: "'a decoder \<Rightarrow> 'a \<Rightarrow> body \<Rightarrow> 'a option" where
  "decodeJSON dec zero b =
     (if by_length b > maxBodyBytes \<or> \<not> by_clean b then None
      else case by_docs b of [v] \<Rightarrow> dec True v zero | _ \<Rightarrow> None)"

type_synonym handler = "db \<Rightarrow> reply \<times> db"

definition with_body :: "'a decoder \<Rightarrow> 'a \<Rightarrow> request \<Rightarrow> ('a \<Rightarrow> handler) \<Rightarrow> handler" where
  "with_body dec zero rq k db =
     (case decodeJSON dec zero (rq_body rq) of
        None \<Rightarrow> (Text 400 ''invalid JSON'', db)
      | Some x \<Rightarrow> k x db)"

definition writeJSON :: "json \<Rightarrow> reply" where
  "writeJSON v = Json 200 v"

text \<open>The end of a handler that runs statements, and of one that runs a transaction.\<close>

definition reply_statements :: "json \<Rightarrow> (error + unit) \<times> db \<Rightarrow> reply \<times> db" where
  "reply_statements v r =
     (case r of (Inl e, db') \<Rightarrow> (capacityError e, db') | (Inr _, db') \<Rightarrow> (writeJSON v, db'))"

definition reply_tx :: "json \<Rightarrow> error + db \<Rightarrow> handler" where
  "reply_tx v r db = (case r of Inl e \<Rightarrow> (capacityError e, db) | Inr db' \<Rightarrow> (writeJSON v, db'))"

section \<open>Topology handlers\<close>

definition topology_refused :: "API \<Rightarrow> ZoneInput \<Rightarrow> bool" where
  "topology_refused a z = (case api_ValidateTopology a of None \<Rightarrow> False | Some ok \<Rightarrow> \<not> ok z)"

definition API_createZone :: "k8s_validation \<Rightarrow> API \<Rightarrow> request \<Rightarrow> handler" where
  "API_createZone K a rq = with_body (dec_struct ZoneInput_json) zero_zone rq (\<lambda>inp db.
     if topology_refused a inp then (capacityError ErrInvalid, db)
     else reply_statements (enc_struct ZoneInput_json inp) (CreateZone K inp db))"

definition API_createCluster :: "request \<Rightarrow> handler" where
  "API_createCluster rq = with_body (dec_struct ClusterInput_json) zero_cluster rq (\<lambda>inp db.
     reply_statements (enc_struct ClusterInput_json inp) (CreateCluster_op inp db))"

definition API_createNodePool :: "request \<Rightarrow> handler" where
  "API_createNodePool rq = with_body (dec_struct NodePoolInput_json) zero_pool rq (\<lambda>inp db.
     reply_statements (enc_struct NodePoolInput_json inp) (CreateNodePool inp db))"

definition API_createNodeGroup :: "k8s_validation \<Rightarrow> request \<Rightarrow> handler" where
  "API_createNodeGroup K rq = with_body (dec_struct NodeGroupInput_json) zero_group rq (\<lambda>inp db.
     case NormalizeID inp of
       None \<Rightarrow> (capacityError ErrInvalid, db)
     | Some g \<Rightarrow> reply_statements (enc_struct NodeGroupInput_json g) (CreateNodeGroup K g db))"

record template_update =
  tu_ExpectedTemplateRevision :: string
  tu_TemplateRevision :: string
  tu_Scheduling :: SchedulingTemplate
  tu_LaunchParameters :: raw_json

definition zero_template_update :: template_update where
  "zero_template_update = \<lparr>tu_ExpectedTemplateRevision = [], tu_TemplateRevision = [],
     tu_Scheduling = zero_scheduling, tu_LaunchParameters = RawNone\<rparr>"

definition template_update_json :: "template_update jfield list" where
  "template_update_json = [
     jf_string ''expected_template_revision'' tu_ExpectedTemplateRevision tu_ExpectedTemplateRevision_update,
     jf_string ''template_revision'' tu_TemplateRevision tu_TemplateRevision_update,
     jf ''scheduling'' tu_Scheduling tu_Scheduling_update (enc_struct SchedulingTemplate_json)
       (dec_struct SchedulingTemplate_json),
     jf ''launch_parameters'' tu_LaunchParameters tu_LaunchParameters_update enc_raw dec_raw]"

definition status_json :: "string \<Rightarrow> json" where
  "status_json s = JObj [(''status'', JStr s)]"

definition API_updateNodeGroupTemplate :: "k8s_validation \<Rightarrow> string \<Rightarrow> request \<Rightarrow> handler" where
  "API_updateNodeGroupTemplate K gid rq =
     with_body (dec_struct template_update_json) zero_template_update rq (\<lambda>inp db.
       reply_tx (status_json ''updated'') (UpdateNodeGroupScheduling K gid (tu_ExpectedTemplateRevision inp)
         (tu_TemplateRevision inp) (tu_Scheduling inp) (tu_LaunchParameters inp) db) db)"

definition API_seedFirstZone :: "k8s_validation \<Rightarrow> API \<Rightarrow> request \<Rightarrow> handler" where
  "API_seedFirstZone K a rq = with_body (dec_struct FirstZoneInput_json) zero_first_zone rq (\<lambda>inp db.
     if topology_refused a (fz_Zone inp) then (capacityError ErrInvalid, db)
     else reply_tx (status_json ''ready'') (SeedFirstZone K inp db) db)"

definition API_createClusterZone :: "request \<Rightarrow> handler" where
  "API_createClusterZone rq = with_body (dec_struct ClusterZoneInput_json) zero_membership rq (\<lambda>inp db.
     case normalizeMembership inp of
       Inl e \<Rightarrow> (capacityError e, db)
     | Inr m \<Rightarrow> reply_statements (enc_struct ClusterZoneInput_json m) (CreateClusterZone m db))"

record membership_update =
  mu_LifecycleState :: string
  mu_AccessState :: string

definition membership_update_json :: "membership_update jfield list" where
  "membership_update_json = [jf_string ''lifecycle_state'' mu_LifecycleState mu_LifecycleState_update,
     jf_string ''access_state'' mu_AccessState mu_AccessState_update]"

definition API_updateClusterZone :: "string \<Rightarrow> string \<Rightarrow> request \<Rightarrow> handler" where
  "API_updateClusterZone clusterID zoneID rq =
     with_body (dec_struct membership_update_json) \<lparr>mu_LifecycleState = [], mu_AccessState = []\<rparr> rq (\<lambda>st db.
       if mu_LifecycleState st = [] \<or> mu_AccessState st = [] then (capacityError ErrInvalid, db)
       else (let inp = \<lparr>cz_ClusterID = clusterID, cz_ZoneID = zoneID, cz_LifecycleState = mu_LifecycleState st,
                        cz_AccessState = mu_AccessState st\<rparr> in
             reply_tx (enc_struct ClusterZoneInput_json inp) (UpdateClusterZone inp db) db))"

section \<open>Bootstrap handlers\<close>

record bootstrap_intent =
  bi_Zone :: ZoneInput
  bi_FirstZone :: FirstZoneInput

definition bootstrap_intent_json :: "bootstrap_intent jfield list" where
  "bootstrap_intent_json = [
     jf ''zone'' bi_Zone bi_Zone_update (enc_struct ZoneInput_json) (dec_struct ZoneInput_json),
     jf ''first_zone'' bi_FirstZone bi_FirstZone_update (enc_struct FirstZoneInput_json)
       (dec_struct FirstZoneInput_json)]"

definition decode_intent :: "raw_json \<Rightarrow> bootstrap_intent option" where
  "decode_intent r =
     (case r of
        Raw v \<Rightarrow> dec_struct bootstrap_intent_json False v \<lparr>bi_Zone = zero_zone, bi_FirstZone = zero_first_zone\<rparr>
      | _ \<Rightarrow> None)"

text \<open>The decoding of the parameters inside \<open>Store.CreateBootstrap\<close>.\<close>

definition first_zone_json :: "FirstZoneInput jfield list" where
  "first_zone_json = [jf ''first_zone'' (\<lambda>f. f) (\<lambda>u f. u f) (enc_struct FirstZoneInput_json)
     (dec_struct FirstZoneInput_json)]"

definition decode_first_zone :: "json \<Rightarrow> FirstZoneInput option" where
  "decode_first_zone v = dec_struct first_zone_json False v zero_first_zone"

definition bootstrap_refused :: "API \<Rightarrow> BootstrapRequest \<Rightarrow> bool" where
  "bootstrap_refused a inp \<longleftrightarrow> api_ValidateTopology a \<noteq> None \<and>
     (case decode_intent (br_Parameters inp) of
        None \<Rightarrow> True
      | Some i \<Rightarrow>
          topology_refused a (if br_Kind inp = ''create_cluster'' then fz_Zone (bi_FirstZone i) else bi_Zone i))"

definition API_createBootstrap :: "(nat \<Rightarrow> string) \<Rightarrow> int \<Rightarrow> k8s_validation \<Rightarrow> API \<Rightarrow> request \<Rightarrow> handler" where
  "API_createBootstrap uuid now K a rq = with_body (dec_struct BootstrapRequest_json) zero_bootstrap rq (\<lambda>inp db.
     if br_Kind inp = ''attach_zone'' then (capacityError ErrAttachmentUnavailable, db)
     else if bootstrap_refused a inp then (capacityError ErrInvalid, db)
     else case CreateBootstrap uuid now K decode_first_zone inp db of
         Inl e \<Rightarrow> (capacityError e, db)
       | Inr (i, db') \<Rightarrow> (writeJSON (JObj [(''operation_id'', JStr i)]), db'))"

fun kind_string :: "op_kind \<Rightarrow> string" where
  "kind_string Provision = ''provision''"
| "kind_string CreateCluster = ''create_cluster''"
| "kind_string AttachZone = ''attach_zone''"
| "kind_string RemoveNode = ''remove_node''"
| "kind_string (OtherKind s) = s"

fun op_state_string :: "op_state \<Rightarrow> string" where
  "op_state_string OpPending = ''pending''"
| "op_state_string OpLeased = ''leased''"
| "op_state_string OpLaunching = ''launching''"
| "op_state_string OpSucceeded = ''succeeded''"
| "op_state_string OpCancelled = ''cancelled''"
| "op_state_string OpFailed = ''failed''"
| "op_state_string OpBlocked = ''blocked''"

fun phase_string :: "ZoneBootstrapPhase \<Rightarrow> string" where
  "phase_string ZoneRequested = ''Requested''"
| "phase_string ZoneInfrastructureProvisioning = ''InfrastructureProvisioning''"
| "phase_string ZoneControlPlaneInitializing = ''ControlPlaneInitializing''"
| "phase_string ZoneNetworkInstalling = ''NetworkInstalling''"
| "phase_string ZoneDominatorInstalling = ''DominatorInstalling''"
| "phase_string ZoneValidating = ''Validating''"
| "phase_string ZoneReady = ''Ready''"
| "phase_string ZoneFailed = ''Failed''"

definition bootstrap_status_json :: "BootstrapStatus_t \<Rightarrow> json" where
  "bootstrap_status_json s = JObj [(''operation_id'', JStr (bt_OperationID s)), (''kind'', JStr (kind_string (bt_Kind s))),
     (''cluster_id'', JStr (bt_ClusterID s)), (''zone_id'', JStr (bt_ZoneID s)),
     (''state'', JStr (op_state_string (bt_State s))), (''phase'', JStr (phase_string (bt_Phase s)))]"

definition API_bootstrapStatus :: "string \<Rightarrow> handler" where
  "API_bootstrapStatus i db =
     (case BootstrapStatus db i of
        Inl e \<Rightarrow> (capacityError e, db)
      | Inr s \<Rightarrow> (writeJSON (bootstrap_status_json s), db))"

section \<open>Inventory (hosts.go)\<close>

definition host_summary :: "string \<Rightarrow> host_row \<Rightarrow> zone_row \<Rightarrow> HostSummary" where
  "host_summary provider h z = \<lparr>hs_ID = h_id h, hs_Provider = provider, hs_ProviderID = coalesce (h_providerid h),
     hs_Region = z_region z, hs_ZoneID = z_id z, hs_Role = coalesce (h_role h), hs_State = host_state_string (h_state h),
     hs_Health = (case h_health h of None \<Rightarrow> ''unknown'' | Some s \<Rightarrow> s), hs_Protected = h_protected h,
     hs_NodeGroupID = coalesce (h_node_group_id h), hs_NodePoolID = coalesce (h_node_pool_id h),
     hs_DesiredStateVersion = h_desired_state_version h, hs_ObservedStateVersion = h_observed_state_version h\<rparr>"

definition host_placement :: "host_row \<Rightarrow> string option" where
  "host_placement h = (case h_crane_zone h of None \<Rightarrow> h_zone h | Some z \<Rightarrow> Some z)"

definition ListHosts :: "db \<Rightarrow> string \<Rightarrow> string \<Rightarrow> HostSummary list" where
  "ListHosts db provider region =
     [host_summary provider h z. h \<leftarrow> sort_key h_id (hosts db), z \<leftarrow> zones db,
        host_placement h = Some (z_id z), h_provider h = Some provider, z_provider z = provider, z_region z = region]"

definition API_listHosts :: "request \<Rightarrow> handler" where
  "API_listHosts rq db =
     (let provider = TrimSpace (value_of ''provider'' (rq_query rq));
          region = TrimSpace (value_of ''region'' (rq_query rq)) in
      if length (values_of ''provider'' (rq_query rq)) \<noteq> 1 \<or> length (values_of ''region'' (rq_query rq)) \<noteq> 1
         \<or> provider = [] \<or> region = []
      then (Text 400 ''one provider and one region are required'', db)
      else (writeJSON (HostList_json (ListHosts db provider region)), db))"

section \<open>Discovery (discovery.go)\<close>

definition placement_ready :: "group_row \<Rightarrow> pool_row \<Rightarrow> zone_row \<Rightarrow> cluster_row \<Rightarrow> membership_row \<Rightarrow> bool" where
  "placement_ready g p z c m \<longleftrightarrow> g_lifecycle_state g = ''active'' \<and> p_enabled p \<and> z_enabled z
     \<and> z_lifecycle_state z = ''ready'' \<and> c_lifecycle_state c = ''ready'' \<and> m_lifecycle_state m = ''ready''
     \<and> m_access_state m = ''approved''"

definition group_hosts :: "db \<Rightarrow> string \<Rightarrow> host_row list" where
  "group_hosts db gid = filter (\<lambda>h. h_node_group_id h = Some gid \<and> h_state h \<noteq> HostTerminated) (hosts db)"

definition autoscaler_nodes :: "db \<Rightarrow> string \<Rightarrow> AutoscalerNode list" where
  "autoscaler_nodes db gid = filter (\<lambda>n. an_ProviderID n \<noteq> [])
     (map (\<lambda>h. \<lparr>an_HostID = h_id h, an_ProviderID = h_kubernetes_provider_id h, an_State = host_state_string (h_state h)\<rparr>)
       (sort_key h_id (group_hosts db gid)))"

definition autoscaler_group :: "db \<Rightarrow> group_row \<Rightarrow> bool \<Rightarrow> AutoscalerGroup" where
  "autoscaler_group db g ready = \<lparr>ag_ID = g_id g, ag_ClusterID = g_cluster_id g, ag_ZoneID = g_zone_id g,
     ag_Pool = g_node_pool_id g, ag_TemplateRevision = g_template_revision g, ag_MinNodes = g_min_nodes g,
     ag_MaxNodes = g_max_nodes g, ag_CPU = g_vcpu g, ag_MemoryMiB = g_memory_mib g, ag_LaunchReady = ready,
     ag_Scheduling = g_scheduling g, ag_Nodes = autoscaler_nodes db (g_id g)\<rparr>"

definition AutoscalerDiscovery :: "db \<Rightarrow> string \<Rightarrow> error + AutoscalerGroup list" where
  "AutoscalerDiscovery db clusterID =
     (if clusterID = [] then Inl ErrInvalid
      else Inr [autoscaler_group db g (placement_ready g p z c m).
        g \<leftarrow> sort_key g_id (node_groups db), g_cluster_id g = clusterID,
        p \<leftarrow> node_pools db, p_id p = g_node_pool_id g, z \<leftarrow> zones db, z_id z = g_zone_id g,
        c \<leftarrow> clusters db, c_id c = g_cluster_id g,
        m \<leftarrow> cluster_zones db, m_cluster_id m = g_cluster_id g \<and> m_zone_id m = g_zone_id g,
        placement_ready g p z c m \<or> group_hosts db (g_id g) \<noteq> []])"

section \<open>Adapter handlers\<close>

record setTargetRequest =
  sq_NodeGroupID :: string
  sq_RequestID :: string
  sq_ExpectedTargetRevision :: int
  sq_DesiredTarget :: int
  sq_TemplateRevision :: string

definition zero_set_target :: setTargetRequest where
  "zero_set_target = \<lparr>sq_NodeGroupID = [], sq_RequestID = [], sq_ExpectedTargetRevision = 0, sq_DesiredTarget = 0,
     sq_TemplateRevision = []\<rparr>"

definition setTargetRequest_json :: "setTargetRequest jfield list" where
  "setTargetRequest_json = [jf_string ''node_group_id'' sq_NodeGroupID sq_NodeGroupID_update,
     jf_string ''request_id'' sq_RequestID sq_RequestID_update,
     jf_int64 ''expected_target_revision'' sq_ExpectedTargetRevision sq_ExpectedTargetRevision_update,
     jf_int64 ''desired_target'' sq_DesiredTarget sq_DesiredTarget_update,
     jf_string ''template_revision'' sq_TemplateRevision sq_TemplateRevision_update]"

definition API_setTarget :: "(nat \<Rightarrow> string) \<Rightarrow> int \<Rightarrow> string \<Rightarrow> request \<Rightarrow> handler" where
  "API_setTarget uuid now cluster rq db0 =
     (if cluster = [] then (Text 401 ''missing cluster identity'', db0)
      else with_body (dec_struct setTargetRequest_json) zero_set_target rq (\<lambda>inp db.
        case SetTarget uuid now \<lparr>cr_NodeGroupID = sq_NodeGroupID inp, cr_RequestID = sq_RequestID inp,
               cr_ClusterID = cluster, cr_ExpectedTargetRevision = sq_ExpectedTargetRevision inp,
               cr_DesiredTarget = sq_DesiredTarget inp, cr_TemplateRevision = sq_TemplateRevision inp\<rparr> db of
          Inl e \<Rightarrow> (capacityError e, db)
        | Inr (out, db') \<Rightarrow> (writeJSON (enc_struct CapacityResult_json out), db')) db0)"

definition API_target :: "string \<Rightarrow> string \<Rightarrow> handler" where
  "API_target cluster gid db =
     (case Target db cluster gid of
        Inl e \<Rightarrow> (capacityError e, db)
      | Inr out \<Rightarrow> (writeJSON (enc_struct CapacityResult_json out), db))"

definition API_discovery :: "string \<Rightarrow> handler" where
  "API_discovery cluster db =
     (case AutoscalerDiscovery db cluster of
        Inl e \<Rightarrow> (capacityError e, db)
      | Inr gs \<Rightarrow> (writeJSON (enc_struct AutoscalerDiscovery_json gs), db))"

definition API_removeNodes :: "(nat \<Rightarrow> string) \<Rightarrow> int \<Rightarrow> string \<Rightarrow> request \<Rightarrow> handler" where
  "API_removeNodes uuid now cluster rq = with_body (dec_struct NodeRemovalRequest_json) zero_removal rq (\<lambda>inp db.
     reply_tx (status_json ''accepted'') (CreateAutoscalerRemovals uuid now cluster inp db) db)"

section \<open>Guards\<close>

definition admin :: "API \<Rightarrow> request \<Rightarrow> handler \<Rightarrow> handler" where
  "admin a rq nxt db =
     (if api_adminToken a = [] \<or> value_of ''Authorization'' (rq_headers rq) \<noteq> ''Bearer '' @ api_adminToken a
      then (Text 401 ''unauthorized'', db) else nxt db)"

definition bearer :: "request \<Rightarrow> string" where
  "bearer rq = (let auth = value_of ''Authorization'' (rq_headers rq) in
     if prefix ''Bearer '' auth then drop 7 auth else [])"

definition authenticatedCluster :: "API \<Rightarrow> string \<Rightarrow> string" where
  "authenticatedCluster a presented =
     fold (\<lambda>(clusterID, token) c. if presented \<noteq> [] \<and> presented = token then clusterID else c)
       (api_adapterPrincipals a) []"

definition adapter :: "API \<Rightarrow> request \<Rightarrow> (string \<Rightarrow> handler) \<Rightarrow> handler" where
  "adapter a rq nxt db =
     (let c = authenticatedCluster a (bearer rq) in
      if c = [] then (Text 401 ''unauthorized'', db)
      else if TrimSpace (value_of ''X-Crane-Cluster-Id'' (rq_headers rq)) \<noteq> c
      then (Text 403 ''forbidden cluster identity'', db)
      else nxt c db)"

section \<open>Routing\<close>

datatype segment = Lit string | Wild

datatype endpoint =
    RListHosts | RCreateZone | RCreateCluster | RCreateClusterZone | RUpdateClusterZone
  | RCreateNodePool | RCreateNodeGroup | RUpdateTemplate | RSeedFirstZone | RCreateBootstrap
  | RBootstrapStatus | RSetTarget | RTarget | RDiscovery | RRemoveNodes

definition routes :: "(string \<times> segment list \<times> endpoint) list" where
  "routes = [
     (''GET'', [Lit ''v1'', Lit ''hosts''], RListHosts),
     (''POST'', [Lit ''v1'', Lit ''zones''], RCreateZone),
     (''POST'', [Lit ''v1'', Lit ''clusters''], RCreateCluster),
     (''POST'', [Lit ''v1'', Lit ''cluster-zones''], RCreateClusterZone),
     (''PATCH'', [Lit ''v1'', Lit ''cluster-zones'', Wild, Wild], RUpdateClusterZone),
     (''POST'', [Lit ''v1'', Lit ''node-pools''], RCreateNodePool),
     (''POST'', [Lit ''v1'', Lit ''node-groups''], RCreateNodeGroup),
     (''PATCH'', [Lit ''v1'', Lit ''node-groups'', Wild, Lit ''template''], RUpdateTemplate),
     (''POST'', [Lit ''v1'', Lit ''first-zone''], RSeedFirstZone),
     (''POST'', [Lit ''v1'', Lit ''bootstrap''], RCreateBootstrap),
     (''GET'', [Lit ''v1'', Lit ''bootstrap'', Wild], RBootstrapStatus),
     (''POST'', [Lit ''v1'', Lit ''capacity''], RSetTarget),
     (''GET'', [Lit ''v1'', Lit ''node-groups'', Wild, Lit ''target''], RTarget),
     (''GET'', [Lit ''v1'', Lit ''autoscaler'', Lit ''discovery''], RDiscovery),
     (''POST'', [Lit ''v1'', Lit ''node-removals''], RRemoveNodes)]"

text \<open>The values of the wildcards when a path matches; a wildcard takes one non-empty segment.\<close>

fun match_path :: "segment list \<Rightarrow> string list \<Rightarrow> string list option" where
  "match_path [] [] = Some []"
| "match_path (Lit s # ps) (x # xs) = (if s = x then match_path ps xs else None)"
| "match_path (Wild # ps) (x # xs) = (if x = [] then None else map_option (\<lambda>vs. x # vs) (match_path ps xs))"
| "match_path _ _ = None"

text \<open>A \<open>GET\<close> pattern also serves \<open>HEAD\<close>.\<close>

definition match_method :: "string \<Rightarrow> string \<Rightarrow> bool" where
  "match_method m r \<longleftrightarrow> r = m \<or> (m = ''GET'' \<and> r = ''HEAD'')"

definition route :: "request \<Rightarrow> (endpoint \<times> string list) option" where
  "route rq =
     (case [(e, vs). (m, ps, e) \<leftarrow> routes, match_method m (rq_method rq), vs \<leftarrow> (case match_path ps (rq_path rq) of None \<Rightarrow> [] | Some vs \<Rightarrow> [vs])] of
        [] \<Rightarrow> None | r # _ \<Rightarrow> Some r)"

definition path_known :: "request \<Rightarrow> bool" where
  "path_known rq = list_ex (\<lambda>(m, ps, e). match_path ps (rq_path rq) \<noteq> None) routes"

text \<open>What a request meets at the server: fresh identifiers, the clock, the validators.\<close>

record api_env =
  ae_uuid :: "nat \<Rightarrow> string"
  ae_now :: int
  ae_K :: k8s_validation

fun endpoint_handler :: "api_env \<Rightarrow> API \<Rightarrow> request \<Rightarrow> endpoint \<Rightarrow> string list \<Rightarrow> handler" where
  "endpoint_handler E a rq RListHosts vs = admin a rq (API_listHosts rq)"
| "endpoint_handler E a rq RCreateZone vs = admin a rq (API_createZone (ae_K E) a rq)"
| "endpoint_handler E a rq RCreateCluster vs = admin a rq (API_createCluster rq)"
| "endpoint_handler E a rq RCreateClusterZone vs = admin a rq (API_createClusterZone rq)"
| "endpoint_handler E a rq RUpdateClusterZone vs = admin a rq (API_updateClusterZone (vs ! 0) (vs ! 1) rq)"
| "endpoint_handler E a rq RCreateNodePool vs = admin a rq (API_createNodePool rq)"
| "endpoint_handler E a rq RCreateNodeGroup vs = admin a rq (API_createNodeGroup (ae_K E) rq)"
| "endpoint_handler E a rq RUpdateTemplate vs = admin a rq (API_updateNodeGroupTemplate (ae_K E) (vs ! 0) rq)"
| "endpoint_handler E a rq RSeedFirstZone vs = admin a rq (API_seedFirstZone (ae_K E) a rq)"
| "endpoint_handler E a rq RCreateBootstrap vs = admin a rq (API_createBootstrap (ae_uuid E) (ae_now E) (ae_K E) a rq)"
| "endpoint_handler E a rq RBootstrapStatus vs = admin a rq (API_bootstrapStatus (vs ! 0))"
| "endpoint_handler E a rq RSetTarget vs = adapter a rq (\<lambda>c. API_setTarget (ae_uuid E) (ae_now E) c rq)"
| "endpoint_handler E a rq RTarget vs = adapter a rq (\<lambda>c. API_target c (vs ! 0))"
| "endpoint_handler E a rq RDiscovery vs = adapter a rq API_discovery"
| "endpoint_handler E a rq RRemoveNodes vs = adapter a rq (\<lambda>c. API_removeNodes (ae_uuid E) (ae_now E) c rq)"

definition Handler :: "api_env \<Rightarrow> API \<Rightarrow> request \<Rightarrow> handler" where
  "Handler E a rq db =
     (case route rq of
        Some (e, vs) \<Rightarrow> endpoint_handler E a rq e vs db
      | None \<Rightarrow> (if path_known rq then (Text 405 ''Method Not Allowed'', db)
                 else (Text 404 ''404 page not found'', db)))"

section \<open>Sound handlers\<close>

text \<open>
  A handler is sound when it only runs store transactions, and when a reply other than 200 leaves
  the database as it was, up to regions a refused zone may have registered.
\<close>

definition region_growth :: "db \<Rightarrow> db \<Rightarrow> bool" where
  "region_growth db db' \<longleftrightarrow> (\<exists>rs. db' = db\<lparr>topology_regions := topology_regions db @ rs\<rparr>)"

definition sound :: "k8s_validation \<Rightarrow> handler \<Rightarrow> bool" where
  "sound K h \<longleftrightarrow> (\<forall>db. steps K db (snd (h db)) \<and> (status (fst (h db)) \<noteq> 200 \<longrightarrow> region_growth db (snd (h db))))"

lemma region_growth_refl [simp]: "region_growth db db"
  unfolding region_growth_def by (rule exI [of _ "[]"]) simp

lemma soundI:
  "(\<And>db. steps K db (snd (h db)) \<and> (status (fst (h db)) \<noteq> 200 \<longrightarrow> region_growth db (snd (h db)))) \<Longrightarrow> sound K h"
  by (simp add: sound_def)

lemma sound_read: "(\<And>db. snd (h db) = db) \<Longrightarrow> sound K h"
  by (simp add: sound_def)

lemma sound_if: "(\<And>db. P db \<Longrightarrow> h1 db = h2 db) \<Longrightarrow> sound K h2 \<Longrightarrow> (\<And>db. \<not> P db \<Longrightarrow> snd (h1 db) = db) \<Longrightarrow> sound K h1"
  unfolding sound_def by (metis region_growth_refl rtranclp.rtrancl_refl)

lemma sound_admin: "sound K h \<Longrightarrow> sound K (admin a rq h)"
  by (rule sound_if [of "\<lambda>_. \<not> (api_adminToken a = [] \<or> value_of ''Authorization'' (rq_headers rq) \<noteq> ''Bearer '' @ api_adminToken a)" _ h])
    (auto simp: admin_def)

lemma sound_adapter: "(\<And>c. c \<noteq> [] \<Longrightarrow> sound K (h c)) \<Longrightarrow> sound K (adapter a rq h)"
  unfolding sound_def adapter_def Let_def by auto

lemma sound_body:
  assumes "\<And>x. decodeJSON dec zero (rq_body rq) = Some x \<Longrightarrow> sound K (k x)"
  shows "sound K (with_body dec zero rq k)"
  using assms unfolding sound_def with_body_def by (auto split: option.splits)

lemma sound_tx:
  assumes "\<And>db db'. f db = Inr db' \<Longrightarrow> steps K db db'"
  shows "sound K (\<lambda>db. reply_tx v (f db) db)"
  using assms by (auto simp: sound_def reply_tx_def writeJSON_def split: sum.splits)

lemma sound_statements:
  assumes "\<And>db. steps K db (snd (f db))" "\<And>db e db'. f db = (Inl e, db') \<Longrightarrow> region_growth db db'"
  shows "sound K (\<lambda>db. reply_statements v (f db))"
proof (rule soundI)
  fix db
  obtain r db' where f: "f db = (r, db')" by (cases "f db")
  show "steps K db (snd (reply_statements v (f db)))
    \<and> (status (fst (reply_statements v (f db))) \<noteq> 200 \<longrightarrow> region_growth db (snd (reply_statements v (f db))))"
    using assms [of db] f by (cases r) (auto simp: reply_statements_def writeJSON_def)
qed

lemma sound_guard: "sound K h \<Longrightarrow> sound K (\<lambda>db. if c then (r, db) else h db)"
  by (auto simp: sound_def)

lemma decodeJSON_keeps: "decodeJSON dec zero b = Some x \<Longrightarrow> keeps P dec \<Longrightarrow> P zero \<Longrightarrow> P x"
  by (auto simp: decodeJSON_def split: if_splits list.splits dest: keepsD)

section \<open>Refused writes\<close>

lemma CreateZone_refused: "CreateZone K z db = (Inl e, db') \<Longrightarrow> region_growth db db'"
  unfolding CreateZone_def createZone_def immutableInsert_def insert_zone_def zone_region_trigger_def region_growth_def
  by (auto simp: Let_def rbind_def split: if_splits option.splits sum.splits intro: exI [of _ "[]"])

lemma CreateCluster_refused: "CreateCluster_op c db = (Inl e, db') \<Longrightarrow> db' = db"
  by (auto simp: CreateCluster_op_def createCluster_def immutableInsert_def insert_cluster_def Let_def split: if_splits option.splits sum.splits)

lemma CreateNodePool_refused: "CreateNodePool p db = (Inl e, db') \<Longrightarrow> db' = db"
  by (auto simp: CreateNodePool_def createPool_def immutableInsert_def insert_pool_def Let_def split: if_splits option.splits sum.splits)

lemma CreateNodeGroup_refused: "CreateNodeGroup K g db = (Inl e, db') \<Longrightarrow> db' = db"
  by (auto simp: CreateNodeGroup_def createGroup_def immutableInsert_def insert_group_def Let_def split: if_splits option.splits sum.splits)

lemma CreateClusterZone_refused: "CreateClusterZone m db = (Inl e, db') \<Longrightarrow> db' = db"
  by (auto simp: CreateClusterZone_def createMembership_def immutableInsert_def insert_membership_def Let_def split: if_splits option.splits sum.splits)

section \<open>Every handler is sound\<close>

lemma sound_createZone: "sound K (API_createZone K a rq)"
  unfolding API_createZone_def
  by (intro sound_body sound_guard sound_statements) (auto intro: cap_step.create_zone CreateZone_refused)

lemma sound_createCluster: "sound K (API_createCluster rq)"
  unfolding API_createCluster_def
  by (intro sound_body sound_statements) (auto intro: cap_step.create_cluster dest: CreateCluster_refused)

lemma zero_ranges [simp]: "resources_i64 zero_resources" "resources_i64 (pi_Limits zero_pool)" "group_input_i64 zero_group"
  "first_zone_i64 zero_first_zone"
  by (simp_all add: resources_i64_def zero_resources_def zero_pool_def group_input_i64_def zero_group_def
      first_zone_i64_def zero_first_zone_def in_i64_def max_int64_def)

lemma sound_createNodePool: "sound K (API_createNodePool rq)"
  unfolding API_createNodePool_def
proof (intro sound_body sound_statements)
  fix p db assume "decodeJSON (dec_struct NodePoolInput_json) zero_pool (rq_body rq) = Some p"
  then have "resources_i64 (pi_Limits p)" by (rule decodeJSON_keeps [OF _ keeps_pool]) simp
  then show "steps K db (snd (CreateNodePool p db))" by (blast intro: cap_step.create_pool)
qed (auto dest: CreateNodePool_refused)

lemma NormalizeID_ranges: "NormalizeID g = Some n \<Longrightarrow> group_input_i64 g \<Longrightarrow> group_input_i64 n"
  by (auto simp: NormalizeID_def group_input_i64_def split: option.splits if_splits)

lemma sound_createNodeGroup: "sound K (API_createNodeGroup K rq)"
  unfolding API_createNodeGroup_def
proof (intro sound_body)
  fix g assume "decodeJSON (dec_struct NodeGroupInput_json) zero_group (rq_body rq) = Some g"
  then have g: "group_input_i64 g" by (rule decodeJSON_keeps [OF _ keeps_group]) simp
  show "sound K (\<lambda>db. case NormalizeID g of None \<Rightarrow> (capacityError ErrInvalid, db)
      | Some n \<Rightarrow> reply_statements (enc_struct NodeGroupInput_json n) (CreateNodeGroup K n db))"
  proof (cases "NormalizeID g")
    case (Some n)
    have "steps K db (snd (CreateNodeGroup K n db))" for db
      using cap_step.create_group [OF NormalizeID_ranges [OF Some g]] by blast
    then show ?thesis unfolding Some option.case
      by (rule sound_statements) (auto dest: CreateNodeGroup_refused)
  qed (simp add: sound_def)
qed

lemma sound_updateTemplate: "sound K (API_updateNodeGroupTemplate K i rq)"
  unfolding API_updateNodeGroupTemplate_def
  by (intro sound_body sound_tx) (blast intro: cap_step.update_scheduling)

lemma sound_seedFirstZone: "sound K (API_seedFirstZone K a rq)"
  unfolding API_seedFirstZone_def
proof (intro sound_body sound_guard sound_tx)
  fix f db db' assume f: "decodeJSON (dec_struct FirstZoneInput_json) zero_first_zone (rq_body rq) = Some f"
    and s: "SeedFirstZone K f db = Inr db'"
  have "first_zone_i64 f" using f by (rule decodeJSON_keeps [OF _ keeps_first_zone]) simp
  then show "steps K db db'" using cap_step.seed s unfolding SeedFirstZone_def by blast
qed

lemma sound_createClusterZone: "sound K (API_createClusterZone rq)"
  unfolding API_createClusterZone_def
proof (intro sound_body)
  fix inp
  show "sound K (\<lambda>db. case normalizeMembership inp of Inl e \<Rightarrow> (capacityError e, db)
      | Inr m \<Rightarrow> reply_statements (enc_struct ClusterZoneInput_json m) (CreateClusterZone m db))"
  proof (cases "normalizeMembership inp")
    case (Inr m)
    show ?thesis unfolding Inr sum.case
      by (rule sound_statements) (auto intro: cap_step.create_membership dest: CreateClusterZone_refused)
  qed (simp add: sound_def)
qed

lemma sound_updateClusterZone: "sound K (API_updateClusterZone c z rq)"
  unfolding API_updateClusterZone_def Let_def
  by (intro sound_body sound_guard sound_tx) (blast intro: cap_step.update_membership)

lemma decode_first_zone_i64: "decode_first_zone v = Some f \<Longrightarrow> first_zone_i64 f"
proof -
  assume "decode_first_zone v = Some f"
  moreover have "keeps first_zone_i64 (dec_struct first_zone_json)"
    by (rule keeps_struct) (auto simp: first_zone_json_def intro!: keeps_jf [OF keeps_first_zone])
  ultimately show ?thesis unfolding decode_first_zone_def by (blast intro: keepsD zero_ranges)
qed

lemma sound_createBootstrap: "sound K (API_createBootstrap uuid now K a rq)"
  unfolding API_createBootstrap_def
proof (intro sound_body sound_guard soundI)
  fix inp db
  let ?r = "CreateBootstrap uuid now K decode_first_zone inp db"
  let ?h = "case ?r of Inl e \<Rightarrow> (capacityError e, db) | Inr (i, db') \<Rightarrow> (writeJSON (JObj [(''operation_id'', JStr i)]), db')"
  show "steps K db (snd ?h) \<and> (status (fst ?h) \<noteq> 200 \<longrightarrow> region_growth db (snd ?h))"
  proof (cases ?r)
    case (Inr x)
    obtain i db' where x: "x = (i, db')" by (cases x)
    have "cap_step K db db'" using cap_step.bootstrap [OF _ Inr [unfolded x]] decode_first_zone_i64 by blast
    then show ?thesis using Inr x by (auto simp: writeJSON_def)
  qed simp
qed

lemma sound_setTarget: "sound K (API_setTarget uuid now c rq)"
proof -
  have "sound K (with_body dec zero rq (\<lambda>inp db. case SetTarget uuid now (f inp) db of Inl e \<Rightarrow> (capacityError e, db)
      | Inr (out, db') \<Rightarrow> (writeJSON (enc_struct CapacityResult_json out), db')))" for dec zero f
  proof (intro sound_body soundI)
    fix inp :: 'a and db
    show "steps K db (snd (case SetTarget uuid now (f inp) db of Inl e \<Rightarrow> (capacityError e, db)
        | Inr (out, db') \<Rightarrow> (writeJSON (enc_struct CapacityResult_json out), db')))
      \<and> (status (fst (case SetTarget uuid now (f inp) db of Inl e \<Rightarrow> (capacityError e, db)
        | Inr (out, db') \<Rightarrow> (writeJSON (enc_struct CapacityResult_json out), db'))) \<noteq> 200 \<longrightarrow>
        region_growth db (snd (case SetTarget uuid now (f inp) db of Inl e \<Rightarrow> (capacityError e, db)
        | Inr (out, db') \<Rightarrow> (writeJSON (enc_struct CapacityResult_json out), db'))))"
      using cap_step.set_target [of uuid now "f inp" db]
      by (auto simp: writeJSON_def split: sum.splits prod.splits)
  qed
  then show ?thesis unfolding API_setTarget_def [abs_def] by (intro sound_guard)
qed

lemma sound_removeNodes: "sound K (API_removeNodes uuid now c rq)"
  unfolding API_removeNodes_def by (intro sound_body sound_tx) (blast intro: cap_step.removals)

lemma sound_reads: "sound K (API_listHosts rq)" "sound K (API_bootstrapStatus i)" "sound K (API_target c g)" "sound K (API_discovery c)"
  by (rule sound_read, simp add: API_listHosts_def API_bootstrapStatus_def API_target_def API_discovery_def Let_def split: sum.splits)+

lemmas sound_handlers = sound_createZone sound_createCluster sound_createNodePool sound_createNodeGroup
  sound_updateTemplate sound_seedFirstZone sound_createClusterZone sound_updateClusterZone
  sound_createBootstrap sound_setTarget sound_removeNodes sound_reads

lemma endpoint_sound: "sound (ae_K E) (endpoint_handler E a rq e vs)"
  by (cases e) (simp_all add: sound_admin sound_adapter sound_handlers)

lemma Handler_sound: "sound (ae_K E) (Handler E a rq)"
proof (cases "route rq")
  case None
  then show ?thesis by (intro sound_read) (simp add: Handler_def)
next
  case (Some r)
  then have "Handler E a rq = endpoint_handler E a rq (fst r) (snd r)"
    by (auto simp: Handler_def split: prod.splits)
  then show ?thesis using endpoint_sound by simp
qed

section \<open>Principals\<close>

lemma check_principals_Inr:
  assumes "check_principals seen ps = Inr u"
  shows "distinct (map snd ps) \<and> snd ` set ps \<inter> set seen = {} \<and> (\<forall>(c, t)\<in>set ps. c \<noteq> [] \<and> t \<noteq> [])"
  using assms
proof (induction seen ps rule: check_principals.induct)
  case (2 seen c t ps)
  then have 3: "\<not> (c = [] \<or> c \<noteq> TrimSpace c \<or> t = [] \<or> t \<noteq> TrimSpace t)" "t \<notin> set seen"
    "check_principals (t # seen) ps = Inr u" by (auto split: if_splits)
  have "distinct (map snd ps) \<and> snd ` set ps \<inter> set (t # seen) = {} \<and> (\<forall>(c, t)\<in>set ps. c \<noteq> [] \<and> t \<noteq> [])"
    by (rule 2(1) [OF 3])
  then show ?case using 3 by auto
qed simp

lemma ParseAdapterPrincipals_Inr:
  assumes "ParseAdapterPrincipals raw = Inr ps"
  shows "distinct (map snd ps)" "(c, t) \<in> set ps \<Longrightarrow> c \<noteq> [] \<and> t \<noteq> []"
proof -
  have "ps = [] \<or> check_principals [] ps = Inr ()"
    using assms by (auto simp: ParseAdapterPrincipals_def result_simps split: raw_json.splits json.splits option.splits)
  then have "distinct (map snd ps) \<and> (\<forall>(c, t)\<in>set ps. c \<noteq> [] \<and> t \<noteq> [])"
    using check_principals_Inr [of "[]" ps] by auto
  then show "distinct (map snd ps)" "(c, t) \<in> set ps \<Longrightarrow> c \<noteq> [] \<and> t \<noteq> []" by auto
qed

lemma fold_last_match:
  "fold (\<lambda>(c, t) r. if p \<noteq> [] \<and> p = t then c else r) ps r
     = (if p \<noteq> [] \<and> p \<in> snd ` set ps then fst (last (filter (\<lambda>x. snd x = p) ps)) else r)"
  by (induction ps arbitrary: r) (auto simp: filter_empty_conv)

lemma authenticatedCluster_in:
  "authenticatedCluster a p = c \<Longrightarrow> c \<noteq> [] \<Longrightarrow> (c, p) \<in> set (api_adapterPrincipals a) \<and> p \<noteq> []"
proof -
  assume c: "authenticatedCluster a p = c" "c \<noteq> []"
  let ?F = "filter (\<lambda>x. snd x = p) (api_adapterPrincipals a)"
  have p: "p \<noteq> []" "p \<in> snd ` set (api_adapterPrincipals a)" "c = fst (last ?F)"
    using c unfolding authenticatedCluster_def fold_last_match by (auto split: if_splits)
  then have "last ?F \<in> set ?F" by (intro last_in_set) (auto simp: filter_empty_conv)
  then have "last ?F \<in> set (api_adapterPrincipals a)" "snd (last ?F) = p" by auto
  then show ?thesis using p by (metis prod.collapse)
qed

text \<open>The order in which Go ranges over the map of principals does not matter.\<close>

lemma authenticatedCluster_exact:
  assumes "distinct (map snd ps)" "\<forall>(c, t)\<in>set ps. c \<noteq> [] \<and> t \<noteq> []" "set qs = set ps" "c \<noteq> []"
  shows "authenticatedCluster (NewAPI tok qs) p = c \<longleftrightarrow> (c, p) \<in> set ps"
proof
  assume "authenticatedCluster (NewAPI tok qs) p = c"
  then show "(c, p) \<in> set ps" using authenticatedCluster_in [of "NewAPI tok qs" p c] assms by (simp add: NewAPI_def)
next
  assume c: "(c, p) \<in> set ps"
  have p: "p \<noteq> []" using bspec [OF assms(2) c] by simp
  have q: "p \<in> snd ` set qs" unfolding assms(3) using c by (rule rev_image_eqI) simp
  let ?F = "filter (\<lambda>x. snd x = p) qs"
  have "?F \<noteq> []" using q by (auto simp: filter_empty_conv)
  then have "last ?F \<in> set ?F" by (rule last_in_set)
  then have l: "last ?F \<in> set ps" "snd (last ?F) = p" unfolding assms(3) [symmetric] by simp_all
  have "inj_on snd (set ps)" using assms(1) by (simp add: distinct_map)
  then have "last ?F = (c, p)" by (rule inj_onD) (simp_all add: l c)
  then show "authenticatedCluster (NewAPI tok qs) p = c"
    using p q unfolding authenticatedCluster_def fold_last_match by (simp add: NewAPI_def)
qed

section \<open>Cluster isolation\<close>

text \<open>What a request of one cluster leaves alone: the groups of the others and their operations.\<close>

definition spares_others :: "string \<Rightarrow> db \<Rightarrow> db \<Rightarrow> bool" where
  "spares_others c db db' \<longleftrightarrow> (\<forall>g\<in>set (node_groups db). g_cluster_id g \<noteq> c \<longrightarrow> g \<in> set (node_groups db'))
     \<and> (\<forall>r\<in>set (operations db). (\<forall>g\<in>set (node_groups db). o_group_id r = Some (g_id g) \<longrightarrow> g_cluster_id g \<noteq> c) \<longrightarrow>
          r \<in> set (operations db'))
     \<and> zones db' = zones db \<and> clusters db' = clusters db \<and> cluster_zones db' = cluster_zones db \<and> node_pools db' = node_pools db"

lemma spares_others_refl [simp]: "spares_others c db db"
  by (simp add: spares_others_def)

lemma upd_where_other: "r \<in> set t \<Longrightarrow> \<not> w r \<Longrightarrow> r \<in> set (upd_where w f t)"
  by (auto simp: set_upd_where image_iff)

lemma cancelPending_other:
  assumes "cancelPending now gid n db = Inr db'" "distinct (map o_id (operations db))" "r \<in> set (operations db)"
    "o_group_id r \<noteq> Some gid"
  shows "r \<in> set (operations db')"
proof -
  let ?L = "cancel_intents db gid n"
  obtain db1 where db1: "rfold (cancelIntent now) ?L db = Inr db1" "operations db' = operations db1"
    using assms(1) by (auto simp: cancelPending_def Let_def result_simps mark_excess_def split: if_splits)
  have "o_id r \<notin> o_id ` set ?L"
  proof
    assume "o_id r \<in> o_id ` set ?L"
    then obtain i where i: "i \<in> set ?L" "o_id i = o_id r" by auto
    then have "i = r" using cancel_intents_sub unique_key [of o_id "operations db" i r] assms(2,3) by auto
    then show False using cancel_intents_sub [OF i(1)] assms(4) by (simp add: cancellable_def)
  qed
  moreover have "distinct (map o_id ?L)" using assms(2) unfolding cancel_intents_def
    by (intro distinct_order_limit) (simp add: distinct_map_filter)
  ultimately show ?thesis using cancelIntents_Inr [OF db1(1)] db1(2) assms(3)
    by (simp add: upd_where_other)
qed

lemma cancelPending_topology:
  assumes "cancelPending now gid n db = Inr db'"
  shows "zones db' = zones db \<and> clusters db' = clusters db \<and> cluster_zones db' = cluster_zones db \<and> node_pools db' = node_pools db"
    (is "?same db'")
proof -
  obtain db1 xs where 1: "rfold (cancelIntent now) xs db = Inr db1" "zones db' = zones db1" "clusters db' = clusters db1"
    "cluster_zones db' = cluster_zones db1" "node_pools db' = node_pools db1"
    using assms by (auto simp: cancelPending_def Let_def result_simps mark_excess_def split: if_splits)
  have "?same db1" by (rule rfold_inv [OF 1(1)]) (auto simp: cancelIntent_def split: if_splits)
  then show ?thesis using 1 by simp
qed

lemma SetTarget_spares:
  assumes "SetTarget uuid now req db = Inr (res, db')" "keys_ok db"
  shows "spares_others (cr_ClusterID req) db db'"
  using assms(1)
proof (cases rule: SetTarget_cases)
  case (fresh p)
  obtain g: "pol_group p \<in> set (node_groups db)" "g_id (pol_group p) = cr_NodeGroupID req"
    using loadPolicy_Inr [OF fresh(1)] by metis
  have only: "x = pol_group p" if "x \<in> set (node_groups db)" "g_id x = cr_NodeGroupID req" for x
    using that g unique_key [of g_id "node_groups db" x "pol_group p"] assms(2) by (auto simp: keys_ok_def)
  have own: "g_cluster_id g \<noteq> cr_ClusterID req \<Longrightarrow> g_id g \<noteq> cr_NodeGroupID req" if "g \<in> set (node_groups db)" for g
    using only [OF that] fresh(2) by blast
  have ops: "o_group_id r \<noteq> Some (cr_NodeGroupID req)"
    if "\<forall>g\<in>set (node_groups db). o_group_id r = Some (g_id g) \<longrightarrow> g_cluster_id g \<noteq> cr_ClusterID req" for r
    using that g fresh(2) by metis
  from fresh(5) show ?thesis
  proof (cases rule: apply_target_Inr)
    case (1 db1 db2 db3)
    have d1: "operations db1 = operations db" "zones db1 = zones db" "clusters db1 = clusters db"
      "cluster_zones db1 = cluster_zones db" "node_pools db1 = node_pools db" "node_groups db1 = node_groups db"
      using 1(1) by (simp_all add: insert_request_Inr)
    obtain f where d2: "db2 = db1\<lparr>node_groups := upd_where (\<lambda>r. g_id r = cr_NodeGroupID req) f (node_groups db1)\<rparr>"
      using 1(2) update_groups_Inr by blast
    have e: "\<exists>rs. operations db3 = operations db @ rs" "zones db3 = zones db" "clusters db3 = clusters db"
      "cluster_zones db3 = cluster_zones db" "node_pools db3 = node_pools db"
      "node_groups db3 = upd_where (\<lambda>r. g_id r = cr_NodeGroupID req) f (node_groups db)"
      using d1 unfolding provisionIntents_Inr [OF 1(3)] d2 by simp_all
    have gs: "g \<in> set (node_groups db3)" if "g \<in> set (node_groups db)" "g_cluster_id g \<noteq> cr_ClusterID req" for g
      unfolding e(6) using that own by (simp add: upd_where_other)
    show ?thesis
    proof (cases "i64 (cr_DesiredTarget req - g_target_nodes (pol_group p)) < 0")
      case False
      then have "db' = db3" using 1(4) by simp
      moreover obtain rs where "operations db3 = operations db @ rs" using e(1) by blast
      ultimately show ?thesis unfolding spares_others_def by (intro conjI ballI impI) (simp_all add: gs e(2-5))
    next
      case True
      then have c: "cancelPending now (cr_NodeGroupID req) (nat (- i64 (cr_DesiredTarget req - g_target_nodes (pol_group p)))) db3 = Inr db'"
        using 1(4) by simp
      have "db3 = db2" using 1(3) True by simp
      then have o: "operations db3 = operations db" using d1(1) d2 by simp
      have k: "distinct (map o_id (operations db3))" using o assms(2) by (simp add: keys_ok_def)
      have "r \<in> set (operations db')" if "r \<in> set (operations db)"
        "\<forall>g\<in>set (node_groups db). o_group_id r = Some (g_id g) \<longrightarrow> g_cluster_id g \<noteq> cr_ClusterID req" for r
        using cancelPending_other [OF c k _ ops [OF that(2)]] that(1) o by simp
      moreover have "g \<in> set (node_groups db')" if "g \<in> set (node_groups db)" "g_cluster_id g \<noteq> cr_ClusterID req" for g
        using gs [OF that] cancelPending_same [OF c] by simp
      moreover have "zones db' = zones db \<and> clusters db' = clusters db \<and> cluster_zones db' = cluster_zones db
          \<and> node_pools db' = node_pools db" using cancelPending_topology [OF c] e(2-5) by simp
      ultimately show ?thesis unfolding spares_others_def by blast
    qed
  qed
qed simp

lemma CreateAutoscalerRemovals_spares:
  assumes "CreateAutoscalerRemovals uuid now c req db = Inr db'" "keys_ok db"
  shows "spares_others c db db'"
  using assms(1)
proof (cases rule: CreateAutoscalerRemovals_cases)
  case (fresh p ps db1)
  obtain g: "pol_group p \<in> set (node_groups db)" "g_id (pol_group p) = rr_NodeGroupID req"
    using loadPolicy_Inr [OF fresh(1)] by metis
  have only: "x = pol_group p" if "x \<in> set (node_groups db)" "g_id x = rr_NodeGroupID req" for x
    using that g unique_key [of g_id "node_groups db" x "pol_group p"] assms(2) by (auto simp: keys_ok_def)
  have own: "g_cluster_id g \<noteq> c \<Longrightarrow> g_id g \<noteq> rr_NodeGroupID req" if "g \<in> set (node_groups db)" for g
    using only [OF that] fresh(2) by blast
  obtain f where d1: "db1 = db\<lparr>node_groups := upd_where (\<lambda>r. g_id r = rr_NodeGroupID req) f (node_groups db)\<rparr>"
    using fresh(8) update_groups_Inr by blast
  obtain os rms where d2: "db' = db1\<lparr>operations := operations db1 @ os,
      node_removal_operations := node_removal_operations db1 @ rms\<rparr>"
    using fresh(9) by (rule insert_removals_Inr)
  show ?thesis unfolding spares_others_def d2 d1 using own by (simp add: upd_where_other)
qed simp

text \<open>The endpoints behind the adapter guard.\<close>

definition adapter_endpoint :: "endpoint \<Rightarrow> bool" where
  "adapter_endpoint e \<longleftrightarrow> e \<in> {RSetTarget, RTarget, RDiscovery, RRemoveNodes}"

lemma with_body_spares:
  assumes "\<And>x db. P db (snd (k x db))" "\<And>db. P db db"
  shows "P db (snd (with_body dec zero rq k db))"
  using assms by (auto simp: with_body_def split: option.splits)

lemma reply_tx_spares: "(\<And>db'. r = Inr db' \<Longrightarrow> spares_others c db db') \<Longrightarrow> spares_others c db (snd (reply_tx v r db))"
  by (auto simp: reply_tx_def split: sum.splits)

lemma setTarget_spares: "keys_ok db \<Longrightarrow> spares_others c db (snd (API_setTarget uuid now c rq db))"
  using SetTarget_spares
  by (fastforce simp: API_setTarget_def with_body_def split: option.splits sum.splits)

lemma removeNodes_spares: "keys_ok db \<Longrightarrow> spares_others c db (snd (API_removeNodes uuid now c rq db))"
  using CreateAutoscalerRemovals_spares
  by (auto simp: API_removeNodes_def with_body_def reply_tx_def split: option.splits sum.splits)

lemma adapter_spares:
  assumes "keys_ok db" "adapter_endpoint e"
  shows "spares_others (authenticatedCluster a (bearer rq)) db (snd (endpoint_handler E a rq e vs db))"
proof -
  have "spares_others (authenticatedCluster a (bearer rq)) db (snd (adapter a rq h db))"
    if "\<And>c. spares_others c db (snd (h c db))" for h
    using that by (simp add: adapter_def Let_def)
  note guard = this
  have same: "snd (API_target c i db) = db" "snd (API_discovery c db) = db" for c i
    by (auto simp: API_target_def API_discovery_def split: sum.splits)
  from assms(2) consider "e = RSetTarget" | "e = RTarget" | "e = RDiscovery" | "e = RRemoveNodes"
    by (auto simp: adapter_endpoint_def)
  then show ?thesis
  proof cases
    case 1
    then show ?thesis using guard [of "\<lambda>c. API_setTarget (ae_uuid E) (ae_now E) c rq"] setTarget_spares [OF assms(1)] by simp
  next
    case 2
    then show ?thesis using guard [of "\<lambda>c. API_target c (vs ! 0)"] same by simp
  next
    case 3
    then show ?thesis using guard [of API_discovery] same by simp
  next
    case 4
    then show ?thesis using guard [of "\<lambda>c. API_removeNodes (ae_uuid E) (ae_now E) c rq"] removeNodes_spares [OF assms(1)] by simp
  qed
qed

section \<open>Discovery\<close>

lemma discovery_group:
  assumes "AutoscalerDiscovery db c = Inr gs" "a \<in> set gs"
  shows "\<exists>g ready. g \<in> set (node_groups db) \<and> g_cluster_id g = c \<and> a = autoscaler_group db g ready
    \<and> (ready \<or> group_hosts db (g_id g) \<noteq> [])"
proof -
  have "c \<noteq> []" using assms(1) by (auto simp: AutoscalerDiscovery_def split: if_splits)
  then show ?thesis using assms unfolding AutoscalerDiscovery_def by (auto split: if_splits) blast+
qed

lemma autoscaler_nodes_iff:
  "n \<in> set (autoscaler_nodes db gid) \<longleftrightarrow> (\<exists>h\<in>set (hosts db). h_node_group_id h = Some gid \<and> h_state h \<noteq> HostTerminated
     \<and> h_kubernetes_provider_id h \<noteq> [] \<and> n = \<lparr>an_HostID = h_id h, an_ProviderID = h_kubernetes_provider_id h,
        an_State = host_state_string (h_state h)\<rparr>)"
  unfolding autoscaler_nodes_def group_hosts_def by auto

text \<open>The rows a group refers to.\<close>

definition placed :: "db \<Rightarrow> group_row \<Rightarrow> bool" where
  "placed db g \<longleftrightarrow> g_node_pool_id g \<in> p_id ` set (node_pools db) \<and> g_zone_id g \<in> z_id ` set (zones db)
     \<and> g_cluster_id g \<in> c_id ` set (clusters db)
     \<and> (g_cluster_id g, g_zone_id g) \<in> (\<lambda>m. (m_cluster_id m, m_zone_id m)) ` set (cluster_zones db)"

lemma discovery_lists:
  assumes "AutoscalerDiscovery db c = Inr gs" "g \<in> set (node_groups db)" "g_cluster_id g = c" "placed db g"
    "group_hosts db (g_id g) \<noteq> []"
  shows "\<exists>a\<in>set gs. ag_ID a = g_id g \<and> ag_Nodes a = autoscaler_nodes db (g_id g)"
proof -
  obtain p z cl m where r: "p \<in> set (node_pools db)" "p_id p = g_node_pool_id g" "z \<in> set (zones db)" "z_id z = g_zone_id g"
    "cl \<in> set (clusters db)" "c_id cl = g_cluster_id g" "m \<in> set (cluster_zones db)" "m_cluster_id m = g_cluster_id g" "m_zone_id m = g_zone_id g"
    using assms(4) by (auto simp: placed_def)
  have "c \<noteq> []" using assms(1) by (auto simp: AutoscalerDiscovery_def split: if_splits)
  then have "autoscaler_group db g (placement_ready g p z cl m) \<in> set gs"
    using assms(1) r assms(2,3,5) by (force simp: AutoscalerDiscovery_def)
  then show ?thesis by (intro bexI) (simp_all add: autoscaler_group_def)
qed

lemma join_length:
  assumes "distinct (map f ys)" "\<And>y. length (G y) \<le> 1"
  shows "length (concat (map (\<lambda>y. if f y = k then G y else []) ys)) \<le> 1"
  using assms(1)
proof (induction ys)
  case (Cons y ys)
  show ?case
  proof (cases "f y = k")
    case True
    then have "\<forall>x\<in>set ys. f x \<noteq> k" using Cons(2) by (auto simp: image_iff)
    then have "concat (map (\<lambda>y. if f y = k then G y else []) ys) = []" by simp
    then show ?thesis using True assms(2) [of y] by (simp del: concat_eq_Nil_conv)
  qed (use Cons in simp)
qed simp

lemma keyed_concat:
  assumes "sorted (map f xs)" "distinct (map f xs)" "\<And>x y. x \<in> set xs \<Longrightarrow> y \<in> set (F x) \<Longrightarrow> k y = f x"
    "\<And>x. x \<in> set xs \<Longrightarrow> length (F x) \<le> 1"
  shows "sorted (map k (concat (map F xs))) \<and> distinct (map k (concat (map F xs)))"
  using assms
proof (induction xs)
  case (Cons x xs)
  have "sorted (map k (concat (map F xs))) \<and> distinct (map k (concat (map F xs)))" using Cons by simp
  moreover have "k y \<in> f ` set xs" if "y \<in> set (concat (map F xs))" for y using that Cons(4) by auto
  moreover have "F x = [] \<or> (\<exists>y. F x = [y] \<and> k y = f x)"
    using Cons(4) [of x] Cons(5) [of x] by (cases "F x") auto
  ultimately show ?case using Cons(2,3) by (fastforce simp: sorted_append)
qed simp

lemma discovery_sorted:
  assumes "AutoscalerDiscovery db c = Inr gs" "keys_ok db"
  shows "sorted (map ag_ID gs) \<and> distinct (map ag_ID gs)"
proof -
  let ?M = "\<lambda>g p z cl. concat (map (\<lambda>m. if m_cluster_id m = g_cluster_id g \<and> m_zone_id m = g_zone_id g
      then (if placement_ready g p z cl m \<or> group_hosts db (g_id g) \<noteq> [] then [autoscaler_group db g (placement_ready g p z cl m)] else [])
      else []) (cluster_zones db))"
  let ?C = "\<lambda>g p z. concat (map (\<lambda>cl. if c_id cl = g_cluster_id g then ?M g p z cl else []) (clusters db))"
  let ?Z = "\<lambda>g p. concat (map (\<lambda>z. if z_id z = g_zone_id g then ?C g p z else []) (zones db))"
  let ?P = "\<lambda>g. concat (map (\<lambda>p. if p_id p = g_node_pool_id g then ?Z g p else []) (node_pools db))"
  let ?F = "\<lambda>g. if g_cluster_id g = c then ?P g else []"
  have gs: "gs = concat (map ?F (sort_key g_id (node_groups db)))"
    using assms(1) by (simp add: AutoscalerDiscovery_def split: if_splits)
  have keys: "distinct (map c_id (clusters db))" "distinct (map z_id (zones db))" "distinct (map p_id (node_pools db))"
    using assms(2) by (simp_all add: keys_ok_def)
  have "length (?M g p z cl) \<le> 1" for g p z cl
  proof -
    have "length (concat (map (\<lambda>m. if (m_cluster_id m, m_zone_id m) = (g_cluster_id g, g_zone_id g)
      then (if placement_ready g p z cl m \<or> group_hosts db (g_id g) \<noteq> [] then [autoscaler_group db g (placement_ready g p z cl m)] else [])
      else []) (cluster_zones db))) \<le> 1" using assms(2) by (intro join_length) (simp_all add: keys_ok_def)
    then show ?thesis by simp
  qed
  then have "length (?C g p z) \<le> 1" for g p z by (rule join_length [OF keys(1)])
  then have "length (?Z g p) \<le> 1" for g p by (rule join_length [OF keys(2)])
  then have "length (?P g) \<le> 1" for g by (rule join_length [OF keys(3)])
  then have "length (?F g) \<le> 1" for g by simp
  moreover have "ag_ID y = g_id g" if "y \<in> set (?F g)" for y g using that by (auto simp: autoscaler_group_def split: if_splits)
  moreover have "distinct (map g_id (sort_key g_id (node_groups db)))" using assms(2) by (simp add: keys_ok_def distinct_map)
  ultimately show ?thesis unfolding gs by (intro keyed_concat) auto
qed

end
