(* ===== verification/Platform.thy ===== *)
theory Platform
  imports CapacityHTTP
begin

text \<open>
  The control plane as a whole: requests of the platform API, passes of the provisioning and the
  bootstrap controller and calls of the legacy lifecycle service, in any order and on one
  database.  The transactions of one pass may be separated by those of other clients, which are
  the steps its executor or environment takes.
\<close>

datatype event =
    Request api_env request
  | ProvisionPass ProvisionExecutor string string int "nat \<Rightarrow> int" "int list"
  | BootstrapPass BootstrapExecutor string string int "nat \<Rightarrow> int" "int list"
  | LegacyTransition client string string
  | LegacyHealth string string

fun happen :: "API \<Rightarrow> event \<Rightarrow> db \<Rightarrow> db" where
  "happen a (Request E rq) db = snd (Handler E a rq db)"
| "happen a (ProvisionPass X zone identity lease now ticks) db =
     snd (ProvisionController_RunOnce X zone identity lease now ticks db)"
| "happen a (BootstrapPass X zone owner lease now ticks) db =
     snd (BootstrapController_RunOnce X zone owner lease now ticks db)"
| "happen a (LegacyTransition env i s) db = snd (TransitionState env i s db)"
| "happen a (LegacyHealth i s) db = TransitionHealth i s db"

text \<open>The other parties of an event reach the database through its transactions only.\<close>

fun event_ok :: "k8s_validation \<Rightarrow> event \<Rightarrow> bool" where
  "event_ok K (Request E rq) \<longleftrightarrow> ae_K E = K"
| "event_ok K (ProvisionPass X zone identity lease now ticks) \<longleftrightarrow> provision_executor_ok K X"
| "event_ok K (BootstrapPass X zone owner lease now ticks) \<longleftrightarrow> bootstrap_executor_ok K X"
| "event_ok K (LegacyTransition env i s) \<longleftrightarrow> client_ok K env"
| "event_ok K (LegacyHealth i s) \<longleftrightarrow> True"

lemma Handler_run: "ae_K E = K \<Longrightarrow> steps K db (snd (Handler E a rq db))"
  using Handler_sound [of E a rq] by (auto simp: sound_def)

lemma happen_run: "event_ok K e \<Longrightarrow> system_ok db \<Longrightarrow> steps K db (happen a e db)"
  by (cases e) (auto simp: Handler_run provision_pass_run bootstrap_pass_run TransitionState_run TransitionHealth_def
      intro: cap_step.catalog_health)

lemma history_run:
  "list_all (event_ok K) es \<Longrightarrow> system_ok db \<Longrightarrow> steps K db (fold (happen a) es db) \<and> system_ok (fold (happen a) es db)"
proof (induction es arbitrary: db)
  case (Cons e es)
  have 1: "steps K db (happen a e db)" using Cons happen_run by simp
  then have "system_ok (happen a e db)" using cap.run_inv Cons(3) by blast
  then show ?case using Cons 1 by (auto intro: rtranclp_trans)
qed simp

end
