(* ===== verification/AutoscalerAdapter.thy ===== *)
theory AutoscalerAdapter
  imports CapacityHTTP CapacityProtocol
begin

text \<open>
  The adapter between the Kubernetes cluster autoscaler and the platform API
  (\<open>src/internal/adapter/autoscaler\<close>): its HTTP client, its view of the node groups and the gRPC
  callbacks.  A callback runs in a world that holds the adapter's state, Crane's database and the
  number of HTTP calls made so far; the network decides for every call whether the request or its
  answer is lost, and other clients commit transactions before it.  The length of an encoded
  request is a parameter.  The protobuf messages are generated code: a callback takes and returns
  their fields.
\<close>

section \<open>Status codes and the network\<close>

datatype grpc_code =
    InvalidArgument | Unauthenticated | PermissionDenied | NotFound | Aborted | FailedPrecondition
  | ResourceExhausted | Unavailable | Internal | OutOfRange | DeadlineExceeded | Canceled | Unknown

text \<open>
  One HTTP exchange: the request never arrives, the answer is lost after the request was served,
  only the status line of the answer arrives (also when the body exceeds the limit), the whole
  answer arrives, or the context ends first, with the request served or not.
\<close>

datatype ctx_error = CtxDeadline | CtxCanceled

datatype delivery = Undelivered | AnswerLost | Truncated | Answered | Expired ctx_error bool

text \<open>\<open>status.FromContextError\<close>\<close>

fun FromContextError :: "ctx_error \<Rightarrow> grpc_code" where
  "FromContextError CtxDeadline = DeadlineExceeded"
| "FromContextError CtxCanceled = Canceled"

record net =
  nt_api :: API
  nt_client :: client
  nt_env :: "nat \<Rightarrow> api_env"
  nt_size :: "json \<Rightarrow> int"
  nt_delivery :: "nat \<Rightarrow> delivery"
  nt_done :: "nat \<Rightarrow> ctx_error option"
  nt_wait :: "nat \<Rightarrow> ctx_error option"

section \<open>Node groups (static.go)\<close>

record Node =
  nd_HostID :: string
  nd_ProviderID :: string
  nd_Name :: string
  nd_State :: string

record StaticNodeGroup =
  sg_ID :: string
  sg_ClusterID :: string
  sg_TemplateRevision :: string
  sg_Zone :: string
  sg_Region :: string
  sg_Pool :: string
  sg_MinNodes :: int
  sg_MaxNodes :: int
  sg_InstanceType :: string
  sg_Architecture :: string
  sg_CPU :: int
  sg_MemoryMB :: int
  sg_Labels :: "(string \<times> string) list"
  sg_Taints :: "SchedulingTaint list"
  sg_Nodes :: "Node list"

record NodeTemplate =
  tm_Zone :: string
  tm_Region :: string
  tm_Pool :: string
  tm_Labels :: "(string \<times> string) list"
  tm_Taints :: "SchedulingTaint list"
  tm_CPU :: int
  tm_MemoryMB :: int

definition StaticProvider_NodeGroupForNode :: "StaticNodeGroup list \<Rightarrow> string \<Rightarrow> StaticNodeGroup option" where
  "StaticProvider_NodeGroupForNode gs nodeID = find (\<lambda>g. list_ex (\<lambda>n. nd_ProviderID n = nodeID) (sg_Nodes g)) gs"

definition StaticProvider_Template :: "StaticNodeGroup list \<Rightarrow> string \<Rightarrow> NodeTemplate option" where
  "StaticProvider_Template gs groupID =
     map_option (\<lambda>g.
       (let arch = (if sg_Architecture g = [] then ''amd64'' else sg_Architecture g);
            labels = SchedulingLabels (zero_scheduling\<lparr>st_Architecture := arch, st_Region := sg_Region g, st_Zone := sg_Zone g,
                       st_InstanceType := sg_InstanceType g, st_Labels := sg_Labels g\<rparr>) (sg_Pool g) in
        \<lparr>tm_Zone = sg_Zone g, tm_Region = sg_Region g, tm_Pool = sg_Pool g, tm_Labels = labels,
         tm_Taints = sg_Taints g, tm_CPU = sg_CPU g, tm_MemoryMB = sg_MemoryMB g\<rparr>))
     (find (\<lambda>g. sg_ID g = groupID) gs)"

section \<open>The world of a callback\<close>

record HTTPClient =
  hc_baseURL :: string
  hc_token :: string
  hc_clusterID :: string

record Server =
  sv_clusterID :: string
  sv_groups :: "StaticNodeGroup list"
  sv_client :: HTTPClient
  sv_discoverer :: bool
  sv_verifier :: "(string \<Rightarrow> string \<Rightarrow> grpc_code option) option"

record world =
  aw_server :: Server
  aw_db :: db
  aw_calls :: nat

type_synonym 'a action = "world \<Rightarrow> (grpc_code + 'a) \<times> world"

definition areturn :: "'a \<Rightarrow> 'a action" where
  "areturn x w = (Inr x, w)"

definition afail :: "grpc_code \<Rightarrow> 'a action" where
  "afail c w = (Inl c, w)"

definition abind :: "'a action \<Rightarrow> ('a \<Rightarrow> 'b action) \<Rightarrow> 'b action" where
  "abind m f w = (case m w of (Inl c, w') \<Rightarrow> (Inl c, w') | (Inr x, w') \<Rightarrow> f x w')"

definition alift :: "grpc_code + 'a \<Rightarrow> 'a action" where
  "alift r w = (r, w)"

definition aserver :: "Server action" where
  "aserver w = (Inr (aw_server w), w)"

text \<open>An action whose error is ignored.\<close>

definition atry :: "'a action \<Rightarrow> unit action" where
  "atry m w = (Inr (), snd (m w))"

section \<open>The HTTP client (client.go)\<close>

definition IsLoopback :: "nat list \<Rightarrow> bool" where
  "IsLoopback ip \<longleftrightarrow>
     (if take 12 ip = replicate 10 0 @ [255, 255] then ip ! 12 = 127 else ip = replicate 15 0 @ [1])"

definition NewHTTPClient :: "string \<Rightarrow> string \<Rightarrow> string \<Rightarrow> grpc_code + HTTPClient" where
  "NewHTTPClient baseURL token clusterID =
     (case url_parse baseURL of
        None \<Rightarrow> Inl InvalidArgument
      | Some u \<Rightarrow>
          if u_host u = [] \<or> u_user u \<or> u_rawquery u \<noteq> [] \<or> u_fragment u \<noteq> [] \<or> u_path u \<notin> {[], ''/''}
             \<or> u_scheme u \<notin> {''http'', ''https''} \<or> token = [] \<or> clusterID = []
          then Inl InvalidArgument
          else if u_scheme u = ''http'' \<and> Hostname u \<noteq> ''localhost''
             \<and> \<not> (case ParseIP (Hostname u) of None \<Rightarrow> False | Some ip \<Rightarrow> IsLoopback ip)
          then Inl InvalidArgument
          else Inr \<lparr>hc_baseURL = u_scheme u @ ''://'' @ u_host u, hc_token = token, hc_clusterID = clusterID\<rparr>)"

definition status_code :: "int \<Rightarrow> grpc_code" where
  "status_code s =
     (if s = 400 then InvalidArgument else if s = 401 then Unauthenticated else if s = 403 then PermissionDenied
      else if s = 404 then NotFound else if s = 409 then Aborted else if s = 422 then FailedPrecondition
      else if s \<in> {429, 502, 503, 504} then Unavailable else Internal)"

definition failure_code :: "json \<Rightarrow> string" where
  "failure_code v =
     (case dec_struct [jf_string ''code'' (\<lambda>c. c) (\<lambda>u c. u c)] False v [] of None \<Rightarrow> [] | Some c \<Rightarrow> c)"

text \<open>The answer as the client reads it; \<open>whole\<close> says that the body arrived.\<close>

definition read_reply :: "bool \<Rightarrow> reply \<Rightarrow> bool \<Rightarrow> grpc_code + json" where
  "read_reply output r whole =
     (if status r < 200 \<or> status r \<ge> 300
      then Inl (case r of
          Json s v \<Rightarrow> if whole \<and> s = 422 \<and> failure_code v = ''capacity_limit'' then ResourceExhausted else status_code s
        | Text s t \<Rightarrow> status_code s)
      else if \<not> output then Inr JNull
      else case r of
          Json s v \<Rightarrow> if whole then Inr v else Inl Unavailable
        | Text s t \<Rightarrow> Inl Unavailable)"

definition client_request :: "net \<Rightarrow> HTTPClient \<Rightarrow> string \<Rightarrow> string list \<Rightarrow> json option \<Rightarrow> request" where
  "client_request N c meth path input =
     \<lparr>rq_method = meth, rq_path = path, rq_query = [],
      rq_headers = [(''Authorization'', ''Bearer '' @ hc_token c), (''X-Crane-Cluster-Id'', hc_clusterID c),
        (''Content-Type'', ''application/json'')],
      rq_body = (case input of
          None \<Rightarrow> \<lparr>by_length = 0, by_docs = [], by_clean = True\<rparr>
        | Some v \<Rightarrow> \<lparr>by_length = nt_size N v, by_docs = [v], by_clean = True\<rparr>)\<rparr>"

definition client_do :: "net \<Rightarrow> string \<Rightarrow> string list \<Rightarrow> json option \<Rightarrow> bool \<Rightarrow> json action" where
  "client_do N meth path input output w =
     (let k = aw_calls w; rq = client_request N (sv_client (aw_server w)) meth path input;
          db0 = nt_client N k (aw_db w); (r, db1) = Handler (nt_env N k) (nt_api N) rq db0 in
      case nt_delivery N k of
        Undelivered \<Rightarrow> (Inl Unavailable, w\<lparr>aw_db := db0, aw_calls := Suc k\<rparr>)
      | Expired c served \<Rightarrow> (Inl (FromContextError c), w\<lparr>aw_db := (if served then db1 else db0), aw_calls := Suc k\<rparr>)
      | AnswerLost \<Rightarrow> (Inl Unavailable, w\<lparr>aw_db := db1, aw_calls := Suc k\<rparr>)
      | Truncated \<Rightarrow> (read_reply output r False, w\<lparr>aw_db := db1, aw_calls := Suc k\<rparr>)
      | Answered \<Rightarrow> (read_reply output r True, w\<lparr>aw_db := db1, aw_calls := Suc k\<rparr>))"

definition client_decode :: "'a decoder \<Rightarrow> 'a \<Rightarrow> json \<Rightarrow> grpc_code + 'a" where
  "client_decode dec zero v = (case dec False v zero of None \<Rightarrow> Inl Unavailable | Some x \<Rightarrow> Inr x)"

definition client_Target :: "net \<Rightarrow> string \<Rightarrow> CapacityResult action" where
  "client_Target N gid =
     abind (client_do N ''GET'' [''v1'', ''node-groups'', gid, ''target''] None True) (\<lambda>v.
       alift (rbind (client_decode (dec_struct CapacityResult_json) zero_result v) (\<lambda>r.
         if cs_NodeGroupID r \<noteq> gid \<or> cs_TargetNodes r < 0 \<or> cs_TargetRevision r < 0 then Inl Internal else Inr r)))"

definition client_Discover :: "net \<Rightarrow> AutoscalerGroup list action" where
  "client_Discover N =
     abind (client_do N ''GET'' [''v1'', ''autoscaler'', ''discovery''] None True) (\<lambda>v.
       abind aserver (\<lambda>s.
         alift (rbind (client_decode (dec_struct AutoscalerDiscovery_json) [] v) (\<lambda>gs.
           if list_ex (\<lambda>g. ag_ClusterID g \<noteq> hc_clusterID (sv_client s) \<or> ag_ID g = [] \<or> ag_TemplateRevision g = []) gs
           then Inl Internal else Inr gs))))"

definition client_SetTarget :: "net \<Rightarrow> CapacityRequest \<Rightarrow> CapacityResult action" where
  "client_SetTarget N req =
     abind (client_do N ''POST'' [''v1'', ''capacity''] (Some (enc_struct setTargetRequest_json
         \<lparr>sq_NodeGroupID = cr_NodeGroupID req, sq_RequestID = cr_RequestID req,
          sq_ExpectedTargetRevision = cr_ExpectedTargetRevision req, sq_DesiredTarget = cr_DesiredTarget req,
          sq_TemplateRevision = cr_TemplateRevision req\<rparr>)) True) (\<lambda>v.
       alift (rbind (client_decode (dec_struct CapacityResult_json) zero_result v) (\<lambda>r.
         if cs_NodeGroupID r \<noteq> cr_NodeGroupID req \<or> cs_RequestID r \<noteq> cr_RequestID req
            \<or> cs_TargetNodes r \<noteq> cr_DesiredTarget req \<or> cs_TargetRevision r \<noteq> i64 (cr_ExpectedTargetRevision req + 1)
         then Inl Unavailable else Inr r)))"

definition client_RemoveNodes :: "net \<Rightarrow> NodeRemovalRequest \<Rightarrow> unit action" where
  "client_RemoveNodes N req =
     abind (client_do N ''POST'' [''v1'', ''node-removals''] (Some (enc_struct NodeRemovalRequest_json req)) False)
       (\<lambda>_. areturn ())"

section \<open>Discovered groups (server.go)\<close>

definition max_memory_mib :: int where
  "max_memory_mib = max_int64 div (1024 * 1024)"

definition canonical_topology :: "string \<Rightarrow> string \<Rightarrow> string \<Rightarrow> string \<Rightarrow> (string \<times> string) list" where
  "canonical_topology region zone pool itype =
     [(''kubernetes.io/os'', ''linux''), (''topology.kubernetes.io/region'', region),
      (''topology.kubernetes.io/zone'', zone), (''platform.crane.io/node-pool'', pool),
      (''node.kubernetes.io/instance-type'', itype)]"

definition labels_conflict :: "(string \<times> string) list \<Rightarrow> (string \<times> string) list \<Rightarrow> bool" where
  "labels_conflict labels canonical_ls =
     list_ex (\<lambda>(k, want). case map_of labels k of None \<Rightarrow> False | Some got \<Rightarrow> got \<noteq> want) canonical_ls"

definition node_state :: "string \<Rightarrow> string" where
  "node_state s =
     (if s \<in> {''READY'', ''CONVERGING'', ''REGISTERING'', ''UNHEALTHY''} then ''running''
      else if s \<in> {''DRAINING'', ''TERMINATING''} then ''deleting'' else ''creating'')"

fun discovered_nodes :: "string list \<Rightarrow> AutoscalerNode list \<Rightarrow> grpc_code + string list \<times> Node list" where
  "discovered_nodes seen [] = Inr (seen, [])"
| "discovered_nodes seen (n # ns) =
     (if an_HostID n = [] \<or> an_ProviderID n = [] \<or> an_ProviderID n \<in> set seen then Inl Internal
      else rbind (discovered_nodes (an_ProviderID n # seen) ns) (\<lambda>(seen', out).
        Inr (seen', \<lparr>nd_HostID = an_HostID n, nd_ProviderID = an_ProviderID n, nd_Name = [],
                     nd_State = node_state (an_State n)\<rparr> # out)))"

definition group_metadata_bad :: "string list \<Rightarrow> AutoscalerGroup \<Rightarrow> bool" where
  "group_metadata_bad ids g \<longleftrightarrow> ag_ID g = [] \<or> ag_ID g \<in> set ids \<or> ag_ClusterID g = [] \<or> ag_Pool g = []
     \<or> ag_TemplateRevision g = [] \<or> ag_MinNodes g < 0 \<or> ag_MaxNodes g < ag_MinNodes g \<or> ag_MaxNodes g > max_int32
     \<or> ag_CPU g \<le> 0 \<or> ag_MemoryMiB g \<le> 0 \<or> st_Zone (ag_Scheduling g) = [] \<or> st_Region (ag_Scheduling g) = []
     \<or> st_InstanceType (ag_Scheduling g) = [] \<or> ag_MemoryMiB g > max_memory_mib"

fun discovered :: "string list \<Rightarrow> string list \<Rightarrow> AutoscalerGroup list \<Rightarrow> grpc_code + StaticNodeGroup list" where
  "discovered ids nodes [] = Inr []"
| "discovered ids nodes (g # gs) =
     (let t = ag_Scheduling g in
      if group_metadata_bad ids g then Inl Internal
      else if st_Architecture t \<notin> {[], ''amd64'', ''arm64''} then Inl Internal
      else if labels_conflict (st_Labels t)
           (canonical_topology (st_Region t) (st_Zone t) (ag_Pool g) (st_InstanceType t)
            @ (if st_Architecture t \<noteq> [] then [(''kubernetes.io/arch'', st_Architecture t)] else []))
      then Inl Internal
      else rbind (discovered_nodes nodes (ag_Nodes g)) (\<lambda>(nodes', ns).
        rbind (discovered (ag_ID g # ids) nodes' gs) (\<lambda>out.
          Inr (\<lparr>sg_ID = ag_ID g, sg_ClusterID = ag_ClusterID g, sg_TemplateRevision = ag_TemplateRevision g,
                sg_Zone = st_Zone t, sg_Region = st_Region t, sg_Pool = ag_Pool g, sg_MinNodes = ag_MinNodes g,
                sg_MaxNodes = ag_MaxNodes g, sg_InstanceType = st_InstanceType t, sg_Architecture = st_Architecture t,
                sg_CPU = ag_CPU g, sg_MemoryMB = ag_MemoryMiB g, sg_Labels = st_Labels t, sg_Taints = st_Taints t,
                sg_Nodes = ns\<rparr> # out))))"

definition discoveredGroups :: "AutoscalerGroup list \<Rightarrow> grpc_code + StaticNodeGroup list" where
  "discoveredGroups gs = discovered [] [] gs"

section \<open>Construction\<close>

fun static_nodes :: "bool \<Rightarrow> string list \<Rightarrow> Node list \<Rightarrow> string list option" where
  "static_nodes disc seen [] = Some seen"
| "static_nodes disc seen (n # ns) =
     (if nd_ProviderID n = [] \<or> nd_HostID n = [] \<or> (\<not> disc \<and> nd_Name n = []) \<or> nd_ProviderID n \<in> set seen
         \<or> nd_State n \<notin> {''running'', ''creating'', ''deleting''}
      then None else static_nodes disc (nd_ProviderID n # seen) ns)"

definition static_group_bad :: "string list \<Rightarrow> StaticNodeGroup \<Rightarrow> bool" where
  "static_group_bad ids g \<longleftrightarrow> sg_ID g = [] \<or> sg_ID g \<in> set ids \<or> sg_Zone g = [] \<or> sg_Region g = [] \<or> sg_Pool g = []
     \<or> sg_TemplateRevision g = [] \<or> sg_InstanceType g = [] \<or> sg_MinNodes g < 0 \<or> sg_MaxNodes g < sg_MinNodes g
     \<or> sg_MaxNodes g > max_int32 \<or> sg_CPU g \<le> 0 \<or> sg_MemoryMB g \<le> 0 \<or> sg_MemoryMB g > max_memory_mib"

fun check_static :: "bool \<Rightarrow> string \<Rightarrow> string list \<Rightarrow> string list \<Rightarrow> StaticNodeGroup list \<Rightarrow> StaticNodeGroup list option" where
  "check_static disc cluster ids nodes [] = Some []"
| "check_static disc cluster ids nodes (g0 # gs) =
     (if sg_ClusterID g0 \<noteq> cluster then check_static disc cluster ids nodes gs
      else if static_group_bad ids g0 then None
      else (let g = (if sg_Architecture g0 = [] then g0\<lparr>sg_Architecture := ''amd64''\<rparr> else g0) in
        if sg_Architecture g \<notin> {''amd64'', ''arm64''} then None
        else if labels_conflict (sg_Labels g) ((''kubernetes.io/arch'', sg_Architecture g)
               # canonical_topology (sg_Region g) (sg_Zone g) (sg_Pool g) (sg_InstanceType g)) then None
        else if list_ex (\<lambda>t. tt_Key t = [] \<or> tt_Effect t \<notin> {''NoSchedule'', ''PreferNoSchedule'', ''NoExecute''}) (sg_Taints g)
        then None
        else case static_nodes disc nodes (sg_Nodes g) of
            None \<Rightarrow> None
          | Some nodes' \<Rightarrow> map_option (\<lambda>out. g # out) (check_static disc cluster (sg_ID g # ids) nodes' gs)))"

text \<open>
  \<open>NewServer\<close>: with configured groups, or with those of a first discovery, which runs in a world
  that holds the database.
\<close>

definition NewServer :: "net \<Rightarrow> string \<Rightarrow> StaticNodeGroup list \<Rightarrow> HTTPClient \<Rightarrow> db \<Rightarrow> (grpc_code + Server) \<times> db" where
  "NewServer N clusterID groups client db =
     (let s = \<lparr>sv_clusterID = clusterID, sv_groups = [], sv_client = client, sv_discoverer = (groups = []), sv_verifier = None\<rparr>;
          finish = (\<lambda>gs. case check_static (groups = []) clusterID [] [] gs of
              None \<Rightarrow> Inl Unknown
            | Some out \<Rightarrow> if out = [] \<and> groups \<noteq> [] then Inl Unknown else Inr (s\<lparr>sv_groups := out\<rparr>)) in
      if clusterID = [] then (Inl Unknown, db)
      else if groups \<noteq> [] then (finish groups, db)
      else case client_Discover N \<lparr>aw_server = s, aw_db = db, aw_calls = 0\<rparr> of
          (Inl c, w) \<Rightarrow> (Inl c, aw_db w)
        | (Inr d, w) \<Rightarrow> (rbind (discoveredGroups d) finish, aw_db w))"

definition SetNodeVerifier :: "(string \<Rightarrow> string \<Rightarrow> grpc_code option) \<Rightarrow> Server \<Rightarrow> Server" where
  "SetNodeVerifier v s = s\<lparr>sv_verifier := Some v\<rparr>"

text \<open>\<open>VerifyNode\<close> over the node lookup of the Kubernetes API: the provider identity, or an error.\<close>

definition VerifyNode :: "(string \<Rightarrow> string option) \<Rightarrow> string \<Rightarrow> string \<Rightarrow> grpc_code option" where
  "VerifyNode get name providerID =
     (if name = [] \<or> providerID = [] then Some InvalidArgument
      else case get name of
          None \<Rightarrow> Some Unavailable
        | Some p \<Rightarrow> if p \<noteq> providerID then Some InvalidArgument else None)"

section \<open>Callbacks\<close>

definition set_groups :: "StaticNodeGroup list \<Rightarrow> unit action" where
  "set_groups gs w = (Inr (), w\<lparr>aw_server := (aw_server w)\<lparr>sv_groups := gs\<rparr>\<rparr>)"

definition refresh :: "net \<Rightarrow> unit action" where
  "refresh N = abind aserver (\<lambda>s.
     if \<not> sv_discoverer s then areturn ()
     else abind (client_Discover N) (\<lambda>d.
       abind (alift (discoveredGroups d)) (\<lambda>gs.
         if list_ex (\<lambda>g. sg_ClusterID g \<noteq> sv_clusterID s) gs then afail Internal else set_groups gs)))"

definition server_group :: "string \<Rightarrow> StaticNodeGroup action" where
  "server_group i = abind aserver (\<lambda>s.
     case find (\<lambda>g. sg_ID g = i) (sv_groups s) of None \<Rightarrow> afail NotFound | Some g \<Rightarrow> areturn g)"

text \<open>A group as the autoscaler sees it: identifier and bounds, as \<open>int32\<close>.\<close>

definition groupProto :: "StaticNodeGroup \<Rightarrow> string \<times> int \<times> int" where
  "groupProto g = (sg_ID g, sg_MinNodes g, sg_MaxNodes g)"

definition NodeGroups :: "net \<Rightarrow> (string \<times> int \<times> int) list action" where
  "NodeGroups N = abind (refresh N) (\<lambda>_. abind aserver (\<lambda>s. areturn (map groupProto (sv_groups s))))"

definition NodeGroupForNode :: "net \<Rightarrow> string \<Rightarrow> (string \<times> int \<times> int) option action" where
  "NodeGroupForNode N providerID = abind (atry (refresh N)) (\<lambda>_.
     if providerID = [] then afail InvalidArgument
     else abind aserver (\<lambda>s. areturn (map_option groupProto (StaticProvider_NodeGroupForNode (sv_groups s) providerID))))"

definition NodeGroupTargetSize :: "net \<Rightarrow> string \<Rightarrow> int action" where
  "NodeGroupTargetSize N i = abind (atry (refresh N)) (\<lambda>_. abind (server_group i) (\<lambda>g.
     abind (client_Target N (sg_ID g)) (\<lambda>t.
       if cs_TargetNodes t < 0 \<or> cs_TargetNodes t > max_int32 then afail Internal else areturn (cs_TargetNodes t))))"

text \<open>The retry loop: at most three attempts, and only after an unavailable answer.\<close>

function retry_from :: "net \<Rightarrow> 'a action \<Rightarrow> nat \<Rightarrow> 'a action" where
  "retry_from N act attempt w =
     (case nt_done N (aw_calls w) of
        Some c \<Rightarrow> (Inl (FromContextError c), w)
      | None \<Rightarrow>
          (case act w of
             (Inr x, w1) \<Rightarrow> (Inr x, w1)
           | (Inl c, w1) \<Rightarrow>
               if c \<noteq> Unavailable \<or> attempt \<ge> 2 then (Inl c, w1)
               else (case nt_wait N (aw_calls w1) of
                   Some d \<Rightarrow> (Inl (FromContextError d), w1)
                 | None \<Rightarrow> retry_from N act (Suc attempt) w1)))"
  by pat_completeness auto
termination
  by (relation "measure (\<lambda>(N, act, attempt, w). 2 - attempt)") auto

definition retry :: "net \<Rightarrow> 'a action \<Rightarrow> 'a action" where
  "retry N act = retry_from N act 0"

definition scale_request :: "string \<Rightarrow> Server \<Rightarrow> StaticNodeGroup \<Rightarrow> string \<Rightarrow> CapacityResult \<Rightarrow> int \<Rightarrow> CapacityRequest" where
  "scale_request rid s g i t desired = \<lparr>cr_NodeGroupID = i, cr_RequestID = rid, cr_ClusterID = sv_clusterID s,
     cr_ExpectedTargetRevision = cs_TargetRevision t, cr_DesiredTarget = desired,
     cr_TemplateRevision = sg_TemplateRevision g\<rparr>"

definition changeTarget :: "net \<Rightarrow> string \<Rightarrow> string \<Rightarrow> int \<Rightarrow> unit action" where
  "changeTarget N rid i delta = abind (refresh N) (\<lambda>_. abind (server_group i) (\<lambda>g. abind (client_Target N i) (\<lambda>t.
     if cs_TargetNodes t < 0 \<or> cs_TargetNodes t > max_int32 \<or> cs_TargetRevision t < 0 then afail Internal
     else (let desired = i64 (cs_TargetNodes t + delta) in
       if desired < sg_MinNodes g \<or> desired > sg_MaxNodes g then afail OutOfRange
       else abind aserver (\<lambda>s.
         abind (retry N (client_SetTarget N (scale_request rid s g i t desired))) (\<lambda>_. areturn ()))))))"

definition NodeGroupIncreaseSize :: "net \<Rightarrow> string \<Rightarrow> string \<Rightarrow> int \<Rightarrow> unit action" where
  "NodeGroupIncreaseSize N rid i delta = (if delta \<le> 0 then afail InvalidArgument else changeTarget N rid i delta)"

definition NodeGroupDecreaseTargetSize :: "net \<Rightarrow> string \<Rightarrow> string \<Rightarrow> int \<Rightarrow> unit action" where
  "NodeGroupDecreaseTargetSize N rid i delta = (if delta \<ge> 0 then afail InvalidArgument else changeTarget N rid i delta)"

text \<open>The named nodes are (name, provider identity) pairs.\<close>

fun match_nodes :: "Server \<Rightarrow> StaticNodeGroup \<Rightarrow> string list \<Rightarrow> (string \<times> string) list \<Rightarrow> grpc_code + RemovalNode list" where
  "match_nodes s g seen [] = Inr []"
| "match_nodes s g seen ((name, pid) # ns) =
     (case find (\<lambda>n. nd_ProviderID n = pid \<and> (sv_verifier s \<noteq> None \<or> nd_Name n = name)) (sg_Nodes g) of
        None \<Rightarrow> Inl InvalidArgument
      | Some n \<Rightarrow>
          if nd_HostID n \<in> set seen then Inl InvalidArgument
          else case (case sv_verifier s of None \<Rightarrow> None | Some v \<Rightarrow> v name pid) of
              Some c \<Rightarrow> Inl c
            | None \<Rightarrow> rbind (match_nodes s g (nd_HostID n # seen) ns) (\<lambda>out.
                Inr (\<lparr>rn_HostID = nd_HostID n, rn_NodeName = nd_Name n, rn_ProviderID = nd_ProviderID n\<rparr> # out)))"

definition NodeGroupDeleteNodes :: "net \<Rightarrow> string \<Rightarrow> string \<Rightarrow> (string \<times> string) list \<Rightarrow> unit action" where
  "NodeGroupDeleteNodes N rid i named = abind (server_group i) (\<lambda>g.
     if named = [] then afail InvalidArgument
     else abind aserver (\<lambda>s. abind (alift (match_nodes s g [] named)) (\<lambda>rns.
       abind (client_Target N (sg_ID g)) (\<lambda>t.
         retry N (client_RemoveNodes N \<lparr>rr_NodeGroupID = sg_ID g, rr_RequestID = rid,
           rr_ExpectedTargetRevision = cs_TargetRevision t, rr_Nodes = rns\<rparr>)))))"

definition NodeGroupNodes :: "net \<Rightarrow> string \<Rightarrow> (string \<times> string) list action" where
  "NodeGroupNodes N i = abind (atry (refresh N)) (\<lambda>_. abind (server_group i) (\<lambda>g.
     areturn (map (\<lambda>n. (nd_ProviderID n, nd_State n)) (sg_Nodes g))))"

text \<open>The template of a new node: labels, taints, processors and memory in bytes.\<close>

definition NodeGroupTemplateNodeInfo ::
    "net \<Rightarrow> string \<Rightarrow> (string \<times> (string \<times> string) list \<times> SchedulingTaint list \<times> int \<times> int) action" where
  "NodeGroupTemplateNodeInfo N i = abind (refresh N) (\<lambda>_. abind (server_group i) (\<lambda>_. abind aserver (\<lambda>s.
     case StaticProvider_Template (sv_groups s) i of
       None \<Rightarrow> afail NotFound
     | Some t \<Rightarrow> areturn (''crane-template-'' @ i, tm_Labels t, tm_Taints t, tm_CPU t, i64 (tm_MemoryMB t * 1024 * 1024)))))"

definition Refresh :: "net \<Rightarrow> unit action" where
  "Refresh N = refresh N"

end
