(* ===== verification/AdapterProtocol.thy ===== *)
theory AdapterProtocol
  imports AutoscalerAdapter
begin

text \<open>
  The autoscaler adapter, the network and the HTTP API composed.  A scaling callback sends one
  request, at most three times, over a network that may lose the request or the answer while
  other clients change the database.  The lemmas show that a successful callback has changed the
  target exactly once, by the requested amount and from the target it read, and that an error
  other than the three uncertain ones means that nothing was recorded.
\<close>


section \<open>What the API answers to the client\<close>

definition net_ok :: "k8s_validation \<Rightarrow> net \<Rightarrow> bool" where
  "net_ok K N \<longleftrightarrow> client_ok K (nt_client N) \<and> (\<forall>k. ae_K (nt_env N k) = K)"

lemma client_headers [simp]:
  "bearer (client_request N c m p v) = hc_token c"
  "value_of ''X-Crane-Cluster-Id'' (rq_headers (client_request N c m p v)) = hc_clusterID c"
  "rq_method (client_request N c m p v) = m" "rq_path (client_request N c m p v) = p"
  by (simp_all add: bearer_def client_request_def value_of_def values_of_def)

lemma Handler_reads:
  "snd (Handler E a (client_request N c ''GET'' [''v1'', ''autoscaler'', ''discovery''] v) db) = db"
  "snd (Handler E a (client_request N c ''GET'' [''v1'', ''node-groups'', i, ''target''] v) db) = db"
  by (auto simp: Handler_def route_def routes_def match_method_def adapter_def Let_def API_discovery_def API_target_def
      split: sum.splits)

lemma setTargetRequest_roundtrip:
  assumes "in_i64 (sq_ExpectedTargetRevision r)" "in_i64 (sq_DesiredTarget r)"
  shows "dec_struct setTargetRequest_json strict (enc_struct setTargetRequest_json r) zero_set_target = Some r"
  using assms by (cases r) (simp add: setTargetRequest_json_def codec_simps zero_set_target_def)

definition wire_request :: "CapacityRequest \<Rightarrow> json" where
  "wire_request req = enc_struct setTargetRequest_json \<lparr>sq_NodeGroupID = cr_NodeGroupID req, sq_RequestID = cr_RequestID req,
     sq_ExpectedTargetRevision = cr_ExpectedTargetRevision req, sq_DesiredTarget = cr_DesiredTarget req,
     sq_TemplateRevision = cr_TemplateRevision req\<rparr>"

text \<open>The request as the server sees it: the cluster is the one of the credential.\<close>

definition served_request :: "net \<Rightarrow> HTTPClient \<Rightarrow> CapacityRequest \<Rightarrow> CapacityRequest" where
  "served_request N c req = req\<lparr>cr_ClusterID := authenticatedCluster (nt_api N) (hc_token c)\<rparr>"

lemma Handler_capacity:
  assumes "in_i64 (cr_ExpectedTargetRevision req)" "in_i64 (cr_DesiredTarget req)"
  shows "Handler E (nt_api N) (client_request N c ''POST'' [''v1'', ''capacity''] (Some (wire_request req))) db =
    (if cr_ClusterID (served_request N c req) = [] then (Text 401 ''unauthorized'', db)
     else if TrimSpace (hc_clusterID c) \<noteq> cr_ClusterID (served_request N c req)
     then (Text 403 ''forbidden cluster identity'', db)
     else if nt_size N (wire_request req) > maxBodyBytes then (Text 400 ''invalid JSON'', db)
     else case SetTarget (ae_uuid E) (ae_now E) (served_request N c req) db of
         Inl e \<Rightarrow> (capacityError e, db)
       | Inr (out, db') \<Rightarrow> (writeJSON (enc_struct CapacityResult_json out), db'))"
proof -
  let ?rq = "client_request N c ''POST'' [''v1'', ''capacity''] (Some (wire_request req))"
  have r: "Handler E (nt_api N) ?rq db = adapter (nt_api N) ?rq (\<lambda>cl. API_setTarget (ae_uuid E) (ae_now E) cl ?rq) db"
    by (simp add: Handler_def route_def routes_def match_method_def)
  have b: "rq_body ?rq = \<lparr>by_length = nt_size N (wire_request req), by_docs = [wire_request req], by_clean = True\<rparr>"
    by (simp add: client_request_def)
  have w: "dec_struct setTargetRequest_json True (wire_request req) zero_set_target = Some
    \<lparr>sq_NodeGroupID = cr_NodeGroupID req, sq_RequestID = cr_RequestID req,
     sq_ExpectedTargetRevision = cr_ExpectedTargetRevision req, sq_DesiredTarget = cr_DesiredTarget req,
     sq_TemplateRevision = cr_TemplateRevision req\<rparr>"
    unfolding wire_request_def using assms by (simp add: setTargetRequest_roundtrip)
  have d: "decodeJSON (dec_struct setTargetRequest_json) zero_set_target (rq_body ?rq) =
    (if nt_size N (wire_request req) > maxBodyBytes then None
     else Some \<lparr>sq_NodeGroupID = cr_NodeGroupID req, sq_RequestID = cr_RequestID req,
     sq_ExpectedTargetRevision = cr_ExpectedTargetRevision req, sq_DesiredTarget = cr_DesiredTarget req,
     sq_TemplateRevision = cr_TemplateRevision req\<rparr>)"
    unfolding b decodeJSON_def by (simp add: w)
  have q: "\<lparr>cr_NodeGroupID = cr_NodeGroupID req, cr_RequestID = cr_RequestID req,
      cr_ClusterID = cl, cr_ExpectedTargetRevision = cr_ExpectedTargetRevision req, cr_DesiredTarget = cr_DesiredTarget req,
      cr_TemplateRevision = cr_TemplateRevision req\<rparr> = req\<lparr>cr_ClusterID := cl\<rparr>" for cl by simp
  show ?thesis unfolding r adapter_def Let_def API_setTarget_def with_body_def d served_request_def
    by (simp add: q)
qed

definition admitted :: "net \<Rightarrow> HTTPClient \<Rightarrow> CapacityRequest \<Rightarrow> bool" where
  "admitted N c req \<longleftrightarrow> cr_ClusterID (served_request N c req) \<noteq> []
     \<and> TrimSpace (hc_clusterID c) = cr_ClusterID (served_request N c req) \<and> nt_size N (wire_request req) \<le> maxBodyBytes"

lemma Handler_refused:
  assumes "in_i64 (cr_ExpectedTargetRevision req)" "in_i64 (cr_DesiredTarget req)" "\<not> admitted N c req"
  shows "\<exists>s t. s \<in> {400, 401, 403} \<and>
    Handler E (nt_api N) (client_request N c ''POST'' [''v1'', ''capacity''] (Some (wire_request req))) db = (Text s t, db)"
  using assms(3) unfolding Handler_capacity [OF assms(1,2)] admitted_def by auto

lemma Handler_admitted:
  assumes "in_i64 (cr_ExpectedTargetRevision req)" "in_i64 (cr_DesiredTarget req)" "admitted N c req"
  shows "Handler E (nt_api N) (client_request N c ''POST'' [''v1'', ''capacity''] (Some (wire_request req))) db =
    (case SetTarget (ae_uuid E) (ae_now E) (served_request N c req) db of
         Inl e \<Rightarrow> (capacityError e, db)
       | Inr (out, db') \<Rightarrow> (writeJSON (enc_struct CapacityResult_json out), db'))"
  using assms(3) unfolding Handler_capacity [OF assms(1,2)] admitted_def by auto

section \<open>Lost answers\<close>

definition known_request :: "string \<Rightarrow> string \<Rightarrow> db \<Rightarrow> bool" where
  "known_request gid rid db \<longleftrightarrow> find_request db gid rid \<noteq> None"

text \<open>A request that was new at some point of a history and has been committed there.\<close>

definition committed :: "k8s_validation \<Rightarrow> db \<Rightarrow> CapacityRequest \<Rightarrow> db \<Rightarrow> bool" where
  "committed K d req db \<longleftrightarrow> (\<exists>uuid now db0 res db1. steps K d db0 \<and> \<not> known_request (cr_NodeGroupID req) (cr_RequestID req) db0
     \<and> SetTarget uuid now req db0 = Inr (res, db1) \<and> steps K db1 db)"

lemma committed_later: "committed K d req db \<Longrightarrow> steps K db db' \<Longrightarrow> committed K d req db'"
  unfolding committed_def by (meson rtranclp_trans)

lemma committed_again:
  assumes "committed K d req db" "system_ok d"
  shows "\<exists>res. SetTarget uuid now req db = Inr (res, db)"
  using assms SetTarget_again cap.run_inv unfolding committed_def by metis

definition answer_ok :: "grpc_code \<Rightarrow> bool" where
  "answer_ok c \<longleftrightarrow> c \<in> {Unavailable, DeadlineExceeded, Canceled}"

lemma context_answer: "answer_ok (FromContextError c)"
  by (cases c) (simp_all add: answer_ok_def)

lemma served_attempt:
  assumes d: "system_ok d" "steps K d db"
    and u: "committed K d req db \<or> \<not> known_request (cr_NodeGroupID req) (cr_RequestID req) db"
  shows "case SetTarget uuid now req db of Inl e \<Rightarrow> \<not> known_request (cr_NodeGroupID req) (cr_RequestID req) db
     | Inr (out, db') \<Rightarrow> committed K d req db' \<and> steps K d db'"
proof (cases "SetTarget uuid now req db")
  case (Inl e)
  then have "\<not> committed K d req db" using committed_again [OF _ d(1), of K req db uuid now] by auto
  then show ?thesis using u Inl by simp
next
  case (Inr x)
  obtain out db' where x: "x = (out, db')" by (cases x)
  have s: "cap_step K db db'" using Inr unfolding x by (rule cap_step.set_target)
  have "committed K d req db'"
  proof (cases "committed K d req db")
    case True
    then show ?thesis using committed_later s by blast
  next
    case False
    then show ?thesis using u d(2) Inr x unfolding committed_def by blast
  qed
  then show ?thesis using Inr x d(2) s by simp
qed

text \<open>No other client uses the request's identifier.\<close>

definition own_id :: "net \<Rightarrow> string \<Rightarrow> string \<Rightarrow> bool" where
  "own_id N gid rid \<longleftrightarrow> (\<forall>k db. known_request gid rid (nt_client N k db) = known_request gid rid db)"

text \<open>
  Between the attempts of a call its request is either committed, and then the server admits it,
  or unknown to the database.
\<close>

definition unsettled :: "k8s_validation \<Rightarrow> net \<Rightarrow> HTTPClient \<Rightarrow> db \<Rightarrow> CapacityRequest \<Rightarrow> db \<Rightarrow> bool" where
  "unsettled K N c d req db \<longleftrightarrow> steps K d db \<and>
     (committed K d (served_request N c req) db \<and> admitted N c req
      \<or> \<not> known_request (cr_NodeGroupID req) (cr_RequestID req) db)"

definition truthful :: "k8s_validation \<Rightarrow> net \<Rightarrow> HTTPClient \<Rightarrow> db \<Rightarrow> CapacityRequest \<Rightarrow> grpc_code + 'a \<Rightarrow> db \<Rightarrow> bool" where
  "truthful K N c d req r db \<longleftrightarrow>
     (case r of
        Inr _ \<Rightarrow> committed K d (served_request N c req) db
      | Inl e \<Rightarrow> answer_ok e \<or> \<not> known_request (cr_NodeGroupID req) (cr_RequestID req) db)"

lemma client_before:
  assumes "net_ok K N" "own_id N (cr_NodeGroupID req) (cr_RequestID req)" "unsettled K N c d req db"
  shows "unsettled K N c d req (nt_client N k db)"
proof -
  have s: "steps K db (nt_client N k db)" using assms(1) by (simp add: net_ok_def client_ok_def)
  have "steps K d (nt_client N k db)" using s assms(3) by (auto simp: unsettled_def)
  then show ?thesis using assms(2,3) committed_later [OF _ s] unfolding unsettled_def own_id_def by blast
qed

lemma reply_200: "read_reply True (writeJSON v) b = Inr v \<or> read_reply True (writeJSON v) b = Inl Unavailable"
  by (simp add: read_reply_def writeJSON_def)

lemma error_code_refused: "snd (error_code e) \<ge> 400"
  by (induction e) simp_all

lemma read_error: "\<exists>c. read_reply out (capacityError e) b = Inl c"
  using error_code_refused [of e] by (simp add: read_reply_def capacityError_def)

lemma read_refused: "s \<in> {400, 401, 403} \<Longrightarrow> \<exists>c. read_reply out (Text s t) b = Inl c"
  by (auto simp: read_reply_def)

text \<open>One call: the server's answer, or one of the answers a lost exchange gives.\<close>

lemma client_do_cases:
  assumes "client_do N m p v out w = (r, w')"
  obtains (unserved) c where "r = Inl c" "answer_ok c" "aw_db w' = nt_client N (aw_calls w) (aw_db w)"
    | (served) R db1 whole where
        "Handler (nt_env N (aw_calls w)) (nt_api N) (client_request N (sv_client (aw_server w)) m p v)
           (nt_client N (aw_calls w) (aw_db w)) = (R, db1)"
        "aw_db w' = db1" "(\<exists>c. r = Inl c \<and> answer_ok c) \<or> r = read_reply out R whole"
proof -
  obtain R db1 where h: "Handler (nt_env N (aw_calls w)) (nt_api N) (client_request N (sv_client (aw_server w)) m p v)
      (nt_client N (aw_calls w) (aw_db w)) = (R, db1)" by fastforce
  note s = served [OF h]
  show thesis
  proof (cases "nt_delivery N (aw_calls w)")
    case Undelivered
    then show thesis using assms h unserved [of Unavailable] by (auto simp: client_do_def Let_def answer_ok_def)
  next
    case AnswerLost
    then show thesis using assms h s by (auto simp: client_do_def Let_def answer_ok_def)
  next
    case Truncated
    then show thesis using assms h s [of False] by (auto simp: client_do_def Let_def)
  next
    case Answered
    then show thesis using assms h s [of True] by (auto simp: client_do_def Let_def)
  next
    case (Expired c b)
    then show thesis using assms h s unserved [of "FromContextError c"] context_answer
      by (cases b) (auto simp: client_do_def Let_def)
  qed
qed

lemma client_do_server: "aw_server (snd (client_do N m p v out w)) = aw_server w"
  by (auto simp: client_do_def Let_def split: delivery.splits prod.splits)

lemma client_SetTarget_do:
  assumes "client_SetTarget N req w = (r, w')"
  obtains r0 where "client_do N ''POST'' [''v1'', ''capacity''] (Some (wire_request req)) True w = (r0, w')"
    "\<forall>c. r0 = Inl c \<longrightarrow> r = Inl c" "\<forall>v. r0 = Inr v \<longrightarrow> (\<exists>x. r = Inr x) \<or> r = Inl Unavailable"
proof -
  obtain r0 w0 where d: "client_do N ''POST'' [''v1'', ''capacity''] (Some (wire_request req)) True w = (r0, w0)"
    by fastforce
  show thesis
  proof (rule that)
    show "client_do N ''POST'' [''v1'', ''capacity''] (Some (wire_request req)) True w = (r0, w')"
      using assms d unfolding client_SetTarget_def wire_request_def abind_def alift_def by (cases r0) auto
    show "\<forall>c. r0 = Inl c \<longrightarrow> r = Inl c"
      using assms d unfolding client_SetTarget_def wire_request_def abind_def by auto
    show "\<forall>v. r0 = Inr v \<longrightarrow> (\<exists>x. r = Inr x) \<or> r = Inl Unavailable"
      using assms d unfolding client_SetTarget_def wire_request_def abind_def alift_def client_decode_def
      by (auto split: option.splits if_splits)
  qed
qed

lemma capacity_attempt:
  assumes ok: "net_ok K N" "own_id N (cr_NodeGroupID req) (cr_RequestID req)"
    and i: "in_i64 (cr_ExpectedTargetRevision req)" "in_i64 (cr_DesiredTarget req)"
    and run: "client_SetTarget N req w = (r, w')"
    and c: "c = sv_client (aw_server w)" and sys: "system_ok d" and u: "unsettled K N c d req (aw_db w)"
  shows "unsettled K N c d req (aw_db w') \<and> truthful K N c d req r (aw_db w')"
proof -
  let ?d = "nt_client N (aw_calls w) (aw_db w)" and ?E = "nt_env N (aw_calls w)" and ?q = "served_request N c req"
  have q: "cr_NodeGroupID ?q = cr_NodeGroupID req" "cr_RequestID ?q = cr_RequestID req"
    by (simp_all add: served_request_def)
  have b: "unsettled K N c d req ?d" using client_before [OF ok u] .
  obtain r0 where r0: "client_do N ''POST'' [''v1'', ''capacity''] (Some (wire_request req)) True w = (r0, w')"
    "\<forall>c. r0 = Inl c \<longrightarrow> r = Inl c" "\<forall>v. r0 = Inr v \<longrightarrow> (\<exists>x. r = Inr x) \<or> r = Inl Unavailable"
    using client_SetTarget_do [OF run] .
  from r0(1) show ?thesis
  proof (cases rule: client_do_cases)
    case (unserved e)
    then show ?thesis using b r0(2) by (auto simp: truthful_def)
  next
    case (served R db1 whole)
    show ?thesis
    proof (cases "admitted N c req")
      case False
      then obtain s t where R: "s \<in> {400, 401, 403}" "R = Text s t" "db1 = ?d"
        using Handler_refused [OF i, of N c ?E ?d] served(1) c by auto
      have "\<exists>e. r0 = Inl e" using served(3) R read_refused by metis
      moreover have "\<not> known_request (cr_NodeGroupID req) (cr_RequestID req) ?d" using b False by (simp add: unsettled_def)
      ultimately show ?thesis using r0(2) b served(2) R(3) by (auto simp: truthful_def)
    next
      case True
      note H = served(1) [folded c, unfolded Handler_admitted [OF i True]]
      have sv: "case SetTarget (ae_uuid ?E) (ae_now ?E) ?q ?d of Inl e \<Rightarrow> \<not> known_request (cr_NodeGroupID ?q) (cr_RequestID ?q) ?d
         | Inr (out, db') \<Rightarrow> committed K d ?q db' \<and> steps K d db'"
        by (rule served_attempt [OF sys]) (use b q in \<open>auto simp: unsettled_def\<close>)
      show ?thesis
      proof (cases "SetTarget (ae_uuid ?E) (ae_now ?E) ?q ?d")
        case (Inl e)
        then have "R = capacityError e" "db1 = ?d" "\<not> known_request (cr_NodeGroupID req) (cr_RequestID req) ?d"
          using H sv q by auto
        moreover have "\<exists>e. r0 = Inl e" using served(3) calculation(1) read_error by metis
        ultimately show ?thesis using r0(2) b served(2) by (auto simp: truthful_def)
      next
        case (Inr x)
        obtain out db' where x: "x = (out, db')" by (cases x)
        have w': "R = writeJSON (enc_struct CapacityResult_json out)" "db1 = db'" "committed K d ?q db'" "steps K d db'"
          using H sv Inr x by auto
        have "(\<exists>e. r0 = Inl e \<and> answer_ok e) \<or> (\<exists>v. r0 = Inr v)"
          using served(3) w'(1) reply_200 by (metis answer_ok_def insertI1)
        then have "(\<exists>e. r = Inl e \<and> answer_ok e) \<or> (\<exists>x. r = Inr x)"
          using r0(2,3) by (metis answer_ok_def insertI1)
        then show ?thesis using w' True served(2) by (auto simp: truthful_def unsettled_def)
      qed
    qed
  qed
qed


lemma client_SetTarget_server: "client_SetTarget N req w = (r, w') \<Longrightarrow> aw_server w' = aw_server w"
  by (erule client_SetTarget_do) (metis client_do_server snd_conv)

text \<open>
  The retry loop, for any call whose attempts keep a condition on the world and answer truthfully:
  the loop does, whatever attempt it stops at.
\<close>

declare retry_from.simps [simp del]

locale attempts =
  fixes N :: net and act :: "'a action" and J :: "world \<Rightarrow> bool" and T :: "grpc_code + 'a \<Rightarrow> world \<Rightarrow> bool"
  assumes attempt: "J w \<Longrightarrow> act w = (r, w') \<Longrightarrow> J w' \<and> T r w'"
    and given_up: "J w \<Longrightarrow> T (Inl (FromContextError e)) w"
begin

lemma retry_keeps:
  assumes "J w" "retry_from N act n w = (r, w')"
  shows "J w' \<and> T r w'"
  using assms
proof (induction "2 - n" arbitrary: n w rule: less_induct)
  case (less n w)
  obtain r1 w1 where call: "act w = (r1, w1)" by fastforce
  note a = attempt [OF less(2) call]
  show ?case
  proof (cases "r1 = Inl Unavailable \<and> n < 2 \<and> nt_done N (aw_calls w) = None \<and> nt_wait N (aw_calls w1) = None")
    case True
    then have m: "2 - Suc n < 2 - n" by linarith
    have "retry_from N act (Suc n) w1 = (r, w')" using True less(3) call unfolding retry_from.simps [of N act n w] by simp
    then show ?thesis using less(1) [OF m] a by blast
  next
    case False
    then show ?thesis using less(2,3) given_up a call unfolding retry_from.simps [of N act n w]
      by (auto split: option.splits sum.splits if_splits)
  qed
qed

end

definition attempting :: "k8s_validation \<Rightarrow> net \<Rightarrow> HTTPClient \<Rightarrow> db \<Rightarrow> CapacityRequest \<Rightarrow> world \<Rightarrow> bool" where
  "attempting K N c d req w \<longleftrightarrow> net_ok K N \<and> own_id N (cr_NodeGroupID req) (cr_RequestID req) \<and> system_ok d
     \<and> in_i64 (cr_ExpectedTargetRevision req) \<and> in_i64 (cr_DesiredTarget req) \<and> sv_client (aw_server w) = c
     \<and> unsettled K N c d req (aw_db w)"

interpretation setting: attempts N "client_SetTarget N req" "attempting K N c d req" "\<lambda>r w. truthful K N c d req r (aw_db w)"
  for K N c d req
proof
  show "attempting K N c d req w' \<and> truthful K N c d req r (aw_db w')"
    if "attempting K N c d req w" "client_SetTarget N req w = (r, w')" for w r w'
    using that capacity_attempt [of K N req w r w' c d] client_SetTarget_server [OF that(2)] by (simp add: attempting_def)
  show "truthful K N c d req (Inl (FromContextError e)) (aw_db w)" if "attempting K N c d req w" for w e
    by (simp add: truthful_def context_answer)
qed

lemma CapacityResult_read:
  assumes "client_decode (dec_struct CapacityResult_json) zero_result (enc_struct CapacityResult_json r) = Inr r'"
  shows "r' = r \<and> in_i64 (cs_TargetNodes r) \<and> in_i64 (cs_TargetRevision r)"
proof -
  have k: "dec_int64 st (enc_int64 n) m = (if in_i64 n then Some n else None)" for st n m
    using ParseInt64_FormatInt_iff [of n] by (cases "ParseInt64 (FormatInt n)") (auto simp: dec_int64_def enc_int64_def)
  show ?thesis using assms
    by (cases r) (auto simp: client_decode_def CapacityResult_json_def codec_simps zero_result_def k split: option.splits if_splits)
qed


section \<open>The reads before the change\<close>

definition quiet :: "k8s_validation \<Rightarrow> string \<Rightarrow> string \<Rightarrow> world \<Rightarrow> world \<Rightarrow> bool" where
  "quiet K i rid w w' \<longleftrightarrow> steps K (aw_db w) (aw_db w') \<and> known_request i rid (aw_db w') = known_request i rid (aw_db w)
     \<and> sv_client (aw_server w') = sv_client (aw_server w)"

lemma quiet_trans: "quiet K i rid w w1 \<Longrightarrow> quiet K i rid w1 w2 \<Longrightarrow> quiet K i rid w w2"
  unfolding quiet_def by (metis rtranclp_trans)

lemma client_reads:
  assumes ok: "net_ok K N" "own_id N i rid"
    and p: "p = [''v1'', ''autoscaler'', ''discovery''] \<or> p = [''v1'', ''node-groups'', j, ''target'']"
    and run: "client_do N ''GET'' p None out w = (r, w')"
  shows "quiet K i rid w w'"
proof -
  have "aw_db w' = nt_client N (aw_calls w) (aw_db w)"
    using run
  proof (cases rule: client_do_cases)
    case (served R db1 whole)
    then show ?thesis using p Handler_reads by (metis snd_conv)
  qed simp
  then show ?thesis using ok client_do_server [of N "''GET''" p None out w] run
    by (simp add: quiet_def net_ok_def client_ok_def own_id_def)
qed

lemma Discover_quiet:
  assumes ok: "net_ok K N" "own_id N i rid" and run: "client_Discover N w = (r, w')"
  shows "quiet K i rid w w'"
proof -
  obtain r0 w0 where d: "client_do N ''GET'' [''v1'', ''autoscaler'', ''discovery''] None True w = (r0, w0)" by fastforce
  have "w' = w0" using run d unfolding client_Discover_def abind_def aserver_def alift_def by (cases r0) auto
  then show ?thesis using client_reads [OF ok _ d] by blast
qed

lemma refresh_quiet:
  assumes ok: "net_ok K N" "own_id N i rid" and run: "refresh N w = (r, w')"
  shows "quiet K i rid w w'"
proof (cases "sv_discoverer (aw_server w)")
  case False
  then show ?thesis using run by (simp add: refresh_def abind_def aserver_def areturn_def quiet_def)
next
  case True
  obtain r0 w0 where d: "client_Discover N w = (r0, w0)" by fastforce
  have "aw_db w' = aw_db w0 \<and> sv_client (aw_server w') = sv_client (aw_server w0)"
    using run d True unfolding refresh_def abind_def aserver_def alift_def afail_def set_groups_def
    by (auto split: sum.splits if_splits)
  then show ?thesis using Discover_quiet [OF ok d] by (simp add: quiet_def)
qed

text \<open>What the target call reads is the row of the group at that point.\<close>

definition target_row :: "string \<Rightarrow> CapacityResult \<Rightarrow> db \<Rightarrow> bool" where
  "target_row i t db \<longleftrightarrow> (\<exists>g\<in>set (node_groups db). g_id g = i \<and> g_target_nodes g = cs_TargetNodes t
     \<and> g_target_revision g = cs_TargetRevision t)"

lemma Handler_target:
  "Handler E a (client_request N c ''GET'' [''v1'', ''node-groups'', i, ''target''] None) db = (R, db1)
   \<Longrightarrow> (\<exists>s t. R = Text s t \<and> s \<ge> 400) \<or> (\<exists>e. R = capacityError e)
     \<or> (\<exists>cl out. Target db cl i = Inr out \<and> R = writeJSON (enc_struct CapacityResult_json out))"
  by (auto simp: Handler_def route_def routes_def match_method_def adapter_def Let_def API_target_def
      split: sum.splits if_splits)

lemma Target_row: "Target db cl i = Inr out \<Longrightarrow> target_row i out db"
  unfolding Target_def target_row_def by (auto split: option.splits dest: find_SomeD)

lemma Target_reads:
  assumes ok: "net_ok K N" "own_id N i rid" and run: "client_Target N i w = (r, w')"
  shows "quiet K i rid w w' \<and> (\<forall>t. r = Inr t \<longrightarrow> target_row i t (aw_db w')
     \<and> in_i64 (cs_TargetNodes t) \<and> in_i64 (cs_TargetRevision t))"
proof -
  obtain r0 w0 where d: "client_do N ''GET'' [''v1'', ''node-groups'', i, ''target''] None True w = (r0, w0)" by fastforce
  have w: "w' = w0" using run d unfolding client_Target_def abind_def alift_def by (cases r0) auto
  have row: "target_row i t (aw_db w') \<and> in_i64 (cs_TargetNodes t) \<and> in_i64 (cs_TargetRevision t)" if rt: "r = Inr t" for t
  proof -
    obtain v where v: "r0 = Inr v" "client_decode (dec_struct CapacityResult_json) zero_result v = Inr t"
      using run d rt unfolding client_Target_def abind_def alift_def by (cases r0) (auto simp: result_simps split: if_splits)
    from d show ?thesis
    proof (cases rule: client_do_cases)
      case (unserved c)
      then show ?thesis using v(1) by simp
    next
      case (served R db1 whole)
      have R: "read_reply True R whole = Inr v" using served(3) v(1) by auto
      moreover have "\<nexists>e. R = capacityError e" using R read_error by (metis Inl_Inr_False)
      moreover have "\<nexists>s t. R = Text s t \<and> s \<ge> 400" using R by (auto simp: read_reply_def)
      ultimately obtain cl out where o: "Target (nt_client N (aw_calls w) (aw_db w)) cl i = Inr out"
          "R = writeJSON (enc_struct CapacityResult_json out)"
        using Handler_target [OF served(1)] by blast
      have "v = enc_struct CapacityResult_json out" using R o(2) by (auto simp: read_reply_def writeJSON_def split: if_splits)
      then have "t = out" "in_i64 (cs_TargetNodes t)" "in_i64 (cs_TargetRevision t)" using CapacityResult_read v(2) by blast+
      moreover have "aw_db w' = nt_client N (aw_calls w) (aw_db w)"
        using served(1,2) w Handler_reads(2) by (metis snd_conv)
      ultimately show ?thesis using Target_row [OF o(1)] by simp
    qed
  qed
  have "quiet K i rid w w0" by (rule client_reads [OF ok _ d]) simp
  then show ?thesis using row w by blast
qed

section \<open>A resize is applied once, to the target it was computed from\<close>

definition resizes :: "string \<Rightarrow> string \<Rightarrow> int \<Rightarrow> db \<Rightarrow> db \<Rightarrow> bool" where
  "resizes i rid delta db0 db1 \<longleftrightarrow> find_request db0 i rid = None
     \<and> (\<exists>uuid now req res. cr_NodeGroupID req = i \<and> cr_RequestID req = rid \<and> SetTarget uuid now req db0 = Inr (res, db1))
     \<and> (\<exists>g\<in>set (node_groups db0). g_id g = i
        \<and> g\<lparr>g_target_nodes := g_target_nodes g + delta, g_target_revision := g_target_revision g + 1\<rparr> \<in> set (node_groups db1))"

definition resized :: "k8s_validation \<Rightarrow> string \<Rightarrow> string \<Rightarrow> int \<Rightarrow> db \<Rightarrow> db \<Rightarrow> bool" where
  "resized K i rid delta d db' \<longleftrightarrow> (\<exists>db0 db1. steps K d db0 \<and> resizes i rid delta db0 db1 \<and> steps K db1 db')"

lemma SetTarget_writes:
  assumes "SetTarget uuid now req db = Inr (res, db')" "find_request db (cr_NodeGroupID req) (cr_RequestID req) = None" "system_ok db"
  shows "\<exists>g\<in>set (node_groups db). g_id g = cr_NodeGroupID req \<and> g_target_revision g = cr_ExpectedTargetRevision req
    \<and> g\<lparr>g_target_nodes := cr_DesiredTarget req, g_target_revision := g_target_revision g + 1\<rparr> \<in> set (node_groups db')"
  using assms(1)
proof (cases rule: SetTarget_cases)
  case (fresh p)
  have g: "pol_group p \<in> set (node_groups db)" "g_id (pol_group p) = cr_NodeGroupID req"
    using fresh(1) by (auto elim: loadPolicy_Inr)
  have "i64 (g_target_revision (pol_group p) + 1) = g_target_revision (pol_group p) + 1"
    "g_target_revision (pol_group p) = cr_ExpectedTargetRevision req"
    using fresh(4) revision_step [of "pol_group p"] system_okD(2) [OF assms(3)] g(1) by (auto elim!: admit_target_Inr)
  then show ?thesis using apply_target_rows [OF fresh(5)] upd_where_hit [OF g(1)] g by (intro bexI [OF _ g(1)]) auto
qed (use assms(2) in simp)

lemma commit_resizes:
  assumes com: "committed K d req db'" and sys: "system_ok d" and t: "target_row (cr_NodeGroupID req) t d"
    and req: "cr_ExpectedTargetRevision req = cs_TargetRevision t" "cr_DesiredTarget req = cs_TargetNodes t + delta"
  shows "resized K (cr_NodeGroupID req) (cr_RequestID req) delta d db'"
proof -
  obtain uuid now db0 res db1 where c: "steps K d db0" "find_request db0 (cr_NodeGroupID req) (cr_RequestID req) = None"
    "SetTarget uuid now req db0 = Inr (res, db1)" "steps K db1 db'"
    using com by (auto simp: committed_def known_request_def)
  have ev: "store_ev d db0" "system_ok db0" using cap.run_keeps [OF c(1) sys] by auto
  obtain g where g: "g \<in> set (node_groups db0)" "g_id g = cr_NodeGroupID req" "g_target_revision g = cs_TargetRevision t"
    "g\<lparr>g_target_nodes := cr_DesiredTarget req, g_target_revision := g_target_revision g + 1\<rparr> \<in> set (node_groups db1)"
    using SetTarget_writes [OF c(3,2) ev(2)] req(1) by auto
  obtain f where f: "f \<in> set (node_groups d)" "g_id f = cr_NodeGroupID req" "g_target_nodes f = cs_TargetNodes t"
    "g_target_revision f = cs_TargetRevision t" using t by (auto simp: target_row_def)
  obtain f' where f': "f' \<in> set (node_groups db0)" "group_ev f f'"
    using group_evo.row_later [OF store_evD(6) [OF ev(1)] f(1)] by blast
  have "f' = g" using unique_key [of g_id "node_groups db0"] system_okD(1) [OF ev(2)] f' f(2) g(1,2)
    by (auto simp: keys_ok_def group_ev_def)
  then have "g_target_nodes g = cs_TargetNodes t" using f' f g(3) by (simp add: group_ev_def)
  then have "resizes (cr_NodeGroupID req) (cr_RequestID req) delta db0 db1"
    using c(2,3) g req(2) unfolding resizes_def by metis
  then show ?thesis using c(1,4) by (auto simp: resized_def)
qed


lemma resized_before: "steps K d0 d \<Longrightarrow> resized K i rid delta d db' \<Longrightarrow> resized K i rid delta d0 db'"
  unfolding resized_def by (meson rtranclp_trans)

definition reported :: "k8s_validation \<Rightarrow> string \<Rightarrow> string \<Rightarrow> int \<Rightarrow> db \<Rightarrow> grpc_code + unit \<Rightarrow> db \<Rightarrow> bool" where
  "reported K i rid delta d r db' \<longleftrightarrow>
     (case r of
        Inr _ \<Rightarrow> resized K i rid delta d db'
      | Inl e \<Rightarrow> e \<in> {Unavailable, DeadlineExceeded, Canceled} \<or> find_request db' i rid = None)"

lemma retry_reported:
  assumes ok: "net_ok K N" "own_id N i rid" and w: "system_ok (aw_db w)" "\<not> known_request i rid (aw_db w)"
    and t: "target_row i t (aw_db w)" "in_i64 (cs_TargetRevision t)" "desired = cs_TargetNodes t + delta" "in_i64 desired"
    and run: "abind (retry N (client_SetTarget N (scale_request rid s g i t desired))) (\<lambda>_. areturn ()) w = (r, w')"
  shows "reported K i rid delta (aw_db w) r (aw_db w')"
proof -
  let ?req = "scale_request rid s g i t desired" and ?c = "sv_client (aw_server w)"
  have req: "cr_NodeGroupID ?req = i" "cr_RequestID ?req = rid" "cr_ExpectedTargetRevision ?req = cs_TargetRevision t"
    "cr_DesiredTarget ?req = desired" by (simp_all add: scale_request_def)
  have u: "unsettled K N ?c (aw_db w) ?req (aw_db w)" using w(2) by (simp add: unsettled_def req)
  obtain r0 w0 where r0: "retry_from N (client_SetTarget N ?req) 0 w = (r0, w0)" by fastforce
  have tr: "truthful K N ?c (aw_db w) ?req r0 (aw_db w0)"
    by (rule conjunct2 [OF setting.retry_keeps [OF _ r0]]) (use ok w(1) t(2,4) u in \<open>simp add: attempting_def req\<close>)
  show ?thesis
  proof (cases r0)
    case (Inl e)
    then have "r = Inl e" "w' = w0" using run r0 by (simp_all add: abind_def retry_def)
    then show ?thesis using tr Inl by (simp add: truthful_def reported_def answer_ok_def known_request_def req)
  next
    case (Inr x)
    then have rw: "r = Inr ()" "w' = w0" using run r0 by (simp_all add: abind_def retry_def areturn_def)
    let ?q = "served_request N ?c ?req"
    have q: "cr_NodeGroupID ?q = i" "cr_RequestID ?q = rid" "cr_ExpectedTargetRevision ?q = cs_TargetRevision t"
      "cr_DesiredTarget ?q = cs_TargetNodes t + delta" using req t(3) by (simp_all add: served_request_def)
    have "committed K (aw_db w) ?q (aw_db w0)" using tr Inr by (simp add: truthful_def)
    then have "resized K i rid delta (aw_db w) (aw_db w0)"
      using commit_resizes [of K "aw_db w" ?q] w(1) t(1) q by metis
    then show ?thesis using rw by (simp add: reported_def)
  qed
qed

lemma quiet_refused: "quiet K i rid w w' \<Longrightarrow> \<not> known_request i rid (aw_db w) \<Longrightarrow> reported K i rid delta d (Inl e) (aw_db w')"
  by (simp add: quiet_def reported_def known_request_def)

lemma server_group_run:
  "server_group i w = (case find (\<lambda>g. sg_ID g = i) (sv_groups (aw_server w)) of None \<Rightarrow> (Inl NotFound, w) | Some g \<Rightarrow> (Inr g, w))"
  by (simp add: server_group_def abind_def aserver_def afail_def areturn_def split: option.splits)

definition in_i32 :: "int \<Rightarrow> bool" where
  "in_i32 n \<longleftrightarrow> - max_int32 - 1 \<le> n \<and> n \<le> max_int32"

lemma abind_aserver: "abind aserver f w = f (aw_server w) w"
  by (simp add: abind_def aserver_def)

lemma changeTarget_run:
  "changeTarget N rid i delta w =
     (case refresh N w of
        (Inl c, w1) \<Rightarrow> (Inl c, w1)
      | (Inr _, w1) \<Rightarrow>
          (case find (\<lambda>g. sg_ID g = i) (sv_groups (aw_server w1)) of
             None \<Rightarrow> (Inl NotFound, w1)
           | Some g \<Rightarrow>
               (case client_Target N i w1 of
                  (Inl c, w2) \<Rightarrow> (Inl c, w2)
                | (Inr t, w2) \<Rightarrow>
                    if cs_TargetNodes t < 0 \<or> cs_TargetNodes t > max_int32 \<or> cs_TargetRevision t < 0 then (Inl Internal, w2)
                    else if i64 (cs_TargetNodes t + delta) < sg_MinNodes g \<or> i64 (cs_TargetNodes t + delta) > sg_MaxNodes g
                    then (Inl OutOfRange, w2)
                    else abind (retry N (client_SetTarget N
                        (scale_request rid (aw_server w2) g i t (i64 (cs_TargetNodes t + delta))))) (\<lambda>_. areturn ()) w2)))"
  unfolding changeTarget_def abind_def [of "refresh N"] abind_def [of "server_group i"]
    abind_def [of "client_Target N i"] server_group_run afail_def Let_def
  by (simp add: abind_aserver split: option.splits sum.splits prod.splits)

lemma changeTarget_reported:
  assumes ok: "net_ok K N" "own_id N i rid" "system_ok (aw_db w)" "\<not> known_request i rid (aw_db w)" "in_i32 delta"
    and run: "changeTarget N rid i delta w = (r, w')"
  shows "reported K i rid delta (aw_db w) r (aw_db w')"
proof -
  obtain r1 w1 where 1: "refresh N w = (r1, w1)" by fastforce
  note q1 = refresh_quiet [OF ok(1,2) 1]
  obtain r2 w2 where 2: "client_Target N i w1 = (r2, w2)" by fastforce
  note t2 = Target_reads [OF ok(1,2) 2]
  have q2: "quiet K i rid w w2" using quiet_trans q1 t2 by blast
  note no = quiet_refused [OF q1 ok(4)] quiet_refused [OF q2 ok(4)]
  show ?thesis
  proof (cases "\<exists>e. r = Inl e \<and> (w' = w1 \<or> w' = w2)")
    case True
    then show ?thesis using no by auto
  next
    case False
    then obtain g t where t: "r1 = Inr ()" "r2 = Inr t" "0 \<le> cs_TargetNodes t" "cs_TargetNodes t \<le> max_int32"
      "abind (retry N (client_SetTarget N (scale_request rid (aw_server w2) g i t (i64 (cs_TargetNodes t + delta)))))
         (\<lambda>_. areturn ()) w2 = (r, w')"
      using run 1 2 unfolding changeTarget_run
      by (auto simp: not_less split: sum.splits option.splits if_splits)
    have d: "in_i64 (cs_TargetNodes t + delta)" using t(3,4) ok(5) by (simp add: in_i64_def in_i32_def max_int32_def max_int64_def)
    have s: "steps K (aw_db w) (aw_db w2)" "\<not> known_request i rid (aw_db w2)" using q2 ok(4) by (simp_all add: quiet_def)
    have "reported K i rid delta (aw_db w2) r (aw_db w')"
      using t2 t(2) d by (intro retry_reported [OF ok(1,2) cap.run_inv [OF s(1) ok(3)] s(2) _ _ _ _ t(5)]) (auto simp: i64_id)
    then show ?thesis using resized_before [OF s(1)] by (auto simp: reported_def split: sum.splits)
  qed
qed


section \<open>Nodes of a discovered group\<close>

lemma discovered_nodes_nameless: "discovered_nodes seen ns = Inr (seen', out) \<Longrightarrow> n \<in> set out \<Longrightarrow> nd_Name n = []"
  by (induction seen ns arbitrary: out seen' rule: discovered_nodes.induct) (auto simp: result_simps split: if_splits)

lemma discovered_nameless: "discovered ids nodes d = Inr gs \<Longrightarrow> g \<in> set gs \<Longrightarrow> n \<in> set (sg_Nodes g) \<Longrightarrow> nd_Name n = []"
proof (induction d arbitrary: ids nodes gs)
  case (Cons a d)
  obtain nodes' ns where 1: "discovered_nodes nodes (ag_Nodes a) = Inr (nodes', ns)"
    using Cons(2) by (cases "discovered_nodes nodes (ag_Nodes a)") (auto simp: Let_def split: if_splits)
  obtain out where 2: "discovered (ag_ID a # ids) nodes' d = Inr out"
    using Cons(2) 1 by (cases "discovered (ag_ID a # ids) nodes' d") (auto simp: Let_def split: if_splits)
  have "\<exists>x. gs = x # out \<and> sg_Nodes x = ns" using Cons(2) 1 2 by (simp add: Let_def split: if_splits) auto
  then show ?case using Cons(1) [OF 2] Cons(3,4) discovered_nodes_nameless [OF 1] by auto
qed simp

lemma match_nodes_nameless:
  assumes "\<forall>n\<in>set (sg_Nodes g). nd_Name n = []" "match_nodes s g seen named = Inr out" "named \<noteq> []"
  shows "\<exists>m ms. out = m # ms \<and> rn_NodeName m = []"
  using assms by (cases named) (auto simp: result_simps split: option.splits if_splits dest!: find_SomeD)

lemma removal_refused:
  assumes "in_i64 (rr_ExpectedTargetRevision req)" "rr_Nodes req = m # ms" "rn_NodeName m = []"
  shows "\<exists>c. fst (client_RemoveNodes N req w) = Inl c"
proof -
  let ?v = "enc_struct NodeRemovalRequest_json req" and ?p = "[''v1'', ''node-removals'']"
  obtain r w' where d: "client_do N ''POST'' ?p (Some ?v) False w = (r, w')" by fastforce
  have "\<exists>c. r = Inl c" using d
  proof (cases rule: client_do_cases)
    case (served R db1 whole)
    let ?rq = "client_request N (sv_client (aw_server w)) ''POST'' ?p (Some ?v)"
    have b: "rq_body ?rq = \<lparr>by_length = nt_size N ?v, by_docs = [?v], by_clean = True\<rparr>"
      by (simp add: client_request_def)
    have "CreateAutoscalerRemovals u now cl req db = Inl ErrInvalid" for u now cl db
      using assms(2,3) by (simp add: CreateAutoscalerRemovals_def)
    then have "(\<exists>s t. R = Text s t \<and> s \<ge> 400) \<or> (\<exists>e. R = capacityError e)"
      using served(1) NodeRemovalRequest_roundtrip [OF assms(1), of True]
      by (auto simp: Handler_def route_def routes_def match_method_def adapter_def Let_def API_removeNodes_def with_body_def
          b decodeJSON_def reply_tx_def split: if_splits)
    then show ?thesis using served(3) read_error by (auto simp: read_reply_def)
  qed simp
  then show ?thesis using d by (auto simp: client_RemoveNodes_def abind_def)
qed

definition nameless :: "NodeRemovalRequest \<Rightarrow> bool" where
  "nameless req \<longleftrightarrow> (\<exists>m ms. rr_Nodes req = m # ms \<and> rn_NodeName m = []) \<and> in_i64 (rr_ExpectedTargetRevision req)"

interpretation removing: attempts N "client_RemoveNodes N req" "\<lambda>_. nameless req" "\<lambda>r _. \<exists>c. r = Inl c"
  for N req
proof
  show "nameless req \<and> (\<exists>c. r = Inl c)" if "nameless req" "client_RemoveNodes N req w = (r, w')" for w r w'
    using that removal_refused [of req _ _ N w] unfolding nameless_def by auto
  show "\<exists>c. Inl (FromContextError e) = Inl c" for e by simp
qed

lemma keeps_result: "keeps (\<lambda>r. in_i64 (cs_TargetNodes r) \<and> in_i64 (cs_TargetRevision r)) (dec_struct CapacityResult_json)"
  by (rule keeps_struct) (auto simp: CapacityResult_json_def intro!: keeps_jf [OF keeps_any [of dec_string]] keeps_jf [OF keeps_int64])

lemma Target_range:
  assumes "client_Target N i w = (Inr t, w')"
  shows "in_i64 (cs_TargetRevision t)"
proof -
  obtain v where "dec_struct CapacityResult_json False v zero_result = Some t"
    using assms by (auto simp: client_Target_def abind_def alift_def client_decode_def result_simps split: sum.splits if_splits option.splits prod.splits)
  then show ?thesis using keepsD [OF keeps_result] by (simp add: zero_result_def in_i64_def max_int64_def)
qed

theorem discovered_deletion_refused:
  assumes "discoveredGroups d = Inr (sv_groups (aw_server w))"
  shows "\<exists>c. fst (NodeGroupDeleteNodes N rid i named w) = Inl c"
proof (cases "find (\<lambda>g. sg_ID g = i) (sv_groups (aw_server w))")
  case None
  then show ?thesis by (simp add: NodeGroupDeleteNodes_def abind_def server_group_run)
next
  case (Some g)
  have nameless: "\<forall>n\<in>set (sg_Nodes g). nd_Name n = []"
    using assms(1) find_SomeD [OF Some] discovered_nameless unfolding discoveredGroups_def by blast
  let ?m = "match_nodes (aw_server w) g [] named"
  obtain t w1 where t: "client_Target N (sg_ID g) w = (t, w1)" by fastforce
  show ?thesis
  proof (cases "named = [] \<or> (\<exists>c. ?m = Inl c) \<or> (\<exists>c. t = Inl c)")
    case True
    then show ?thesis using Some t
      by (auto simp: NodeGroupDeleteNodes_def abind_def server_group_run afail_def aserver_def alift_def split: sum.splits)
  next
    case False
    then obtain rns x where x: "?m = Inr rns" "t = Inr x" "named \<noteq> []" by (cases ?m; cases t) auto
    obtain m ms where m: "rns = m # ms" "rn_NodeName m = []" using match_nodes_nameless [OF nameless x(1,3)] by blast
    let ?req = "\<lparr>rr_NodeGroupID = sg_ID g, rr_RequestID = rid, rr_ExpectedTargetRevision = cs_TargetRevision x, rr_Nodes = rns\<rparr>"
    have "in_i64 (cs_TargetRevision x)" using Target_range [OF t [unfolded x(2)]] by simp
    then have "nameless ?req" using m by (simp add: nameless_def)
    then have "\<exists>c. fst (retry N (client_RemoveNodes N ?req) w1) = Inl c"
      unfolding retry_def using removing.retry_keeps by (metis prod.collapse)
    then show ?thesis using Some t x
      by (simp add: NodeGroupDeleteNodes_def abind_def server_group_run aserver_def alift_def)
  qed
qed

section \<open>The number of calls\<close>

lemma client_do_calls: "aw_calls (snd (client_do N m p v out w)) = Suc (aw_calls w)"
  by (auto simp: client_do_def Let_def split: delivery.splits prod.splits)

lemma abind_lifted: "(\<And>x w. snd (f x w) = w) \<Longrightarrow> snd (abind m f w) = snd (m w)"
  by (auto simp: abind_def split: sum.splits prod.splits)

lemma client_calls:
  "aw_calls (snd (client_Discover N w)) = Suc (aw_calls w)"
  "aw_calls (snd (client_Target N i w)) = Suc (aw_calls w)"
  "aw_calls (snd (client_SetTarget N req w)) = Suc (aw_calls w)"
  unfolding client_Discover_def client_Target_def client_SetTarget_def
  by (simp_all add: abind_lifted alift_def abind_aserver client_do_calls)

lemma refresh_calls: "aw_calls (snd (refresh N w)) \<le> Suc (aw_calls w)"
  using client_calls(1) [of N w] unfolding refresh_def abind_def aserver_def alift_def afail_def areturn_def set_groups_def
  by (auto split: sum.splits if_splits prod.splits)

lemma retry_calls:
  assumes "\<And>w. aw_calls (snd (act w)) = Suc (aw_calls w)"
  shows "n \<le> 2 \<Longrightarrow> aw_calls (snd (retry_from N act n w)) \<le> aw_calls w + (3 - n)"
proof (induction "2 - n" arbitrary: n w rule: less_induct)
  case (less n w)
  obtain r1 w1 where call: "act w = (r1, w1)" by fastforce
  have c: "aw_calls w1 = Suc (aw_calls w)" using assms [of w] call by simp
  show ?case
  proof (cases "n < 2")
    case True
    then have m: "2 - Suc n < 2 - n" "Suc n \<le> 2" by linarith+
    have "aw_calls (snd (retry_from N act (Suc n) w1)) \<le> aw_calls w + (3 - n)"
      using less(1) [OF m, of w1] c True by linarith
    then show ?thesis using c True call unfolding retry_from.simps [of N act n w]
      by (auto split: option.splits sum.splits)
  next
    case False
    then show ?thesis using c call less(2) unfolding retry_from.simps [of N act n w]
      by (auto split: option.splits sum.splits)
  qed
qed

lemma changeTarget_calls: "aw_calls (snd (changeTarget N rid i delta w)) \<le> aw_calls w + 5"
proof -
  obtain r1 w1 where 1: "refresh N w = (r1, w1)" by fastforce
  obtain r2 w2 where 2: "client_Target N i w1 = (r2, w2)" by fastforce
  have c: "aw_calls w1 \<le> Suc (aw_calls w)" "aw_calls w2 = Suc (aw_calls w1)"
    using refresh_calls [of N w] client_calls(2) [of N i w1] 1 2 by simp_all
  have "aw_calls (snd (abind (retry N (client_SetTarget N req)) (\<lambda>_. areturn ()) w2)) \<le> aw_calls w2 + 3" for req
    using retry_calls [of "client_SetTarget N req" 0 N w2] client_calls(3)
    by (auto simp: abind_def retry_def areturn_def split: sum.splits prod.splits)
  note last = this
  have "aw_calls (snd (abind (retry N (client_SetTarget N req)) (\<lambda>_. areturn ()) w2)) \<le> aw_calls w + 5" for req
    using c last [of req] by linarith
  then show ?thesis using 1 2 c unfolding changeTarget_run by (auto split: sum.splits option.splits)
qed

end
