(* ===== verification/ScenarioHTTP.thy ===== *)
theory ScenarioHTTP
  imports ScenarioLater Platform AdapterProtocol
begin

text \<open>
  The demonstration setting behind the platform API: one request of the adapter of cluster \<open>c\<close>,
  a short history of the control plane, and a scale-up whose first answer is lost.
\<close>

definition demo_env :: api_env where
  "demo_env = \<lparr>ae_uuid = demo_uuid ''u'', ae_now = 10, ae_K = demo_K\<rparr>"

definition demo_api :: API where
  "demo_api = NewAPI ''root'' [(''c'', ''t1''), (''e'', ''t2'')]"

definition json_body :: "json \<Rightarrow> body" where
  "json_body v = \<lparr>by_length = 200, by_docs = [v], by_clean = True\<rparr>"

definition demo_capacity :: request where
  "demo_capacity = \<lparr>rq_method = ''POST'', rq_path = [''v1'', ''capacity''], rq_query = [],
     rq_headers = [(''Authorization'', ''Bearer t1''), (''X-Crane-Cluster-Id'', ''c'')],
     rq_body = json_body (enc_struct setTargetRequest_json \<lparr>sq_NodeGroupID = ''aws-d-r-a-g'', sq_RequestID = ''q1'',
        sq_ExpectedTargetRevision = 0, sq_DesiredTarget = 2, sq_TemplateRevision = ''t1''\<rparr>)\<rparr>"

text \<open>The same request from the adapter of another cluster.\<close>

definition demo_intruder :: request where
  "demo_intruder = demo_capacity\<lparr>rq_headers := [(''Authorization'', ''Bearer t2''), (''X-Crane-Cluster-Id'', ''e'')]\<rparr>"

definition demo_static_group :: StaticNodeGroup where
  "demo_static_group = \<lparr>sg_ID = ''aws-d-r-a-g'', sg_ClusterID = ''c'', sg_TemplateRevision = ''t1'', sg_Zone = ''a'', sg_Region = ''r'',
     sg_Pool = ''g'', sg_MinNodes = 0, sg_MaxNodes = 3, sg_InstanceType = ''m'', sg_Architecture = ''amd64'', sg_CPU = 2,
     sg_MemoryMB = 4, sg_Labels = [], sg_Taints = [], sg_Nodes = []\<rparr>"

definition demo_adapter :: Server where
  "demo_adapter = \<lparr>sv_clusterID = ''c'', sv_groups = [demo_static_group],
     sv_client = \<lparr>hc_baseURL = ''https://crane'', hc_token = ''t1'', hc_clusterID = ''c''\<rparr>, sv_discoverer = False, sv_verifier = None\<rparr>"

definition demo_net :: net where
  "demo_net = \<lparr>nt_api = demo_api, nt_client = (\<lambda>_ db. db), nt_env = (\<lambda>_. demo_env), nt_size = (\<lambda>_. 200),
     nt_delivery = (\<lambda>k. if k = 1 then AnswerLost else Answered), nt_done = (\<lambda>_. None), nt_wait = (\<lambda>_. None)\<rparr>"

definition demo_world :: "db \<Rightarrow> nat \<Rightarrow> world" where
  "demo_world db k = \<lparr>aw_server = demo_adapter, aw_db = db, aw_calls = k\<rparr>"

lemma demo_capacity_ok:
  "status (fst (Handler demo_env demo_api demo_capacity w1)) = 200" "route demo_capacity = Some (RSetTarget, [])"
  "authenticatedCluster demo_api (bearer demo_capacity) = ''c''" "snd (Handler demo_env demo_api demo_capacity w1) = w2"
  by code_simp+

lemma demo_intruder_refused: "status (fst (Handler demo_env demo_api demo_intruder w1)) = 403"
  "route demo_intruder = Some (RSetTarget, [])" "authenticatedCluster demo_api (bearer demo_intruder) = ''e''"
  by code_simp+

lemma demo_net_ok: "net_ok demo_K demo_net" "own_id demo_net i rid"
  by (simp_all add: net_ok_def client_ok_def own_id_def demo_net_def demo_env_def)

lemma demo_scale_up: "fst (changeTarget demo_net ''q1'' ''aws-d-r-a-g'' 2 (demo_world w1 0)) = Inr ()"
  "aw_db (snd (changeTarget demo_net ''q1'' ''aws-d-r-a-g'' 2 (demo_world w1 0))) = w2"
  by code_simp+

end
