(* ===== verification/HostAgent.thy ===== *)
theory HostAgent
  imports Api GoNet
begin

text \<open>
  The host agent, \<open>src/internal/subd\<close>: the update of the expected state and the cluster join of one
  host, with the files that survive a restart.  A request is the decoded value; JSON text, TLS and
  the commands run on the host are not modelled.  Everything that may go wrong during one request
  (writing a file, running a command, the Kubernetes calls) is given by the request's environment,
  and the calls into the host are recorded in two logs, oldest first.
\<close>

section \<open>Messages (subd.go, kubernetes.go)\<close>

record KubernetesResult =
  kr_Secret :: string
  kr_Rollout :: string

record HostAgentStatus =
  ha_Identity :: string
  ha_PID :: int
  ha_InvocationID :: string
  ha_Ready :: bool
  ha_AcceptedRevision :: int
  ha_AppliedRevision :: int
  ha_Outcome :: string
  ha_ExpectedVersion :: string
  ha_Kubernetes :: "KubernetesResult option"

record ClusterJoinRequest =
  cj_Registration :: WorkerRegistration
  cj_Fence :: int
  cj_OperationID :: string
  cj_APIServerEndpoint :: string
  cj_Token :: string
  cj_CACertHash :: string

record ClusterMembership =
  cm_ContractHash :: string
  cm_NodeName :: string
  cm_NodeUID :: string
  cm_Certificate :: string
  cm_Signature :: string

text \<open>The decoded values of the Go types: unsigned revisions, maps with one value for a key.\<close>

definition in_u64 :: "int \<Rightarrow> bool" where
  "in_u64 n \<longleftrightarrow> 0 \<le> n \<and> n < 2 ^ 64"

definition expected_typed :: "ExpectedHostState \<Rightarrow> bool" where
  "expected_typed x \<longleftrightarrow> in_u64 (eh_Revision x)
     \<and> (case eh_Secret x of None \<Rightarrow> True | Some s \<Rightarrow> distinct (map fst (ks_Data s)))"

text \<open>
  The hash over the parts of a join that must not change: the token and the fence are not among them.
  \<open>hash\<close> stands for the hexadecimal SHA-256 of the JSON encoding.
\<close>

definition JoinFingerprint :: "(string \<times> string \<times> WorkerRegistration \<Rightarrow> string) \<Rightarrow> ClusterJoinRequest \<Rightarrow> string" where
  "JoinFingerprint hash q = hash (cj_APIServerEndpoint q, cj_CACertHash q, cj_Registration q)"

section \<open>Validation (host.go, cluster\_join.go)\<close>

definition name_char :: "string \<Rightarrow> char \<Rightarrow> bool" where
  "name_char extra c \<longleftrightarrow> (CHR ''a'' \<le> c \<and> c \<le> CHR ''z'') \<or> digitc c \<or> c \<in> set extra"

definition serviceName :: "string \<Rightarrow> bool" where
  "serviceName s \<longleftrightarrow> suffix ''.service'' s \<and> length s > 8 \<and> (letterc (hd s) \<or> digitc (hd s))
     \<and> list_all (\<lambda>c. letterc c \<or> digitc c \<or> c \<in> set ''_.@:-'') (take (length s - 8) s)"

definition packageName :: "string \<Rightarrow> bool" where
  "packageName s \<longleftrightarrow>
     (let (a, b) = cut CHR '':'' s in
      a \<noteq> [] \<and> name_char [] (hd a) \<and> list_all (name_char ''+.-'') a
      \<and> (if CHR '':'' \<in> set s then b \<noteq> [] \<and> name_char [] (hd b) \<and> list_all (name_char ''-'') b else True))"

fun packages_ok :: "string list \<Rightarrow> HostPackageChange list \<Rightarrow> bool" where
  "packages_ok seen [] = True"
| "packages_ok seen (p # ps) =
     (if \<not> packageName (hp_Name p) \<or> (hp_Action p \<noteq> ''install'' \<and> hp_Action p \<noteq> ''remove'') \<or> hp_Name p \<in> set seen
      then False else packages_ok (hp_Name p # seen) ps)"

definition validateExpected :: "k8s_validation \<Rightarrow> ExpectedHostState \<Rightarrow> bool" where
  "validateExpected K x =
     (if eh_Revision x = 0 \<or> length (eh_Services x) + length (eh_Packages x) > 256 then False
      else if (eh_ImageID x \<noteq> [] \<or> eh_Track x \<noteq> [] \<or> eh_Version x \<noteq> [])
         \<and> (length (eh_ImageID x) > 256 \<or> length (eh_Track x) > 64 \<or> length (eh_Version x) > 128
            \<or> eh_ImageID x = [] \<or> eh_Track x = [] \<or> eh_Version x = []) then False
      else if (case eh_Secret x of None \<Rightarrow> False | Some s \<Rightarrow> isl (KubernetesSecret_Normalize K s)) then False
      else if list_ex (\<lambda>(n, _). \<not> serviceName n) (eh_Services x) then False
      else packages_ok [] (eh_Packages x))"

definition joinTokenRE :: "string \<Rightarrow> bool" where
  "joinTokenRE s \<longleftrightarrow> length s = 23 \<and> s ! 6 = CHR ''.'' \<and> list_all (name_char []) (take 6 s) \<and> list_all (name_char []) (drop 7 s)"

definition lower_hex :: "char \<Rightarrow> bool" where
  "lower_hex c \<longleftrightarrow> digitc c \<or> (CHR ''a'' \<le> c \<and> c \<le> CHR ''f'')"

definition joinCAHashRE :: "string \<Rightarrow> bool" where
  "joinCAHashRE s \<longleftrightarrow> prefix ''sha256:'' s \<and> length s = 71 \<and> list_all lower_hex (drop 7 s)"

definition joinOperationRE :: "string \<Rightarrow> bool" where
  "joinOperationRE s \<longleftrightarrow> length s = 36 \<and> list_all (\<lambda>c. lower_hex c \<or> c = CHR ''-'') s"

definition validateClusterJoin :: "(string \<Rightarrow> string) \<Rightarrow> k8s_validation \<Rightarrow> ClusterJoinRequest \<Rightarrow> bool" where
  "validateClusterJoin sha256 K q =
     (if \<not> WorkerRegistration_Validate sha256 K (cj_Registration q) \<or> cj_Fence q \<le> 0 \<or> \<not> joinOperationRE (cj_OperationID q)
         \<or> \<not> joinTokenRE (cj_Token q) \<or> \<not> joinCAHashRE (cj_CACertHash q) then False
      else case url_parse (cj_APIServerEndpoint q) of
          None \<Rightarrow> False
        | Some u \<Rightarrow> u_scheme u = ''https'' \<and> u_host u \<noteq> [] \<and> \<not> u_user u \<and> u_rawquery u = [] \<and> u_fragment u = []
            \<and> (u_path u = [] \<or> u_path u = ''/''))"

section \<open>The agent's state (state.go, server.go)\<close>

record savedState =
  ss_Request :: ExpectedHostState
  ss_Digest :: string
  ss_AppliedRevision :: int
  ss_Outcome :: string
  ss_Kubernetes :: "KubernetesResult option"

record clusterJoinState =
  js_OperationID :: string
  js_Endpoint :: string
  js_CACertHash :: string
  js_Outcome :: string
  js_ContractHash :: string
  js_Registration :: WorkerRegistration
  js_Fence :: int

record agent =
  sd_identity :: string
  sd_process :: "int \<times> string"
  sd_saved :: savedState
  sd_view :: HostAgentStatus
  sd_file :: "savedState option"
  sd_join :: clusterJoinState
  sd_joinFile :: "clusterJoinState option"
  sd_log :: "(ExpectedHostState \<times> bool) list"
  sd_joinLog :: "ClusterJoinRequest list"

text \<open>
  \<open>atomicJSON\<close>: the file is replaced and the call succeeds, nothing happens and it fails, or it fails
  after the rename, with the new content in place.
\<close>

datatype persist = Written | Unwritten | Unsynced

fun atomicJSON :: "persist \<Rightarrow> 'a \<Rightarrow> 'a option \<Rightarrow> 'a option" where
  "atomicJSON Unwritten v file = file"
| "atomicJSON _ v file = Some v"

datatype agent_reply = Failed int string | Replied int HostAgentStatus | Joined int string | Membership int ClusterMembership | Collected int HostAgentStatus

record update_env =
  ue_deadline :: bool
  ue_cancelled :: bool
  ue_persist :: persist
  ue_publish :: bool
  ue_apply :: bool
  ue_secret :: "KubernetesResult option \<times> bool"
  ue_outcome :: persist
  ue_published :: bool

definition agent_status :: "agent \<Rightarrow> HostAgentStatus" where
  "agent_status a = (let s = sd_saved a in
     \<lparr>ha_Identity = sd_identity a, ha_PID = fst (sd_process a), ha_InvocationID = snd (sd_process a), ha_Ready = True,
      ha_AcceptedRevision = eh_Revision (ss_Request s), ha_AppliedRevision = ss_AppliedRevision s, ha_Outcome = ss_Outcome s,
      ha_ExpectedVersion = (if ss_Outcome s = ''applied'' \<and> ss_AppliedRevision s = eh_Revision (ss_Request s)
                            then eh_Version (ss_Request s) else []),
      ha_Kubernetes = ss_Kubernetes s\<rparr>)"

definition publish :: "agent \<Rightarrow> agent" where
  "publish a = a\<lparr>sd_view := agent_status a\<rparr>"

definition normalize_secret :: "k8s_validation \<Rightarrow> ExpectedHostState \<Rightarrow> ExpectedHostState" where
  "normalize_secret K x =
     (case eh_Secret x of
        None \<Rightarrow> x
      | Some s \<Rightarrow> (case KubernetesSecret_Normalize K s of Inl _ \<Rightarrow> x | Inr n \<Rightarrow> x\<lparr>eh_Secret := Some n\<rparr>))"

section \<open>Expected-state updates\<close>

text \<open>The host calls of an accepted update: the commands, then the secret if they succeeded.\<close>

definition enforce :: "update_env \<Rightarrow> ExpectedHostState \<Rightarrow> KubernetesResult option \<times> bool" where
  "enforce E x =
     (if \<not> ue_apply E then (None, False)
      else case eh_Secret x of None \<Rightarrow> (None, True) | Some _ \<Rightarrow> ue_secret E)"

definition record_outcome :: "update_env \<Rightarrow> savedState \<Rightarrow> ExpectedHostState \<Rightarrow> agent \<Rightarrow> agent_reply \<times> agent" where
  "record_outcome E prev x a0 =
     (let (k, ok) = enforce E x;
          a = a0\<lparr>sd_log := sd_log a0 @ [(x, ok)]\<rparr>;
          s = (sd_saved a)\<lparr>ss_Kubernetes := k, ss_Outcome := (if ok then ''applied'' else ''failed''),
                ss_AppliedRevision := (if ok then eh_Revision x else ss_AppliedRevision prev)\<rparr>;
          a1 = a\<lparr>sd_saved := s, sd_file := atomicJSON (ue_outcome E) s (sd_file a)\<rparr> in
      if ue_outcome E \<noteq> Written
      then (Failed 500 ''cannot persist outcome'',
            publish (a1\<lparr>sd_saved := s\<lparr>ss_Outcome := ''interrupted'', ss_AppliedRevision := ss_AppliedRevision prev\<rparr>\<rparr>))
      else if \<not> ue_published E then (Failed 500 ''cannot publish status'', publish a1)
      else if ok then (Replied 200 (agent_status a1), publish a1)
      else if eh_Secret x \<noteq> None then (Replied 500 (agent_status a1), publish a1)
      else (Failed 500 ''host update failed'', publish a1))"

definition accept_update ::
    "(ExpectedHostState \<Rightarrow> string) \<Rightarrow> update_env \<Rightarrow> ExpectedHostState \<Rightarrow> agent \<Rightarrow> agent_reply \<times> agent" where
  "accept_update digest E x a =
     (let prev = sd_saved a;
          s = \<lparr>ss_Request = x, ss_Digest = digest x, ss_AppliedRevision = ss_AppliedRevision prev,
               ss_Outcome = ''applying'', ss_Kubernetes = None\<rparr>;
          a1 = a\<lparr>sd_file := atomicJSON (ue_persist E) s (sd_file a)\<rparr> in
      if ue_persist E \<noteq> Written then (Failed 500 ''cannot persist update'', a1)
      else if \<not> ue_publish E then (Failed 500 ''cannot publish status'', publish (a1\<lparr>sd_saved := s\<rparr>))
      else record_outcome E prev x (publish (a1\<lparr>sd_saved := s\<rparr>)))"

text \<open>A revision that is older than the accepted one, or the same with another content.\<close>

definition revision_conflict :: "(ExpectedHostState \<Rightarrow> string) \<Rightarrow> ExpectedHostState \<Rightarrow> savedState \<Rightarrow> bool" where
  "revision_conflict digest x prev \<longleftrightarrow> eh_Revision x < eh_Revision (ss_Request prev)
     \<or> (eh_Revision x = eh_Revision (ss_Request prev) \<and> digest x \<noteq> ss_Digest prev)"

definition locked_update ::
    "(ExpectedHostState \<Rightarrow> string) \<Rightarrow> update_env \<Rightarrow> ExpectedHostState \<Rightarrow> agent \<Rightarrow> agent_reply \<times> agent" where
  "locked_update digest E x a =
     (if ue_cancelled E then (Failed 408 ''request cancelled'', a)
      else if revision_conflict digest x (sd_saved a) then (Failed 409 ''revision conflict'', a)
      else if eh_Revision x = eh_Revision (ss_Request (sd_saved a)) \<and> ss_Outcome (sd_saved a) = ''applied''
      then (Replied 200 (agent_status a), a)
      else accept_update digest E x a)"

definition Server_update ::
    "k8s_validation \<Rightarrow> (ExpectedHostState \<Rightarrow> string) \<Rightarrow> update_env \<Rightarrow> ExpectedHostState option \<Rightarrow> agent \<Rightarrow> agent_reply \<times> agent" where
  "Server_update K digest E inp a =
     (if \<not> ue_deadline E then (Failed 400 ''invalid operation deadline'', a)
      else case inp of
          None \<Rightarrow> (Failed 400 ''invalid expected state'', a)
        | Some x \<Rightarrow>
            if \<not> validateExpected K x then (Failed 400 ''invalid expected state'', a)
            else locked_update digest E (normalize_secret K x) a)"

section \<open>Cluster join\<close>

record join_env =
  je_deadline :: bool
  je_supported :: bool
  je_persist :: persist
  je_join :: bool
  je_outcome :: persist

text \<open>Another operation, another contract or an older fence than the agent has seen.\<close>

definition join_conflict :: "(ClusterJoinRequest \<Rightarrow> string) \<Rightarrow> ClusterJoinRequest \<Rightarrow> clusterJoinState \<Rightarrow> bool" where
  "join_conflict fingerprint q j \<longleftrightarrow> js_OperationID j \<noteq> [] \<and> (js_OperationID j \<noteq> cj_OperationID q
     \<or> js_ContractHash j \<noteq> fingerprint q \<or> cj_Fence q < js_Fence j)"

definition begin_join :: "(ClusterJoinRequest \<Rightarrow> string) \<Rightarrow> ClusterJoinRequest \<Rightarrow> clusterJoinState \<Rightarrow> clusterJoinState" where
  "begin_join fingerprint q j =
     (if js_OperationID j \<noteq> [] then j
      else \<lparr>js_OperationID = cj_OperationID q, js_Endpoint = cj_APIServerEndpoint q, js_CACertHash = cj_CACertHash q,
            js_Outcome = ''applying'', js_ContractHash = fingerprint q, js_Registration = cj_Registration q,
            js_Fence = cj_Fence q\<rparr>)"

text \<open>The call into the host, after the progress is on disk.\<close>

definition run_join :: "join_env \<Rightarrow> ClusterJoinRequest \<Rightarrow> agent \<Rightarrow> agent_reply \<times> agent" where
  "run_join E q a0 =
     (let a = a0\<lparr>sd_joinLog := sd_joinLog a0 @ [q]\<rparr>;
          j = (sd_join a)\<lparr>js_Outcome := (if je_join E then ''applied'' else ''failed'')\<rparr>;
          a1 = a\<lparr>sd_join := j, sd_joinFile := atomicJSON (je_outcome E) j (sd_joinFile a)\<rparr> in
      if \<not> je_join E then (Failed 502 ''Kubernetes node join failed'', a1)
      else if je_outcome E \<noteq> Written
      then (Failed 503 ''cannot persist cluster join outcome'', a1\<lparr>sd_join := j\<lparr>js_Outcome := ''interrupted''\<rparr>\<rparr>)
      else (Joined 200 (cj_OperationID q), a1))"

definition locked_join ::
    "(ClusterJoinRequest \<Rightarrow> string) \<Rightarrow> join_env \<Rightarrow> ClusterJoinRequest \<Rightarrow> agent \<Rightarrow> agent_reply \<times> agent" where
  "locked_join fingerprint E q a =
     (if join_conflict fingerprint q (sd_join a) then (Failed 409 ''cluster join operation conflict'', a)
      else (let j0 = begin_join fingerprint q (sd_join a);
                j = j0\<lparr>js_Fence := cj_Fence q, js_Outcome := ''applying''\<rparr>;
                a1 = a\<lparr>sd_join := j, sd_joinFile := atomicJSON (je_persist E) j (sd_joinFile a)\<rparr> in
            if \<not> je_supported E then (Failed 503 ''Kubernetes join is unavailable'', a\<lparr>sd_join := j0\<rparr>)
            else if je_persist E \<noteq> Written then (Failed 503 ''cannot persist cluster join progress'', a1)
            else run_join E q a1))"

definition clusterJoin ::
    "(string \<Rightarrow> string) \<Rightarrow> k8s_validation \<Rightarrow> (ClusterJoinRequest \<Rightarrow> string) \<Rightarrow> join_env \<Rightarrow> ClusterJoinRequest option
     \<Rightarrow> agent \<Rightarrow> agent_reply \<times> agent" where
  "clusterJoin sha256 K fingerprint E inp a =
     (if \<not> je_deadline E then (Failed 400 ''invalid operation deadline'', a)
      else case inp of
          None \<Rightarrow> (Failed 400 ''invalid cluster join request'', a)
        | Some q \<Rightarrow>
            if \<not> validateClusterJoin sha256 K q then (Failed 400 ''invalid cluster join request'', a)
            else locked_join fingerprint E q a)"

text \<open>
  \<open>clusterMembership\<close>: a proof for a challenge of 32 bytes, from a host that has joined.  The body is
  the result of the two decodings, of JSON and of base64; \<open>prove\<close> is the host's answer for a join.
\<close>

definition joined_request :: "clusterJoinState \<Rightarrow> ClusterJoinRequest" where
  "joined_request j = \<lparr>cj_Registration = js_Registration j, cj_Fence = 0, cj_OperationID = [], cj_APIServerEndpoint = js_Endpoint j,
     cj_Token = [], cj_CACertHash = js_CACertHash j\<rparr>"

definition clusterMembership ::
    "bool \<Rightarrow> string option option \<Rightarrow> (ClusterJoinRequest \<Rightarrow> ClusterMembership option) option \<Rightarrow> agent \<Rightarrow> agent_reply" where
  "clusterMembership deadline body prove a =
     (if \<not> deadline then Failed 400 ''invalid operation deadline''
      else case body of
          None \<Rightarrow> Failed 400 ''invalid request''
        | Some challenge \<Rightarrow>
            if (case challenge of None \<Rightarrow> True | Some c \<Rightarrow> length c \<noteq> 32) then Failed 400 ''invalid membership challenge''
            else case prove of
                None \<Rightarrow> Failed 503 ''worker membership unavailable''
              | Some f \<Rightarrow>
                  if js_Outcome (sd_join a) \<noteq> ''applied'' then Failed 503 ''worker membership unavailable''
                  else case f (joined_request (sd_join a)) of
                      None \<Rightarrow> Failed 503 ''worker membership verification failed''
                    | Some m \<Rightarrow> Membership 200 m)"

section \<open>Start and authorization\<close>

definition zero_saved :: savedState where
  "zero_saved = \<lparr>ss_Request = \<lparr>eh_Revision = 0, eh_ImageID = [], eh_Track = [], eh_Version = [], eh_Services = [],
       eh_Packages = [], eh_Secret = None\<rparr>,
     ss_Digest = [], ss_AppliedRevision = 0, ss_Outcome = ''unconfigured'', ss_Kubernetes = None\<rparr>"

definition zero_join :: clusterJoinState where
  "zero_join = \<lparr>js_OperationID = [], js_Endpoint = [], js_CACertHash = [], js_Outcome = [], js_ContractHash = [],
     js_Registration = \<lparr>wr_ClusterID = [], wr_HostID = [], wr_NodeGroupID = [], wr_NodePoolID = [], wr_TemplateRevision = [],
       wr_NodeName = [], wr_ProviderID = [], wr_Scheduling = zero_scheduling\<rparr>, js_Fence = 0\<rparr>"

definition reload_state :: "k8s_validation \<Rightarrow> (ExpectedHostState \<Rightarrow> string) \<Rightarrow> savedState option \<Rightarrow> string + savedState" where
  "reload_state K digest file =
     (case file of
        None \<Rightarrow> Inr zero_saved
      | Some s \<Rightarrow>
          if \<not> validateExpected K (ss_Request s) \<or> digest (ss_Request s) \<noteq> ss_Digest s
             \<or> ss_AppliedRevision s > eh_Revision (ss_Request s) then Inl ''invalid persisted Subd state''
          else if ss_Outcome s = ''applying'' then Inr (s\<lparr>ss_Outcome := ''interrupted''\<rparr>)
          else if ss_Outcome s \<in> {''applied'', ''failed'', ''interrupted''} then Inr s
          else Inl ''invalid persisted Subd outcome'')"

definition validateJoinState :: "(string \<Rightarrow> string) \<Rightarrow> k8s_validation \<Rightarrow> clusterJoinState \<Rightarrow> bool" where
  "validateJoinState sha256 K j =
     (if \<not> WorkerRegistration_Validate sha256 K (js_Registration j) \<or> length (js_ContractHash j) \<noteq> 64 \<or> js_Fence j \<le> 0
         \<or> \<not> joinOperationRE (js_OperationID j) \<or> js_Endpoint j = [] \<or> \<not> joinCAHashRE (js_CACertHash j) then False
      else js_Outcome j \<in> {''applying'', ''applied'', ''failed'', ''interrupted''})"

definition reload_join :: "(string \<Rightarrow> string) \<Rightarrow> k8s_validation \<Rightarrow> clusterJoinState option \<Rightarrow> clusterJoinState option" where
  "reload_join sha256 K file =
     (case file of
        None \<Rightarrow> Some zero_join
      | Some j \<Rightarrow>
          if \<not> validateJoinState sha256 K j then None
          else Some (if js_Outcome j = ''applying'' then j\<lparr>js_Outcome := ''interrupted''\<rparr> else j))"

text \<open>
  \<open>NewServer\<close> of a process: what the files of the previous one hold; the logs go on.  The checks of the
  configuration and of the agent's own identity, which read neither file, come before it.
\<close>

definition restart ::
    "(string \<Rightarrow> string) \<Rightarrow> k8s_validation \<Rightarrow> (ExpectedHostState \<Rightarrow> string) \<Rightarrow> int \<times> string \<Rightarrow> agent \<Rightarrow> string + agent" where
  "restart sha256 K digest process a =
     (case reload_state K digest (sd_file a) of
        Inl e \<Rightarrow> Inl e
      | Inr s \<Rightarrow>
          (case reload_join sha256 K (sd_joinFile a) of
             None \<Rightarrow> Inl ''invalid persisted cluster join status''
           | Some j \<Rightarrow> Inr (publish (a\<lparr>sd_process := process, sd_saved := s, sd_join := j\<rparr>))))"

text \<open>A host on which the agent has never run.\<close>

definition new_agent :: "string \<Rightarrow> int \<times> string \<Rightarrow> agent" where
  "new_agent identity process = publish \<lparr>sd_identity = identity, sd_process = process, sd_saved = zero_saved,
     sd_view = \<lparr>ha_Identity = [], ha_PID = 0, ha_InvocationID = [], ha_Ready = False, ha_AcceptedRevision = 0,
       ha_AppliedRevision = 0, ha_Outcome = [], ha_ExpectedVersion = [], ha_Kubernetes = None\<rparr>,
     sd_file = None, sd_join = zero_join, sd_joinFile = None, sd_log = [], sd_joinLog = []\<rparr>"

section \<open>Routes\<close>

text \<open>
  The routes, each with its decoded body and its environment.  The peer is what TLS gives: no
  certificate, one without an identity, or an identity.
\<close>

datatype agent_route = Get_health | Get_state bool | Put_expected update_env "ExpectedHostState option"
  | Put_join join_env "ClusterJoinRequest option" | Post_membership bool "string option option" "(ClusterJoinRequest \<Rightarrow> ClusterMembership option) option"

datatype peer = No_certificate | No_identity | Peer string

fun route_get :: "agent_route \<Rightarrow> bool" where
  "route_get Get_health = True"
| "route_get (Get_state _) = True"
| "route_get _ = False"

definition peer_allowed :: "string \<Rightarrow> string list \<Rightarrow> agent_route \<Rightarrow> string \<Rightarrow> bool" where
  "peer_allowed writer readers rt p \<longleftrightarrow> p = writer \<or> (route_get rt \<and> p \<in> set readers)"

fun serve_route ::
    "(string \<Rightarrow> string) \<Rightarrow> k8s_validation \<Rightarrow> (ExpectedHostState \<Rightarrow> string) \<Rightarrow> (ClusterJoinRequest \<Rightarrow> string) \<Rightarrow> agent_route
     \<Rightarrow> agent \<Rightarrow> agent_reply \<times> agent" where
  "serve_route sha256 K digest fingerprint Get_health a = (Replied 200 (sd_view a), a)"
| "serve_route sha256 K digest fingerprint (Get_state ok) a =
     (if ok then Collected 200 (sd_view a) else Failed 503 ''host collection failed'', a)"
| "serve_route sha256 K digest fingerprint (Put_expected E inp) a = Server_update K digest E inp a"
| "serve_route sha256 K digest fingerprint (Put_join E inp) a = clusterJoin sha256 K fingerprint E inp a"
| "serve_route sha256 K digest fingerprint (Post_membership d b f) a = (clusterMembership d b f a, a)"

definition agent_handler ::
    "(string \<Rightarrow> string) \<Rightarrow> k8s_validation \<Rightarrow> (ExpectedHostState \<Rightarrow> string) \<Rightarrow> (ClusterJoinRequest \<Rightarrow> string)
     \<Rightarrow> string \<times> string list \<Rightarrow> peer \<Rightarrow> agent_route \<Rightarrow> agent \<Rightarrow> agent_reply \<times> agent" where
  "agent_handler sha256 K digest fingerprint cfg p rt a =
     (case p of
        No_certificate \<Rightarrow> (Failed 401 ''client identity required'', a)
      | No_identity \<Rightarrow> (Failed 401 ''invalid client identity'', a)
      | Peer i \<Rightarrow>
          if \<not> peer_allowed (fst cfg) (snd cfg) rt i then (Failed 403 ''forbidden'', a)
          else serve_route sha256 K digest fingerprint rt a)"

end
