(* ===== verification/HostAgentRuns.thy ===== *)
theory HostAgentRuns
  imports HostAgent
begin

text \<open>
  Runs of a host agent: the invariant of its memory, its two files and the calls it made on the host,
  what it reports, and that every request and every restart keeps it.
\<close>

section \<open>What an update leaves behind\<close>

definition state_good :: "k8s_validation \<Rightarrow> (ExpectedHostState \<Rightarrow> string) \<Rightarrow> savedState \<Rightarrow> bool" where
  "state_good K digest s \<longleftrightarrow> validateExpected K (ss_Request s) \<and> digest (ss_Request s) = ss_Digest s
     \<and> ss_AppliedRevision s \<le> eh_Revision (ss_Request s)
     \<and> ss_Outcome s \<in> {''applying'', ''applied'', ''failed'', ''interrupted''}"

text \<open>No host call had a later revision, and those of the same revision had the same content.\<close>

definition state_covers :: "(ExpectedHostState \<Rightarrow> string) \<Rightarrow> savedState \<Rightarrow> (ExpectedHostState \<times> bool) list \<Rightarrow> bool" where
  "state_covers digest s log \<longleftrightarrow> (\<forall>x ok. (x, ok) \<in> set log \<longrightarrow> eh_Revision x \<le> eh_Revision (ss_Request s)
     \<and> (eh_Revision x = eh_Revision (ss_Request s) \<longrightarrow> digest x = ss_Digest s))"

definition log_ordered :: "(ExpectedHostState \<Rightarrow> string) \<Rightarrow> (ExpectedHostState \<times> bool) list \<Rightarrow> bool" where
  "log_ordered digest log \<longleftrightarrow> sorted (map (eh_Revision \<circ> fst) log)
     \<and> (\<forall>x b y c. (x, b) \<in> set log \<longrightarrow> (y, c) \<in> set log \<longrightarrow> eh_Revision x = eh_Revision y \<longrightarrow> digest x = digest y)"

definition update_ok :: "k8s_validation \<Rightarrow> (ExpectedHostState \<Rightarrow> string) \<Rightarrow> agent \<Rightarrow> bool" where
  "update_ok K digest a \<longleftrightarrow> (sd_saved a = zero_saved \<or> state_good K digest (sd_saved a))
     \<and> state_covers digest (sd_saved a) (sd_log a) \<and> log_ordered digest (sd_log a)
     \<and> (case sd_file a of None \<Rightarrow> sd_log a = [] | Some f \<Rightarrow> state_good K digest f \<and> state_covers digest f (sd_log a))"

text \<open>The validity of a request is that of its other parts and of its secret.\<close>

lemma validate_secret:
  "validateExpected K x \<longleftrightarrow> validateExpected K (x\<lparr>eh_Secret := None\<rparr>)
     \<and> (case eh_Secret x of None \<Rightarrow> True | Some s \<Rightarrow> \<not> isl (KubernetesSecret_Normalize K s))"
  unfolding validateExpected_def by (cases "eh_Secret x") simp_all

lemma normalize_valid:
  assumes "expected_typed x" "validateExpected K x"
  shows "validateExpected K (normalize_secret K x) \<and> eh_Revision (normalize_secret K x) = eh_Revision x"
proof (cases "eh_Secret x")
  case None
  then show ?thesis using assms(2) by (simp add: normalize_secret_def)
next
  case (Some s)
  then have "\<not> isl (KubernetesSecret_Normalize K s)" and v: "validateExpected K (x\<lparr>eh_Secret := None\<rparr>)"
    using assms(2) validate_secret [of K x] by simp_all
  then obtain n where n: "KubernetesSecret_Normalize K s = Inr n" by (cases "KubernetesSecret_Normalize K s") auto
  then have "KubernetesSecret_Normalize K n = Inr n"
    using Normalize_Inr(4) [OF n] assms(1) Some by (simp add: expected_typed_def)
  then have "validateExpected K (x\<lparr>eh_Secret := Some n\<rparr>)"
    using v validate_secret [of K "x\<lparr>eh_Secret := Some n\<rparr>"] by simp
  moreover have "normalize_secret K x = x\<lparr>eh_Secret := Some n\<rparr>" using Some n by (simp add: normalize_secret_def)
  ultimately show ?thesis by simp
qed

lemma publish_simps [simp]:
  "sd_saved (publish a) = sd_saved a" "sd_log (publish a) = sd_log a" "sd_file (publish a) = sd_file a"
  "sd_join (publish a) = sd_join a" "sd_joinFile (publish a) = sd_joinFile a" "sd_joinLog (publish a) = sd_joinLog a"
  "sd_identity (publish a) = sd_identity a"
  by (simp_all add: publish_def)

lemma log_ordered_snoc:
  assumes "log_ordered digest log" "state_covers digest s log" "eh_Revision x = eh_Revision (ss_Request s)" "digest x = ss_Digest s"
  shows "log_ordered digest (log @ [(x, ok)])"
proof -
  have le: "eh_Revision y \<le> eh_Revision x" if "(y, b) \<in> set log" for y b
    using assms(2,3) that unfolding state_covers_def by fastforce
  have eq: "digest y = digest x" if "(y, b) \<in> set log" "eh_Revision y = eh_Revision x" for y b
    using assms(2-4) that unfolding state_covers_def by metis
  have "sorted (map (eh_Revision \<circ> fst) (log @ [(x, ok)]))"
    using assms(1) le unfolding log_ordered_def by (fastforce simp: sorted_append)
  moreover have "digest y = digest z" if m: "(y, b) \<in> set (log @ [(x, ok)])" "(z, c) \<in> set (log @ [(x, ok)])" "eh_Revision y = eh_Revision z" for y b z c
  proof -
    consider "(y, b) \<in> set log" "(z, c) \<in> set log" | "(y, b) \<in> set log" "z = x" | "y = x" "(z, c) \<in> set log" | "y = x" "z = x"
      using m(1,2) by auto
    then show ?thesis
    proof cases
      case 1
      then show ?thesis using assms(1) m(3) unfolding log_ordered_def by blast
    qed (use eq m(3) in metis)+
  qed
  ultimately show ?thesis unfolding log_ordered_def by blast
qed

lemma covers_snoc:
  "state_covers digest s (log @ [(x, ok)]) \<longleftrightarrow> state_covers digest s log
     \<and> eh_Revision x \<le> eh_Revision (ss_Request s) \<and> (eh_Revision x = eh_Revision (ss_Request s) \<longrightarrow> digest x = ss_Digest s)"
  by (auto simp: state_covers_def)

text \<open>A newer state, or one of the same revision and content, covers what the older one did.\<close>

lemma covers_newer:
  assumes "state_covers digest s log" "eh_Revision (ss_Request s) \<le> eh_Revision (ss_Request t)"
    "eh_Revision (ss_Request s) = eh_Revision (ss_Request t) \<Longrightarrow> ss_Digest s = ss_Digest t"
  shows "state_covers digest t log"
  using assms unfolding state_covers_def by fastforce

text \<open>The state an outcome leaves in memory and in the file.\<close>

definition outcome_file :: "persist \<Rightarrow> savedState \<Rightarrow> KubernetesResult option \<times> bool \<Rightarrow> savedState option \<Rightarrow> savedState option" where
  "outcome_file p s r file = (if p = Unwritten then file else
     Some (s\<lparr>ss_Kubernetes := fst r, ss_Outcome := (if snd r then ''applied'' else ''failed''),
       ss_AppliedRevision := (if snd r then eh_Revision (ss_Request s) else ss_AppliedRevision s)\<rparr>))"

definition outcome_state :: "persist \<Rightarrow> savedState \<Rightarrow> KubernetesResult option \<times> bool \<Rightarrow> savedState" where
  "outcome_state p s r = (let ok = p = Written \<and> snd r in
     s\<lparr>ss_Kubernetes := fst r, ss_Outcome := (if p \<noteq> Written then ''interrupted'' else if snd r then ''applied'' else ''failed''),
       ss_AppliedRevision := (if ok then eh_Revision (ss_Request s) else ss_AppliedRevision s)\<rparr>)"

lemma record_outcome_state:
  assumes "record_outcome E prev x a = (r, a')" "ss_Request (sd_saved a) = x" "ss_AppliedRevision (sd_saved a) = ss_AppliedRevision prev"
  shows "sd_saved a' = outcome_state (ue_outcome E) (sd_saved a) (enforce E x)"
    "sd_file a' = outcome_file (ue_outcome E) (sd_saved a) (enforce E x) (sd_file a)"
    "sd_log a' = sd_log a @ [(x, snd (enforce E x))]"
proof -
  obtain k ok where e: "enforce E x = (k, ok)" by fastforce
  have a': "a' = snd (record_outcome E prev x a)" using assms(1) by simp
  show "sd_saved a' = outcome_state (ue_outcome E) (sd_saved a) (enforce E x)"
    "sd_file a' = outcome_file (ue_outcome E) (sd_saved a) (enforce E x) (sd_file a)"
    "sd_log a' = sd_log a @ [(x, snd (enforce E x))]"
    unfolding a' record_outcome_def e Let_def outcome_state_def outcome_file_def using assms(2,3)
    by (cases "ue_outcome E"; simp)+
qed

lemma record_outcome_ok:
  assumes a: "sd_saved a = \<lparr>ss_Request = x, ss_Digest = digest x, ss_AppliedRevision = ss_AppliedRevision prev,
      ss_Outcome = ''applying'', ss_Kubernetes = None\<rparr>" "sd_file a = Some (sd_saved a)"
    and x: "validateExpected K x" "ss_AppliedRevision prev \<le> eh_Revision x"
    and log: "state_covers digest (sd_saved a) (sd_log a)" "log_ordered digest (sd_log a)"
    and run: "record_outcome E prev x a = (r, a')"
  shows "update_ok K digest a'"
proof -
  let ?s = "sd_saved a"
  obtain k ok where e: "enforce E x = (k, ok)" by fastforce
  let ?L = "sd_log a @ [(x, ok)]"
  have L: "state_covers digest t ?L" if "ss_Request t = x" "ss_Digest t = digest x" for t
    using log(1) a(1) that unfolding covers_snoc by (auto simp: state_covers_def)
  have O: "log_ordered digest ?L" by (rule log_ordered_snoc [OF log(2,1)]) (simp_all add: a(1))
  have g: "state_good K digest t" if "ss_Request t = x" "ss_Digest t = digest x" "ss_AppliedRevision t \<le> eh_Revision x"
    "ss_Outcome t \<in> {''applying'', ''applied'', ''failed'', ''interrupted''}" for t
    using that x(1) by (simp add: state_good_def)
  have f: "sd_log a' = ?L" "ss_Request (sd_saved a') = x" "ss_Digest (sd_saved a') = digest x"
    "ss_AppliedRevision (sd_saved a') \<le> eh_Revision x" "ss_Outcome (sd_saved a') \<in> {''applied'', ''failed'', ''interrupted''}"
    "\<exists>t. sd_file a' = Some t \<and> ss_Request t = x \<and> ss_Digest t = digest x \<and> ss_AppliedRevision t \<le> eh_Revision x
       \<and> ss_Outcome t \<in> {''applying'', ''applied'', ''failed''}"
    using record_outcome_state [OF run] e a x(2) by (simp_all add: outcome_state_def outcome_file_def split: if_splits persist.splits)
  show ?thesis unfolding update_ok_def using f O L g by auto
qed

lemma accept_update_ok:
  assumes ok: "update_ok K digest a" and x: "validateExpected K x" "0 \<le> eh_Revision x" and c: "\<not> revision_conflict digest x (sd_saved a)"
    and run: "accept_update digest E x a = (r, a')"
  shows "update_ok K digest a'"
proof -
  let ?p = "sd_saved a"
  let ?s = "\<lparr>ss_Request = x, ss_Digest = digest x, ss_AppliedRevision = ss_AppliedRevision ?p,
      ss_Outcome = ''applying'', ss_Kubernetes = None\<rparr>"
  have app: "ss_AppliedRevision ?p \<le> eh_Revision x"
    using ok c x(2) by (auto simp: update_ok_def state_good_def zero_saved_def revision_conflict_def)
  have cov: "state_covers digest ?s (sd_log a)"
  proof (rule covers_newer [of digest ?p])
    show "state_covers digest ?p (sd_log a)" using ok by (simp add: update_ok_def)
  qed (use c in \<open>simp_all add: revision_conflict_def\<close>)
  have good: "state_good K digest ?s" using x(1) app by (simp add: state_good_def)
  let ?b = "a\<lparr>sd_file := Some ?s, sd_saved := ?s\<rparr>"
  consider (unchanged) "a' = a" | (written) "a' = a\<lparr>sd_file := Some ?s\<rparr>" | (saved) "a' = publish ?b"
    | (ran) "record_outcome E ?p x (publish ?b) = (r, a')"
    using run unfolding accept_update_def Let_def
    by (cases "ue_persist E"; cases "ue_publish E") simp_all
  then show ?thesis
  proof cases
    case ran
    have "state_covers digest (sd_saved (publish ?b)) (sd_log (publish ?b))" "log_ordered digest (sd_log (publish ?b))"
      using ok cov by (simp_all add: update_ok_def)
    then show ?thesis using record_outcome_ok [OF _ _ x(1) app _ _ ran] by simp
  qed (use ok cov good in \<open>simp_all add: update_ok_def\<close>)
qed

lemma update_keeps:
  assumes ok: "update_ok K digest a" and t: "\<And>x. inp = Some x \<Longrightarrow> expected_typed x"
    and run: "Server_update K digest E inp a = (r, a')"
  shows "update_ok K digest a'"
proof (cases "\<exists>x. inp = Some x \<and> ue_deadline E \<and> validateExpected K x")
  case True
  then obtain x0 where x0: "inp = Some x0" "ue_deadline E" "validateExpected K x0" by blast
  let ?x = "normalize_secret K x0"
  have v: "validateExpected K ?x" "0 \<le> eh_Revision ?x"
    using normalize_valid [OF t [OF x0(1)] x0(3)] t [OF x0(1)] by (simp_all add: expected_typed_def in_u64_def)
  have "locked_update digest E ?x a = (r, a')" using run x0 by (simp add: Server_update_def)
  then have "a' = a \<or> \<not> revision_conflict digest ?x (sd_saved a) \<and> accept_update digest E ?x a = (r, a')"
    unfolding locked_update_def by (auto split: if_splits)
  then show ?thesis using ok accept_update_ok [OF ok v] by blast
qed (use ok run in \<open>auto simp: Server_update_def split: if_splits option.splits\<close>)

section \<open>What a join leaves behind\<close>

definition join_covers :: "(ClusterJoinRequest \<Rightarrow> string) \<Rightarrow> clusterJoinState \<Rightarrow> ClusterJoinRequest list \<Rightarrow> bool" where
  "join_covers fingerprint j log \<longleftrightarrow> list_all (\<lambda>q. cj_OperationID q = js_OperationID j \<and> fingerprint q = js_ContractHash j
     \<and> cj_Fence q \<le> js_Fence j) log"

definition join_ok :: "(string \<Rightarrow> string) \<Rightarrow> k8s_validation \<Rightarrow> (ClusterJoinRequest \<Rightarrow> string) \<Rightarrow> agent \<Rightarrow> bool" where
  "join_ok sha256 K fingerprint a \<longleftrightarrow> (sd_join a = zero_join \<or> validateJoinState sha256 K (sd_join a))
     \<and> sorted (map cj_Fence (sd_joinLog a))
     \<and> (case sd_joinFile a of
          None \<Rightarrow> sd_joinLog a = []
        | Some f \<Rightarrow> validateJoinState sha256 K f \<and> js_OperationID f = js_OperationID (sd_join a)
            \<and> js_ContractHash f = js_ContractHash (sd_join a) \<and> js_Fence f \<le> js_Fence (sd_join a)
            \<and> join_covers fingerprint f (sd_joinLog a))"

lemma url_parse_empty [simp]: "url_parse [] = Some u \<Longrightarrow> u_host u = []"
  by (auto simp: url_parse_def url_parse_main_def get_scheme_def cut_def split: option.splits if_splits)

lemma operation_id_nonempty: "joinOperationRE s \<Longrightarrow> s \<noteq> []"
  by (auto simp: joinOperationRE_def)

lemma valid_join_id: "validateJoinState sha256 K j \<Longrightarrow> js_OperationID j \<noteq> []"
  using operation_id_nonempty unfolding validateJoinState_def by (metis (full_types))

lemma begin_join_valid:
  assumes "validateClusterJoin sha256 K q" "length (fingerprint q) = 64"
    and "j = zero_join \<or> validateJoinState sha256 K j"
  shows "validateJoinState sha256 K (begin_join fingerprint q j)"
proof (cases "js_OperationID j = []")
  case True
  have "cj_APIServerEndpoint q \<noteq> []"
    using assms(1) unfolding validateClusterJoin_def by (auto split: if_splits option.splits)
  then show ?thesis using assms(1,2) True
    unfolding validateClusterJoin_def validateJoinState_def begin_join_def by (simp split: if_splits)
next
  case False
  then show ?thesis using assms(3) by (auto simp: begin_join_def zero_join_def)
qed

text \<open>A file that is written over one that covers the calls covers them too.\<close>

lemma joined_ok:
  assumes ok: "join_ok sha256 K fingerprint a" and v: "validateClusterJoin sha256 K q" "length (fingerprint q) = 64"
    and c: "\<not> join_conflict fingerprint q (sd_join a)"
  defines "j0 \<equiv> begin_join fingerprint q (sd_join a)"
  shows "validateJoinState sha256 K j0" "js_OperationID j0 = cj_OperationID q" "js_ContractHash j0 = fingerprint q" "js_Fence j0 \<le> cj_Fence q"
    "0 < cj_Fence q"
    "\<And>f. sd_joinFile a = Some f \<Longrightarrow> j0 = sd_join a"
    "join_covers fingerprint (j0\<lparr>js_Fence := cj_Fence q\<rparr>) (sd_joinLog a)"
proof -
  show "validateJoinState sha256 K j0"
    unfolding j0_def by (rule begin_join_valid [where fingerprint = fingerprint, OF v]) (use ok in \<open>simp add: join_ok_def\<close>)
  show f: "js_OperationID j0 = cj_OperationID q" "js_ContractHash j0 = fingerprint q" "js_Fence j0 \<le> cj_Fence q"
    using c by (auto simp: j0_def begin_join_def join_conflict_def)
  show "0 < cj_Fence q" using v(1) by (auto simp: validateClusterJoin_def split: if_splits)
  show j: "j0 = sd_join a" if "sd_joinFile a = Some f" for f
    using ok that valid_join_id [of sha256 K f] by (simp add: join_ok_def j0_def begin_join_def)
  show "join_covers fingerprint (j0\<lparr>js_Fence := cj_Fence q\<rparr>) (sd_joinLog a)"
  proof (cases "sd_joinFile a")
    case (Some x)
    then show ?thesis using ok f j [OF Some] by (auto simp: join_ok_def join_covers_def list_all_iff)
  qed (use ok in \<open>simp add: join_ok_def join_covers_def\<close>)
qed

lemma join_covers_more:
  "join_covers fingerprint j log \<Longrightarrow> js_OperationID k = js_OperationID j \<Longrightarrow> js_ContractHash k = js_ContractHash j
     \<Longrightarrow> js_Fence j \<le> js_Fence k \<Longrightarrow> join_covers fingerprint k log"
  by (auto simp: join_covers_def list_all_iff)

lemma valid_outcome:
  "validateJoinState sha256 K j \<Longrightarrow> 0 < n \<Longrightarrow> oc \<in> {''applying'', ''applied'', ''failed'', ''interrupted''}
     \<Longrightarrow> validateJoinState sha256 K (j\<lparr>js_Fence := n, js_Outcome := oc\<rparr>)"
  unfolding validateJoinState_def by (simp split: if_splits)

text \<open>The agent after a call of \<open>JoinCluster\<close>, by what reached the file.\<close>

lemma run_join_state:
  assumes "run_join E q a = (r, a')"
  shows "sd_join a' = (sd_join a)\<lparr>js_Outcome := (if \<not> je_join E then ''failed'' else if je_outcome E = Written then ''applied'' else ''interrupted'')\<rparr>"
    "sd_joinLog a' = sd_joinLog a @ [q]"
    "sd_joinFile a' = (if je_outcome E = Unwritten then sd_joinFile a
       else Some ((sd_join a)\<lparr>js_Outcome := (if je_join E then ''applied'' else ''failed'')\<rparr>))"
proof -
  have a': "a' = snd (run_join E q a)" using assms by simp
  show "sd_join a' = (sd_join a)\<lparr>js_Outcome := (if \<not> je_join E then ''failed'' else if je_outcome E = Written then ''applied'' else ''interrupted'')\<rparr>"
    "sd_joinLog a' = sd_joinLog a @ [q]"
    "sd_joinFile a' = (if je_outcome E = Unwritten then sd_joinFile a
       else Some ((sd_join a)\<lparr>js_Outcome := (if je_join E then ''applied'' else ''failed'')\<rparr>))"
    unfolding a' run_join_def Let_def by (cases "je_outcome E"; cases "je_join E"; simp)+
qed

lemma join_ok_memory:
  assumes "join_ok sha256 K fingerprint a" "validateJoinState sha256 K j"
    and "\<And>f. sd_joinFile a = Some f \<Longrightarrow> js_OperationID f = js_OperationID j \<and> js_ContractHash f = js_ContractHash j \<and> js_Fence f \<le> js_Fence j"
  shows "join_ok sha256 K fingerprint (a\<lparr>sd_join := j\<rparr>)"
proof (cases "sd_joinFile a")
  case (Some f)
  then show ?thesis using assms(1,2) assms(3) [OF Some] by (simp add: join_ok_def)
qed (use assms(1,2) in \<open>simp add: join_ok_def\<close>)

lemma locked_join_ok:
  assumes ok: "join_ok sha256 K fingerprint a" and v: "validateClusterJoin sha256 K q" "length (fingerprint q) = 64"
    and run: "locked_join fingerprint E q a = (r, a')"
  shows "join_ok sha256 K fingerprint a'"
proof (cases "join_conflict fingerprint q (sd_join a)")
  case True
  then show ?thesis using run ok by (simp add: locked_join_def)
next
  case False
  define j0 where "j0 = begin_join fingerprint q (sd_join a)"
  note J = joined_ok [where fingerprint = fingerprint, OF ok v False, folded j0_def]
  let ?j = "j0\<lparr>js_Fence := cj_Fence q, js_Outcome := ''applying''\<rparr>"
  let ?a = "a\<lparr>sd_join := ?j, sd_joinFile := Some ?j\<rparr>"
  have val: "validateJoinState sha256 K (j0\<lparr>js_Fence := cj_Fence q, js_Outcome := oc\<rparr>)"
    if "oc \<in> {''applying'', ''applied'', ''failed'', ''interrupted''}" for oc
    using valid_outcome [OF J(1,5) that] .
  have cov: "join_covers fingerprint (j0\<lparr>js_Fence := cj_Fence q, js_Outcome := oc\<rparr>) (sd_joinLog a)" for oc
    using J(7) by (rule join_covers_more) simp_all
  have "\<forall>p\<in>set (sd_joinLog a). cj_Fence p \<le> cj_Fence q" using J(7) by (simp add: join_covers_def list_all_iff)
  moreover have "sorted (map cj_Fence (sd_joinLog a))" using ok unfolding join_ok_def by blast
  ultimately have s: "sorted (map cj_Fence (sd_joinLog a @ [q]))" by (simp add: sorted_append)
  consider (unsupported) "a' = a\<lparr>sd_join := j0\<rparr>" | (unwritten) "a' = a\<lparr>sd_join := ?j\<rparr>" | (written) "a' = ?a"
    | (ran) "run_join E q ?a = (r, a')"
  proof -
    have "snd (locked_join fingerprint E q a) = a\<lparr>sd_join := j0\<rparr> \<or> snd (locked_join fingerprint E q a) = a\<lparr>sd_join := ?j\<rparr>
        \<or> snd (locked_join fingerprint E q a) = ?a \<or> locked_join fingerprint E q a = run_join E q ?a"
      unfolding locked_join_def if_not_P [OF False] Let_def j0_def
      by (cases "je_persist E"; cases "je_supported E") simp_all
    then show thesis unfolding run using that by auto
  qed
  then show ?thesis
  proof cases
    case unsupported
    have "join_ok sha256 K fingerprint (a\<lparr>sd_join := j0\<rparr>)"
    proof (rule join_ok_memory [OF ok J(1)])
      fix f assume f: "sd_joinFile a = Some f"
      show "js_OperationID f = js_OperationID j0 \<and> js_ContractHash f = js_ContractHash j0 \<and> js_Fence f \<le> js_Fence j0"
        unfolding J(6) [OF f] using ok f by (simp add: join_ok_def)
    qed
    then show ?thesis unfolding unsupported .
  next
    case unwritten
    have "join_ok sha256 K fingerprint (a\<lparr>sd_join := ?j\<rparr>)"
    proof (rule join_ok_memory [OF ok val])
      fix f assume f: "sd_joinFile a = Some f"
      have "js_Fence f \<le> js_Fence j0" unfolding J(6) [OF f] using ok f by (simp add: join_ok_def)
      moreover have "js_OperationID f = js_OperationID j0 \<and> js_ContractHash f = js_ContractHash j0"
        unfolding J(6) [OF f] using ok f by (simp add: join_ok_def)
      ultimately show "js_OperationID f = js_OperationID ?j \<and> js_ContractHash f = js_ContractHash ?j \<and> js_Fence f \<le> js_Fence ?j"
        using J(4) by simp
    qed simp
    then show ?thesis unfolding unwritten .
  next
    case written
    then show ?thesis using ok val cov by (simp add: join_ok_def)
  next
    case ran
    note R = run_join_state [OF ran]
    have c: "join_covers fingerprint (j0\<lparr>js_Fence := cj_Fence q, js_Outcome := oc\<rparr>) (sd_joinLog a @ [q])" for oc
      using cov J(2,3) by (simp add: join_covers_def)
    show ?thesis
      unfolding join_ok_def R using val c s by (cases "je_outcome E"; cases "je_join E") simp_all
  qed
qed

lemma join_keeps:
  assumes ok: "join_ok sha256 K fingerprint a" and "\<And>q. length (fingerprint q) = 64"
    and run: "clusterJoin sha256 K fingerprint E inp a = (r, a')"
  shows "join_ok sha256 K fingerprint a'"
proof (cases "\<exists>q. inp = Some q \<and> je_deadline E \<and> validateClusterJoin sha256 K q")
  case True
  then obtain q where q: "inp = Some q" "je_deadline E" "validateClusterJoin sha256 K q" by blast
  then have "locked_join fingerprint E q a = (r, a')" using run by (simp add: clusterJoin_def)
  then show ?thesis using locked_join_ok [where fingerprint = fingerprint, OF ok q(3)] assms(2) by blast
qed (use ok run in \<open>auto simp: clusterJoin_def split: if_splits option.splits\<close>)

section \<open>What an agent reports\<close>

text \<open>A state that says a revision is applied tells the truth: the host was called with it and the call succeeded.\<close>

definition applied_true :: "savedState \<Rightarrow> (ExpectedHostState \<times> bool) list \<Rightarrow> bool" where
  "applied_true s log \<longleftrightarrow>
     (ss_Outcome s = ''applied'' \<longrightarrow> (ss_Request s, True) \<in> set log \<and> ss_AppliedRevision s = eh_Revision (ss_Request s))
     \<and> (ss_AppliedRevision s \<noteq> 0 \<longrightarrow> (\<exists>x. (x, True) \<in> set log \<and> eh_Revision x = ss_AppliedRevision s))"

text \<open>The file is never behind the memory.\<close>

definition file_ahead :: "agent \<Rightarrow> bool" where
  "file_ahead a \<longleftrightarrow> (case sd_file a of
       None \<Rightarrow> sd_saved a = zero_saved
     | Some f \<Rightarrow> eh_Revision (ss_Request (sd_saved a)) \<le> eh_Revision (ss_Request f)
         \<and> ss_AppliedRevision (sd_saved a) \<le> ss_AppliedRevision f)"

definition report_ok :: "agent \<Rightarrow> bool" where
  "report_ok a \<longleftrightarrow> sd_view a = agent_status a \<and> file_ahead a \<and> applied_true (sd_saved a) (sd_log a)
     \<and> (case sd_file a of None \<Rightarrow> True | Some f \<Rightarrow> applied_true f (sd_log a))"

text \<open>One state of the agent comes after another.\<close>

definition agent_ev :: "agent \<Rightarrow> agent \<Rightarrow> bool" where
  "agent_ev a b \<longleftrightarrow> sd_identity b = sd_identity a \<and> prefix (sd_log a) (sd_log b) \<and> prefix (sd_joinLog a) (sd_joinLog b)
     \<and> eh_Revision (ss_Request (sd_saved a)) \<le> eh_Revision (ss_Request (sd_saved b))
     \<and> ss_AppliedRevision (sd_saved a) \<le> ss_AppliedRevision (sd_saved b)"

lemma applied_true_mono: "applied_true s log \<Longrightarrow> set log \<subseteq> set log' \<Longrightarrow> applied_true s log'"
  unfolding applied_true_def by blast

lemma publish_view: "sd_view (publish a) = agent_status (publish a)"
  by (simp add: publish_def agent_status_def Let_def)

lemma applied_trueI:
  assumes "applied_true prev log" "ss_Outcome s = ''applied'' \<Longrightarrow> ok \<and> ss_AppliedRevision s = eh_Revision (ss_Request s)"
    "ss_AppliedRevision s = ss_AppliedRevision prev \<or> ok \<and> ss_AppliedRevision s = eh_Revision (ss_Request s)"
  shows "applied_true s (log @ [(ss_Request s, ok)])"
proof -
  have "\<exists>y. (y, True) \<in> set (log @ [(ss_Request s, ok)]) \<and> eh_Revision y = ss_AppliedRevision s" if n: "ss_AppliedRevision s \<noteq> 0"
    using assms(3)
  proof
    assume e: "ss_AppliedRevision s = ss_AppliedRevision prev"
    then obtain y where "(y, True) \<in> set log" "eh_Revision y = ss_AppliedRevision s"
      using assms(1) n unfolding applied_true_def by auto
    then show ?thesis by auto
  next
    assume "ok \<and> ss_AppliedRevision s = eh_Revision (ss_Request s)"
    then show ?thesis by (intro exI [of _ "ss_Request s"]) simp
  qed
  then show ?thesis unfolding applied_true_def using assms(2) by simp
qed

lemma record_outcome_report:
  assumes a: "sd_saved a = \<lparr>ss_Request = x, ss_Digest = d, ss_AppliedRevision = ss_AppliedRevision prev,
      ss_Outcome = ''applying'', ss_Kubernetes = None\<rparr>" "sd_file a = Some (sd_saved a)"
    and x: "ss_AppliedRevision prev \<le> eh_Revision x" and ap: "applied_true prev (sd_log a)"
    and run: "record_outcome E prev x a = (r, a')"
  shows "report_ok a' \<and> sd_identity a' = sd_identity a \<and> sd_joinLog a' = sd_joinLog a \<and> sd_join a' = sd_join a
     \<and> sd_joinFile a' = sd_joinFile a \<and> ss_AppliedRevision prev \<le> ss_AppliedRevision (sd_saved a')"
proof -
  have st: "ss_Request (sd_saved a) = x" "ss_AppliedRevision (sd_saved a) = ss_AppliedRevision prev" by (simp_all add: a(1))
  note R = record_outcome_state [OF run st]
  have view: "sd_view a' = agent_status a'" and same: "sd_identity a' = sd_identity a" "sd_joinLog a' = sd_joinLog a"
    "sd_join a' = sd_join a" "sd_joinFile a' = sd_joinFile a"
    using run unfolding record_outcome_def Let_def by (auto simp: publish_view split: if_splits prod.splits)
  obtain k ok where e: "enforce E x = (k, ok)" by fastforce
  let ?s = "outcome_state (ue_outcome E) (sd_saved a) (k, ok)" and ?f = "outcome_file (ue_outcome E) (sd_saved a) (k, ok) (sd_file a)"
  have q: "ss_Request ?s = x" "ss_AppliedRevision prev \<le> ss_AppliedRevision ?s" using x by (simp_all add: a(1) outcome_state_def)
  have "applied_true ?s (sd_log a @ [(ss_Request ?s, ok)])"
    by (rule applied_trueI [OF ap]) (auto simp: a(1) outcome_state_def split: if_splits)
  moreover have "ss_Request f = x \<and> ss_AppliedRevision ?s \<le> ss_AppliedRevision f \<and> applied_true f (sd_log a @ [(ss_Request f, ok)])" if f: "?f = Some f" for f
  proof (intro conjI)
    show "ss_Request f = x" "ss_AppliedRevision ?s \<le> ss_AppliedRevision f"
      using f x by (auto simp: a outcome_state_def outcome_file_def split: if_splits)
    show "applied_true f (sd_log a @ [(ss_Request f, ok)])"
      by (rule applied_trueI [OF ap]) (use f in \<open>auto simp: a outcome_file_def split: if_splits\<close>)
  qed
  moreover obtain f where f: "?f = Some f" by (cases "ue_outcome E") (simp_all add: a outcome_file_def)
  ultimately have t: "applied_true ?s (sd_log a @ [(x, ok)])" "ss_Request f = x" "ss_AppliedRevision ?s \<le> ss_AppliedRevision f"
    "applied_true f (sd_log a @ [(x, ok)])"
    using q(1) by metis+
  have s: "sd_saved a' = ?s" "sd_file a' = Some f" "sd_log a' = sd_log a @ [(x, ok)]" using R f unfolding e by simp_all
  have "file_ahead a'" "report_ok a'" using view t q(1) unfolding report_ok_def file_ahead_def s by simp_all
  then show ?thesis using same q(2) unfolding s(1) by blast
qed

text \<open>The rest of the agent, which an update leaves alone.\<close>

definition join_part :: "agent \<Rightarrow> clusterJoinState \<times> clusterJoinState option \<times> ClusterJoinRequest list \<times> string" where
  "join_part a = (sd_join a, sd_joinFile a, sd_joinLog a, sd_identity a)"

lemma accept_update_report:
  assumes ok: "update_ok K digest a" "report_ok a" and x: "0 \<le> eh_Revision x" and c: "\<not> revision_conflict digest x (sd_saved a)"
    and run: "accept_update digest E x a = (r, a')"
  shows "report_ok a' \<and> agent_ev a a' \<and> join_part a' = join_part a"
proof -
  let ?p = "sd_saved a"
  let ?s = "\<lparr>ss_Request = x, ss_Digest = digest x, ss_AppliedRevision = ss_AppliedRevision ?p,
      ss_Outcome = ''applying'', ss_Kubernetes = None\<rparr>"
  have app: "ss_AppliedRevision ?p \<le> eh_Revision x" and rev: "eh_Revision (ss_Request ?p) \<le> eh_Revision x"
    using ok(1) c x by (auto simp: update_ok_def state_good_def zero_saved_def revision_conflict_def)
  have ap: "applied_true ?p (sd_log a)" using ok(2) by (simp add: report_ok_def)
  have aps: "applied_true ?s (sd_log a)" using ap unfolding applied_true_def by simp
  let ?b = "a\<lparr>sd_file := Some ?s, sd_saved := ?s\<rparr>"
  have "a' = a \<or> a' = a\<lparr>sd_file := Some ?s\<rparr> \<or> a' = publish ?b \<or> record_outcome E ?p x (publish ?b) = (r, a')"
    using run unfolding accept_update_def Let_def by (cases "ue_persist E"; cases "ue_publish E") simp_all
  then consider (unchanged) "a' = a" | (written) "a' = a\<lparr>sd_file := Some ?s\<rparr>" | (saved) "a' = publish ?b"
    | (ran) "record_outcome E ?p x (publish ?b) = (r, a')" by blast
  then show ?thesis
  proof cases
    case unchanged
    then show ?thesis using ok(2) by (simp add: agent_ev_def)
  next
    case written
    have "agent_status (a\<lparr>sd_file := Some ?s\<rparr>) = agent_status a" by (simp add: agent_status_def)
    then show ?thesis using ok(2) rev aps unfolding written
      by (simp add: report_ok_def file_ahead_def agent_ev_def join_part_def)
  next
    case saved
    then show ?thesis using rev aps
      by (simp add: report_ok_def file_ahead_def agent_ev_def join_part_def publish_view)
  next
    case ran
    have R: "report_ok a' \<and> sd_identity a' = sd_identity (publish ?b) \<and> sd_joinLog a' = sd_joinLog (publish ?b) \<and> sd_join a' = sd_join (publish ?b)
        \<and> sd_joinFile a' = sd_joinFile (publish ?b) \<and> ss_AppliedRevision ?p \<le> ss_AppliedRevision (sd_saved a')"
      by (rule record_outcome_report [OF _ _ app _ ran]) (use ap in simp_all)
    have "sd_saved a' = outcome_state (ue_outcome E) ?s (enforce E x)" "sd_log a' = sd_log a @ [(x, snd (enforce E x))]"
      using record_outcome_state [OF ran] by simp_all
    then have "agent_ev a a'" using R rev by (simp add: agent_ev_def outcome_state_def)
    then show ?thesis using R by (simp add: join_part_def)
  qed
qed

definition update_part :: "agent \<Rightarrow> savedState \<times> savedState option \<times> (ExpectedHostState \<times> bool) list \<times> HostAgentStatus \<times> string \<times> int \<times> string" where
  "update_part a = (sd_saved a, sd_file a, sd_log a, sd_view a, sd_identity a, sd_process a)"

lemma join_part_ok: "join_part a' = join_part a \<Longrightarrow> join_ok sha256 K fingerprint a' = join_ok sha256 K fingerprint a"
  by (auto simp: join_part_def join_ok_def cong: option.case_cong)

lemma update_part_ok:
  assumes "update_part a' = update_part a"
  shows "update_ok K digest a' = update_ok K digest a" "report_ok a' = report_ok a"
  using assms by (auto simp: update_part_def update_ok_def report_ok_def file_ahead_def agent_status_def cong: option.case_cong)

lemma update_effect:
  assumes ok: "update_ok K digest a" "report_ok a" and t: "\<And>x. inp = Some x \<Longrightarrow> expected_typed x"
    and run: "Server_update K digest E inp a = (r, a')"
  shows "report_ok a' \<and> agent_ev a a' \<and> join_part a' = join_part a"
proof (cases "\<exists>x. inp = Some x \<and> ue_deadline E \<and> validateExpected K x")
  case True
  then obtain x0 where x0: "inp = Some x0" "ue_deadline E" "validateExpected K x0" by blast
  let ?x = "normalize_secret K x0"
  have v: "0 \<le> eh_Revision ?x"
    using normalize_valid [OF t [OF x0(1)] x0(3)] t [OF x0(1)] by (simp add: expected_typed_def in_u64_def)
  have "locked_update digest E ?x a = (r, a')" using run x0 by (simp add: Server_update_def)
  then have "a' = a \<or> \<not> revision_conflict digest ?x (sd_saved a) \<and> accept_update digest E ?x a = (r, a')"
    unfolding locked_update_def by (auto split: if_splits)
  then show ?thesis using ok accept_update_report [OF ok v] by (auto simp: agent_ev_def)
next
  case False
  then have "a' = a" using run by (auto simp: Server_update_def split: if_splits option.splits)
  then show ?thesis using ok by (simp add: agent_ev_def)
qed

lemma run_join_part: "run_join E q a = (r, a') \<Longrightarrow> update_part a' = update_part a \<and> prefix (sd_joinLog a) (sd_joinLog a')"
  unfolding run_join_def Let_def by (auto simp: update_part_def split: if_splits)

lemma locked_join_part:
  assumes "locked_join fingerprint E q a = (r, a')"
  shows "update_part a' = update_part a \<and> prefix (sd_joinLog a) (sd_joinLog a')"
proof (cases "\<not> join_conflict fingerprint q (sd_join a) \<and> je_supported E \<and> je_persist E = Written")
  case True
  then have r: "run_join E q (a\<lparr>sd_join := (begin_join fingerprint q (sd_join a))\<lparr>js_Fence := cj_Fence q, js_Outcome := ''applying''\<rparr>,
      sd_joinFile := Some ((begin_join fingerprint q (sd_join a))\<lparr>js_Fence := cj_Fence q, js_Outcome := ''applying''\<rparr>)\<rparr>) = (r, a')"
    using assms unfolding locked_join_def Let_def by simp
  show ?thesis using run_join_part [OF r] by (simp add: update_part_def)
next
  case False
  then show ?thesis using assms unfolding locked_join_def Let_def by (auto simp: update_part_def split: if_splits)
qed

lemma join_effect:
  assumes run: "clusterJoin sha256 K fingerprint E inp a = (r, a')"
  shows "update_part a' = update_part a \<and> prefix (sd_joinLog a) (sd_joinLog a')"
proof (cases "\<exists>q. inp = Some q \<and> je_deadline E \<and> validateClusterJoin sha256 K q")
  case True
  then obtain q where q: "inp = Some q" "je_deadline E" "validateClusterJoin sha256 K q" by blast
  then have "locked_join fingerprint E q a = (r, a')" using run by (simp add: clusterJoin_def)
  then show ?thesis by (rule locked_join_part)
qed (use run in \<open>auto simp: clusterJoin_def split: if_splits option.splits\<close>)

section \<open>Restarts\<close>

lemma reload_state_good:
  assumes "state_good K digest f"
  shows "reload_state K digest (Some f) = Inr (if ss_Outcome f = ''applying'' then f\<lparr>ss_Outcome := ''interrupted''\<rparr> else f)"
  using assms by (auto simp: reload_state_def state_good_def)

lemma reload_join_good: "validateJoinState sha256 K j \<Longrightarrow>
   reload_join sha256 K (Some j) = Some (if js_Outcome j = ''applying'' then j\<lparr>js_Outcome := ''interrupted''\<rparr> else j)"
  by (simp add: reload_join_def)

definition agent_ok :: "(string \<Rightarrow> string) \<Rightarrow> k8s_validation \<Rightarrow> (ExpectedHostState \<Rightarrow> string) \<Rightarrow> (ClusterJoinRequest \<Rightarrow> string) \<Rightarrow> agent \<Rightarrow> bool" where
  "agent_ok sha256 K digest fingerprint a \<longleftrightarrow> update_ok K digest a \<and> join_ok sha256 K fingerprint a \<and> report_ok a"

text \<open>What a restart reads is what the file holds, with an unfinished outcome marked as interrupted.\<close>

lemma restart_succeeds:
  assumes "agent_ok sha256 K digest fingerprint a"
  obtains s j where "reload_state K digest (sd_file a) = Inr s" "reload_join sha256 K (sd_joinFile a) = Some j"
    "restart sha256 K digest process a = Inr (publish (a\<lparr>sd_process := process, sd_saved := s, sd_join := j\<rparr>))"
proof -
  have "\<exists>s. reload_state K digest (sd_file a) = Inr s"
    using assms reload_state_good [of K digest] by (cases "sd_file a") (auto simp: agent_ok_def update_ok_def reload_state_def)
  moreover have "reload_join sha256 K (sd_joinFile a) \<noteq> None"
    using assms reload_join_good by (cases "sd_joinFile a") (auto simp: agent_ok_def join_ok_def reload_join_def)
  ultimately show thesis using that by (auto simp: restart_def)
qed

lemma reload_keeps_saved:
  assumes u: "update_ok K digest a" "report_ok a" and r: "reload_state K digest (sd_file a) = Inr s"
    and b_def: "b = publish (a\<lparr>sd_process := process, sd_saved := s, sd_join := j\<rparr>)"
  shows "update_ok K digest b" "report_ok b" "agent_ev a b"
proof -
  have "update_ok K digest b \<and> report_ok b \<and> agent_ev a b"
  proof (cases "sd_file a")
    case None
    then have "s = zero_saved" "sd_saved a = zero_saved" "sd_log a = []"
      using r u by (simp_all add: reload_state_def report_ok_def file_ahead_def update_ok_def)
    then show ?thesis using u None
      by (simp add: b_def update_ok_def report_ok_def file_ahead_def publish_view agent_ev_def)
  next
    case (Some f)
    have g: "state_good K digest f" "state_covers digest f (sd_log a)" using u Some by (simp_all add: update_ok_def)
    then have s: "s = (if ss_Outcome f = ''applying'' then f\<lparr>ss_Outcome := ''interrupted''\<rparr> else f)"
      using r Some reload_state_good by simp
    have "state_good K digest s" "state_covers digest s (sd_log a)" using g by (auto simp: s state_good_def state_covers_def)
    moreover have "applied_true s (sd_log a)" "applied_true f (sd_log a)"
      using u Some by (simp_all add: s report_ok_def applied_true_def)
    ultimately show ?thesis using u Some g
      by (simp add: b_def update_ok_def report_ok_def file_ahead_def publish_view agent_ev_def) (simp add: s)
  qed
  then show "update_ok K digest b" "report_ok b" "agent_ev a b" by blast+
qed

lemma reload_keeps_join:
  assumes u: "join_ok sha256 K fingerprint a" and r: "reload_join sha256 K (sd_joinFile a) = Some j"
  shows "join_ok sha256 K fingerprint (publish (a\<lparr>sd_process := process, sd_saved := s, sd_join := j\<rparr>))"
proof (cases "sd_joinFile a")
  case None
  then have "j = zero_join" using r by (simp add: reload_join_def)
  then show ?thesis using u None by (simp add: join_ok_def)
next
  case (Some f)
  have v: "validateJoinState sha256 K f" "join_covers fingerprint f (sd_joinLog a)" using u Some by (simp_all add: join_ok_def)
  then have j: "j = (if js_Outcome f = ''applying'' then f\<lparr>js_Outcome := ''interrupted''\<rparr> else f)"
    using r Some reload_join_good by simp
  have "validateJoinState sha256 K j" using v(1) unfolding j by (cases "js_Outcome f = ''applying''") (simp_all add: validateJoinState_def split: if_splits)
  then show ?thesis using u Some v by (simp add: join_ok_def) (simp add: j)
qed

section \<open>Runs of an agent\<close>

text \<open>
  One request of any peer, or a restart of the process.  A crash in the middle of a request is a
  request with a failed write followed by a restart: the memory is lost either way.
\<close>

definition route_typed :: "agent_route \<Rightarrow> bool" where
  "route_typed rt = (case rt of Put_expected E (Some x) \<Rightarrow> expected_typed x | _ \<Rightarrow> True)"

inductive agent_step ::
    "(string \<Rightarrow> string) \<Rightarrow> k8s_validation \<Rightarrow> (ExpectedHostState \<Rightarrow> string) \<Rightarrow> (ClusterJoinRequest \<Rightarrow> string)
     \<Rightarrow> string \<times> string list \<Rightarrow> agent \<Rightarrow> agent \<Rightarrow> bool"
  for sha256 K digest fingerprint cfg where
  served: "agent_handler sha256 K digest fingerprint cfg p rt a = (r, a') \<Longrightarrow> route_typed rt
     \<Longrightarrow> agent_step sha256 K digest fingerprint cfg a a'"
| restarted: "restart sha256 K digest process a = Inr a' \<Longrightarrow> agent_step sha256 K digest fingerprint cfg a a'"

text \<open>Only the writer, on a route that writes, changes anything.\<close>

lemma handler_unchanged:
  assumes "agent_handler sha256 K digest fingerprint cfg p rt a = (r, a')" "p \<noteq> Peer (fst cfg) \<or> route_get rt"
  shows "a' = a"
proof (cases rt)
  case (Put_expected E inp)
  then show ?thesis using assms by (auto simp: agent_handler_def peer_allowed_def split: peer.splits if_splits)
next
  case (Put_join E inp)
  then show ?thesis using assms by (auto simp: agent_handler_def peer_allowed_def split: peer.splits if_splits)
qed (use assms in \<open>auto simp: agent_handler_def split: peer.splits if_splits\<close>)

lemma handler_cases:
  assumes "agent_handler sha256 K digest fingerprint cfg p rt a = (r, a')"
  obtains (unchanged) "a' = a"
  | (update) E inp where "rt = Put_expected E inp" "Server_update K digest E inp a = (r, a')"
  | (join) E inp where "rt = Put_join E inp" "clusterJoin sha256 K fingerprint E inp a = (r, a')"
proof -
  have "a' = a \<or> serve_route sha256 K digest fingerprint rt a = (r, a')"
    using assms unfolding agent_handler_def by (auto split: peer.splits if_splits)
  then show thesis using that by (cases rt) auto
qed

lemma agent_step_keeps:
  assumes "agent_step sha256 K digest fingerprint cfg a b"
    and ok: "(\<forall>q. length (fingerprint q) = 64) \<and> agent_ok sha256 K digest fingerprint a"
  shows "agent_ev a b \<and> (\<forall>q. length (fingerprint q) = 64) \<and> agent_ok sha256 K digest fingerprint b"
  using assms(1)
proof cases
  case (served p rt r)
  have u: "update_ok K digest a" and j: "join_ok sha256 K fingerprint a" and rp: "report_ok a" and l: "\<And>q. length (fingerprint q) = 64"
    using ok by (simp_all add: agent_ok_def)
  show ?thesis using served(1)
  proof (cases rule: handler_cases)
    case unchanged
    then show ?thesis using ok by (simp add: agent_ev_def)
  next
    case (update E inp)
    have t: "expected_typed x" if "inp = Some x" for x using served(2) update(1) that by (simp add: route_typed_def)
    note e = update_effect [OF u rp t update(2)]
    show ?thesis using e update_keeps [OF u t update(2)] join_part_ok [of b a sha256 K fingerprint] j ok
      by (auto simp: agent_ok_def)
  next
    case (join E inp)
    note e = join_effect [OF join(2)]
    have "agent_ev a b" using e by (simp add: agent_ev_def update_part_def)
    then show ?thesis using e update_part_ok [of b a] join_keeps [OF j l join(2)] u rp ok
      by (auto simp: agent_ok_def)
  qed
next
  case (restarted process)
  obtain s j where r: "reload_state K digest (sd_file a) = Inr s" "reload_join sha256 K (sd_joinFile a) = Some j"
    "b = publish (a\<lparr>sd_process := process, sd_saved := s, sd_join := j\<rparr>)"
    by (rule restart_succeeds [of sha256 K digest fingerprint a process]) (use ok restarted in auto)
  show ?thesis using reload_keeps_saved [OF _ _ r(1,3)] reload_keeps_join [OF _ r(2), of fingerprint s process] ok r(3)
    by (simp add: agent_ok_def)
qed

interpretation ag: step_system "agent_step sha256 K digest fingerprint cfg"
    "\<lambda>a. (\<forall>q. length (fingerprint q) = 64) \<and> agent_ok sha256 K digest fingerprint a" agent_ev
  for sha256 K digest fingerprint cfg
proof
  fix s t u :: agent
  show "agent_step sha256 K digest fingerprint cfg s t \<Longrightarrow> (\<forall>q. length (fingerprint q) = 64) \<and> agent_ok sha256 K digest fingerprint s
      \<Longrightarrow> agent_ev s t \<and> (\<forall>q. length (fingerprint q) = 64) \<and> agent_ok sha256 K digest fingerprint t"
    by (rule agent_step_keeps)
  show "agent_ev s s" by (simp add: agent_ev_def)
  show "agent_ev s t \<Longrightarrow> agent_ev t u \<Longrightarrow> agent_ev s u" by (auto simp: agent_ev_def)
qed

lemma new_agent_ok: "agent_ok sha256 K digest fingerprint (new_agent identity process)"
  by (simp add: agent_ok_def update_ok_def join_ok_def report_ok_def new_agent_def publish_view file_ahead_def
      state_covers_def log_ordered_def applied_true_def zero_saved_def)

lemma agent_reachable_ok:
  assumes "(agent_step sha256 K digest fingerprint cfg)\<^sup>*\<^sup>* (new_agent identity process) a" "\<forall>q. length (fingerprint q) = 64"
  shows "agent_ok sha256 K digest fingerprint a"
  using ag.run_inv [OF assms(1)] assms(2) new_agent_ok by blast

end
