(* ===== verification/HostOperations.thy ===== *)
theory HostOperations
  imports CapacityTarget HostAgentRuns
begin

text \<open>
  Host operations: the private calls of \<open>src/internal/hostrpc/http.go\<close>, the zone Dominator's
  controller and its store (\<open>src/internal/hostoperations/controller.go\<close>, \<open>store.go\<close>) and the two
  handlers of \<open>http.go\<close>.  The world behind a private call is a type variable: a transport takes a
  message and returns a reply and the next world.  The rows of \<open>host_state_requests\<close> are a list.
\<close>

section \<open>Private calls (hostrpc/http.go)\<close>

datatype agent_msg = Msg_health | Msg_expected ExpectedHostState

text \<open>What comes back: nothing, a JSON status, a JSON body that does not decode, another body.\<close>

datatype wire = No_reply | Wire_status int HostAgentStatus | Wire_garbled int | Wire_text int

type_synonym 'w transport = "string \<Rightarrow> string \<Rightarrow> agent_msg \<Rightarrow> 'w \<Rightarrow> wire \<times> 'w"

definition private_destination :: "string \<Rightarrow> bool" where
  "private_destination endpoint =
     (case url_parse endpoint of
        None \<Rightarrow> False
      | Some u \<Rightarrow> u_scheme u = ''https'' \<and> u_host u \<noteq> [] \<and> \<not> u_user u \<and> u_rawquery u = [] \<and> u_fragment u = []
          \<and> (u_path u = [] \<or> u_path u = ''/''))"

text \<open>
  Decoding over an earlier status: the fields that a status without them leaves out keep their value.
\<close>

definition status_over :: "HostAgentStatus \<Rightarrow> HostAgentStatus \<Rightarrow> HostAgentStatus" where
  "status_over old new = new\<lparr>ha_ExpectedVersion := (if ha_ExpectedVersion new = [] then ha_ExpectedVersion old else ha_ExpectedVersion new),
     ha_Kubernetes := (case ha_Kubernetes new of None \<Rightarrow> ha_Kubernetes old | Some k \<Rightarrow> Some k)\<rparr>"

definition Client_call ::
    "(string \<Rightarrow> bool) \<Rightarrow> 'w transport \<Rightarrow> string \<Rightarrow> string \<Rightarrow> agent_msg \<Rightarrow> HostAgentStatus \<Rightarrow> 'w \<Rightarrow> (int \<times> HostAgentStatus) option \<times> 'w" where
  "Client_call spiffe_id net endpoint identity m out w =
     (if \<not> private_destination endpoint \<or> \<not> spiffe_id identity then (None, w)
      else case net endpoint identity m w of
          (No_reply, w') \<Rightarrow> (None, w')
        | (Wire_status code st, w') \<Rightarrow> (Some (code, status_over out st), w')
        | (Wire_garbled code, w') \<Rightarrow> (None, w')
        | (Wire_text code, w') \<Rightarrow> (if code = 200 then None else Some (code, out), w'))"

definition zero_status :: HostAgentStatus where
  "zero_status = \<lparr>ha_Identity = [], ha_PID = 0, ha_InvocationID = [], ha_Ready = False, ha_AcceptedRevision = 0,
     ha_AppliedRevision = 0, ha_Outcome = [], ha_ExpectedVersion = [], ha_Kubernetes = None\<rparr>"

section \<open>The store (store.go)\<close>

record HostTarget =
  tg_HostID :: string
  tg_ZoneID :: string
  tg_ClusterID :: string
  tg_ProviderID :: string
  tg_Endpoint :: string
  tg_DominatorEndpoint :: string
  tg_DominatorIdentity :: string

record SecretResult =
  rs_Error :: string
  rs_HostID :: string
  rs_ZoneID :: string
  rs_RequestID :: string
  rs_Revision :: int
  rs_Outcome :: string
  rs_Kubernetes :: "KubernetesResult option"

record state_request =
  hr_host_id :: string
  hr_request_id :: string
  hr_fingerprint :: string
  hr_revision :: int
  hr_outcome :: string
  hr_result :: "SecretResult option"

type_synonym op_failure = "int \<times> string"

record 'w ops =
  op_db :: db
  op_requests :: "state_request list"
  op_net :: 'w

definition unavailable_states :: "HostState list" where
  "unavailable_states = [HostDraining, HostTerminating, HostTerminated, HostFailed]"

definition loadTarget :: "bool \<Rightarrow> bool \<Rightarrow> db \<Rightarrow> string \<Rightarrow> op_failure + HostTarget" where
  "loadTarget catalog_ok dominator_ok db host =
     (if \<not> catalog_ok then Inl (503, ''host catalog unavailable'')
      else case find (\<lambda>h. h_id h = host) (hosts db) of
          None \<Rightarrow> Inl (404, ''host not found'')
        | Some h \<Rightarrow>
            (let g = find (\<lambda>g. h_node_group_id h = Some (g_id g) \<and> h_crane_zone h = Some (g_zone_id g)) (node_groups db);
                 m = (case g of None \<Rightarrow> None
                      | Some g \<Rightarrow> find (\<lambda>m. m_cluster_id m = g_cluster_id g \<and> m_zone_id m = g_zone_id g) (cluster_zones db));
                 cluster = (case g of None \<Rightarrow> [] | Some g \<Rightarrow> g_cluster_id g);
                 zone = (case h_crane_zone h of Some z \<Rightarrow> z | None \<Rightarrow> coalesce (h_zone h)) in
             if h_state h \<in> set unavailable_states \<or> coalesce (h_providerid h) = [] \<or> h_subd_endpoint h = []
             then Inl (409, ''host unavailable for expected-state changes'')
             else if cluster \<noteq> [] \<and> (case m of None \<Rightarrow> True
                    | Some m \<Rightarrow> m_lifecycle_state m \<noteq> ''ready'' \<or> m_access_state m \<noteq> ''approved'')
             then Inl (403, ''cluster-zone membership does not authorize host state changes'')
             else if \<not> dominator_ok then Inl (503, ''zone Dominator unavailable'')
             else case find (\<lambda>d. d_zone_id d = zone) (zone_dominators db) of
                 None \<Rightarrow> Inl (503, ''zone Dominator unavailable'')
               | Some d \<Rightarrow> Inr \<lparr>tg_HostID = host, tg_ZoneID = zone, tg_ClusterID = cluster,
                   tg_ProviderID = coalesce (h_providerid h), tg_Endpoint = h_subd_endpoint h,
                   tg_DominatorEndpoint = d_endpoint d, tg_DominatorIdentity = d_identity d\<rparr>))"

text \<open>
  \<open>lock\<close>: the advisory lock is polled until it is held; each poll fails (with the deadline passed or
  not), finds the lock taken and waits, or finds it taken and the deadline passes.  The deadline ends
  the loop.
\<close>

datatype poll = Poll_failed bool | Poll_busy | Poll_expired | Poll_locked

text \<open>A connection that is not available ends it at once.\<close>

fun poll_lock :: "poll list \<Rightarrow> op_failure option" where
  "poll_lock [] = Some (504, ''host operation deadline exceeded'')"
| "poll_lock (Poll_failed True # ps) = Some (504, ''host operation deadline exceeded'')"
| "poll_lock (Poll_failed False # ps) = Some (503, ''cannot acquire host operation ownership'')"
| "poll_lock (Poll_busy # ps) = poll_lock ps"
| "poll_lock (Poll_expired # ps) = Some (504, ''host operation deadline exceeded'')"
| "poll_lock (Poll_locked # ps) = None"

definition store_lock :: "bool option \<Rightarrow> poll list \<Rightarrow> op_failure option" where
  "store_lock connect polls =
     (case connect of
        Some expired \<Rightarrow> Some (if expired then (504, ''host operation deadline exceeded'') else (503, ''operation store unavailable''))
      | None \<Rightarrow> poll_lock polls)"

definition lookup_request :: "state_request list \<Rightarrow> string \<Rightarrow> string \<Rightarrow> state_request option" where
  "lookup_request rs host req = find (\<lambda>r. hr_host_id r = host \<and> hr_request_id r = req) rs"

definition max_revision :: "state_request list \<Rightarrow> string \<Rightarrow> int" where
  "max_revision rs host = Max (set (0 # map hr_revision (filter (\<lambda>r. hr_host_id r = host) rs)))"

text \<open>The constraints of the table: the two keys, and a positive revision.\<close>

definition insert_state_request :: "state_request \<Rightarrow> state_request list \<Rightarrow> state_request list option" where
  "insert_state_request r rs =
     (if hr_revision r \<le> 0
         \<or> list_ex (\<lambda>q. hr_host_id q = hr_host_id r \<and> (hr_request_id q = hr_request_id r \<or> hr_revision q = hr_revision r)) rs
      then None else Some (rs @ [r]))"

definition complete_request :: "string \<Rightarrow> string \<Rightarrow> SecretResult \<Rightarrow> state_request list \<Rightarrow> state_request list" where
  "complete_request host req res =
     map (\<lambda>r. if hr_host_id r = host \<and> hr_request_id r = req then r\<lparr>hr_outcome := rs_Outcome res, hr_result := Some res\<rparr> else r)"

definition set_observability :: "string \<Rightarrow> string \<Rightarrow> db \<Rightarrow> db" where
  "set_observability zone st db = db\<lparr>zone_dominators :=
     map (\<lambda>d. if d_zone_id d = zone then d\<lparr>d_observability_status := st\<rparr> else d) (zone_dominators db)\<rparr>"

section \<open>The controller (controller.go)\<close>

record Controller =
  ct_ZoneID :: string
  ct_TrustDomain :: string
  ct_OwnIdentity :: string

text \<open>What the store answers during one call, and whether the caller's deadline has passed at its end.\<close>

record exec_env =
  ee_connect :: "bool option"
  ee_polls :: "poll list"
  ee_catalog :: bool
  ee_dominator :: bool
  ee_lookup :: bool
  ee_maximum :: bool
  ee_insert :: persist
  ee_observability :: bool
  ee_complete :: persist
  ee_expired :: bool

type_synonym 'w exec_result = "(SecretResult \<times> op_failure option) \<times> 'w ops"

definition rollout_reported :: "KubernetesSecret \<Rightarrow> KubernetesResult \<Rightarrow> bool" where
  "rollout_reported s k \<longleftrightarrow> (ks_RolloutDeployment s = [] \<and> kr_Rollout k = ''not_requested'')
     \<or> (ks_RolloutDeployment s \<noteq> [] \<and> kr_Rollout k = ''ready'')"

text \<open>What the reply to the update says of the operation.\<close>

definition read_outcome :: "string \<Rightarrow> KubernetesSecret \<Rightarrow> (int \<times> HostAgentStatus) option \<Rightarrow> SecretResult \<Rightarrow> SecretResult" where
  "read_outcome peer s reply res0 =
     (let res = res0\<lparr>rs_Outcome := ''unknown''\<rparr> in
      case reply of
        None \<Rightarrow> res
      | Some (code, st) \<Rightarrow>
          if ha_Identity st = peer \<and> ha_AcceptedRevision st = rs_Revision res
          then (let r1 = res\<lparr>rs_Kubernetes := ha_Kubernetes st, rs_Outcome := (if ha_Outcome st = ''failed'' then ''failed'' else ''unknown'')\<rparr> in
            if code = 200 \<and> ha_Outcome st = ''applied'' \<and> ha_AppliedRevision st = rs_Revision res
               \<and> (case ha_Kubernetes st of None \<Rightarrow> False | Some k \<Rightarrow> kr_Secret k = ''verified'' \<and> rollout_reported s k)
            then r1\<lparr>rs_Outcome := ''applied''\<rparr> else r1)
          else res)"

text \<open>The completion transaction, which ignores the caller's deadline, and the reply.\<close>

definition observability_secret :: "KubernetesSecret \<Rightarrow> bool" where
  "observability_secret s \<longleftrightarrow> ks_Namespace s = ''crane-system'' \<and> ks_Name s = ''otel-exporter-config''
     \<and> ks_RolloutDeployment s = ''otel-collector''"

definition completed :: "HostTarget \<Rightarrow> SecretRequest \<Rightarrow> SecretResult \<Rightarrow> 'w ops \<Rightarrow> 'w ops" where
  "completed t q res W = W\<lparr>op_requests := complete_request (tg_HostID t) (sr_RequestID q) res (op_requests W),
     op_db := (if observability_secret (sr_Secret q)
               then set_observability (tg_ZoneID t) (if rs_Outcome res = ''applied'' then ''ready'' else ''failed'') (op_db W)
               else op_db W)\<rparr>"

definition Execute_complete :: "exec_env \<Rightarrow> HostTarget \<Rightarrow> SecretRequest \<Rightarrow> SecretResult \<Rightarrow> 'w ops \<Rightarrow> 'w exec_result" where
  "Execute_complete E t q res W =
     (if ee_complete E \<noteq> Unwritten \<and> observability_secret (sr_Secret q) \<and> \<not> ee_observability E
      then ((res, Some (503, ''cannot persist observability status'')), W)
      else if ee_complete E = Unwritten
      then ((res, Some (503, ''cannot persist host outcome; retry the same request ID'')), W)
      else if ee_complete E = Unsynced
      then ((res, Some (503, ''cannot persist host outcome; retry the same request ID'')), completed t q res W)
      else if rs_Outcome res \<noteq> ''applied''
      then ((res, Some (if ee_expired E then (504, ''operation deadline exceeded; completion may be unknown'')
                        else (502, ''host operation did not complete; retry the same request ID''))), completed t q res W)
      else ((res, None), completed t q res W))"

text \<open>The update is sent to the host, with the request's revision.\<close>

definition secret_state :: "int \<Rightarrow> KubernetesSecret \<Rightarrow> ExpectedHostState" where
  "secret_state n s = \<lparr>eh_Revision = n, eh_ImageID = [], eh_Track = [], eh_Version = [], eh_Services = [], eh_Packages = [],
     eh_Secret = Some s\<rparr>"

definition Execute_send ::
    "(string \<Rightarrow> bool) \<Rightarrow> 'w transport \<Rightarrow> exec_env \<Rightarrow> HostTarget \<Rightarrow> string \<Rightarrow> SecretRequest \<Rightarrow> HostAgentStatus \<Rightarrow> SecretResult \<Rightarrow> 'w ops \<Rightarrow> 'w exec_result" where
  "Execute_send spiffe_id net E t peer q st res W =
     (let x = secret_state (rs_Revision res) (sr_Secret q);
          (reply, w) = Client_call spiffe_id net (tg_Endpoint t) peer (Msg_expected x) st (op_net W);
          W1 = W\<lparr>op_net := w\<rparr>;
          r1 = read_outcome peer (sr_Secret q) reply res in
      case reply of
        Some (code, _) \<Rightarrow> if code = 409 then ((r1, Some (409, ''host revision conflict'')), W1) else Execute_complete E t q r1 W1
      | None \<Rightarrow> Execute_complete E t q r1 W1)"

definition MaxInt64 :: int where
  "MaxInt64 = 9223372036854775807"

text \<open>A new request gets a revision above all earlier ones of the host and above what the host has accepted.\<close>

definition Execute_allocate ::
    "(string \<Rightarrow> bool) \<Rightarrow> 'w transport \<Rightarrow> exec_env \<Rightarrow> HostTarget \<Rightarrow> string \<Rightarrow> string \<Rightarrow> SecretRequest \<Rightarrow> HostAgentStatus \<Rightarrow> SecretResult \<Rightarrow> 'w ops
     \<Rightarrow> 'w exec_result" where
  "Execute_allocate spiffe_id net E t peer fp q st res W =
     (let m = max (max_revision (op_requests W) (tg_HostID t)) (ha_AcceptedRevision st);
          r1 = res\<lparr>rs_Revision := m + 1\<rparr>;
          row = \<lparr>hr_host_id = tg_HostID t, hr_request_id = sr_RequestID q, hr_fingerprint = fp, hr_revision = m + 1,
                 hr_outcome = ''pending'', hr_result = None\<rparr> in
      if \<not> ee_maximum E then ((res, Some (503, ''operation store unavailable'')), W)
      else if m \<ge> MaxInt64 then ((res, Some (409, ''host revision exhausted'')), W)
      else case insert_state_request row (op_requests W) of
          None \<Rightarrow> ((r1, Some (503, ''cannot persist host operation'')), W)
        | Some rs \<Rightarrow>
            (case ee_insert E of
               Unwritten \<Rightarrow> ((r1, Some (503, ''cannot persist host operation'')), W)
             | Unsynced \<Rightarrow> ((r1, Some (503, ''cannot persist host operation'')), W\<lparr>op_requests := rs\<rparr>)
             | Written \<Rightarrow> Execute_send spiffe_id net E t peer q st r1 (W\<lparr>op_requests := rs\<rparr>)))"

definition Execute_host ::
    "(string \<Rightarrow> bool) \<Rightarrow> 'w transport \<Rightarrow> exec_env \<Rightarrow> HostTarget \<Rightarrow> string \<Rightarrow> string \<Rightarrow> SecretRequest \<Rightarrow> state_request option \<Rightarrow> SecretResult \<Rightarrow> 'w ops
     \<Rightarrow> 'w exec_result" where
  "Execute_host spiffe_id net E t peer fp q row res W =
     (let (reply, w) = Client_call spiffe_id net (tg_Endpoint t) peer Msg_health zero_status (op_net W);
          W1 = W\<lparr>op_net := w\<rparr> in
      case reply of
        None \<Rightarrow> ((res, Some (502, ''host state unavailable; completion may be unknown'')), W1)
      | Some (code, st) \<Rightarrow>
          if code \<noteq> 200 \<or> ha_Identity st \<noteq> peer \<or> \<not> ha_Ready st
          then ((res, Some (502, ''host state unavailable; completion may be unknown'')), W1)
          else case row of
              Some _ \<Rightarrow> if ha_AcceptedRevision st > rs_Revision res
                         then ((res, Some (409, ''host operation has been superseded'')), W1)
                         else Execute_send spiffe_id net E t peer q st res W1
            | None \<Rightarrow> Execute_allocate spiffe_id net E t peer fp q st res W1)"

text \<open>Under the lock: the request's row decides between a replay, a conflict and a call of the host.\<close>

definition Execute_locked ::
    "(string \<Rightarrow> bool) \<Rightarrow> (KubernetesSecret \<Rightarrow> string) \<Rightarrow> 'w transport \<Rightarrow> exec_env \<Rightarrow> HostTarget \<Rightarrow> string \<Rightarrow> SecretRequest \<Rightarrow> SecretResult \<Rightarrow> 'w ops
     \<Rightarrow> 'w exec_result" where
  "Execute_locked spiffe_id SecretFingerprint net E t peer q res W =
     (let fp = SecretFingerprint (sr_Secret q) in
      if \<not> ee_lookup E then ((res, Some (503, ''operation store unavailable'')), W)
      else case lookup_request (op_requests W) (tg_HostID t) (sr_RequestID q) of
          None \<Rightarrow> Execute_host spiffe_id net E t peer fp q None res W
        | Some r \<Rightarrow>
            (let r1 = res\<lparr>rs_Revision := hr_revision r\<rparr> in
             if hr_fingerprint r \<noteq> fp then ((r1, Some (409, ''request ID already used with different contents'')), W)
             else if hr_outcome r = ''applied''
             then (case hr_result r of
                     None \<Rightarrow> ((r1, Some (503, ''saved operation outcome unavailable'')), W)
                   | Some saved \<Rightarrow> ((saved, None), W))
             else Execute_host spiffe_id net E t peer fp q (Some r) r1 W))"

definition Execute ::
    "k8s_validation \<Rightarrow> (string \<Rightarrow> bool) \<Rightarrow> (string \<Rightarrow> string \<Rightarrow> string option) \<Rightarrow> (KubernetesSecret \<Rightarrow> string) \<Rightarrow> 'w transport
     \<Rightarrow> Controller \<Rightarrow> exec_env \<Rightarrow> string \<Rightarrow> SecretRequest \<Rightarrow> 'w ops \<Rightarrow> 'w exec_result" where
  "Execute K spiffe_id FromPath SecretFingerprint net C E host q0 W =
     (let res0 = \<lparr>rs_Error = [], rs_HostID = host, rs_ZoneID = [], rs_RequestID = sr_RequestID q0, rs_Revision = 0,
                  rs_Outcome = ''unknown'', rs_Kubernetes = None\<rparr> in
      case SecretRequest_Normalize K q0 of
        Inl _ \<Rightarrow> ((res0, Some (400, ''invalid Secret request'')), W)
      | Inr q \<Rightarrow>
          (case store_lock (ee_connect E) (ee_polls E) of
             Some e \<Rightarrow> ((res0, Some e), W)
           | None \<Rightarrow>
               (case loadTarget (ee_catalog E) (ee_dominator E) (op_db W) host of
                  Inl e \<Rightarrow> ((res0, Some e), W)
                | Inr t \<Rightarrow>
                    (let res = res0\<lparr>rs_ZoneID := tg_ZoneID t\<rparr> in
                     if ct_ZoneID C = [] \<or> tg_ZoneID t \<noteq> ct_ZoneID C \<or> tg_DominatorIdentity t \<noteq> ct_OwnIdentity C
                     then ((res, Some (403, ''host is not owned by this Dominator'')), W)
                     else case FromPath (ct_TrustDomain C) (''/subd/'' @ tg_ProviderID t) of
                         None \<Rightarrow> ((res, Some (503, ''host identity unavailable'')), W)
                       | Some peer \<Rightarrow> Execute_locked spiffe_id SecretFingerprint net E t peer q res W))))"

section \<open>Handlers (http.go)\<close>

datatype op_reply = Op_text int string | Op_result int SecretResult

text \<open>The Dominator's route: only the API's workload, with a decoded delivery.\<close>

definition Controller_handler ::
    "(string \<Rightarrow> SecretRequest \<Rightarrow> 'w ops \<Rightarrow> 'w exec_result) \<Rightarrow> string \<Rightarrow> string \<Rightarrow> bool \<Rightarrow> (string \<times> SecretRequest) option
     \<Rightarrow> 'w ops \<Rightarrow> op_reply \<times> 'w ops" where
  "Controller_handler execute apiIdentity peer deadline body W =
     (if peer \<noteq> apiIdentity \<or> apiIdentity = [] then (Op_text 403 ''forbidden'', W)
      else if \<not> deadline then (Op_text 400 ''invalid operation deadline'', W)
      else case body of
          None \<Rightarrow> (Op_text 400 ''invalid request'', W)
        | Some (host, q) \<Rightarrow>
            if host = [] then (Op_text 400 ''host required'', W)
            else (case execute host q W of
                ((res, None), W') \<Rightarrow> (Op_result 200 res, W')
              | ((res, Some (code, msg)), W') \<Rightarrow> (Op_result code (res\<lparr>rs_Error := msg\<rparr>), W')))"

record api_request =
  ar_Authorization :: string
  ar_deadline :: bool
  ar_body :: "SecretRequest option"
  ar_hostID :: string
  ar_namespace :: string
  ar_name :: string
  ar_target :: "bool \<times> bool"
  ar_expired :: bool

definition zero_secret_result :: SecretResult where
  "zero_secret_result = \<lparr>rs_Error = [], rs_HostID = [], rs_ZoneID = [], rs_RequestID = [], rs_Revision = 0, rs_Outcome = [], rs_Kubernetes = None\<rparr>"

text \<open>
  The public route: the administrator's token, the path's names, then a private call of the zone's
  Dominator.  \<open>dominator\<close> stands for that call, whose result is decoded over a zero value.
\<close>

definition forwarded :: "int \<Rightarrow> int" where
  "forwarded code = (if code \<in> {200, 400, 403, 404, 409, 502, 503, 504} then code else 502)"

definition API_ServeHTTP ::
    "k8s_validation \<Rightarrow> (string \<Rightarrow> string \<Rightarrow> string \<times> SecretRequest \<Rightarrow> 'w ops \<Rightarrow> (int \<times> SecretResult) option \<times> 'w ops) \<Rightarrow> string
     \<Rightarrow> api_request \<Rightarrow> 'w ops \<Rightarrow> op_reply \<times> 'w ops" where
  "API_ServeHTTP K dominator AdminToken R W =
     (if AdminToken = [] \<or> ar_Authorization R \<noteq> ''Bearer '' @ AdminToken then (Op_text 401 ''unauthorized'', W)
      else if \<not> ar_deadline R then (Op_text 400 ''invalid operation deadline'', W)
      else case ar_body R of
          None \<Rightarrow> (Op_text 400 ''invalid request'', W)
        | Some q0 \<Rightarrow>
            (let s0 = sr_Secret q0 in
             if (ks_Namespace s0 \<noteq> [] \<and> ks_Namespace s0 \<noteq> ar_namespace R) \<or> (ks_Name s0 \<noteq> [] \<and> ks_Name s0 \<noteq> ar_name R)
             then (Op_text 400 ''resource identity conflicts with path'', W)
             else case SecretRequest_Normalize K (q0\<lparr>sr_Secret := s0\<lparr>ks_Namespace := ar_namespace R, ks_Name := ar_name R\<rparr>\<rparr>) of
                 Inl _ \<Rightarrow> (Op_text 400 ''invalid Secret request'', W)
               | Inr q \<Rightarrow>
                   (case loadTarget (fst (ar_target R)) (snd (ar_target R)) (op_db W) (ar_hostID R) of
                      Inl (code, msg) \<Rightarrow> (Op_text code msg, W)
                    | Inr t \<Rightarrow>
                        (case dominator (tg_DominatorEndpoint t) (tg_DominatorIdentity t) (tg_HostID t, q) W of
                           (None, W') \<Rightarrow> (if ar_expired R then Op_text 504 ''operation deadline exceeded; retry the same request ID''
                                          else Op_text 502 ''Dominator response unavailable; retry the same request ID'', W')
                         | (Some (code, res), W') \<Rightarrow>
                             if rs_HostID res \<noteq> tg_HostID t \<or> rs_ZoneID res \<noteq> tg_ZoneID t \<or> rs_RequestID res \<noteq> sr_RequestID q
                             then (if ar_expired R then Op_text 504 ''operation deadline exceeded; retry the same request ID''
                                   else Op_text 502 ''Dominator response unavailable; retry the same request ID'', W')
                             else (Op_result (forwarded code) res, W')))))"

section \<open>The host agent behind the transport\<close>

text \<open>What happens to a message: it does not arrive, its answer is lost, or it is answered.\<close>

datatype fate = Unreached | Lost | Answered

datatype agent_event = Ev_request peer agent_route | Ev_restart "int \<times> string"

text \<open>The environment of the two calls: their fates, what else happens to the agent between them, and the faults of the update.\<close>

record net_env =
  ne_health :: fate
  ne_between :: "agent_event list"
  ne_update :: fate
  ne_faults :: update_env

text \<open>The agent's parameters: digests, validation, the writer and the readers.\<close>

record agent_params =
  ap_sha256 :: "string \<Rightarrow> string"
  ap_K :: k8s_validation
  ap_digest :: "ExpectedHostState \<Rightarrow> string"
  ap_fingerprint :: "ClusterJoinRequest \<Rightarrow> string"
  ap_peers :: "string \<times> string list"

definition ask_agent :: "agent_params \<Rightarrow> peer \<Rightarrow> agent_route \<Rightarrow> agent \<Rightarrow> agent_reply \<times> agent" where
  "ask_agent P = agent_handler (ap_sha256 P) (ap_K P) (ap_digest P) (ap_fingerprint P) (ap_peers P)"

fun run_event :: "agent_params \<Rightarrow> agent_event \<Rightarrow> agent \<Rightarrow> agent" where
  "run_event P (Ev_request p rt) a = snd (ask_agent P p rt a)"
| "run_event P (Ev_restart process) a = (case restart (ap_sha256 P) (ap_K P) (ap_digest P) process a of Inl _ \<Rightarrow> a | Inr b \<Rightarrow> b)"

fun wire_of :: "agent_reply \<Rightarrow> wire" where
  "wire_of (Replied code st) = Wire_status code st"
| "wire_of (Failed code _) = Wire_text code"
| "wire_of (Joined code _) = Wire_garbled code"
| "wire_of (Membership code _) = Wire_garbled code"
| "wire_of (Collected code st) = Wire_status code st"

definition with_fate :: "fate \<Rightarrow> agent_reply \<times> agent \<Rightarrow> agent \<Rightarrow> wire \<times> agent" where
  "with_fate f r a = (case f of Unreached \<Rightarrow> (No_reply, a) | Lost \<Rightarrow> (No_reply, snd r) | Answered \<Rightarrow> (wire_of (fst r), snd r))"

text \<open>The transport pins the peer: only the agent with that identity is reached.\<close>

definition agent_net :: "agent_params \<Rightarrow> string \<Rightarrow> net_env \<Rightarrow> agent transport" where
  "agent_net P own N endpoint identity m a =
     (if identity \<noteq> sd_identity a then (No_reply, a)
      else case m of
          Msg_health \<Rightarrow>
            (let (w, b) = with_fate (ne_health N) (ask_agent P (Peer own) Get_health a) a in (w, fold (run_event P) (ne_between N) b))
        | Msg_expected x \<Rightarrow> with_fate (ne_update N) (ask_agent P (Peer own) (Put_expected (ne_faults N) (Some x)) a) a)"

section \<open>The Dominator behind the API\<close>

text \<open>
  The private call of the Dominator by the API's workload: its handler, unless the destination is not
  one, the request does not arrive or the answer is lost.  A reply that is no result leaves the zero
  value.
\<close>

definition call_dominator ::
    "(string \<Rightarrow> bool) \<Rightarrow> fate \<Rightarrow> string \<Rightarrow> (string \<Rightarrow> SecretRequest \<Rightarrow> 'w ops \<Rightarrow> 'w exec_result)
     \<Rightarrow> string \<Rightarrow> string \<Rightarrow> string \<times> SecretRequest \<Rightarrow> 'w ops \<Rightarrow> (int \<times> SecretResult) option \<times> 'w ops" where
  "call_dominator spiffe_id F apiIdentity execute endpoint identity body W =
     (if \<not> private_destination endpoint \<or> \<not> spiffe_id identity \<or> F = Unreached then (None, W)
      else (let (r, V) = Controller_handler execute apiIdentity apiIdentity True (Some body) W in
            if F = Lost then (None, V)
            else case r of
                Op_result code res \<Rightarrow> (Some (code, res), V)
              | Op_text code _ \<Rightarrow> (if code = 200 then None else Some (code, zero_secret_result), V)))"

end
