(* ===== verification/HostOperationsRuns.thy ===== *)
theory HostOperationsRuns
  imports HostOperations
begin

text \<open>
  Runs of host operations: the rows of the store and the agent of a host, with every fault of the
  store, the network and the agent.  The invariant ties a row that says applied to a call the agent
  made on its host.
\<close>

section \<open>The agent behind the transport\<close>

definition agent_rel :: "agent_params \<Rightarrow> agent \<Rightarrow> agent \<Rightarrow> bool" where
  "agent_rel P = agent_step (ap_sha256 P) (ap_K P) (ap_digest P) (ap_fingerprint P) (ap_peers P)"

definition params_ok :: "agent_params \<Rightarrow> agent \<Rightarrow> bool" where
  "params_ok P a \<longleftrightarrow> (\<forall>q. length (ap_fingerprint P q) = 64) \<and> agent_ok (ap_sha256 P) (ap_K P) (ap_digest P) (ap_fingerprint P) a"

definition event_typed :: "agent_event \<Rightarrow> bool" where
  "event_typed e = (case e of Ev_request p rt \<Rightarrow> route_typed rt | Ev_restart _ \<Rightarrow> True)"

definition msg_typed :: "agent_msg \<Rightarrow> bool" where
  "msg_typed m = (case m of Msg_health \<Rightarrow> True | Msg_expected x \<Rightarrow> expected_typed x)"

definition net_typed :: "net_env \<Rightarrow> bool" where
  "net_typed N = list_all event_typed (ne_between N)"

text \<open>A state that follows another, with the invariant.\<close>

definition agent_next :: "agent_params \<Rightarrow> agent \<Rightarrow> agent \<Rightarrow> bool" where
  "agent_next P a b \<longleftrightarrow> agent_ev a b \<and> params_ok P b"

lemma agent_next_refl: "params_ok P a \<Longrightarrow> agent_next P a a"
  by (simp add: agent_next_def agent_ev_def)

lemma agent_next_trans: "agent_next P a b \<Longrightarrow> agent_next P b c \<Longrightarrow> agent_next P a c"
  by (auto simp: agent_next_def agent_ev_def)

lemma agent_rel_next: "agent_rel P a b \<Longrightarrow> params_ok P a \<Longrightarrow> agent_next P a b"
  unfolding agent_rel_def params_ok_def agent_next_def by (rule agent_step_keeps)

lemma ask_agent_next:
  assumes "params_ok P a" "route_typed rt" "ask_agent P p rt a = (r, b)"
  shows "agent_next P a b"
  using assms agent_rel_next [OF _ assms(1), of b] served [of "ap_sha256 P" "ap_K P" "ap_digest P" "ap_fingerprint P" "ap_peers P" p rt a r b]
  unfolding agent_rel_def ask_agent_def by blast

lemma run_event_next:
  assumes "params_ok P a" "event_typed e"
  shows "agent_next P a (run_event P e a)"
proof (cases e)
  case (Ev_request p rt)
  then show ?thesis using ask_agent_next [OF assms(1), of rt p] assms(2)
    by (cases "ask_agent P p rt a") (simp add: event_typed_def)
next
  case (Ev_restart process)
  show ?thesis
  proof (cases "restart (ap_sha256 P) (ap_K P) (ap_digest P) process a")
    case (Inr b)
    then have "agent_rel P a b" unfolding agent_rel_def by (rule restarted)
    then show ?thesis using agent_rel_next [OF _ assms(1)] Ev_restart Inr by simp
  qed (use Ev_restart agent_next_refl [OF assms(1)] in simp)
qed

lemma run_events_next:
  "params_ok P a \<Longrightarrow> list_all event_typed es \<Longrightarrow> agent_next P a (fold (run_event P) es a)"
proof (induction es arbitrary: a)
  case (Cons e es)
  have "agent_next P a (run_event P e a)" using run_event_next Cons.prems by simp
  moreover from this have "agent_next P (run_event P e a) (fold (run_event P) es (run_event P e a))"
    using Cons.IH Cons.prems(2) by (simp add: agent_next_def)
  ultimately show ?case using agent_next_trans by simp
qed (simp add: agent_next_refl)

lemma with_fate_next:
  assumes "params_ok P a" "route_typed rt" "with_fate f (ask_agent P p rt a) a = (w, b)"
  shows "agent_next P a b"
proof -
  have "b = a \<or> b = snd (ask_agent P p rt a)" using assms(3) by (auto simp: with_fate_def split: fate.splits)
  then show ?thesis using ask_agent_next [OF assms(1,2), of p] agent_next_refl [OF assms(1)]
    by (cases "ask_agent P p rt a") auto
qed

lemma agent_net_next:
  assumes "params_ok P a" "net_typed N" "msg_typed m" "agent_net P own N endpoint identity m a = (w, b)"
  shows "agent_next P a b"
proof (cases "identity = sd_identity a")
  case True
  show ?thesis
  proof (cases m)
    case Msg_health
    obtain w0 b0 where b0: "with_fate (ne_health N) (ask_agent P (Peer own) Get_health a) a = (w0, b0)" by fastforce
    then have "agent_next P a b0" using with_fate_next [OF assms(1), of Get_health] by (simp add: route_typed_def)
    moreover from this have "agent_next P b0 (fold (run_event P) (ne_between N) b0)"
      using run_events_next assms(2) by (simp add: agent_next_def net_typed_def)
    moreover have "b = fold (run_event P) (ne_between N) b0" using assms(4) True Msg_health b0 by (simp add: agent_net_def)
    ultimately show ?thesis using agent_next_trans by blast
  next
    case (Msg_expected x)
    then have r: "with_fate (ne_update N) (ask_agent P (Peer own) (Put_expected (ne_faults N) (Some x)) a) a = (w, b)"
      using assms(4) True by (simp add: agent_net_def)
    show ?thesis by (rule with_fate_next [OF assms(1) _ r]) (use assms(3) Msg_expected in \<open>simp add: route_typed_def msg_typed_def\<close>)
  qed
next
  case False
  then show ?thesis using assms(1,4) agent_next_refl by (simp add: agent_net_def)
qed

lemma client_call_next:
  assumes "params_ok P a" "net_typed N" "msg_typed m" "Client_call spiffe_id (agent_net P own N) endpoint identity m out a = (reply, b)"
  shows "agent_next P a b"
proof (cases "private_destination endpoint \<and> spiffe_id identity")
  case True
  obtain w c where n: "agent_net P own N endpoint identity m a = (w, c)" by fastforce
  then have "b = c" using assms(4) True by (cases w) (simp_all add: Client_call_def)
  then show ?thesis using agent_net_next [OF assms(1-3) n] by simp
next
  case False
  then have "b = a" using assms(4) by (simp add: Client_call_def)
  then show ?thesis using agent_next_refl [OF assms(1)] by simp
qed

section \<open>What an answer proves\<close>

text \<open>The host was called with an update of this revision and this content, and the call succeeded.\<close>

definition applied_on :: "agent_params \<Rightarrow> agent \<Rightarrow> int \<Rightarrow> KubernetesSecret \<Rightarrow> bool" where
  "applied_on P a n s \<longleftrightarrow>
     list_ex (\<lambda>(y, ok). ok \<and> eh_Revision y = n \<and> ap_digest P y = ap_digest P (secret_state n s)) (sd_log a)"

lemma applied_on_mono: "applied_on P a n s \<Longrightarrow> agent_ev a b \<Longrightarrow> applied_on P b n s"
  unfolding applied_on_def agent_ev_def list_ex_iff by (meson set_mono_prefix subset_iff)

lemma accept_update_replied:
  assumes "accept_update digest E x a = (Replied 200 st, b)"
  shows "st = agent_status b \<and> ss_Request (sd_saved b) = x \<and> ss_Digest (sd_saved b) = digest x"
proof -
  let ?s = "\<lparr>ss_Request = x, ss_Digest = digest x, ss_AppliedRevision = ss_AppliedRevision (sd_saved a),
      ss_Outcome = ''applying'', ss_Kubernetes = None\<rparr>"
  let ?b = "publish (a\<lparr>sd_file := Some ?s, sd_saved := ?s\<rparr>)"
  have r: "record_outcome E (sd_saved a) x ?b = (Replied 200 st, b)"
    using assms unfolding accept_update_def Let_def by (cases "ue_persist E"; cases "ue_publish E") simp_all
  have "sd_saved b = outcome_state (ue_outcome E) ?s (enforce E x)" using record_outcome_state(1) [OF r] by simp
  moreover have "st = agent_status b"
    using r unfolding record_outcome_def Let_def by (auto simp: agent_status_def publish_def split: if_splits prod.splits)
  ultimately show ?thesis by (simp add: outcome_state_def)
qed

lemma update_replied:
  assumes "Server_update K digest E (Some x) a = (Replied 200 st, b)"
  shows "st = agent_status b \<and> eh_Revision (ss_Request (sd_saved b)) = eh_Revision (normalize_secret K x)
     \<and> ss_Digest (sd_saved b) = digest (normalize_secret K x)"
proof -
  let ?x = "normalize_secret K x"
  have l: "locked_update digest E ?x a = (Replied 200 st, b)"
    using assms(1) unfolding Server_update_def by (simp split: if_splits)
  have c: "\<not> ue_cancelled E" "\<not> revision_conflict digest ?x (sd_saved a)"
    using l unfolding locked_update_def by (simp_all split: if_splits)
  show ?thesis
  proof (cases "eh_Revision ?x = eh_Revision (ss_Request (sd_saved a)) \<and> ss_Outcome (sd_saved a) = ''applied''")
    case True
    then have "locked_update digest E ?x a = (Replied 200 (agent_status a), a)" using c by (simp add: locked_update_def)
    then have "st = agent_status b \<and> b = a" using l by auto
    then show ?thesis using True c(2) by (simp add: revision_conflict_def)
  next
    case False
    have "accept_update digest E ?x a = (Replied 200 st, b)"
      using l unfolding locked_update_def if_not_P [OF c(1)] if_not_P [OF c(2)] if_not_P [OF False] .
    then show ?thesis using accept_update_replied by metis
  qed
qed

lemma reply_applied:
  assumes P: "params_ok P a" and r: "Server_update (ap_K P) (ap_digest P) E (Some (secret_state n s)) a = (Replied 200 st, b)"
    and t: "expected_typed (secret_state n s)" and norm: "KubernetesSecret_Normalize (ap_K P) s = Inr s"
    and st: "ha_Outcome st = ''applied''"
  shows "applied_on P b n s"
proof -
  have n: "normalize_secret (ap_K P) (secret_state n s) = secret_state n s"
    by (simp add: normalize_secret_def secret_state_def norm)
  have ok: "update_ok (ap_K P) (ap_digest P) a" "report_ok a" using P by (simp_all add: params_ok_def agent_ok_def)
  have u: "st = agent_status b" "eh_Revision (ss_Request (sd_saved b)) = n" "ss_Digest (sd_saved b) = ap_digest P (secret_state n s)"
    using update_replied [OF r] unfolding n by (simp_all add: secret_state_def)
  have o: "ss_Outcome (sd_saved b) = ''applied''" using st u(1) by (simp add: agent_status_def Let_def)
  have "update_ok (ap_K P) (ap_digest P) b" "report_ok b"
    using update_keeps [OF ok(1) _ r] update_effect [OF ok _ r] t by simp_all
  then have "(ss_Request (sd_saved b), True) \<in> set (sd_log b)" "ap_digest P (ss_Request (sd_saved b)) = ss_Digest (sd_saved b)"
    using o by (auto simp: report_ok_def applied_true_def update_ok_def zero_saved_def state_good_def)
  then show ?thesis using u(2,3) by (force simp: applied_on_def list_ex_iff)
qed

lemma call_applied:
  assumes P: "params_ok P a"
    and c: "Client_call spiffe_id (agent_net P own N) endpoint identity (Msg_expected (secret_state n s)) out a = (Some (200, st), b)"
    and t: "expected_typed (secret_state n s)" and norm: "KubernetesSecret_Normalize (ap_K P) s = Inr s"
    and st: "ha_Outcome st = ''applied''"
  shows "applied_on P b n s"
proof -
  obtain w d where w: "agent_net P own N endpoint identity (Msg_expected (secret_state n s)) a = (w, d)" by fastforce
  then obtain st0 where st0: "w = Wire_status 200 st0" "d = b" "st = status_over out st0"
    using c by (cases w) (auto simp: Client_call_def split: if_splits)
  have "ask_agent P (Peer own) (Put_expected (ne_faults N) (Some (secret_state n s))) a = (Replied 200 st0, b) \<or>
        ask_agent P (Peer own) (Put_expected (ne_faults N) (Some (secret_state n s))) a = (Collected 200 st0, b)"
    using w st0(1,2) unfolding agent_net_def with_fate_def
    by (cases "ask_agent P (Peer own) (Put_expected (ne_faults N) (Some (secret_state n s))) a";
        cases "fst (ask_agent P (Peer own) (Put_expected (ne_faults N) (Some (secret_state n s))) a)")
      (auto split: if_splits fate.splits)
  moreover have "Server_update (ap_K P) (ap_digest P) (ne_faults N) (Some (secret_state n s)) a \<noteq> (Collected 200 st0, b)"
    unfolding Server_update_def locked_update_def accept_update_def record_outcome_def Let_def
    by (auto split: if_splits prod.splits)
  ultimately have "Server_update (ap_K P) (ap_digest P) (ne_faults N) (Some (secret_state n s)) a = (Replied 200 st0, b)"
    unfolding ask_agent_def agent_handler_def by (auto split: if_splits)
  moreover have "ha_Outcome st0 = ''applied''" using st st0(3) by (simp add: status_over_def)
  ultimately show ?thesis using reply_applied [OF P _ t norm] by blast
qed

section \<open>The rows of the store\<close>

definition row_key :: "state_request \<Rightarrow> string \<times> string \<times> string \<times> int" where
  "row_key r = (hr_host_id r, hr_request_id r, hr_fingerprint r, hr_revision r)"

text \<open>One row for a request of a host, and revisions that grow in the order of the requests.\<close>

definition requests_keyed :: "state_request list \<Rightarrow> bool" where
  "requests_keyed rs \<longleftrightarrow> distinct (map (\<lambda>(h, q, f, n). (h, q)) (map row_key rs))
     \<and> (\<forall>host. sorted_wrt (<) (map (\<lambda>(h, q, f, n). n) (filter (\<lambda>(h, q, f, n). h = host) (map row_key rs))))"

text \<open>A row that says applied has its evidence on the host, and its result is stored.\<close>

definition row_ok :: "agent_params \<Rightarrow> (KubernetesSecret \<Rightarrow> string) \<Rightarrow> agent \<Rightarrow> state_request \<Rightarrow> bool" where
  "row_ok P fp a r \<longleftrightarrow> 0 < hr_revision r \<and> hr_revision r \<le> MaxInt64
     \<and> (hr_outcome r = ''applied'' \<longrightarrow> (\<exists>s. fp s = hr_fingerprint r \<and> applied_on P a (hr_revision r) s)
          \<and> (\<exists>res. hr_result r = Some res \<and> rs_Outcome res = ''applied'' \<and> rs_Revision res = hr_revision r
               \<and> rs_HostID res = hr_host_id r \<and> rs_RequestID res = hr_request_id r))"

definition ops_ok :: "agent_params \<Rightarrow> (KubernetesSecret \<Rightarrow> string) \<Rightarrow> agent ops \<Rightarrow> bool" where
  "ops_ok P fp W \<longleftrightarrow> params_ok P (op_net W) \<and> requests_keyed (op_requests W) \<and> (\<forall>r\<in>set (op_requests W). row_ok P fp (op_net W) r)"

definition ops_ev :: "agent ops \<Rightarrow> agent ops \<Rightarrow> bool" where
  "ops_ev W V \<longleftrightarrow> agent_ev (op_net W) (op_net V) \<and> prefix (map row_key (op_requests W)) (map row_key (op_requests V))
     \<and> (\<forall>r\<in>set (op_requests W). hr_outcome r = ''applied'' \<longrightarrow> r \<in> set (op_requests V))"

lemma ops_ev_refl: "ops_ev W W" by (simp add: ops_ev_def agent_ev_def)

lemma ops_ev_trans: "ops_ev W V \<Longrightarrow> ops_ev V U \<Longrightarrow> ops_ev W U"
  using ag.ev_comp [of "op_net W" "op_net V" "op_net U"] unfolding ops_ev_def by (auto intro: prefix_order.trans)

lemma row_ok_mono: "row_ok P fp a r \<Longrightarrow> agent_ev a b \<Longrightarrow> row_ok P fp b r"
  unfolding row_ok_def using applied_on_mono by meson

text \<open>A change of the host alone.\<close>

lemma ops_net_next:
  assumes "ops_ok P fp W" "agent_next P (op_net W) b"
  shows "ops_ok P fp (W\<lparr>op_net := b\<rparr>) \<and> ops_ev W (W\<lparr>op_net := b\<rparr>)"
  using assms row_ok_mono [of P fp "op_net W" _ b] by (auto simp: ops_ok_def ops_ev_def agent_next_def)

lemma complete_request_keys [simp]: "map row_key (complete_request host req res rs) = map row_key rs"
  by (simp add: complete_request_def row_key_def comp_def)

lemma complete_request_set:
  "r \<in> set (complete_request host req res rs) \<longleftrightarrow>
     (\<exists>q\<in>set rs. r = (if hr_host_id q = host \<and> hr_request_id q = req then q\<lparr>hr_outcome := rs_Outcome res, hr_result := Some res\<rparr> else q))"
  unfolding complete_request_def set_map image_iff by (rule refl)

lemma keyed_unique:
  assumes "requests_keyed rs" "r \<in> set rs" "q \<in> set rs" "hr_host_id q = hr_host_id r" "hr_request_id q = hr_request_id r"
  shows "q = r"
proof -
  have "inj_on (\<lambda>r. (hr_host_id r, hr_request_id r)) (set rs)"
    using assms(1) by (simp add: requests_keyed_def distinct_map row_key_def comp_def)
  then show ?thesis using assms(2-5) by (simp add: inj_on_def)
qed

lemma completed_ok:
  assumes ok: "ops_ok P fp W" and r: "r \<in> set (op_requests W)" "hr_host_id r = tg_HostID t" "hr_request_id r = sr_RequestID q" "hr_outcome r \<noteq> ''applied''"
    and res: "rs_Revision res = hr_revision r" "rs_HostID res = tg_HostID t" "rs_RequestID res = sr_RequestID q"
    and ev: "rs_Outcome res = ''applied'' \<Longrightarrow> \<exists>s. fp s = hr_fingerprint r \<and> applied_on P (op_net W) (hr_revision r) s"
  shows "ops_ok P fp (completed t q res W) \<and> ops_ev W (completed t q res W)
     \<and> r\<lparr>hr_outcome := rs_Outcome res, hr_result := Some res\<rparr> \<in> set (op_requests (completed t q res W))"
proof -
  let ?c = "complete_request (tg_HostID t) (sr_RequestID q) res (op_requests W)"
  have k: "requests_keyed (op_requests W)" and rows: "\<And>x. x \<in> set (op_requests W) \<Longrightarrow> row_ok P fp (op_net W) x"
    using ok by (simp_all add: ops_ok_def)
  have u: "x = r" if "x \<in> set (op_requests W)" "hr_host_id x = tg_HostID t" "hr_request_id x = sr_RequestID q" for x
    using keyed_unique [OF k r(1) that(1)] that(2,3) r(2,3) by simp
  have "row_ok P fp (op_net W) (r\<lparr>hr_outcome := rs_Outcome res, hr_result := Some res\<rparr>)"
    using rows [OF r(1)] ev res r(2,3) by (simp add: row_ok_def)
  then have "row_ok P fp (op_net W) x" if "x \<in> set ?c" for x
    using that rows u unfolding complete_request_set by metis
  moreover have "x \<in> set ?c" if x: "x \<in> set (op_requests W)" "hr_outcome x = ''applied''" for x
  proof -
    have "\<not> (hr_host_id x = tg_HostID t \<and> hr_request_id x = sr_RequestID q)" using u [OF x(1)] x(2) r(4) by blast
    then show ?thesis using x(1) unfolding complete_request_set by metis
  qed
  moreover have "r\<lparr>hr_outcome := rs_Outcome res, hr_result := Some res\<rparr> \<in> set ?c"
    using r(1-3) unfolding complete_request_set by metis
  moreover have "op_requests (completed t q res W) = ?c" "op_net (completed t q res W) = op_net W" by (simp_all add: completed_def)
  moreover have "requests_keyed ?c" using k unfolding requests_keyed_def complete_request_keys .
  ultimately show ?thesis using ok by (simp add: ops_ok_def ops_ev_def agent_ev_def)
qed

section \<open>Stages of an execution\<close>

text \<open>What a stage leaves: the invariant, and on success a row that holds the result.\<close>

definition exec_good ::
    "agent_params \<Rightarrow> (KubernetesSecret \<Rightarrow> string) \<Rightarrow> string \<Rightarrow> SecretRequest \<Rightarrow> agent ops \<Rightarrow> agent exec_result \<Rightarrow> bool" where
  "exec_good P fp host q W out \<longleftrightarrow> ops_ok P fp (snd out) \<and> ops_ev W (snd out)
     \<and> (snd (fst out) = None \<longrightarrow> list_ex (\<lambda>r. hr_host_id r = host \<and> hr_request_id r = sr_RequestID q \<and> hr_fingerprint r = fp (sr_Secret q)
          \<and> hr_revision r = rs_Revision (fst (fst out)) \<and> hr_outcome r = ''applied'' \<and> hr_result r = Some (fst (fst out))) (op_requests (snd out)))"

lemma exec_good_failed: "ops_ok P fp V \<Longrightarrow> ops_ev W V \<Longrightarrow> exec_good P fp host q W ((res, Some e), V)"
  by (simp add: exec_good_def)

lemma exec_good_after:
  "exec_good P fp host q V out \<Longrightarrow> ops_ev W V \<Longrightarrow> exec_good P fp host q W out"
  unfolding exec_good_def using ops_ev_trans by blast

lemma complete_good:
  assumes ok: "ops_ok P fp W" and r: "r \<in> set (op_requests W)" "hr_host_id r = tg_HostID t" "hr_request_id r = sr_RequestID q" "hr_outcome r \<noteq> ''applied''"
    "hr_fingerprint r = fp (sr_Secret q)"
    and res: "rs_Revision res = hr_revision r" "rs_HostID res = tg_HostID t" "rs_RequestID res = sr_RequestID q"
    and ev: "rs_Outcome res = ''applied'' \<Longrightarrow> applied_on P (op_net W) (hr_revision r) (sr_Secret q)"
  shows "exec_good P fp (tg_HostID t) q W (Execute_complete E t q res W)"
proof -
  have c: "ops_ok P fp (completed t q res W) \<and> ops_ev W (completed t q res W)
     \<and> r\<lparr>hr_outcome := rs_Outcome res, hr_result := Some res\<rparr> \<in> set (op_requests (completed t q res W))"
    by (rule completed_ok [OF ok r(1-4) res]) (use ev r(5) in metis)
  then have row: "list_ex (\<lambda>x. hr_host_id x = tg_HostID t \<and> hr_request_id x = sr_RequestID q \<and> hr_fingerprint x = fp (sr_Secret q)
      \<and> hr_revision x = rs_Revision res \<and> hr_outcome x = rs_Outcome res \<and> hr_result x = Some res) (op_requests (completed t q res W))"
    unfolding list_ex_iff using r res by (intro bexI [of _ "r\<lparr>hr_outcome := rs_Outcome res, hr_result := Some res\<rparr>"]) simp_all
  have "exec_good P fp (tg_HostID t) q W ((res, Some e), W)"
    "exec_good P fp (tg_HostID t) q W ((res, Some e), completed t q res W)" for e
    using exec_good_failed [OF ok ops_ev_refl] exec_good_failed c by blast+
  moreover have "exec_good P fp (tg_HostID t) q W ((res, None), completed t q res W)" if "rs_Outcome res = ''applied''"
    using c row that by (simp add: exec_good_def)
  ultimately show ?thesis unfolding Execute_complete_def by simp
qed

lemma read_outcome_simps [simp]:
  "rs_Revision (read_outcome peer s reply res) = rs_Revision res" "rs_HostID (read_outcome peer s reply res) = rs_HostID res"
  "rs_RequestID (read_outcome peer s reply res) = rs_RequestID res"
  by (auto simp: read_outcome_def Let_def split: option.splits)

lemma read_outcome_applied:
  assumes "rs_Outcome (read_outcome peer s reply res) = ''applied''"
  obtains st where "reply = Some (200, st)" "ha_Outcome st = ''applied''" "ha_Identity st = peer" "ha_AcceptedRevision st = rs_Revision res"
  using assms unfolding read_outcome_def Let_def by (auto split: option.splits if_splits)

text \<open>A request as the controller has it: normalised, and of a revision that fits the store.\<close>

definition request_normal :: "agent_params \<Rightarrow> SecretRequest \<Rightarrow> bool" where
  "request_normal P q \<longleftrightarrow> KubernetesSecret_Normalize (ap_K P) (sr_Secret q) = Inr (sr_Secret q) \<and> distinct (map fst (ks_Data (sr_Secret q)))"

lemma secret_state_typed:
  "request_normal P q \<Longrightarrow> 0 < n \<Longrightarrow> n \<le> MaxInt64 \<Longrightarrow> expected_typed (secret_state n (sr_Secret q))"
  by (simp add: request_normal_def expected_typed_def secret_state_def in_u64_def MaxInt64_def)

lemma send_good:
  assumes ok: "ops_ok P fp W" and N: "net_typed N" and q: "request_normal P q"
    and r: "r \<in> set (op_requests W)" "hr_host_id r = tg_HostID t" "hr_request_id r = sr_RequestID q" "hr_outcome r \<noteq> ''applied''"
    "hr_fingerprint r = fp (sr_Secret q)"
    and res: "rs_Revision res = hr_revision r" "rs_HostID res = tg_HostID t" "rs_RequestID res = sr_RequestID q"
  shows "exec_good P fp (tg_HostID t) q W (Execute_send spiffe_id (agent_net P own N) E t peer q st res W)"
proof -
  let ?x = "secret_state (rs_Revision res) (sr_Secret q)"
  have row: "row_ok P fp (op_net W) r" and po: "params_ok P (op_net W)" using ok r(1) by (simp_all add: ops_ok_def)
  have t: "expected_typed ?x" using secret_state_typed [OF q] row unfolding res(1) row_ok_def by blast
  obtain reply w where c: "Client_call spiffe_id (agent_net P own N) (tg_Endpoint t) peer (Msg_expected ?x) st (op_net W) = (reply, w)" by fastforce
  let ?V = "W\<lparr>op_net := w\<rparr>" and ?res = "read_outcome peer (sr_Secret q) reply res"
  have "agent_next P (op_net W) w" using client_call_next [OF po N _ c] t by (simp add: msg_typed_def)
  then have V: "ops_ok P fp ?V" "ops_ev W ?V" using ops_net_next [OF ok] by blast+
  have g: "exec_good P fp (tg_HostID t) q ?V (Execute_complete E t q ?res ?V)"
  proof (rule complete_good [OF V(1) _ r(2-5)])
    show "applied_on P (op_net ?V) (hr_revision r) (sr_Secret q)" if a: "rs_Outcome ?res = ''applied''"
    proof -
      obtain st' where s: "reply = Some (200, st')" "ha_Outcome st' = ''applied''" using read_outcome_applied [OF a] by metis
      have "applied_on P w (rs_Revision res) (sr_Secret q)"
        by (rule call_applied [OF po c [unfolded s(1)] t _ s(2)]) (use q in \<open>simp add: request_normal_def\<close>)
      then show ?thesis by (simp add: res(1))
    qed
  qed (use r(1) res in simp_all)
  have "Execute_send spiffe_id (agent_net P own N) E t peer q st res W = Execute_complete E t q ?res ?V
     \<or> Execute_send spiffe_id (agent_net P own N) E t peer q st res W = ((?res, Some (409, ''host revision conflict'')), ?V)"
    unfolding Execute_send_def Let_def c by (auto split: option.splits)
  then show ?thesis using exec_good_after [OF g V(2)] exec_good_failed [OF V] by metis
qed

lemma insert_ok:
  assumes ok: "ops_ok P fp W" and i: "insert_state_request r (op_requests W) = Some rs" and r: "hr_revision r \<le> MaxInt64" "hr_outcome r = ''pending''"
    and above: "\<And>q. q \<in> set (op_requests W) \<Longrightarrow> hr_host_id q = hr_host_id r \<Longrightarrow> hr_revision q < hr_revision r"
  shows "ops_ok P fp (W\<lparr>op_requests := rs\<rparr>) \<and> ops_ev W (W\<lparr>op_requests := rs\<rparr>) \<and> r \<in> set rs"
proof -
  have rs: "rs = op_requests W @ [r]" "0 < hr_revision r"
    and new: "\<And>q. q \<in> set (op_requests W) \<Longrightarrow> hr_host_id q = hr_host_id r \<Longrightarrow> hr_request_id q \<noteq> hr_request_id r"
    using i by (auto simp: insert_state_request_def list_ex_iff split: if_splits)
  have k: "requests_keyed (op_requests W)" using ok by (simp add: ops_ok_def)
  have "(hr_host_id r, hr_request_id r) \<notin> (\<lambda>q. (hr_host_id q, hr_request_id q)) ` set (op_requests W)"
    using new by fastforce
  then have "distinct (map (\<lambda>(h, q, f, n). (h, q)) (map row_key rs))"
    using k unfolding requests_keyed_def rs(1) by (simp add: row_key_def comp_def)
  moreover have "sorted_wrt (<) (map (\<lambda>(h, q, f, n). n) (filter (\<lambda>(h, q, f, n). h = host) (map row_key rs)))" for host
    using k above unfolding requests_keyed_def rs(1) by (auto simp: sorted_wrt_append row_key_def)
  ultimately have "requests_keyed rs" by (simp add: requests_keyed_def)
  moreover have "row_ok P fp (op_net W) r" using rs(2) r by (simp add: row_ok_def)
  ultimately show ?thesis using ok unfolding rs(1) by (auto simp: ops_ok_def ops_ev_def agent_ev_def)
qed

lemma max_revision_upper: "r \<in> set rs \<Longrightarrow> hr_revision r \<le> max_revision rs (hr_host_id r)"
  unfolding max_revision_def by (rule Max_ge) auto

lemma allocate_good:
  assumes ok: "ops_ok P fp W" and N: "net_typed N" and q: "request_normal P q"
    and res: "rs_HostID res = tg_HostID t" "rs_RequestID res = sr_RequestID q"
  shows "exec_good P fp (tg_HostID t) q W (Execute_allocate spiffe_id (agent_net P own N) E t peer (fp (sr_Secret q)) q st res W)"
proof -
  define m where "m = max (max_revision (op_requests W) (tg_HostID t)) (ha_AcceptedRevision st)"
  let ?r = "\<lparr>hr_host_id = tg_HostID t, hr_request_id = sr_RequestID q, hr_fingerprint = fp (sr_Secret q), hr_revision = m + 1,
     hr_outcome = ''pending'', hr_result = None\<rparr>"
  note F = exec_good_failed [OF ok ops_ev_refl]
  note unf = Execute_allocate_def [of spiffe_id "agent_net P own N" E t peer "fp (sr_Secret q)" q st res W] Let_def m_def [symmetric]
  show ?thesis
  proof (cases "ee_maximum E \<and> m < MaxInt64")
    case True
    show ?thesis
    proof (cases "insert_state_request ?r (op_requests W)")
      case None
      then show ?thesis unfolding unf using True F by simp
    next
      case (Some rs)
      let ?V = "W\<lparr>op_requests := rs\<rparr>"
      have "hr_revision x < hr_revision ?r" if "x \<in> set (op_requests W)" "hr_host_id x = hr_host_id ?r" for x
        using max_revision_upper [OF that(1)] that(2) by (simp add: m_def)
      then have V: "ops_ok P fp ?V" "ops_ev W ?V" "?r \<in> set (op_requests ?V)" using insert_ok [OF ok Some] True by simp_all
      have "exec_good P fp (tg_HostID t) q ?V (Execute_send spiffe_id (agent_net P own N) E t peer q st (res\<lparr>rs_Revision := m + 1\<rparr>) ?V)"
        by (rule send_good [OF V(1) N q V(3)]) (use res in simp_all)
      then show ?thesis unfolding unf using True Some F exec_good_failed [OF V(1,2)] exec_good_after [OF _ V(2)]
        by (cases "ee_insert E") simp_all
    qed
  next
    case False
    then show ?thesis unfolding unf using F by (auto simp: not_less)
  qed
qed

lemma host_good:
  assumes ok: "ops_ok P fp W" and N: "net_typed N" and q: "request_normal P q"
    and res: "rs_HostID res = tg_HostID t" "rs_RequestID res = sr_RequestID q"
    and row: "\<And>r. row = Some r \<Longrightarrow> r \<in> set (op_requests W) \<and> hr_host_id r = tg_HostID t \<and> hr_request_id r = sr_RequestID q
       \<and> hr_outcome r \<noteq> ''applied'' \<and> hr_fingerprint r = fp (sr_Secret q) \<and> rs_Revision res = hr_revision r"
  shows "exec_good P fp (tg_HostID t) q W (Execute_host spiffe_id (agent_net P own N) E t peer (fp (sr_Secret q)) q row res W)"
proof -
  have po: "params_ok P (op_net W)" using ok by (simp add: ops_ok_def)
  obtain reply w where c: "Client_call spiffe_id (agent_net P own N) (tg_Endpoint t) peer Msg_health zero_status (op_net W) = (reply, w)" by fastforce
  let ?V = "W\<lparr>op_net := w\<rparr>"
  have "agent_next P (op_net W) w" using client_call_next [OF po N _ c] by (simp add: msg_typed_def)
  then have V: "ops_ok P fp ?V" "ops_ev W ?V" using ops_net_next [OF ok] by blast+
  note F = exec_good_failed [OF V]
  have A: "exec_good P fp (tg_HostID t) q W (Execute_allocate spiffe_id (agent_net P own N) E t peer (fp (sr_Secret q)) q st res ?V)" for st
    using exec_good_after [OF allocate_good [OF V(1) N q res] V(2)] .
  have S: "exec_good P fp (tg_HostID t) q W (Execute_send spiffe_id (agent_net P own N) E t peer q st res ?V)" if "row = Some r" for st r
    by (rule exec_good_after [OF send_good [OF V(1) N q, of r] V(2)]) (use row [OF that] res in simp_all)
  show ?thesis unfolding Execute_host_def Let_def c using F A S by (auto split: option.splits)
qed

lemma lookup_request_Some:
  "lookup_request rs host req = Some r \<Longrightarrow> r \<in> set rs \<and> hr_host_id r = host \<and> hr_request_id r = req"
  unfolding lookup_request_def by (auto simp: find_Some_iff)

lemma locked_good:
  assumes ok: "ops_ok P fp W" and N: "net_typed N" and q: "request_normal P q"
    and res: "rs_HostID res = tg_HostID t" "rs_RequestID res = sr_RequestID q"
  shows "exec_good P fp (tg_HostID t) q W (Execute_locked spiffe_id fp (agent_net P own N) E t peer q res W)"
proof (cases "ee_lookup E")
  case True
  note F = exec_good_failed [OF ok ops_ev_refl]
  show ?thesis
  proof (cases "lookup_request (op_requests W) (tg_HostID t) (sr_RequestID q)")
    case None
    then show ?thesis using True host_good [OF ok N q res, of None] by (simp add: Execute_locked_def)
  next
    case (Some r)
    note r = lookup_request_Some [OF Some]
    have H: "exec_good P fp (tg_HostID t) q W (Execute_host spiffe_id (agent_net P own N) E t peer (fp (sr_Secret q)) q (Some r) (res\<lparr>rs_Revision := hr_revision r\<rparr>) W)"
      if "hr_fingerprint r = fp (sr_Secret q)" "hr_outcome r \<noteq> ''applied''"
      by (rule host_good [OF ok N q]) (use res r that in simp_all)
    have R: "exec_good P fp (tg_HostID t) q W ((saved, None), W)"
      if "hr_fingerprint r = fp (sr_Secret q)" "hr_outcome r = ''applied''" "hr_result r = Some saved" for saved
    proof -
      have "rs_Revision saved = hr_revision r" using ok r that(2,3) by (auto simp: ops_ok_def row_ok_def)
      then show ?thesis using ok r that by (auto simp: exec_good_def list_ex_iff ops_ev_refl)
    qed
    show ?thesis unfolding Execute_locked_def Let_def Some using True F H R
      by (cases "hr_fingerprint r = fp (sr_Secret q)"; cases "hr_outcome r = ''applied''"; cases "hr_result r") simp_all
  qed
qed (use exec_good_failed [OF ok ops_ev_refl] in \<open>simp add: Execute_locked_def\<close>)

lemma request_normalised:
  assumes "SecretRequest_Normalize (ap_K P) q0 = Inr q" "distinct (map fst (ks_Data (sr_Secret q0)))"
  shows "request_normal P q \<and> sr_RequestID q = sr_RequestID q0"
proof -
  obtain s where s: "KubernetesSecret_Normalize (ap_K P) (sr_Secret q0) = Inr s" "q = q0\<lparr>sr_Secret := s\<rparr>"
    using assms(1) by (cases "KubernetesSecret_Normalize (ap_K P) (sr_Secret q0)") (auto simp: SecretRequest_Normalize_def split: if_splits)
  then show ?thesis using Normalize_Inr(2,4) [OF s(1) assms(2)] by (simp add: request_normal_def)
qed

lemma loadTarget_host: "loadTarget c d db host = Inr t \<Longrightarrow> tg_HostID t = host"
  unfolding loadTarget_def by (auto simp: Let_def split: if_splits option.splits)

lemma Execute_good:
  assumes ok: "ops_ok P fp W" and N: "net_typed N" and q0: "distinct (map fst (ks_Data (sr_Secret q0)))"
  shows "(\<exists>q. SecretRequest_Normalize (ap_K P) q0 = Inr q
        \<and> exec_good P fp host q W (Execute (ap_K P) spiffe_id FromPath fp (agent_net P own N) C E host q0 W))
     \<or> (\<exists>res e. Execute (ap_K P) spiffe_id FromPath fp (agent_net P own N) C E host q0 W = ((res, Some e), W))"
proof (cases "SecretRequest_Normalize (ap_K P) q0")
  case (Inr q)
  have q: "request_normal P q" "sr_RequestID q = sr_RequestID q0" using request_normalised [OF Inr q0] by simp_all
  have L: "exec_good P fp host q W (Execute_locked spiffe_id fp (agent_net P own N) E t peer q res W)"
    if "loadTarget c d (op_db W) host = Inr t" "rs_HostID res = host" "rs_RequestID res = sr_RequestID q0" for c d t peer res
    using locked_good [OF ok N q(1), of res t] loadTarget_host [OF that(1)] that(2,3) q(2) by simp
  show ?thesis unfolding Execute_def Let_def Inr using L Inr
    by (auto split: option.splits sum.splits)
qed (simp add: Execute_def)

section \<open>Runs\<close>

text \<open>
  A Dominator executes a request on the host, the agent serves another request or restarts, the
  catalogue changes.
\<close>

inductive ops_step ::
    "agent_params \<Rightarrow> (KubernetesSecret \<Rightarrow> string) \<Rightarrow> (string \<Rightarrow> bool) \<Rightarrow> (string \<Rightarrow> string \<Rightarrow> string option) \<Rightarrow> agent ops \<Rightarrow> agent ops \<Rightarrow> bool"
  for P fp spiffe_id FromPath where
  executed: "Execute (ap_K P) spiffe_id FromPath fp (agent_net P (ct_OwnIdentity C) N) C E host q W = (out, V) \<Longrightarrow> net_typed N
     \<Longrightarrow> distinct (map fst (ks_Data (sr_Secret q))) \<Longrightarrow> ops_step P fp spiffe_id FromPath W V"
| moved: "event_typed e \<Longrightarrow> ops_step P fp spiffe_id FromPath W (W\<lparr>op_net := run_event P e (op_net W)\<rparr>)"
| catalogued: "ops_step P fp spiffe_id FromPath W (W\<lparr>op_db := db\<rparr>)"

lemma ops_step_keeps:
  assumes "ops_step P fp spiffe_id FromPath W V" "ops_ok P fp W"
  shows "ops_ev W V \<and> ops_ok P fp V"
  using assms(1)
proof cases
  case (executed C N E host q out)
  have "exec_good P fp host q' W (out, V) \<Longrightarrow> ops_ev W V \<and> ops_ok P fp V" for q' by (simp add: exec_good_def)
  then show ?thesis
    using Execute_good [OF assms(2) executed(2,3), of host spiffe_id FromPath "ct_OwnIdentity C" C E] ops_ev_refl assms(2)
    unfolding executed(1) by auto
next
  case (moved e)
  have "params_ok P (op_net W)" using assms(2) by (simp add: ops_ok_def)
  then show ?thesis using ops_net_next [OF assms(2) run_event_next] moved by blast
next
  case (catalogued db)
  then show ?thesis using assms(2) by (simp add: ops_ok_def ops_ev_def agent_ev_def)
qed

interpretation ho: step_system "ops_step P fp spiffe_id FromPath" "ops_ok P fp" ops_ev for P fp spiffe_id FromPath
  by unfold_locales (use ops_step_keeps ops_ev_refl ops_ev_trans in blast)+

lemma ops_start_ok:
  assumes "\<forall>q. length (ap_fingerprint P q) = 64"
  shows "ops_ok P fp \<lparr>op_db = db, op_requests = [], op_net = new_agent identity process\<rparr>"
  using assms new_agent_ok by (simp add: ops_ok_def params_ok_def requests_keyed_def)

section \<open>The API in front of the Dominator\<close>

definition failure_code :: "'w exec_result \<Rightarrow> bool" where
  "failure_code out \<longleftrightarrow> (case snd (fst out) of None \<Rightarrow> True | Some (code, _) \<Rightarrow> code \<in> {400, 403, 404, 409, 502, 503, 504})"

lemma failure_code_simps [simp]:
  "failure_code ((res, None), W)"
  "failure_code ((res, Some (code, msg)), W) \<longleftrightarrow> code \<in> {400, 403, 404, 409, 502, 503, 504}"
  by (simp_all add: failure_code_def)

lemma complete_code: "failure_code (Execute_complete E t q res W)"
  by (simp add: Execute_complete_def)

lemma send_code: "failure_code (Execute_send spiffe_id net E t peer q st res W)"
  unfolding Execute_send_def Let_def using complete_code by (auto split: prod.splits option.splits)

lemma host_code: "failure_code (Execute_host spiffe_id net E t peer fp q row res W)"
proof -
  have "failure_code (Execute_allocate spiffe_id net E t peer fp q st res V)" for st V
    unfolding Execute_allocate_def Let_def using send_code by (auto split: option.splits persist.splits)
  then show ?thesis unfolding Execute_host_def Let_def using send_code
    by (auto split: prod.splits option.splits)
qed

lemma lock_code: "store_lock c ps = Some e \<Longrightarrow> fst e \<in> {503, 504}"
proof -
  have "poll_lock ps = Some e \<Longrightarrow> fst e \<in> {503, 504}" for ps by (induction ps rule: poll_lock.induct) auto
  then show "store_lock c ps = Some e \<Longrightarrow> fst e \<in> {503, 504}" by (auto simp: store_lock_def split: option.splits)
qed

lemma target_code: "loadTarget c d db host = Inl e \<Longrightarrow> fst e \<in> {403, 404, 409, 503}"
  unfolding loadTarget_def by (auto simp: Let_def split: if_splits option.splits)

lemma Execute_code: "failure_code (Execute K spiffe_id FromPath fp net C E host q W)"
proof -
  have L: "failure_code (Execute_locked spiffe_id fp net E t peer q res W)" for t peer q res
    unfolding Execute_locked_def Let_def using host_code by (auto split: option.splits)
  have S: "failure_code ((res, Some e), W)" if "store_lock c ps = Some e" for c ps e res
    using lock_code [OF that] by (cases e) auto
  have T: "failure_code ((res, Some e), W)" if "loadTarget x y db host = Inl e" for x y db e res
    using target_code [OF that] by (cases e) auto
  show ?thesis
  proof (cases "SecretRequest_Normalize K q")
    case (Inr n)
    show ?thesis
    proof (cases "store_lock (ee_connect E) (ee_polls E)")
      case None
      then show ?thesis
        by (cases "loadTarget (ee_catalog E) (ee_dominator E) (op_db W) host")
          (use Inr T L in \<open>auto simp: Execute_def Let_def simp del: failure_code_simps(2) split: option.splits\<close>, simp_all)
    qed (use Inr S in \<open>simp add: Execute_def\<close>)
  qed (simp add: Execute_def)
qed

lemma api_success:
  assumes "API_ServeHTTP K (call_dominator spiffe_id F apiIdentity execute) token R W = (Op_result 200 res, V)"
    and code: "\<And>host q. failure_code (execute host q W)"
  obtains q0 q t where "ar_Authorization R = ''Bearer '' @ token" "token \<noteq> []" "ar_body R = Some q0"
    "SecretRequest_Normalize K (q0\<lparr>sr_Secret := (sr_Secret q0)\<lparr>ks_Namespace := ar_namespace R, ks_Name := ar_name R\<rparr>\<rparr>) = Inr q"
    "execute (ar_hostID R) q W = ((res, None), V)"
proof -
  obtain q0 where q0: "ar_body R = Some q0" and auth: "ar_Authorization R = ''Bearer '' @ token" "token \<noteq> []"
    using assms(1) unfolding API_ServeHTTP_def by (auto split: if_splits option.splits)
  define q1 where "q1 = q0\<lparr>sr_Secret := (sr_Secret q0)\<lparr>ks_Namespace := ar_namespace R, ks_Name := ar_name R\<rparr>\<rparr>"
  obtain q t where q: "SecretRequest_Normalize K q1 = Inr q" and t: "loadTarget (fst (ar_target R)) (snd (ar_target R)) (op_db W) (ar_hostID R) = Inr t"
    using assms(1) auth q0 unfolding API_ServeHTTP_def Let_def q1_def by (auto split: if_splits sum.splits)
  have h: "tg_HostID t = ar_hostID R" by (rule loadTarget_host [OF t])
  obtain c U where d: "call_dominator spiffe_id F apiIdentity execute (tg_DominatorEndpoint t) (tg_DominatorIdentity t) (ar_hostID R, q) W = (c, U)" by fastforce
  have "c = Some (200, res) \<and> U = V"
    using assms(1) auth q0 q t d h unfolding API_ServeHTTP_def Let_def q1_def
    by (auto simp: forwarded_def split: if_splits option.splits)
  then have "Controller_handler execute apiIdentity apiIdentity True (Some (ar_hostID R, q)) W = (Op_result 200 res, V)"
    using d unfolding call_dominator_def by (auto split: if_splits prod.splits op_reply.splits)
  then have "execute (ar_hostID R) q W = ((res, None), V)"
    using code [of "ar_hostID R" q] unfolding Controller_handler_def by (auto split: if_splits prod.splits option.splits)
  then show thesis using that auth q0 q unfolding q1_def by blast
qed

section \<open>Retries\<close>

lemma requests_keyed_rows:
  assumes "requests_keyed rs"
  shows "distinct (map (\<lambda>r. (hr_host_id r, hr_request_id r)) rs)"
    "sorted_wrt (<) (map hr_revision (filter (\<lambda>r. hr_host_id r = host) rs))"
  using assms by (simp_all add: requests_keyed_def row_key_def comp_def filter_map)

lemma lookup_keyed:
  assumes k: "requests_keyed rs" and r: "r \<in> set rs"
  shows "lookup_request rs (hr_host_id r) (hr_request_id r) = Some r"
proof (cases "lookup_request rs (hr_host_id r) (hr_request_id r)")
  case None
  then show ?thesis using r by (auto simp: lookup_request_def find_None_iff)
next
  case (Some x)
  note lookup_request_Some [OF Some]
  then have "x = r" using keyed_unique [OF k r, of x] by blast
  then show ?thesis using Some by simp
qed

text \<open>A request whose row says applied is answered from the row, whatever the transport would do.\<close>

lemma applied_row_replayed:
  assumes k: "requests_keyed (op_requests W)" and r: "r \<in> set (op_requests W)" "hr_host_id r = tg_HostID t" "hr_request_id r = sr_RequestID q"
    "hr_outcome r = ''applied''" "hr_result r = Some saved" "hr_fingerprint r = fp (sr_Secret q)"
  shows "\<exists>res' e. Execute_locked spiffe_id fp net E t peer q res W = ((res', e), W) \<and> (e = None \<longrightarrow> res' = saved)"
proof -
  have l: "lookup_request (op_requests W) (tg_HostID t) (sr_RequestID q) = Some r"
    using lookup_keyed [OF k r(1)] r(2,3) by simp
  show ?thesis unfolding Execute_locked_def l Let_def using r(4-6) by simp
qed

lemma Execute_replayed:
  assumes k: "requests_keyed (op_requests W)" and r: "r \<in> set (op_requests W)" "hr_host_id r = host" "hr_request_id r = sr_RequestID q"
    "hr_outcome r = ''applied''" "hr_result r = Some saved" "hr_fingerprint r = fp (sr_Secret q)" and q: "SecretRequest_Normalize K q0 = Inr q"
  shows "\<exists>res' e. Execute K spiffe_id FromPath fp net C E host q0 W = ((res', e), W) \<and> (e = None \<longrightarrow> res' = saved)"
proof (cases "store_lock (ee_connect E) (ee_polls E)")
  case None
  note lock = None
  show ?thesis
  proof (cases "loadTarget (ee_catalog E) (ee_dominator E) (op_db W) host")
    case (Inr t)
    have L: "\<exists>res' e. Execute_locked spiffe_id fp net E t peer q res W = ((res', e), W) \<and> (e = None \<longrightarrow> res' = saved)" for peer res
      by (rule applied_row_replayed [where fp = fp, OF k r(1) _ r(3-6)]) (use r(2) loadTarget_host [OF Inr] in simp)
    show ?thesis unfolding Execute_def Let_def q lock Inr using L by (simp split: option.splits)
  qed (simp add: Execute_def q lock)
qed (simp add: Execute_def q)

end
