(* ===== verification/ScenarioHost.thy ===== *)
theory ScenarioHost
  imports ScenarioLater HostOperationsRuns
begin

text \<open>
  A run of host operations on one host of the platform: the answer to the first update is lost after
  the agent has applied it, the agent restarts, and the request is sent again through the API.
\<close>

lemma secret_size_int: "2 ^ 20 < (n::nat) \<longleftrightarrow> 1048576 < int n" by simp

declare KubernetesSecret_Normalize_def [unfolded secret_size_int, code]

section \<open>Inputs\<close>

definition demo_digest :: "ExpectedHostState \<Rightarrow> string" where
  "demo_digest x = (case eh_Secret x of None \<Rightarrow> [] | Some s \<Rightarrow> ks_Namespace s @ CHR ''/'' # ks_Name s)"

definition demo_hash :: "string \<times> string \<times> WorkerRegistration \<Rightarrow> string" where
  "demo_hash _ = replicate 64 CHR ''a''"

definition demo_params :: agent_params where
  "demo_params = \<lparr>ap_sha256 = demo_sha, ap_K = demo_K, ap_digest = demo_digest, ap_fingerprint = JoinFingerprint demo_hash,
     ap_peers = (''spiffe://td/dominator/z'', [''spiffe://td/reader''])\<rparr>"

definition demo_print :: "KubernetesSecret \<Rightarrow> string" where
  "demo_print s = ks_Namespace s @ CHR ''/'' # ks_Name s"

definition demo_spiffe :: "string \<Rightarrow> bool" where
  "demo_spiffe s = prefix ''spiffe://'' s"

definition demo_FromPath :: "string \<Rightarrow> string \<Rightarrow> string option" where
  "demo_FromPath td p = Some (''spiffe://'' @ td @ p)"

definition demo_controller :: Controller where
  "demo_controller = \<lparr>ct_ZoneID = ''z'', ct_TrustDomain = ''td'', ct_OwnIdentity = ''spiffe://td/dominator/z''\<rparr>"

definition calm :: exec_env where
  "calm = \<lparr>ee_connect = None, ee_polls = [Poll_busy, Poll_locked], ee_catalog = True, ee_dominator = True, ee_lookup = True,
     ee_maximum = True, ee_insert = Written, ee_observability = True, ee_complete = Written, ee_expired = False\<rparr>"

definition smooth :: update_env where
  "smooth = \<lparr>ue_deadline = True, ue_cancelled = False, ue_persist = Written, ue_publish = True, ue_apply = True,
     ue_secret = (Some \<lparr>kr_Secret = ''verified'', kr_Rollout = ''not_requested''\<rparr>, True), ue_outcome = Written, ue_published = True\<rparr>"

definition host_net :: "fate \<Rightarrow> net_env" where
  "host_net f = \<lparr>ne_health = Answered, ne_between = [], ne_update = f, ne_faults = smooth\<rparr>"

definition demo_secret_request :: SecretRequest where
  "demo_secret_request = \<lparr>sr_RequestID = ''q'', sr_Secret = demo_secret\<rparr>"

definition demo_execute :: "fate \<Rightarrow> string \<Rightarrow> SecretRequest \<Rightarrow> agent ops \<Rightarrow> agent exec_result" where
  "demo_execute f = Execute (ap_K demo_params) demo_spiffe demo_FromPath demo_print
     (agent_net demo_params (ct_OwnIdentity demo_controller) (host_net f)) demo_controller calm"

definition demo_api_request :: api_request where
  "demo_api_request = \<lparr>ar_Authorization = ''Bearer t'', ar_deadline = True, ar_body = Some demo_secret_request,
     ar_hostID = ''n/bootstrap/platform'', ar_namespace = ''n'', ar_name = ''s'', ar_target = (True, True), ar_expired = False\<rparr>"

section \<open>States\<close>

definition ops_fresh :: "agent ops" where
  "ops_fresh = \<lparr>op_db = w1, op_requests = [], op_net = new_agent ''spiffe://td/subd/i-00000002'' (1, ''x'')\<rparr>"

definition ops_lost :: "agent ops" where
  "ops_lost = snd (demo_execute Lost ''n/bootstrap/platform'' demo_secret_request ops_fresh)"

definition ops_restarted :: "agent ops" where
  "ops_restarted = ops_lost\<lparr>op_net := run_event demo_params (Ev_restart (2, ''y'')) (op_net ops_lost)\<rparr>"

text \<open>An agent that applied one update and whose process died before the outcome of the next was stored.\<close>

definition agent_fresh :: agent where
  "agent_fresh = new_agent ''spiffe://td/subd/i-00000002'' (1, ''x'')"

definition agent_updated :: agent where
  "agent_updated = snd (ask_agent demo_params (Peer ''spiffe://td/dominator/z'') (Put_expected smooth (Some (secret_state 1 demo_secret))) agent_fresh)"

definition agent_died :: agent where
  "agent_died = snd (ask_agent demo_params (Peer ''spiffe://td/dominator/z'')
     (Put_expected (smooth\<lparr>ue_outcome := Unwritten\<rparr>) (Some (secret_state 2 demo_secret))) agent_updated)"

section \<open>They are reached\<close>

lemma demo_params_len: "\<forall>q. length (ap_fingerprint demo_params q) = 64"
  by (simp add: demo_params_def JoinFingerprint_def demo_hash_def)

lemma demo_hash_len: "\<forall>x. length (demo_hash x) = 64"
  by (simp add: demo_hash_def)

lemma demo_secret_typed: "route_typed (Put_expected E (Some (secret_state 1 demo_secret)))"
    "route_typed (Put_expected E (Some (secret_state 2 demo_secret)))"
  by (simp_all add: route_typed_def expected_typed_def secret_state_def in_u64_def demo_secret_def)

lemma agent_demo_steps:
  "agent_step demo_sha demo_K demo_digest (JoinFingerprint demo_hash) (ap_peers demo_params) agent_fresh agent_updated"
  "agent_step demo_sha demo_K demo_digest (JoinFingerprint demo_hash) (ap_peers demo_params) agent_updated agent_died"
  using served [OF prod.collapse [symmetric] demo_secret_typed(1)] served [OF prod.collapse [symmetric] demo_secret_typed(2)]
  by (simp_all add: agent_updated_def agent_died_def ask_agent_def demo_params_def)

lemma agent_demo_run:
  "(agent_step demo_sha demo_K demo_digest (JoinFingerprint demo_hash) (ap_peers demo_params))\<^sup>*\<^sup>*
     (new_agent ''spiffe://td/subd/i-00000002'' (1, ''x'')) agent_updated"
  "(agent_step demo_sha demo_K demo_digest (JoinFingerprint demo_hash) (ap_peers demo_params))\<^sup>*\<^sup>*
     (new_agent ''spiffe://td/subd/i-00000002'' (1, ''x'')) agent_died"
  using agent_demo_steps unfolding agent_fresh_def by auto

lemma agent_died_checked: "map (eh_Revision \<circ> fst) (sd_log agent_died) = [1, 2] \<and> ha_AppliedRevision (sd_view agent_died) = 1 \<and> ha_Outcome (sd_view agent_died) = ''interrupted''"
  by code_simp

lemma demo_net_typed: "net_typed (host_net f)"
  by (simp add: net_typed_def host_net_def)

lemma demo_secret_request_typed: "distinct (map fst (ks_Data (sr_Secret demo_secret_request)))"
  by (simp add: demo_secret_request_def demo_secret_def)

abbreviation host_step :: "agent ops \<Rightarrow> agent ops \<Rightarrow> bool" where
  "host_step \<equiv> ops_step demo_params demo_print demo_spiffe demo_FromPath"

lemma ops_demo_run: "host_step\<^sup>*\<^sup>* ops_fresh ops_restarted"
proof -
  have "host_step ops_fresh ops_lost" unfolding ops_lost_def demo_execute_def
    by (rule executed [OF prod.collapse [symmetric] demo_net_typed demo_secret_request_typed])
  moreover have "host_step ops_lost ops_restarted" unfolding ops_restarted_def by (rule moved) (simp add: event_typed_def)
  ultimately show ?thesis by auto
qed

lemma ops_lost_checked: "map hr_outcome (op_requests ops_lost) = [''unknown''] \<and> map snd (sd_log (op_net ops_lost)) = [True]"
  by code_simp

definition demo_answer :: "op_reply \<times> agent ops" where
  "demo_answer = API_ServeHTTP (ap_K demo_params) (call_dominator demo_spiffe Answered ''spiffe://td/api'' (demo_execute Answered)) ''t''
     demo_api_request ops_restarted"

text \<open>The second attempt is answered from what the agent has stored: there is no second call on the host.\<close>

lemma demo_answer_checked:
  "(case fst demo_answer of Op_result code res \<Rightarrow> code = 200 \<and> rs_Revision res = 1 | _ \<Rightarrow> False) \<and> length (sd_log (op_net (snd demo_answer))) = 1"
  by code_simp

end
