(* ===== verification/Spec2Isabelle.thy ===== *)
theory Spec2Isabelle
  imports ScenarioHTTP ScenarioHost
begin

text \<open>
  A verification development for Crane, a Kubernetes capacity control plane written in Go.

  \<^bold>\<open>The program.\<close>  Operators and the cluster autoscaler reach Crane through a platform API
  (\<open>src/internal/capacity/http.go\<close>).  Its handlers call the capacity store
  (\<open>src/internal/capacity/*.go\<close>), which keeps topology, targets, reservations, operations and hosts in
  PostgreSQL (\<open>schema.sql\<close>).  Two controllers, for provisioning workers and for bootstrapping a
  cluster, claim operations from the store under a lease with a fence and record what their
  executors did.  A legacy service (\<open>src/internal/hostcatalog\<close>) changes hosts that are not managed
  capacity, and a script seeds the two protected hosts of a platform.  The autoscaler adapter
  (\<open>src/internal/adapter/autoscaler\<close>) turns gRPC callbacks into API calls and retries them.  A
  secret for a host goes from the API to the Dominator of its zone (\<open>src/internal/hostoperations\<close>),
  which numbers the request and calls the agent on the host (\<open>src/internal/subd\<close>) over a private
  transport (\<open>src/internal/hostrpc\<close>).

  \<^bold>\<open>How it is modelled.\<close>  A table is a list of rows, the database a record of tables, and a
  transaction a function from a database to an error or a new database: a transaction that fails
  leaves nothing behind, so no rollback is written out.  SQL statements keep their conditions,
  keys, checks and foreign keys.  A sequence of statements outside a transaction returns the
  database in every case, since earlier statements stay.  Go integers are integers with the
  64-bit wrap-around \<open>i64\<close> written where the source computes.  Time, generated identifiers,
  SHA-256, the Kubernetes validation functions, executors and the network are parameters; the
  hypotheses on them (\<open>provision_executor_ok\<close>, \<open>client_ok\<close>, \<open>net_ok\<close>) say that they touch the database
  through the store's calls only.

  \<^bold>\<open>Theories.\<close>
  \<^item> \<open>Prelude\<close>: results, tables, the evolution of tables (locale \<open>row_evolution\<close>), 64-bit integers.
    \<open>GoNet\<close> and \<open>GoJSON\<close>: the parts of Go's \<open>net\<close>, \<open>net/url\<close>, \<open>strings\<close> and \<open>encoding/json\<close> the program uses.
  \<^item> \<open>Api\<close> and \<open>ApiJSON\<close>: the types and validations of \<open>src/pkg/api\<close> and their JSON tables, with round
    trips and range lemmas.
  \<^item> \<open>CapacityDB\<close>: the tables of \<open>schema.sql\<close> and how a row may evolve.  \<open>CapacityTarget\<close>: \<open>SetTarget\<close>.
    \<open>CapacityLease\<close>: claims and fenced writes (locale \<open>fenced_call\<close>).  \<open>CapacityCatalog\<close>: topology.
    \<open>CapacityRemoval\<close>: node removals.  \<open>CapacityProvision\<close>: the hand-off of a worker and its controller.
    \<open>CapacityBootstrap\<close>: bootstrap operations and their controller.  \<open>HostCatalog\<close>, \<open>PlatformSeed\<close>.
  \<^item> \<open>CapacityAccounting\<close>: reservations stay within pool limits and back every target.
  \<^item> \<open>CapacitySystem\<close>: the transition system \<open>cap_step\<close> with one rule for each of the store's
    transactions, its invariant \<open>system_ok\<close> and the locale \<open>step_system\<close>, interpreted on it.
  \<^item> \<open>CapacityControllers\<close>: passes of the controllers and legacy calls as runs of \<open>cap_step\<close>.
    \<open>CapacityProtocol\<close>: retries and admission.  \<open>CapacityReady\<close>: how a worker becomes ready.
  \<^item> \<open>CapacityHTTP\<close>: routing, authentication, strict decoding, the fifteen handlers and the replies;
    every handler is a run of store steps.  \<open>Platform\<close>: requests, passes and legacy calls interleaved.
  \<^item> \<open>AutoscalerAdapter\<close>: the adapter's client, groups and callbacks over an unreliable network.
    \<open>AdapterProtocol\<close>: the adapter composed with the API; the locale \<open>attempts\<close> carries the retry loop.
  \<^item> \<open>HostAgent\<close>: the agent's memory and its two files, updates of the expected state, cluster joins,
    start-up, routes and peers.  \<open>HostAgentRuns\<close>: the invariant over requests and restarts; the locale
    \<open>step_system\<close> is interpreted on it.
  \<^item> \<open>HostOperations\<close>: the private client, the target lookup and the host lock, the Dominator's
    \<open>Execute\<close> with its request rows, and the two handlers; the transport is a parameter.
    \<open>HostOperationsRuns\<close>: the controller composed with the agent, \<open>step_system\<close> interpreted once more,
    and retries.
  \<^item> \<open>Scenario\<close>, \<open>ScenarioLater\<close>, \<open>ScenarioHTTP\<close>, \<open>ScenarioHost\<close>: concrete runs, evaluated in the logic, on which the
    witnesses stand.

  \<^bold>\<open>What is shown.\<close>  The properties below are claims about runs of any length and interleaving:
  pool limits and backed targets, compare-and-set and idempotent admission, fencing of superseded
  controllers, the life cycles of operations, hosts and bootstraps, isolation of clusters behind
  the API, exact discovery, round trips of the documents, and a scale-up that is applied exactly
  once although answers are lost.  For a host, updates run in the order of their revisions across
  crashes, what the agent reports is true, a restart always succeeds, and a secret request that is
  answered with success was applied on the host and is never applied again by a retry.  The last
  section states what the code does where a reader would expect otherwise: a group with a minimum above zero cannot be created, a refused zone leaves its region
  behind, two namings may share one identifier, and a secret below a reference key is accepted.

  \<^bold>\<open>Bounds.\<close>  Every function of the model is total, without fuel.  The retry loop is bounded by
  its three attempts, a controller pass by the finite list of renewals that happen during it, and the
  polling of a host's lock by the list of poll results up to the deadline of the call.

  \<^bold>\<open>Not modelled.\<close>  The polling loops around the controller passes; logging, tracing and metrics;
  the AWS provider and the layer-zero bootstrap except for host seeding; commands and their flags;
  on the host, the collectors, the commands, the Kubernetes client and the kubeadm join, whose results
  are arguments of the agent's requests, and the checks of its configuration; the Dominator's TLS
  servers and its provisioner; the activity manager, the legacy action queue and bad host detection.
  Row locks are not modelled: a transaction is atomic, which is what the locks of the source establish
  for the statements they cover, and so is an execution of a host operation under the host's lock.
\<close>

text \<open>C1: In every state the store can reach, whatever the order of its transactions, the unreleased
  reservations of all groups of a pool stay within the pool's vCPU, memory and node limits.\<close>

theorem pool_limits_hold:
  assumes "steps K empty_db db" "p \<in> set (node_pools db)"
  shows "within (pool_used db (p_id p)) (pool_limits p)"
  using reachable_ok [OF assms(1)] assms(2) by (auto simp: system_ok_def acct_def pools_within_def)

theorem pool_limits_hold_witness:
  "within (pool_used w2 (p_id (hd (node_pools w2)))) (pool_limits (hd (node_pools w2)))"
  using pool_limits_hold [OF reach_w(1)] demo_rows(1) by simp

text \<open>C2: In every reachable state a group's target lies between its bounds and is covered by unreleased
  reservations of that group.\<close>

theorem targets_bounded_and_backed:
  assumes "steps K empty_db db" "g \<in> set (node_groups db)"
  shows "g_min_nodes g \<le> g_target_nodes g \<and> g_target_nodes g \<le> g_max_nodes g
    \<and> g_target_nodes g \<le> credits db (g_id g)"
  using reachable_ok [OF assms(1)] assms(2)
  by (auto simp: system_ok_def acct_def targets_backed_def rows_ok_def group_ok_def group_check_def)

theorem targets_bounded_and_backed_witness:
  "g_target_nodes (hd (node_groups w2)) \<le> credits w2 (g_id (hd (node_groups w2)))"
  using targets_bounded_and_backed [OF reach_w(1)] demo_rows(2) by simp

text \<open>C3: Compare-and-set: of all the requests ever accepted for a group, at most one was built on any
  given target revision.\<close>

theorem one_request_per_revision:
  assumes "steps K empty_db db" "a \<in> set (capacity_requests db)" "b \<in> set (capacity_requests db)"
    "q_group_id a = q_group_id b" "q_expected_revision a = q_expected_revision b"
  shows "a = b"
proof -
  have ok: "requests_ok db" using reachable_ok [OF assms(1)] by (simp add: system_ok_def log_ok_def)
  obtain i j where ij: "i < length (capacity_requests db)" "capacity_requests db ! i = a"
    "j < length (capacity_requests db)" "capacity_requests db ! j = b"
    using assms(2,3) by (auto simp: in_set_conv_nth)
  have step: "q_result_revision x = q_expected_revision x + 1" if "x \<in> set (capacity_requests db)" for x
    using ok that by (auto simp: requests_ok_def)
  have later: "q_result_revision (capacity_requests db ! m) \<le> q_expected_revision (capacity_requests db ! n)"
    if "m < n" "n < length (capacity_requests db)"
      "q_group_id (capacity_requests db ! m) = q_group_id (capacity_requests db ! n)" for m n
    using ok that by (auto simp: requests_ok_def sorted_wrt_iff_nth_less)
  have "i = j"
    using later [of i j] later [of j i] ij assms(4,5) step [OF assms(2)] step [OF assms(3)]
    by (cases i j rule: linorder_cases) auto
  then show ?thesis using ij by simp
qed

theorem one_request_per_revision_witness:
  "hd (capacity_requests w2) = last (capacity_requests w2)"
proof -
  have "map q_group_id (capacity_requests w2) = [''aws-d-r-a-g'']"
    "map q_expected_revision (capacity_requests w2) = [0]" by code_simp+
  then show ?thesis
    using one_request_per_revision [OF reach_w(1), of "hd (capacity_requests w2)" "last (capacity_requests w2)"]
      demo_rows(3) by (cases "capacity_requests w2") auto
qed

text \<open>C4: A scaling callback of the autoscaler adapter, over a network that may lose requests and answers
  and with other clients changing the database throughout: when it succeeds, its request was
  committed at one point only, and that transaction changed the target by exactly the requested
  amount; when it fails with anything but an unavailable or expired call, no request was recorded.\<close>

theorem scale_request_exactly_once:
  assumes "net_ok K N" "own_id N i rid" "system_ok (aw_db w)" "find_request (aw_db w) i rid = None" "in_i32 delta"
    "changeTarget N rid i delta w = (r, w')"
  shows "case r of
      Inr _ \<Rightarrow> \<exists>db0 db1. steps K (aw_db w) db0 \<and> resizes i rid delta db0 db1 \<and> steps K db1 (aw_db w')
    | Inl e \<Rightarrow> e \<in> {Unavailable, DeadlineExceeded, Canceled} \<or> find_request (aw_db w') i rid = None"
  using changeTarget_reported [OF assms(1-3) _ assms(5,6)] assms(4)
  by (auto simp: reported_def resized_def known_request_def split: sum.splits)

theorem scale_request_exactly_once_witness:
  "\<exists>db0 db1. steps demo_K w1 db0 \<and> resizes ''aws-d-r-a-g'' ''q1'' 2 db0 db1 \<and> steps demo_K db1 w2"
proof -
  obtain w' where run: "changeTarget demo_net ''q1'' ''aws-d-r-a-g'' 2 (demo_world w1 0) = (Inr (), w')" "aw_db w' = w2"
    using demo_scale_up by (cases "changeTarget demo_net ''q1'' ''aws-d-r-a-g'' 2 (demo_world w1 0)") auto
  have "find_request w1 ''aws-d-r-a-g'' ''q1'' = None" by code_simp
  then show ?thesis
    using scale_request_exactly_once [OF demo_net_ok, of "demo_world w1 0" "''aws-d-r-a-g''" "''q1''" 2] run reachable_ok [OF w1_run]
    by (simp add: demo_world_def in_i32_def max_int32_def)
qed

text \<open>C5: An accepted capacity request may be retried at any later time: whatever has been committed
  since, the retry returns the recorded result and changes nothing.\<close>

theorem SetTarget_retry:
  assumes "system_ok db" "SetTarget uuid now req db = Inr (res, db1)" "steps K db1 db2"
  shows "SetTarget uuid' now' req db2 = Inr (res, db2)"
  by (rule SetTarget_again [OF assms(2,1,3)])

theorem SetTarget_retry_witness:
  "SetTarget (demo_uuid ''x'') 999 demo_request w5 = Inr (target_result demo_request 1, w5)"
  using SetTarget_retry [OF reachable_ok [OF w1_run] demo_target_ok rtranclp_trans [OF w5_run]] .

text \<open>C6: A well-formed new request for a known group with fresh identifiers is decided by the admission
  checks alone: a refusal is the error of the check that failed, and an admitted request commits
  and returns the next revision.\<close>

theorem admitted_target_commits:
  assumes "system_ok db" "loadPolicy db (cr_NodeGroupID req) = Inr p"
    "g_cluster_id (pol_group p) = cr_ClusterID req"
    "cr_NodeGroupID req \<noteq> [] \<and> cr_RequestID req \<noteq> [] \<and> cr_ClusterID req \<noteq> [] \<and> cr_TemplateRevision req \<noteq> []
       \<and> 0 \<le> cr_DesiredTarget req \<and> 0 \<le> cr_ExpectedTargetRevision req"
    "find_request db (cr_NodeGroupID req) (cr_RequestID req) = None"
    "fresh_ids uuid 0 db" "\<forall>r\<in>set (operations db). o_fence r < max_int64"
  shows "case admit_target req p db of
      Inl e \<Rightarrow> SetTarget uuid now req db = Inl e
    | Inr _ \<Rightarrow> \<exists>db'. SetTarget uuid now req db = Inr (target_result req (cr_ExpectedTargetRevision req + 1), db')"
proof (cases "admit_target req p db")
  case (Inl e)
  then show ?thesis using assms(2-5) by (simp add: SetTarget_def not_less)
next
  case (Inr u)
  have admit: "admit_target req p db = Inr ()" using Inr by simp
  obtain db' where db': "apply_target uuid now req p db = Inr db'"
    using apply_target_total [OF assms(1-3,5) admit assms(6,7)] by blast
  have "group_ok (pol_group p)" using system_okD(2) [OF assms(1)] loadPolicy_Inr [OF assms(2)] by metis
  then have "i64 (g_target_revision (pol_group p) + 1) = cr_ExpectedTargetRevision req + 1"
    using admit by (auto elim!: admit_target_Inr simp: group_ok_def group_check_def in_i64_def max_int64_def intro!: i64_id)
  then show ?thesis using assms(2-5) admit db' by (simp add: SetTarget_def not_less)
qed

theorem admitted_target_commits_witness:
  "\<exists>db'. SetTarget (demo_uuid ''u'') 11 demo_request w1 = Inr (target_result demo_request 1, db')"
proof -
  obtain p where p: "loadPolicy w1 (cr_NodeGroupID demo_request) = Inr p"
    "g_cluster_id (pol_group p) = cr_ClusterID demo_request"
    using SetTarget_policy [OF demo_target_ok] by blast
  have ops: "operations w1 = []" "find_request w1 (cr_NodeGroupID demo_request) (cr_RequestID demo_request) = None"
    by code_simp+
  have "admit_target demo_request p w1 = Inr ()"
    using demo_target_ok p(1) ops(2) by (cases rule: SetTarget_cases) auto
  then show ?thesis
    using admitted_target_commits [OF reachable_ok [OF w1_run] p _ ops(2) demo_fresh, of 11] ops(1)
    by (simp add: demo_request_def)
qed

text \<open>C7: Any interleaving of API requests, controller passes and legacy host calls on one database is a
  run of store transactions, so the store's invariant holds at every point of it.\<close>

theorem platform_interleaving_safe:
  assumes "list_all (event_ok K) es" "system_ok db"
  shows "steps K db (fold (happen a) es db) \<and> system_ok (fold (happen a) es db)"
  using assms by (rule history_run)

theorem platform_interleaving_safe_witness:
  "system_ok (fold (happen demo_api) [Request demo_env demo_capacity, LegacyHealth ''u-'' ''HEALTHY'', Request demo_env demo_intruder] w1)"
  using platform_interleaving_safe [of demo_K "[Request demo_env demo_capacity, LegacyHealth ''u-'' ''HEALTHY'', Request demo_env demo_intruder]" w1]
    reachable_ok [OF w1_run] by (simp add: demo_env_def)



text \<open>C9: Whatever requests reach a host agent, with failed writes, failed commands and restarts in between,
  the updates it runs on its host have revisions that never go back, two updates of one revision have
  one content, and all its cluster joins belong to one operation and one contract, with fences that
  never go back.\<close>

theorem agent_calls_ordered:
  assumes "(agent_step sha256 K digest (JoinFingerprint hash) cfg)\<^sup>*\<^sup>* (new_agent identity process) a" "\<forall>x. length (hash x) = 64"
  shows "sorted (map (eh_Revision \<circ> fst) (sd_log a))
    \<and> (\<forall>x b y c. (x, b) \<in> set (sd_log a) \<longrightarrow> (y, c) \<in> set (sd_log a) \<longrightarrow> eh_Revision x = eh_Revision y \<longrightarrow> digest x = digest y)
    \<and> sorted (map cj_Fence (sd_joinLog a))
    \<and> (\<forall>p q. p \<in> set (sd_joinLog a) \<longrightarrow> q \<in> set (sd_joinLog a)
         \<longrightarrow> cj_OperationID p = cj_OperationID q \<and> JoinFingerprint hash p = JoinFingerprint hash q)"
proof -
  have ok: "agent_ok sha256 K digest (JoinFingerprint hash) a"
    by (rule agent_reachable_ok [OF assms(1)]) (use assms(2) in \<open>simp add: JoinFingerprint_def\<close>)
  have l: "log_ordered digest (sd_log a)" and j: "join_ok sha256 K (JoinFingerprint hash) a"
    using ok unfolding agent_ok_def update_ok_def by blast+
  have "cj_OperationID p = cj_OperationID q \<and> JoinFingerprint hash p = JoinFingerprint hash q"
    if "p \<in> set (sd_joinLog a)" "q \<in> set (sd_joinLog a)" for p q
    using j that by (cases "sd_joinFile a") (simp_all add: join_ok_def join_covers_def list_all_iff)
  moreover have "sorted (map cj_Fence (sd_joinLog a))" using j unfolding join_ok_def by blast
  ultimately show ?thesis using l unfolding log_ordered_def by blast
qed

theorem agent_calls_ordered_witness:
  "sorted (map (eh_Revision \<circ> fst) (sd_log agent_died)) \<and> length (sd_log agent_died) = 2"
proof -
  have "length (sd_log agent_died) = 2" using agent_died_checked by (metis length_map list.size(3,4) numeral_2_eq_2 One_nat_def Suc_eq_plus1)
  then show ?thesis using agent_calls_ordered [OF agent_demo_run(2) demo_hash_len] by blast
qed

text \<open>C10: Once an operation has been claimed under a newer fence, each of the seventeen fenced calls of a
  previous holder is refused in every later state, whatever the clock of the caller says.\<close>

theorem superseded_holder_rejected:
  assumes "system_ok db" "claim now zone kind owner d authorize db = Inr (new, db1)" "steps K db1 db2"
    "op_ID old = op_ID new" "op_Fence old < op_Fence new"
  shows "\<exists>e. perform sha now' old w db2 = Inl e"
proof -
  have 1: "system_ok db1" using system_frame [OF assms(1) claim_ev [OF assms(2) system_okD(1) [OF assms(1)]] claim_frame [OF assms(2)]]
    by simp
  obtain r where r: "r \<in> set (operations db1)" "o_id r = op_ID new" "o_fence r = op_Fence new"
    using claim_row [OF assms(2)] by blast
  have "store_ev db1 db2" "keys_ok db2"
    using cap.run_keeps [OF assms(3) 1] by (auto simp: system_okD)
  then show ?thesis
    using performing.superseded [of db1 db2 r old now' "(sha, w)"] r assms(4,5) by simp
qed

theorem superseded_holder_rejected_witness:
  "\<exists>e. perform demo_sha 21 ((fst demo_claim)\<lparr>op_Fence := 0\<rparr>) WBeginLaunch (snd demo_claim) = Inl e"
  using superseded_holder_rejected [of w2 20 "''z''" Provision demo_identity 60000000000 True
      "fst demo_claim" "snd demo_claim" demo_K "snd demo_claim" "(fst demo_claim)\<lparr>op_Fence := 0\<rparr>"]
    reachable_ok [OF reach_w(1)] demo_claim_ok demo_claim_fence by (simp del: perform.simps)





text \<open>C13: A request to an endpoint of the autoscaler adapter touches the cluster of its credential only: the
  groups of every other cluster, the operations of those groups and the whole topology are left
  unchanged, whatever group the body names.\<close>

theorem adapter_cluster_isolation:
  assumes "system_ok db" "route rq = Some (e, vs)" "adapter_endpoint e"
  shows "spares_others (authenticatedCluster a (bearer rq)) db (snd (Handler E a rq db))"
  using adapter_spares [OF system_okD(1) [OF assms(1)] assms(3)] assms(2) by (simp add: Handler_def)

theorem adapter_cluster_isolation_witness:
  "spares_others ''e'' w1 (snd (Handler demo_env demo_api demo_intruder w1))"
  using adapter_cluster_isolation [OF reachable_ok [OF w1_run] demo_intruder_refused(2), of demo_api demo_env]
  by (simp add: demo_intruder_refused(3) adapter_endpoint_def)





text \<open>C16: Over any run an operation keeps its identity and intent, its fence never decreases, and a
  terminal state is final.\<close>

theorem operation_history:
  assumes "system_ok db" "steps K db db'" "r \<in> set (operations db)"
  shows "\<exists>s\<in>set (operations db'). o_id s = o_id r \<and> op_intent s = op_intent r \<and> o_fence r \<le> o_fence s
    \<and> (op_terminal (o_state r) \<longrightarrow> o_state s = o_state r)"
  using op_evo.row_later [OF store_evD(10) [OF cap.run_ev [OF assms(2,1)]] assms(3)]
  by (auto simp: op_ev_def)

theorem operation_history_witness:
  "\<exists>s\<in>set (operations w5). o_id s = o_id (hd (operations w2)) \<and> op_intent s = op_intent (hd (operations w2))"
  using operation_history [OF reachable_ok [OF reach_w(1)] rtranclp_trans [OF w5_run], of "hd (operations w2)"]
    demo_rows(4) by auto

text \<open>C17: Over any run a managed worker host only moves forward through its lifecycle, or is cancelled
  before its launch; it never changes its group or its operation.\<close>

theorem worker_lifecycle:
  assumes "system_ok db" "steps K db db'" "h \<in> set (hosts db)" "h_node_group_id h \<noteq> None"
  shows "\<exists>s\<in>set (hosts db'). h_id s = h_id h \<and> lifecycle_le (h_state h) (h_state s)
    \<and> h_node_group_id s = h_node_group_id h \<and> h_operation_id s = h_operation_id h"
  using host_evo.row_later [OF store_evD(8) [OF cap.run_ev [OF assms(2,1)]] assms(3)] assms(4)
  by (auto simp: host_ev_def)

theorem worker_lifecycle_witness:
  "\<exists>s\<in>set (hosts w5). h_id s = ''u-'' \<and> lifecycle_le HostRequested (h_state s)"
proof -
  have "map (\<lambda>h. (h_id h, h_state h, h_node_group_id h)) (drop 2 (hosts w2)) =
     [(''u-'', HostRequested, Some ''aws-d-r-a-g''), (''u-----'', HostRequested, Some ''aws-d-r-a-g'')]"
    by code_simp
  then have "\<exists>h\<in>set (drop 2 (hosts w2)). h_id h = ''u-'' \<and> h_state h = HostRequested \<and> h_node_group_id h \<noteq> None"
    by (cases "drop 2 (hosts w2)") auto
  then obtain h where "h \<in> set (hosts w2)" "h_id h = ''u-''" "h_state h = HostRequested" "h_node_group_id h \<noteq> None"
    by (meson in_set_dropD)
  then show ?thesis
    using worker_lifecycle [OF reachable_ok [OF reach_w(1)] rtranclp_trans [OF w5_run]] by metis
qed

text \<open>C18: Once the desired state of a joining worker has been pinned, no transaction changes it, nor the
  node identity and contract it is bound to.\<close>

theorem pinned_state_stable:
  assumes "system_ok db" "steps K db db'" "b \<in> set (worker_provisioning_state db)" "b_expected_state b = Some e"
  shows "\<exists>c\<in>set (worker_provisioning_state db'). b_host_id c = b_host_id b \<and> b_expected_state c = Some e
    \<and> b_node_uid c = b_node_uid b \<and> b_contract_hash c = b_contract_hash b"
  using binding_evo.row_later [OF store_evD(11) [OF cap.run_ev [OF assms(2,1)]] assms(3)] assms(4)
  by (auto simp: binding_ev_def)

theorem pinned_state_stable_witness:
  "\<exists>c\<in>set (worker_provisioning_state w5). b_expected_state c \<noteq> None"
proof -
  obtain b where "b \<in> set (worker_provisioning_state w5)" "b_expected_state b \<noteq> None"
    using demo_bound by (cases "worker_provisioning_state w5") auto
  then show ?thesis
    using pinned_state_stable [OF reachable_ok [OF reach_w(3)], of demo_K w5 b] by fastforce
qed

text \<open>C19: A phase is recorded for a bootstrap operation only when it is the next one of the sequence or the
  failure; \<open>ZoneReady\<close> needs a validated cluster that was being validated, and it leaves the
  cluster's zone membership ready and approved.\<close>

theorem bootstrap_phase_guarded:
  assumes "BootstrapPhase now op nxt validated db = Inr db'"
  shows "\<exists>b\<in>set (zone_bootstrap_operations db). zb_operation_id b = op_ID op
     \<and> (nxt = ZoneFailed \<or> phase_rank nxt = Suc (phase_rank (zb_phase b)))
     \<and> (nxt = ZoneReady \<longrightarrow> validated \<and> zb_phase b = ZoneValidating)
     \<and> b\<lparr>zb_phase := nxt\<rparr> \<in> set (zone_bootstrap_operations db')
     \<and> (\<forall>c. nxt = ZoneReady \<and> zb_cluster_id b = Some c \<longrightarrow> membership_ready db' c (op_ZoneID op))"
  using assms
proof (cases rule: BootstrapPhase_Inr)
  case (1 b r db1)
  have id: "zb_operation_id b = op_ID op" using 1(4,5) by (simp add: held_def lease_live_def)
  have rank: "nxt = ZoneFailed \<or> phase_rank nxt = Suc (phase_rank (zb_phase b))"
    using 1(6) bootstrapNext_le by blast
  have zb: "zone_bootstrap_operations db1 = zone_bootstrap_operations db"
    using 1(8) by (auto simp: bootstrap_ready_Inr split: ZoneBootstrapPhase.splits option.splits)
  have "zone_bootstrap_operations db' = upd_where (\<lambda>b. zb_operation_id b = op_ID op) (\<lambda>b. b\<lparr>zb_phase := nxt\<rparr>)
      (zone_bootstrap_operations db)"
    unfolding 1(9) by (auto simp: finish_op_def set_phase_def zb)
  then have "b\<lparr>zb_phase := nxt\<rparr> \<in> set (zone_bootstrap_operations db')"
    using upd_where_hit [OF 1(2), of "\<lambda>b. zb_operation_id b = op_ID op"] id by simp
  moreover have "zb_phase b = ZoneValidating" if "nxt = ZoneReady"
    using 1(6) that by (cases "zb_phase b") (auto simp: bootstrapNext_def bootstrap_sequence_def)
  moreover have "membership_ready db' c (op_ZoneID op)" if "nxt = ZoneReady" "zb_cluster_id b = Some c" for c
  proof -
    have "membership_ready db1 c (op_ZoneID op)" using 1(8) that bootstrap_ready_approved by simp
    moreover have "cluster_zones db' = cluster_zones db1" unfolding 1(9) by (simp add: finish_op_def set_phase_def)
    ultimately show ?thesis by (simp add: membership_ready_def)
  qed
  ultimately show ?thesis using 1(7) id rank by (intro bexI [OF _ 1(2)]) simp
qed

theorem bootstrap_phase_guarded_witness:
  "\<exists>op db1 db2. BootstrapPhase 601 op ZoneReady True db1 = Inr db2
     \<and> (\<exists>b\<in>set (zone_bootstrap_operations db2). zb_phase b = ZoneReady)"
proof -
  obtain op db1 db2 where run: "BootstrapPhase 601 op ZoneReady True db1 = Inr db2" by (rule boot_calls)
  from bootstrap_phase_guarded [OF run] obtain b where "b\<lparr>zb_phase := ZoneReady\<rparr> \<in> set (zone_bootstrap_operations db2)"
    by blast
  then have "\<exists>b\<in>set (zone_bootstrap_operations db2). zb_phase b = ZoneReady"
    by (rule bexI [rotated]) simp
  then show ?thesis using run by blast
qed

text \<open>C20: Over any run a bootstrap operation keeps its identity, request, zone and cluster, and its phase
  only moves forward.\<close>

theorem bootstrap_phases_forward:
  assumes "system_ok db" "steps K db db'" "b \<in> set (zone_bootstrap_operations db)"
  shows "\<exists>c\<in>set (zone_bootstrap_operations db'). c = b\<lparr>zb_phase := zb_phase c\<rparr> \<and> phase_le (zb_phase b) (zb_phase c)"
  using bootstrap_evo.row_later [OF store_evD(13) [OF cap.run_ev [OF assms(2,1)]] assms(3)]
  by (auto simp: bootstrap_ev_def)

theorem bootstrap_phases_forward_witness:
  "\<exists>c\<in>set (zone_bootstrap_operations x6). phase_le ZoneRequested (zb_phase c)"
proof -
  have "map zb_phase (zone_bootstrap_operations x0) = [ZoneRequested]" by code_simp
  then obtain b where "b \<in> set (zone_bootstrap_operations x0)" "zb_phase b = ZoneRequested"
    by (cases "zone_bootstrap_operations x0") auto
  then show ?thesis
    using bootstrap_phases_forward [OF reachable_ok [OF x0_run] rtranclp_trans [OF x_run(1) rtranclp_trans [OF x_run(2,3)]]]
    by metis
qed

text \<open>C21: A new batch removal lowers the target by the number of nodes it names and never below the minimum,
  moves the revision on by one and records one removal per node, in order; it releases no
  reservation and changes no host.\<close>

theorem autoscaler_removal_effect:
  assumes "system_ok db" "CreateAutoscalerRemovals uuid now cluster req db = Inr db'"
    "find_removal db (rr_NodeGroupID req) (rr_RequestID req) = None"
  shows "(\<exists>g\<in>set (node_groups db). g_id g = rr_NodeGroupID req \<and> g_target_revision g = rr_ExpectedTargetRevision req
      \<and> g_min_nodes g \<le> g_target_nodes g - int (length (rr_Nodes req))
      \<and> g\<lparr>g_target_nodes := g_target_nodes g - int (length (rr_Nodes req)), g_target_revision := g_target_revision g + 1\<rparr>
          \<in> set (node_groups db'))
    \<and> infrastructure_reservations db' = infrastructure_reservations db \<and> hosts db' = hosts db
    \<and> (\<exists>rms. node_removal_operations db' = node_removal_operations db @ rms
         \<and> map nr_host_id rms = map rn_HostID (rr_Nodes req) \<and> (\<forall>x\<in>set rms. nr_completed_at x = None))"
  using assms(2)
proof (cases rule: CreateAutoscalerRemovals_cases)
  case replay
  then show ?thesis using assms(3) by simp
next
  case (fresh p ps d)
  let ?g = "pol_group p" and ?n = "int (length (rr_Nodes req))"
  from fresh(9) obtain ops rms where db': "db' = d\<lparr>operations := operations d @ ops,
      node_removal_operations := node_removal_operations d @ rms\<rparr>"
    and rms: "map nr_host_id rms = map (\<lambda>n. rn_HostID (fst n)) (zip (rr_Nodes req) ps)"
      "\<forall>x\<in>set rms. nr_completed_at x = None \<and> nr_group_id x = rr_NodeGroupID req \<and> nr_reason x = ''autoscaler-delete''"
    by (rule insert_removals_Inr)
  obtain g: "?g \<in> set (node_groups db)" "g_id ?g = rr_NodeGroupID req" using loadPolicy_Inr [OF fresh(1)] by metis
  have gok: "group_ok ?g" using system_okD(2) [OF assms(1)] g(1) by blast
  have rev: "i64 (g_target_revision ?g + 1) = g_target_revision ?g + 1"
    using gok fresh(6) by (intro i64_id) (auto simp: group_ok_def group_check_def in_i64_def max_int64_def)
  let ?f = "\<lambda>r. r\<lparr>g_target_nodes := g_target_nodes r - ?n, g_target_revision := i64 (g_target_revision ?g + 1)\<rparr>"
  have d: "d = db\<lparr>node_groups := upd_where (\<lambda>r. g_id r = rr_NodeGroupID req) ?f (node_groups db)\<rparr>"
    and check: "\<forall>x\<in>set (node_groups db). g_id x = rr_NodeGroupID req \<longrightarrow> group_check (?f x)"
    using fresh(8) by (auto simp: update_groups_def list_all_iff split: if_splits)
  have min: "g_min_nodes ?g \<le> g_target_nodes ?g - ?n" using check g by (auto simp: group_check_def)
  have "?f ?g \<in> set (node_groups db')"
    using upd_where_hit [of ?g "node_groups db" "\<lambda>r. g_id r = rr_NodeGroupID req" ?f] g by (simp add: db' d)
  moreover have "map nr_host_id rms = map rn_HostID (rr_Nodes req)"
    using rms(1) check_removal_nodes_Inr [OF fresh(7)] map_fst_zip [of "rr_Nodes req" ps]
    by (metis (no_types, lifting) list.map_comp comp_apply map_eq_conv)
  ultimately show ?thesis using g min rev fresh(4) rms(2)
    by (intro conjI bexI [of _ ?g]) (auto simp: db' d)
qed

theorem autoscaler_removal_effect_witness:
  "\<exists>db6. CreateAutoscalerRemovals (demo_uuid ''y'') 400 ''c'' demo_removal w5 = Inr db6 \<and> hosts db6 = hosts w5
     \<and> infrastructure_reservations db6 = infrastructure_reservations w5"
proof -
  obtain db6 where r: "CreateAutoscalerRemovals (demo_uuid ''y'') 400 ''c'' demo_removal w5 = Inr db6"
    "find_removal w5 ''aws-d-r-a-g'' ''r1'' = None" by (rule later_removal)
  show ?thesis using autoscaler_removal_effect [OF reachable_ok [OF reach_w(3)] r(1)] r by (simp add: demo_removal_def)
qed

text \<open>C22: An accepted batch removal may be retried at any later time: the retry succeeds and changes
  nothing.\<close>

theorem removal_retry:
  assumes "system_ok db" "CreateAutoscalerRemovals uuid now cluster req db = Inr db1" "steps K db1 db2"
  shows "CreateAutoscalerRemovals uuid' now' cluster req db2 = Inr db2"
proof -
  have 1: "store_ev db db1" "system_ok db1" using CreateAutoscalerRemovals_system [OF assms(1,2)] by auto
  have 2: "store_ev db1 db2" "system_ok db2" using cap.run_keeps [OF assms(3) 1(2)] by auto
  have valid: "\<not> (cluster = [] \<or> rr_NodeGroupID req = [] \<or> rr_RequestID req = [] \<or> rr_ExpectedTargetRevision req < 0
      \<or> rr_Nodes req = [] \<or> \<not> removal_nodes_ok [] (rr_Nodes req))"
    using assms(2) by (auto simp: CreateAutoscalerRemovals_def split: if_splits)
  obtain p where p: "loadPolicy db (rr_NodeGroupID req) = Inr p" "g_cluster_id (pol_group p) = cluster"
    using assms(2) by (auto simp: CreateAutoscalerRemovals_def Let_def result_simps split: if_splits)
  obtain p2 where "loadPolicy db2 (rr_NodeGroupID req) = Inr p2" "g_cluster_id (pol_group p2) = cluster"
    using loadPolicy_later [OF p(1) store_ev_trans [OF 1(1) 2(1)] system_okD(1) [OF 2(2)]] p(2)
    by (auto simp: group_ev_def)
  then show ?thesis
    using valid find_removal_later [OF removals_stored [OF assms(2)] 2(1)] by (simp add: CreateAutoscalerRemovals_def Let_def)
qed

theorem removal_retry_witness:
  "\<exists>db6. CreateAutoscalerRemovals (demo_uuid ''w'') 999 ''c'' demo_removal db6 = Inr db6"
proof -
  obtain db6 where r: "CreateAutoscalerRemovals (demo_uuid ''y'') 400 ''c'' demo_removal w5 = Inr db6"
    by (rule later_removal)
  show ?thesis using removal_retry [OF reachable_ok [OF reach_w(3)] r rtranclp.rtrancl_refl] by blast
qed

text \<open>C23: Decreasing a target never touches an operation that some controller holds or that has left the
  pending state: its row is unchanged.\<close>

theorem shrink_spares_started_work:
  assumes "system_ok db" "SetTarget uuid now req db = Inr (res, db')" "r \<in> set (operations db)"
    "o_lease_owner r \<noteq> None \<or> o_state r \<noteq> OpPending"
  shows "r \<in> set (operations db')"
  using assms(2)
proof (cases rule: SetTarget_cases)
  case (fresh p)
  from fresh(5) show ?thesis
  proof (cases rule: apply_target_Inr)
    case (1 db1 db2 db3)
    let ?delta = "i64 (cr_DesiredTarget req - g_target_nodes (pol_group p))"
    have ops: "operations db2 = operations db" using 1(1,2) by (auto simp: insert_request_Inr update_groups_Inr)
    show ?thesis
    proof (cases "?delta < 0")
      case True
      then have "db3 = db2" using 1(3) by simp
      then have "operations db3 = operations db" using ops by simp
      moreover have "cancelPending now (cr_NodeGroupID req) (nat (- ?delta)) db3 = Inr db'" using 1(4) True by simp
      ultimately show ?thesis
        using cancelPending_spares [of now _ _ db3 db' r] assms(3,4) system_okD(1) [OF assms(1)] by (auto simp: keys_ok_def)
    next
      case False
      then have "db' = db3" using 1(4) by simp
      then show ?thesis using provisionIntents_Inr [OF 1(3)] ops assms(3) by simp
    qed
  qed
qed (use assms(3) in simp)

theorem shrink_spares_started_work_witness:
  "\<exists>res db7. SetTarget (demo_uuid ''k'') 500 demo_shrink w5 = Inr (res, db7) \<and> (\<exists>r\<in>set (operations db7). o_id r = ''u--'')"
proof -
  obtain res db7 r where st: "SetTarget (demo_uuid ''k'') 500 demo_shrink w5 = Inr (res, db7)"
    and r: "r \<in> set (operations w5)" "o_id r = ''u--''" "o_state r = OpSucceeded" by (rule later_shrink)
  show ?thesis using shrink_spares_started_work [OF reachable_ok [OF reach_w(3)] st r(1)] st r by auto
qed

text \<open>C24: A host operation that succeeded may be retried at any later time, through any Dominator and any
  network: the retry calls no host and changes nothing, and when it succeeds it returns the same result.\<close>

theorem applied_retry_is_silent:
  assumes run: "(ops_step P fp spiffe_id FromPath)\<^sup>*\<^sup>* \<lparr>op_db = db, op_requests = [], op_net = new_agent identity process\<rparr> W"
    and len: "\<forall>q. length (ap_fingerprint P q) = 64" and typed: "net_typed N" "distinct (map fst (ks_Data (sr_Secret q)))"
    and first: "Execute (ap_K P) spiffe_id FromPath fp (agent_net P (ct_OwnIdentity C) N) C E host q W = ((res, None), V)"
    and later: "(ops_step P fp spiffe_id FromPath)\<^sup>*\<^sup>* V U"
  shows "\<exists>res' e. Execute (ap_K P) spiffe_id FromPath fp net C' E' host q U = ((res', e), U) \<and> (e = None \<longrightarrow> res' = res)"
proof -
  have W: "ops_ok P fp W" by (rule ho.run_inv [OF run ops_start_ok [OF len]])
  obtain q' where q': "SecretRequest_Normalize (ap_K P) q = Inr q'" "exec_good P fp host q' W ((res, None), V)"
    using Execute_good [OF W typed, of host spiffe_id FromPath "ct_OwnIdentity C" C E] unfolding first by auto
  then obtain r where r: "r \<in> set (op_requests V)" "hr_host_id r = host" "hr_request_id r = sr_RequestID q'" "hr_outcome r = ''applied''"
    "hr_result r = Some res" "hr_fingerprint r = fp (sr_Secret q')" and V: "ops_ok P fp V"
    by (auto simp: exec_good_def list_ex_iff)
  have U: "ops_ev V U" "ops_ok P fp U" using ho.run_keeps [OF later V] by blast+
  then have "r \<in> set (op_requests U)" "requests_keyed (op_requests U)" using r(1,4) by (simp_all add: ops_ev_def ops_ok_def)
  then show ?thesis using Execute_replayed [where fp = fp, OF _ _ r(2-6) q'(1)] by blast
qed

theorem applied_retry_is_silent_witness:
  "\<exists>res V res' e. demo_execute Answered ''n/bootstrap/platform'' demo_secret_request ops_restarted = ((res, None), V)
     \<and> demo_execute Lost ''n/bootstrap/platform'' demo_secret_request V = ((res', e), V)"
proof -
  have "snd (fst (demo_execute Answered ''n/bootstrap/platform'' demo_secret_request ops_restarted)) = None" by code_simp
  then obtain res V where f: "demo_execute Answered ''n/bootstrap/platform'' demo_secret_request ops_restarted = ((res, None), V)"
    by (metis prod.collapse)
  show ?thesis
    using applied_retry_is_silent [OF ops_demo_run [unfolded ops_fresh_def] demo_params_len demo_net_typed demo_secret_request_typed
        f [unfolded demo_execute_def] rtranclp.rtrancl_refl] f
    unfolding demo_execute_def by blast
qed

text \<open>C25: A host agent can always be restarted: what any run left in its files is accepted, the revisions it
  reports do not go back, no update that was run on the host is newer than the revision it then
  reports as accepted, and an update that was cut off is never reported as still running.\<close>

theorem agent_restart_succeeds:
  assumes "(agent_step sha256 K digest (JoinFingerprint hash) cfg)\<^sup>*\<^sup>* (new_agent identity process) a" "\<forall>x. length (hash x) = 64"
  shows "\<exists>b. restart sha256 K digest process' a = Inr b \<and> sd_log b = sd_log a \<and> sd_joinLog b = sd_joinLog a
    \<and> ha_AcceptedRevision (sd_view a) \<le> ha_AcceptedRevision (sd_view b)
    \<and> ha_AppliedRevision (sd_view a) \<le> ha_AppliedRevision (sd_view b)
    \<and> ha_Outcome (sd_view b) \<noteq> ''applying''
    \<and> (\<forall>x c. (x, c) \<in> set (sd_log a) \<longrightarrow> eh_Revision x \<le> ha_AcceptedRevision (sd_view b))"
proof -
  let ?f = "JoinFingerprint hash"
  have len: "\<forall>q. length (?f q) = 64" using assms(2) by (simp add: JoinFingerprint_def)
  have ok: "agent_ok sha256 K digest ?f a" by (rule agent_reachable_ok [OF assms(1) len])
  obtain s j where r: "reload_state K digest (sd_file a) = Inr s"
    "restart sha256 K digest process' a = Inr (publish (a\<lparr>sd_process := process', sd_saved := s, sd_join := j\<rparr>))"
    using restart_succeeds [OF ok, of process'] by metis
  let ?b = "publish (a\<lparr>sd_process := process', sd_saved := s, sd_join := j\<rparr>)"
  have "agent_ev a ?b" "update_ok K digest ?b" "report_ok ?b"
    using reload_keeps_saved [OF _ _ r(1) refl, of j process'] ok by (simp_all add: agent_ok_def)
  moreover have "ss_Outcome s \<noteq> ''applying''"
    using r(1) by (auto simp: reload_state_def zero_saved_def split: option.splits if_splits)
  moreover have v: "ha_AcceptedRevision (sd_view c) = eh_Revision (ss_Request (sd_saved c))"
      "ha_AppliedRevision (sd_view c) = ss_AppliedRevision (sd_saved c)" "ha_Outcome (sd_view c) = ss_Outcome (sd_saved c)" if "report_ok c" for c
    using that by (simp_all add: report_ok_def agent_status_def Let_def)
  moreover have "report_ok a" using ok by (simp add: agent_ok_def)
  moreover have "eh_Revision x \<le> eh_Revision (ss_Request (sd_saved ?b))" if "(x, c) \<in> set (sd_log a)" for x c
    using \<open>update_ok K digest ?b\<close> that unfolding update_ok_def state_covers_def by fastforce
  ultimately show ?thesis using r(2) by (intro exI [of _ ?b]) (simp add: agent_ev_def)
qed

theorem agent_restart_succeeds_witness:
  "\<exists>b. restart demo_sha demo_K demo_digest (2, ''y'') agent_died = Inr b \<and> 1 \<le> ha_AppliedRevision (sd_view b)"
  using agent_restart_succeeds [OF agent_demo_run(2) demo_hash_len, of "(2, ''y'')"] agent_died_checked by metis

text \<open>C26: Over any run of a host agent the revisions it reports only grow, the calls it made stay on record,
  an applied outcome is that of the accepted revision, and a revision reported as applied was run on
  the host with success.\<close>

theorem agent_reports_true:
  assumes "(agent_step sha256 K digest (JoinFingerprint hash) cfg)\<^sup>*\<^sup>* (new_agent identity process) a" "\<forall>x. length (hash x) = 64"
    and "(agent_step sha256 K digest (JoinFingerprint hash) cfg)\<^sup>*\<^sup>* a b"
  shows "ha_AcceptedRevision (sd_view a) \<le> ha_AcceptedRevision (sd_view b) \<and> ha_AppliedRevision (sd_view a) \<le> ha_AppliedRevision (sd_view b)
    \<and> prefix (sd_log a) (sd_log b)
    \<and> (ha_Outcome (sd_view b) = ''applied'' \<longrightarrow> ha_AppliedRevision (sd_view b) = ha_AcceptedRevision (sd_view b))
    \<and> (ha_AppliedRevision (sd_view b) \<noteq> 0 \<longrightarrow> (\<exists>x. (x, True) \<in> set (sd_log b) \<and> eh_Revision x = ha_AppliedRevision (sd_view b)))"
proof -
  let ?f = "JoinFingerprint hash"
  have len: "\<forall>q. length (?f q) = 64" using assms(2) by (simp add: JoinFingerprint_def)
  have ok: "agent_ok sha256 K digest ?f a" by (rule agent_reachable_ok [OF assms(1) len])
  have "agent_ev a b" "agent_ok sha256 K digest ?f b" using ag.run_keeps [OF assms(3)] ok len by blast+
  moreover have "ha_AcceptedRevision (sd_view c) = eh_Revision (ss_Request (sd_saved c))"
      "ha_AppliedRevision (sd_view c) = ss_AppliedRevision (sd_saved c)" "ha_Outcome (sd_view c) = ss_Outcome (sd_saved c)"
      "applied_true (sd_saved c) (sd_log c)" if "agent_ok sha256 K digest ?f c" for c
    using that by (simp_all add: agent_ok_def report_ok_def agent_status_def Let_def)
  ultimately show ?thesis using ok by (simp add: agent_ev_def applied_true_def)
qed

theorem agent_reports_true_witness:
  "\<exists>x. (x, True) \<in> set (sd_log agent_died) \<and> eh_Revision x = 1"
  using agent_reports_true [OF agent_demo_run(2) demo_hash_len rtranclp.rtrancl_refl] agent_died_checked by (metis zero_neq_one)

text \<open>C27: Over any run of host operations a request keeps its host, its content and its revision, there is
  one row for each request of a host, and the revisions of a host strictly grow in the order of its
  requests, within 1 and the largest 64-bit integer.\<close>

theorem request_revisions_grow:
  assumes "(ops_step P fp spiffe_id FromPath)\<^sup>*\<^sup>* \<lparr>op_db = db, op_requests = [], op_net = new_agent identity process\<rparr> W"
    and "\<forall>q. length (ap_fingerprint P q) = 64" and "(ops_step P fp spiffe_id FromPath)\<^sup>*\<^sup>* W V"
  shows "prefix (map row_key (op_requests W)) (map row_key (op_requests V))
    \<and> distinct (map (\<lambda>r. (hr_host_id r, hr_request_id r)) (op_requests V))
    \<and> sorted_wrt (<) (map hr_revision (filter (\<lambda>r. hr_host_id r = host) (op_requests V)))
    \<and> list_all (\<lambda>r. 0 < hr_revision r \<and> hr_revision r \<le> MaxInt64) (op_requests V)"
proof -
  have W: "ops_ok P fp W" by (rule ho.run_inv [OF assms(1) ops_start_ok [OF assms(2)]])
  then have V: "ops_ev W V" "ops_ok P fp V" using ho.run_keeps [OF assms(3)] by blast+
  then show ?thesis using requests_keyed_rows [of "op_requests V"]
    by (simp add: ops_ok_def ops_ev_def row_ok_def list_all_iff)
qed

theorem request_revisions_grow_witness:
  "map hr_revision (op_requests ops_restarted) = [1]
   \<and> sorted_wrt (<) (map hr_revision (filter (\<lambda>r. hr_host_id r = ''n/bootstrap/platform'') (op_requests ops_restarted)))"
proof -
  have "map hr_revision (op_requests ops_restarted) = [1]" by code_simp
  then show ?thesis
    using request_revisions_grow [OF ops_demo_run [unfolded ops_fresh_def] demo_params_len rtranclp.rtrancl_refl] by blast
qed

text \<open>C28: A request to a host agent that is not a write of the configured writer leaves its memory, its
  files and its host as they were.\<close>

theorem only_the_writer_changes_a_host:
  assumes "p \<noteq> Peer (fst cfg) \<or> route_get rt"
  shows "snd (agent_handler sha256 K digest fingerprint cfg p rt a) = a"
  using handler_unchanged [OF prod.collapse [symmetric] assms] .

theorem only_the_writer_changes_a_host_witness:
  "snd (agent_handler demo_sha demo_K demo_digest (JoinFingerprint demo_hash) (ap_peers demo_params) (Peer ''spiffe://td/reader'')
     (Put_expected smooth (Some (secret_state 1 demo_secret))) agent_died) = agent_died"
  by (rule only_the_writer_changes_a_host) (simp add: demo_params_def)

text \<open>C29: A request that is not answered with status 200 leaves every row of the database as it was; at
  most a region row has been added (by the trigger of a zone insert that finds a conflict).\<close>

theorem refused_request_keeps_state:
  assumes "status (fst (Handler E a rq db)) \<noteq> 200"
  shows "\<exists>rs. snd (Handler E a rq db) = db\<lparr>topology_regions := topology_regions db @ rs\<rparr>"
  using Handler_sound [of E a rq] assms by (auto simp: sound_def region_growth_def)

theorem refused_request_keeps_state_witness:
  "\<exists>rs. snd (Handler demo_env demo_api demo_intruder w1) = w1\<lparr>topology_regions := topology_regions w1 @ rs\<rparr>"
  using refused_request_keeps_state [of demo_env demo_api demo_intruder w1] demo_intruder_refused(1) by simp

text \<open>C30: The adapter credentials that the configuration parser accepts bind each token to one cluster: in
  whatever order the map is walked, a token authenticates a cluster exactly when the configuration
  pairs them.\<close>

theorem principal_binding_exact:
  assumes "ParseAdapterPrincipals raw = Inr ps" "set qs = set ps" "c \<noteq> []"
  shows "authenticatedCluster (NewAPI tok qs) p = c \<longleftrightarrow> (c, p) \<in> set ps"
  using authenticatedCluster_exact [OF ParseAdapterPrincipals_Inr(1) [OF assms(1)] _ assms(2,3)]
    ParseAdapterPrincipals_Inr(2) [OF assms(1)] by blast

theorem principal_binding_exact_witness:
  "authenticatedCluster (NewAPI ''root'' [(''e'', ''t2''), (''c'', ''t1'')]) ''t1'' = ''c''"
proof -
  have "ParseAdapterPrincipals (Raw (JObj [(''c'', JStr ''t1''), (''e'', JStr ''t2'')])) = Inr [(''c'', ''t1''), (''e'', ''t2'')]"
    by code_simp
  then show ?thesis
    using principal_binding_exact [of _ "[(''c'', ''t1''), (''e'', ''t2'')]" "[(''e'', ''t2''), (''c'', ''t1'')]" "''c''"] by auto
qed

text \<open>C31: Discovery lists the groups of the caller's cluster in the order of their identifiers, each once,
  every placed group that still has hosts among them, and under each the hosts that belong to it,
  have not been terminated and have a provider identity.\<close>

theorem discovery_exact:
  assumes "system_ok db" "AutoscalerDiscovery db c = Inr gs"
  shows "sorted (map ag_ID gs) \<and> distinct (map ag_ID gs)
    \<and> (\<forall>a\<in>set gs. \<exists>g\<in>set (node_groups db). ag_ID a = g_id g \<and> ag_ClusterID a = c \<and> g_cluster_id g = c
         \<and> (\<forall>n. n \<in> set (ag_Nodes a) \<longleftrightarrow> (\<exists>h\<in>set (hosts db). h_node_group_id h = Some (g_id g) \<and> h_state h \<noteq> HostTerminated
              \<and> h_kubernetes_provider_id h \<noteq> [] \<and> n = \<lparr>an_HostID = h_id h, an_ProviderID = h_kubernetes_provider_id h,
                   an_State = host_state_string (h_state h)\<rparr>)))
    \<and> (\<forall>g\<in>set (node_groups db). g_cluster_id g = c \<and> placed db g \<and> group_hosts db (g_id g) \<noteq> [] \<longrightarrow> g_id g \<in> ag_ID ` set gs)"
proof (intro conjI ballI impI)
  show "sorted (map ag_ID gs)" "distinct (map ag_ID gs)" using discovery_sorted [OF assms(2) system_okD(1) [OF assms(1)]] by auto
next
  fix a assume "a \<in> set gs"
  from discovery_group [OF assms(2) this] obtain g ready where g: "g \<in> set (node_groups db)" "g_cluster_id g = c"
    "a = autoscaler_group db g ready" by blast
  show "\<exists>g\<in>set (node_groups db). ag_ID a = g_id g \<and> ag_ClusterID a = c \<and> g_cluster_id g = c
     \<and> (\<forall>n. n \<in> set (ag_Nodes a) \<longleftrightarrow> (\<exists>h\<in>set (hosts db). h_node_group_id h = Some (g_id g) \<and> h_state h \<noteq> HostTerminated
          \<and> h_kubernetes_provider_id h \<noteq> [] \<and> n = \<lparr>an_HostID = h_id h, an_ProviderID = h_kubernetes_provider_id h,
               an_State = host_state_string (h_state h)\<rparr>))"
    using g by (intro bexI [OF _ g(1)]) (simp add: autoscaler_group_def autoscaler_nodes_iff)
next
  fix g assume "g \<in> set (node_groups db)" "g_cluster_id g = c \<and> placed db g \<and> group_hosts db (g_id g) \<noteq> []"
  then show "g_id g \<in> ag_ID ` set gs" using discovery_lists [OF assms(2)] by force
qed

theorem discovery_exact_witness:
  "\<exists>gs. AutoscalerDiscovery w5 ''c'' = Inr gs \<and> ''aws-d-r-a-g'' \<in> ag_ID ` set gs"
proof -
  have d: "\<not> isl (AutoscalerDiscovery w5 ''c'')" "list_ex (\<lambda>g. g_id g = ''aws-d-r-a-g'' \<and> g_cluster_id g = ''c'' \<and> placed w5 g
      \<and> group_hosts w5 (g_id g) \<noteq> []) (node_groups w5)" by code_simp+
  then obtain gs where gs: "AutoscalerDiscovery w5 ''c'' = Inr gs" by (cases "AutoscalerDiscovery w5 ''c''") auto
  obtain g where g: "g \<in> set (node_groups w5)" "g_id g = ''aws-d-r-a-g''"
    "g_cluster_id g = ''c'' \<and> placed w5 g \<and> group_hosts w5 (g_id g) \<noteq> []" using d(2) by (auto simp: list_ex_iff)
  have "g_id g \<in> ag_ID ` set gs" using discovery_exact [OF reachable_ok [OF reach_w(3)] gs] g(1,3) by blast
  then show ?thesis using gs g(2) by auto
qed

text \<open>C32: A bootstrap request that was accepted returns the same operation when it is repeated, and changes
  nothing.\<close>

theorem CreateBootstrap_retry:
  assumes "system_ok db" "CreateBootstrap uuid now K decode inp db = Inr (i, db1)"
    "\<forall>v f. decode v = Some f \<longrightarrow> first_zone_i64 f"
  shows "CreateBootstrap uuid' now' K' decode' inp db1 = Inr (i, db1)"
  using CreateBootstrap_again [OF assms(2)] CreateBootstrap_system [OF assms] system_okD(1) by blast

theorem CreateBootstrap_retry_witness:
  "CreateBootstrap (demo_uuid ''w'') 9 demo_K demo_decode demo_bootstrap x0 = Inr (''v'', x0)"
  using CreateBootstrap_retry [OF reachable_ok [OF rtranclp.rtrancl_refl] x0_ok] demo_first_zone_i64
  by (simp add: demo_decode_def)





text \<open>C35: A scaling callback ends after at most five calls of the platform API: one discovery, one read of
  the target and three attempts at the change, whatever the network does.\<close>

theorem adapter_call_budget:
  "aw_calls (snd (NodeGroupIncreaseSize N rid i delta w)) \<le> aw_calls w + 5
   \<and> aw_calls (snd (NodeGroupDecreaseTargetSize N rid i delta w)) \<le> aw_calls w + 5"
  using changeTarget_calls [of N rid i delta w]
  by (simp add: NodeGroupIncreaseSize_def NodeGroupDecreaseTargetSize_def afail_def)

text \<open>C36: The screen for credential-like keys in bootstrap parameters accepts exactly the objects in which no
  key it reaches is forbidden; a key is reached at any depth below objects and lists, except
  below a reference key.\<close>

theorem secret_screen_exact:
  "safeBootstrapParameters (Raw (JObj kvs)) \<longleftrightarrow>
     (\<forall>k. screened (JObj kvs) k \<longrightarrow> \<not> forbidden_key (go_lower k))"
  using safe_walk_screened screened_safe_walk by (auto simp: safeBootstrapParameters_def simp del: safe_walk.simps)

theorem secret_screen_exact_witness:
  "\<not> safeBootstrapParameters (Raw (JObj [(''a'', JArr [JObj [(''Password'', JStr ''x'')]])]))"
proof -
  have "screened (JObj [(''a'', JArr [JObj [(''Password'', JStr ''x'')]])]) ''Password''"
    by (rule screened.member [of "''a''" "JArr [JObj [(''Password'', JStr ''x'')]]"], simp, code_simp,
      rule screened.item, simp, rule screened.here, simp, code_simp)
  moreover have "forbidden_key (go_lower ''Password'')" by code_simp
  ultimately show ?thesis using secret_screen_exact [of "[(''a'', JArr [JObj [(''Password'', JStr ''x'')]])]"] by blast
qed



text \<open>C38: Normalising a Kubernetes secret merges its string data into its data, refuses a key given in both,
  loses nothing and is idempotent.\<close>

theorem secret_normalize:
  assumes "distinct (map fst (ks_Data s))" "KubernetesSecret_Normalize K s = Inr n"
  shows "map_of (ks_Data n) = map_of (ks_StringData s) ++ map_of (ks_Data s)
    \<and> fst ` set (ks_Data s) \<inter> fst ` set (ks_StringData s) = {} \<and> ks_StringData n = []
    \<and> KubernetesSecret_Normalize K n = Inr n"
  using Normalize_Inr [OF assms(2,1)] by (auto simp: map_of_append)

theorem secret_normalize_witness:
  "\<exists>n. KubernetesSecret_Normalize demo_K demo_secret = Inr n \<and> KubernetesSecret_Normalize demo_K n = Inr n"
proof -
  have "\<not> isl (KubernetesSecret_Normalize demo_K demo_secret)"
    by (simp add: KubernetesSecret_Normalize_def demo_secret_def demo_K_def)
  then obtain n where n: "KubernetesSecret_Normalize demo_K demo_secret = Inr n"
    by (cases "KubernetesSecret_Normalize demo_K demo_secret") auto
  have "distinct (map fst (ks_Data demo_secret))" by code_simp
  then show ?thesis using secret_normalize [OF _ n] n by blast
qed



text \<open>C40: Without interference a legacy transition is decided by the host's protection, its capacity group
  and the table of valid next states, in that order, and on success changes that host's state only.\<close>

theorem legacy_transition_exact:
  assumes "h \<in> set (hosts db)" "h_id h = i" "keys_ok db" "scan_host h = Inr x"
  shows "TransitionState (\<lambda>_ d. d) i (host_state_string t) db =
    (if h_protected h then (Inl ErrProtectedHost, db)
     else if h_node_group_id h \<noteq> None then (Inl ErrManagedCapacity, db)
     else if t \<notin> set (GetValidNextStates (h_state h)) then (Inl (ErrMsg ''Not a valid next state''), db)
     else (Inr (), db\<lparr>hosts := upd_where (\<lambda>h. h_id h = i) (\<lambda>h. h\<lparr>h_state := t\<rparr>) (hosts db)\<rparr>))"
proof -
  have f: "find (\<lambda>h. h_id h = i) (hosts db) = Some h"
    by (rule find_unique [of h "hosts db" "\<lambda>h. h_id h = i", OF assms(1,2)]) (use assms(1-3) unique_key [of h_id "hosts db"] in \<open>auto simp: keys_ok_def\<close>)
  have x: "ho_State x = h_state h" using assms(4) by (auto simp: scan_host_def result_simps)
  have inj: "host_state_string t = host_state_string u \<longleftrightarrow> t = u" for u
    by (metis host_state_of_string option.inject)
  have m: "host_state_string t \<in> set (map host_state_string (GetValidNextStates (h_state h)))
      \<longleftrightarrow> t \<in> set (GetValidNextStates (h_state h))" by (auto simp: inj)
  show ?thesis unfolding TransitionState_def Let_def EnsureLegacyLifecycle_def PostgresHostStore_GetByID_def f
    by (simp add: assms(4) x m [simplified] PostgresHostStore_UpdateState_def)
qed

theorem legacy_transition_exact_witness:
  "fst (TransitionState (\<lambda>_ d. d) ''h1'' (host_state_string HostReady) demo_legacy)
     = (if HostReady \<in> set (GetValidNextStates HostProvisioning) then Inr () else Inl (ErrMsg ''Not a valid next state''))"
proof -
  obtain x where x: "scan_host demo_host = Inr x" using demo_host_scan by (cases "scan_host demo_host") auto
  have "keys_ok demo_legacy" by (simp add: keys_ok_def demo_legacy_def empty_db_def)
  then show ?thesis using legacy_transition_exact [OF _ _ _ x, of demo_legacy "''h1''" HostReady]
    by (simp add: demo_legacy_def demo_host_def catalog_row_def new_host_def)
qed

section \<open>Naming\<close>

text \<open>Normalising a node group's name sets its identifier to the formatted name, changes nothing else
  and is idempotent.\<close>

theorem NormalizeID_idempotent:
  assumes "NormalizeID g = Some n"
  shows "NormalizeID n = Some n \<and> FormatNodeGroupID (gi_Naming n) = Some (gi_ID n) \<and> n = g\<lparr>gi_ID := gi_ID n\<rparr>"
  using assms by (auto simp: NormalizeID_def split: option.splits if_splits)

section \<open>Where the code departs from its intent\<close>

text \<open>The screen does not look below a reference key: an object that holds a password under a key ending
  in \<open>_ref\<close> is accepted.\<close>

theorem secret_below_reference_accepted:
  "safeBootstrapParameters (Raw (JObj [(''db_ref'', JObj [(''password'', JStr ''hunter2'')])]))"
  by code_simp

text \<open>No group with a positive minimum can be created: the insert starts at target zero, which the
  table's own check refuses.\<close>

theorem min_nodes_group_rejected:
  assumes "0 < gi_MinNodes g"
  shows "createGroup K g db = (Inl ErrInvalid, db)"
proof (cases "NormalizeID g")
  case (Some n)
  then have "gi_MinNodes n = gi_MinNodes g" by (auto simp: NormalizeID_def split: option.splits if_splits)
  then have "\<not> group_check (group_row_of n)" using assms by (simp add: group_check_def group_row_of_def)
  then show ?thesis using Some
    by (auto simp: createGroup_def immutableInsert_def insert_group_def topologyError_def)
qed (simp add: createGroup_def)

text \<open>A zone that is refused as a conflict may still have registered its region: the insert of the zone
  affects no row, and what its trigger did is kept.\<close>

theorem rejected_zone_leaves_region:
  "\<exists>z db db1. fst (CreateZone demo_K z db) = Inl ErrConflict \<and> db1 = snd (CreateZone demo_K z db)
     \<and> zones db1 = zones db \<and> length (topology_regions db1) = Suc (length (topology_regions db))"
proof (intro exI conjI)
  let ?z = "demo_zone\<lparr>zi_AccountID := ''2'', zi_Region := ''s''\<rparr>"
  show "fst (CreateZone demo_K ?z w0) = Inl ErrConflict" by code_simp
  show "zones (snd (CreateZone demo_K ?z w0)) = zones w0"
    "length (topology_regions (snd (CreateZone demo_K ?z w0))) = Suc (length (topology_regions w0))" by code_simp+
qed simp

text \<open>Formatting a node group's name is not injective: two different names can give the same
  identifier.\<close>

theorem node_group_ids_collide:
  "\<exists>m n. m \<noteq> n \<and> FormatNodeGroupID m \<noteq> None \<and> FormatNodeGroupID m = FormatNodeGroupID n"
proof (intro exI conjI)
  let ?m = "\<lparr>nm_Provider = ''aws'', nm_DevelopmentStage = ''dev-a'', nm_Region = ''r'', nm_AZ = ''z'', nm_Group = ''g''\<rparr>"
  let ?n = "\<lparr>nm_Provider = ''aws'', nm_DevelopmentStage = ''dev'', nm_Region = ''a-r'', nm_AZ = ''z'', nm_Group = ''g''\<rparr>"
  show "?m \<noteq> ?n" by simp
  show "FormatNodeGroupID ?m \<noteq> None" "FormatNodeGroupID ?m = FormatNodeGroupID ?n" by code_simp+
qed

end
